(* ===== verification/Prelude.thy ===== *)
theory Prelude
  imports Main "HOL-Library.List_Lexorder" "HOL-Library.Char_ord"
begin

text \<open>
  Shared vocabulary of the development: Go errors and their inspection, the monad in which
  every function of the operator is written, a weakest-precondition calculus for it, Go maps
  and the functions of the Go packages \<open>strings\<close> and \<open>slices\<close> that the operator calls.
  The lemmas collected in \<open>wp_simps\<close> carry the proofs of the component theories.
\<close>

named_theorems wp_simps
named_theorems const_defs

section \<open>Errors\<close>

text \<open>
  An error value of the operator is an error of the Kubernetes API (of which the code only
  ever asks whether \<open>apierrors.IsNotFound\<close> holds), one of its three package-level sentinels,
  a plain \<open>errors.New\<close> or non-wrapping \<open>fmt.Errorf\<close> text, an error wrapped by
  \<open>fmt.Errorf("prefix: %w", err)\<close>, or the result of \<open>errors.Join\<close>.
\<close>

datatype api_reason = NotFound | OtherReason

datatype sentinel =
    ErrorNotCreated
  | ErrorArbiterCleanUpNotComplete
  | ErrLoadBalancerAddressNotAllocated

datatype goerror =
    APIError api_reason string
  | Sentinel sentinel
  | ErrorText string
  | Wrap string goerror
  | Join "goerror list"

fun sentinel_text :: "sentinel \<Rightarrow> string" where
  "sentinel_text ErrorNotCreated = ''not created''"
| "sentinel_text ErrorArbiterCleanUpNotComplete = ''remote arbiter clean up is not complete''"
| "sentinel_text ErrLoadBalancerAddressNotAllocated =
     ''service load balancer ip is not yet allocated''"

text \<open>The separator \<open>errors.Join\<close> puts between the texts of its arguments.\<close>

fun join_text :: "string list \<Rightarrow> string" where
  "join_text [] = []"
| "join_text [t] = t"
| "join_text (t # ts) = t @ [CHR 0x0A] @ join_text ts"

text \<open>\<open>err.Error()\<close>.\<close>

fun error_text :: "goerror \<Rightarrow> string" where
  "error_text (APIError _ t) = t"
| "error_text (Sentinel n) = sentinel_text n"
| "error_text (ErrorText t) = t"
| "error_text (Wrap t e) = t @ '': '' @ error_text e"
| "error_text (Join es) = join_text (map error_text es)"

text \<open>\<open>apierrors.IsNotFound(err)\<close> follows the chain of wrapped errors.\<close>

fun isNotFound :: "goerror \<Rightarrow> bool" where
  "isNotFound (APIError r _) = (r = NotFound)"
| "isNotFound (Wrap _ e) = isNotFound e"
| "isNotFound (Join es) = list_ex isNotFound es"
| "isNotFound _ = False"

text \<open>\<open>errors.Is(err, sentinel)\<close>.\<close>

fun errorsIs :: "goerror \<Rightarrow> sentinel \<Rightarrow> bool" where
  "errorsIs (Sentinel m) n = (m = n)"
| "errorsIs (Wrap _ e) n = errorsIs e n"
| "errorsIs (Join es) n = list_ex (\<lambda>e. errorsIs e n) es"
| "errorsIs _ _ = False"

section \<open>The monad of the operator's functions\<close>

text \<open>
  A Go function that returns an error runs on a state and ends with a value, with an error,
  or in a run-time panic (a nil dereference, an index out of range, a write to a nil map).
  State changes made before an error or a panic persist.
\<close>

datatype 'a res = Val 'a | Err goerror | Panic

type_synonym ('s, 'a) go = "'s \<Rightarrow> 'a res \<times> 's"

definition ret :: "'a \<Rightarrow> ('s, 'a) go" where
  "ret x = (\<lambda>s. (Val x, s))"

definition fail :: "goerror \<Rightarrow> ('s, 'a) go" where
  "fail e = (\<lambda>s. (Err e, s))"

definition panic :: "('s, 'a) go" where
  "panic = (\<lambda>s. (Panic, s))"

text \<open>
  \<open>onErr m h k\<close> is \<open>if x, err := m; err != nil { h }; k\<close>: the handler sees the error, the
  continuation the value, a panic passes both.
\<close>

definition onErr :: "('s, 'a) go \<Rightarrow> (goerror \<Rightarrow> ('s, 'b) go) \<Rightarrow> ('a \<Rightarrow> ('s, 'b) go) \<Rightarrow> ('s, 'b) go"
  where
  "onErr m h k = (\<lambda>s. case m s of
     (Val x, t) \<Rightarrow> k x t
   | (Err e, t) \<Rightarrow> h e t
   | (Panic, t) \<Rightarrow> (Panic, t))"

definition bnd :: "('s, 'a) go \<Rightarrow> ('a \<Rightarrow> ('s, 'b) go) \<Rightarrow> ('s, 'b) go" where
  "bnd m k = onErr m fail k"

definition wrapErr :: "string \<Rightarrow> ('s, 'a) go \<Rightarrow> ('s, 'a) go" where
  "wrapErr t m = onErr m (\<lambda>e. fail (Wrap t e)) ret"

definition gets :: "('s \<Rightarrow> 'a) \<Rightarrow> ('s, 'a) go" where
  "gets f = (\<lambda>s. (Val (f s), s))"

definition modify :: "('s \<Rightarrow> 's) \<Rightarrow> ('s, unit) go" where
  "modify f = (\<lambda>s. (Val (), f s))"

text \<open>Dereferencing a pointer; \<open>None\<close> is nil.\<close>

definition deref :: "'a option \<Rightarrow> ('s, 'a) go" where
  "deref p = (case p of None \<Rightarrow> panic | Some x \<Rightarrow> ret x)"

definition fieldOf :: "('s \<Rightarrow> 'a option) \<Rightarrow> ('s, 'a) go" where
  "fieldOf f = bnd (gets f) deref"

definition lift :: "goerror + 'a \<Rightarrow> ('s, 'a) go" where
  "lift r = (case r of Inl e \<Rightarrow> fail e | Inr x \<Rightarrow> ret x)"

fun isVal :: "'a res \<Rightarrow> bool" where
  "isVal (Val _) = True"
| "isVal (Err _) = False"
| "isVal Panic = False"

lemma isVal_iff: "isVal r \<longleftrightarrow> (\<exists>x. r = Val x)"
  by (cases r) auto

text \<open>The outcome of a function that does not touch the state, and its use in the monad.\<close>

fun resBind :: "'a res \<Rightarrow> ('a \<Rightarrow> 'b res) \<Rightarrow> 'b res" where
  "resBind (Val x) k = k x"
| "resBind (Err e) k = Err e"
| "resBind Panic k = Panic"

definition liftRes :: "'a res \<Rightarrow> ('s, 'a) go" where
  "liftRes r = (\<lambda>s. (r, s))"

lemma resBind_Val: "resBind r k = Val y \<longleftrightarrow> (\<exists>x. r = Val x \<and> k x = Val y)"
  by (cases r) auto

lemma resBind_Panic: "resBind r k = Panic \<longleftrightarrow> r = Panic \<or> (\<exists>x. r = Val x \<and> k x = Panic)"
  by (cases r) auto

text \<open>\<open>for _, x := range xs { f x }\<close>, left at the first error or panic.\<close>

fun forEach :: "('x \<Rightarrow> ('s, unit) go) \<Rightarrow> 'x list \<Rightarrow> ('s, unit) go" where
  "forEach f [] = ret ()"
| "forEach f (x # xs) = bnd (f x) (\<lambda>_. forEach f xs)"

section \<open>Weakest preconditions\<close>

text \<open>
  \<open>wp m Q E P s\<close>: from \<open>s\<close>, \<open>m\<close> ends with a value and state in \<open>Q\<close>, with an error and state
  in \<open>E\<close>, or in a panic with a state in \<open>P\<close>. The monad is deterministic, so the calculus
  consists of equations and the simplifier computes with it.
\<close>

definition wp ::
  "('s, 'a) go \<Rightarrow> ('a \<Rightarrow> 's \<Rightarrow> bool) \<Rightarrow> (goerror \<Rightarrow> 's \<Rightarrow> bool) \<Rightarrow> ('s \<Rightarrow> bool) \<Rightarrow> 's \<Rightarrow> bool" where
  "wp m Q E P s = (case m s of
     (Val x, t) \<Rightarrow> Q x t
   | (Err e, t) \<Rightarrow> E e t
   | (Panic, t) \<Rightarrow> P t)"

lemma wp_ret [wp_simps]: "wp (ret x) Q E P = Q x"
  by (rule ext) (simp add: wp_def ret_def)

lemma wp_fail [wp_simps]: "wp (fail e) Q E P = E e"
  by (rule ext) (simp add: wp_def fail_def)

lemma wp_panic [wp_simps]: "wp panic Q E P = P"
  by (rule ext) (simp add: wp_def panic_def)

lemma wp_onErr [wp_simps]:
  "wp (onErr m h k) Q E P = wp m (\<lambda>x. wp (k x) Q E P) (\<lambda>e. wp (h e) Q E P) P"
  by (rule ext) (simp add: wp_def onErr_def split: prod.splits res.splits)

lemma wp_bnd [wp_simps]: "wp (bnd m k) Q E P = wp m (\<lambda>x. wp (k x) Q E P) E P"
  by (simp add: bnd_def wp_simps)

lemma wp_wrapErr [wp_simps]: "wp (wrapErr t m) Q E P = wp m Q (\<lambda>e. E (Wrap t e)) P"
  by (simp add: wrapErr_def wp_simps)

lemma wp_gets [wp_simps]: "wp (gets f) Q E P = (\<lambda>s. Q (f s) s)"
  by (rule ext) (simp add: wp_def gets_def)

lemma wp_modify [wp_simps]: "wp (modify f) Q E P = (\<lambda>s. Q () (f s))"
  by (rule ext) (simp add: wp_def modify_def)

lemma wp_deref [wp_simps]:
  "wp (deref p) Q E P = (case p of None \<Rightarrow> P | Some x \<Rightarrow> Q x)"
  by (simp add: deref_def wp_simps split: option.split)

lemma wp_fieldOf [wp_simps]:
  "wp (fieldOf f) Q E P = (\<lambda>s. case f s of None \<Rightarrow> P s | Some x \<Rightarrow> Q x s)"
  by (rule ext) (simp add: fieldOf_def wp_simps split: option.split)

lemma wp_lift [wp_simps]:
  "wp (lift r) Q E P = (case r of Inl e \<Rightarrow> E e | Inr x \<Rightarrow> Q x)"
  by (simp add: lift_def wp_simps split: sum.split)

lemma wp_liftRes [wp_simps]:
  "wp (liftRes r) Q E P = (case r of Val x \<Rightarrow> Q x | Err e \<Rightarrow> E e | Panic \<Rightarrow> P)"
  by (rule ext) (simp add: wp_def liftRes_def split: res.split)

lemma wp_if [wp_simps]:
  "wp (if b then m else n) Q E P = (if b then wp m Q E P else wp n Q E P)"
  by simp

lemma wp_case_option [wp_simps]:
  "wp (case p of None \<Rightarrow> m | Some x \<Rightarrow> n x) Q E P =
     (case p of None \<Rightarrow> wp m Q E P | Some x \<Rightarrow> wp (n x) Q E P)"
  by (simp split: option.split)

lemma wp_case_prod [wp_simps]:
  "wp (case p of (x, y) \<Rightarrow> m x y) Q E P = (case p of (x, y) \<Rightarrow> wp (m x y) Q E P)"
  by (simp split: prod.split)

lemma wp_case_list [wp_simps]:
  "wp (case xs of [] \<Rightarrow> m | y # ys \<Rightarrow> n y ys) Q E P =
     (case xs of [] \<Rightarrow> wp m Q E P | y # ys \<Rightarrow> wp (n y ys) Q E P)"
  by (simp split: list.split)

lemma wp_forEach_Nil [wp_simps]: "wp (forEach f []) Q E P = Q ()"
  by (simp add: wp_simps)

lemma wp_forEach_Cons [wp_simps]:
  "wp (forEach f (x # xs)) Q E P = wp (f x) (\<lambda>_. wp (forEach f xs) Q E P) E P"
  by (simp add: wp_simps)

lemma wp_mono:
  assumes "wp m Q E P s"
    and "\<And>x t. Q x t \<Longrightarrow> Q' x t" and "\<And>e t. E e t \<Longrightarrow> E' e t" and "\<And>t. P t \<Longrightarrow> P' t"
  shows "wp m Q' E' P' s"
  using assms by (auto simp: wp_def split: prod.splits res.splits)

lemma wp_conj:
  assumes "wp m Q E P s" and "wp m Q' E' P' s"
  shows "wp m (\<lambda>x t. Q x t \<and> Q' x t) (\<lambda>e t. E e t \<and> E' e t) (\<lambda>t. P t \<and> P' t) s"
  using assms by (auto simp: wp_def split: prod.splits res.splits)

lemma wp_TrueI: "wp m (\<lambda>_ _. True) (\<lambda>_ _. True) (\<lambda>_. True) s"
  by (simp add: wp_def split: prod.splits res.splits)

text \<open>From a run to its postcondition.\<close>

lemma wp_ValD: "m s = (Val x, t) \<Longrightarrow> wp m Q E P s \<Longrightarrow> Q x t"
  by (simp add: wp_def)

lemma wp_ErrD: "m s = (Err e, t) \<Longrightarrow> wp m Q E P s \<Longrightarrow> E e t"
  by (simp add: wp_def)

lemma wp_PanicD: "m s = (Panic, t) \<Longrightarrow> wp m Q E P s \<Longrightarrow> P t"
  by (simp add: wp_def)

lemma wp_must_fail:
  "m s = (r, t) \<Longrightarrow> wp m (\<lambda>_ _. False) E (\<lambda>_. False) s \<Longrightarrow> \<exists>e. r = Err e \<and> E e t"
  by (cases r) (simp_all add: wp_def)

lemma wp_must_return:
  "m s = (r, t) \<Longrightarrow> wp m Q (\<lambda>_ _. False) (\<lambda>_. False) s \<Longrightarrow> \<exists>x. r = Val x \<and> Q x t"
  by (cases r) (simp_all add: wp_def)

text \<open>A property of the final state alone, however the run ends.\<close>

definition always :: "('s, 'a) go \<Rightarrow> ('s \<Rightarrow> bool) \<Rightarrow> 's \<Rightarrow> bool" where
  "always m I s = wp m (\<lambda>_. I) (\<lambda>_. I) I s"

lemma always_iff: "always m I s \<longleftrightarrow> I (snd (m s))"
  by (simp add: always_def wp_def split: prod.splits res.splits)

lemma always_mono: "always m I s \<Longrightarrow> (\<And>t. I t \<Longrightarrow> J t) \<Longrightarrow> always m J s"
  by (simp add: always_iff)

lemma always_wp: "wp m (\<lambda>_. I) (\<lambda>_. I) I s = always m I s"
  by (simp add: always_def)

text \<open>A loop keeps what its body keeps.\<close>

lemma always_forEach:
  assumes "\<And>x t. x \<in> set xs \<Longrightarrow> I t \<Longrightarrow> always (f x) I t" and "I s"
  shows "always (forEach f xs) I s"
  using assms
proof (induction xs arbitrary: s)
  case Nil
  then show ?case by (simp add: always_def wp_simps)
next
  case (Cons x xs)
  from Cons.prems have "wp (f x) (\<lambda>_. I) (\<lambda>_. I) I s" by (simp add: always_def)
  then have "wp (f x) (\<lambda>_. wp (forEach f xs) (\<lambda>_. I) (\<lambda>_. I) I) (\<lambda>_. I) I s"
    by (rule wp_mono) (use Cons in \<open>auto simp: always_def\<close>)
  then show ?case by (simp add: always_def wp_simps)
qed

section \<open>Invariants of computations\<close>

text \<open>
  \<open>keeps m I\<close>: every run of \<open>m\<close> from a state with \<open>I\<close>, however it ends, leaves a state with
  \<open>I\<close>. The rules in \<open>keeps_intros\<close> decompose a function body along its statements.
\<close>

named_theorems keeps_intros

definition keeps :: "('s, 'a) go \<Rightarrow> ('s \<Rightarrow> bool) \<Rightarrow> bool" where
  "keeps m I \<longleftrightarrow> (\<forall>s. I s \<longrightarrow> always m I s)"

lemma keepsD: "keeps m I \<Longrightarrow> I s \<Longrightarrow> always m I s"
  by (simp add: keeps_def)

lemma keeps_snd: "keeps m I \<Longrightarrow> I s \<Longrightarrow> I (snd (m s))"
  by (simp add: keeps_def always_iff)

lemma keeps_wp: "keeps m I \<Longrightarrow> I s \<Longrightarrow> wp m (\<lambda>_. I) (\<lambda>_. I) I s"
  by (simp add: keeps_def always_def)

lemma keeps_ret [keeps_intros]: "keeps (ret x) I"
  by (simp add: keeps_def always_def wp_simps)

lemma keeps_fail [keeps_intros]: "keeps (fail e) I"
  by (simp add: keeps_def always_def wp_simps)

lemma keeps_panic [keeps_intros]: "keeps panic I"
  by (simp add: keeps_def always_def wp_simps)

lemma keeps_gets [keeps_intros]: "keeps (gets f) I"
  by (simp add: keeps_def always_def wp_simps)

lemma keeps_deref [keeps_intros]: "keeps (deref p) I"
  by (simp add: keeps_def always_def wp_simps split: option.split)

lemma keeps_lift [keeps_intros]: "keeps (lift r) I"
  by (simp add: keeps_def always_def wp_simps split: sum.split)

lemma keeps_liftRes [keeps_intros]: "keeps (liftRes r) I"
  by (simp add: keeps_def always_def wp_simps split: res.split)

lemma keeps_modify [keeps_intros]: "(\<And>s. I s \<Longrightarrow> I (f s)) \<Longrightarrow> keeps (modify f) I"
  by (simp add: keeps_def always_def wp_simps)

lemma keeps_onErr [keeps_intros]:
  assumes "keeps m I" and "\<And>e. keeps (h e) I" and "\<And>x. keeps (k x) I"
  shows "keeps (onErr m h k) I"
  using assms unfolding keeps_def always_iff onErr_def
  by (auto split: prod.splits res.splits; metis snd_conv)

lemma keeps_bnd [keeps_intros]:
  "keeps m I \<Longrightarrow> (\<And>x. keeps (k x) I) \<Longrightarrow> keeps (bnd m k) I"
  unfolding bnd_def by (intro keeps_intros)

lemma keeps_fieldOf [keeps_intros]: "keeps (fieldOf f) I"
  unfolding fieldOf_def by (intro keeps_intros)

lemma keeps_wrapErr [keeps_intros]: "keeps m I \<Longrightarrow> keeps (wrapErr t m) I"
  unfolding wrapErr_def by (intro keeps_intros)

lemma keeps_if [keeps_intros]:
  "(b \<Longrightarrow> keeps m I) \<Longrightarrow> (\<not> b \<Longrightarrow> keeps n I) \<Longrightarrow> keeps (if b then m else n) I"
  by simp

lemma keeps_case_option [keeps_intros]:
  "(p = None \<Longrightarrow> keeps m I) \<Longrightarrow> (\<And>x. p = Some x \<Longrightarrow> keeps (n x) I) \<Longrightarrow>
   keeps (case p of None \<Rightarrow> m | Some x \<Rightarrow> n x) I"
  by (simp split: option.split)

lemma keeps_case_list [keeps_intros]:
  "(xs = [] \<Longrightarrow> keeps m I) \<Longrightarrow> (\<And>y ys. xs = y # ys \<Longrightarrow> keeps (n y ys) I) \<Longrightarrow>
   keeps (case xs of [] \<Rightarrow> m | y # ys \<Rightarrow> n y ys) I"
  by (simp split: list.split)

lemma keeps_case_prod [keeps_intros]:
  "(\<And>x y. p = (x, y) \<Longrightarrow> keeps (m x y) I) \<Longrightarrow> keeps (case p of (x, y) \<Rightarrow> m x y) I"
  by (simp split: prod.split)

lemma keeps_Let [keeps_intros]: "keeps (m v) I \<Longrightarrow> keeps (Let v m) I"
  by simp

lemma keeps_forEach [keeps_intros]:
  "(\<And>x. x \<in> set xs \<Longrightarrow> keeps (f x) I) \<Longrightarrow> keeps (forEach f xs) I"
  by (auto simp: keeps_def intro!: always_forEach)

lemma keeps_conj: "keeps m I \<Longrightarrow> keeps m J \<Longrightarrow> keeps m (\<lambda>s. I s \<and> J s)"
  by (simp add: keeps_def always_iff)

text \<open>Sequencing with a postcondition of the first part.\<close>

lemma wp_seqI:
  assumes "wp m Q' E P s" and "\<And>x t. Q' x t \<Longrightarrow> wp (k x) Q E P t"
  shows "wp (bnd m k) Q E P s"
  unfolding wp_bnd by (rule wp_mono [OF assms(1)]) (use assms(2) in auto)

lemma wp_onErrI:
  assumes "wp m Q' E' P s" and "\<And>e t. E' e t \<Longrightarrow> wp (h e) Q E P t"
    and "\<And>x t. Q' x t \<Longrightarrow> wp (k x) Q E P t"
  shows "wp (onErr m h k) Q E P s"
  unfolding wp_onErr by (rule wp_mono [OF assms(1)]) (use assms(2,3) in auto)

text \<open>
  \<open>ends A m B\<close>: a run of \<open>m\<close> from a state in \<open>A\<close> ends, in whatever way, in a state in \<open>B\<close>. The
  rules peel off the statements that keep \<open>A\<close>, until the one that leads to \<open>B\<close>.
\<close>

definition ends :: "('s \<Rightarrow> bool) \<Rightarrow> ('s, 'a) go \<Rightarrow> ('s \<Rightarrow> bool) \<Rightarrow> bool" where
  "ends A m B \<longleftrightarrow> (\<forall>s. A s \<longrightarrow> always m B s)"

lemma endsD: "ends A m B \<Longrightarrow> A s \<Longrightarrow> always m B s"
  by (simp add: ends_def)

lemma ends_wpD: "ends A m B \<Longrightarrow> A s \<Longrightarrow> wp m (\<lambda>_. B) (\<lambda>_. B) B s"
  by (simp add: ends_def always_def)

lemma ends_keeps: "keeps m A \<Longrightarrow> (\<And>s. A s \<Longrightarrow> B s) \<Longrightarrow> ends A m B"
  by (auto simp: ends_def keeps_def always_iff)

lemma ends_onErr:
  assumes "keeps m A" and "\<And>s. A s \<Longrightarrow> B s" and "\<And>e. ends A (h e) B" and "\<And>x. ends A (k x) B"
  shows "ends A (onErr m h k) B"
proof -
  have "wp (onErr m h k) (\<lambda>_. B) (\<lambda>_. B) B s" if "A s" for s
    unfolding wp_onErr
    by (rule wp_mono [OF keeps_wp [OF assms(1) that]])
      (auto intro: ends_wpD [OF assms(3)] ends_wpD [OF assms(4)] assms(2))
  then show ?thesis by (simp add: ends_def always_def)
qed

lemma ends_bnd:
  "keeps m A \<Longrightarrow> (\<And>s. A s \<Longrightarrow> B s) \<Longrightarrow> (\<And>x. ends A (k x) B) \<Longrightarrow> ends A (bnd m k) B"
  unfolding bnd_def by (rule ends_onErr) (auto intro: ends_keeps keeps_fail)

lemma ends_if:
  "(b \<Longrightarrow> ends A m B) \<Longrightarrow> (\<not> b \<Longrightarrow> ends A n B) \<Longrightarrow> ends A (if b then m else n) B"
  by simp

text \<open>
  \<open>reaches C A m B\<close>: from a state in \<open>A\<close>, a run of \<open>m\<close> that returns a value ends in \<open>B\<close>, and any
  other run ends in \<open>C\<close>.
\<close>

definition reaches :: "('s \<Rightarrow> bool) \<Rightarrow> ('s \<Rightarrow> bool) \<Rightarrow> ('s, 'a) go \<Rightarrow> ('s \<Rightarrow> bool) \<Rightarrow> bool" where
  "reaches C A m B \<longleftrightarrow> (\<forall>s. A s \<longrightarrow> wp m (\<lambda>_. B) (\<lambda>_. C) C s)"

lemma reaches_wp: "reaches C A m B \<Longrightarrow> A s \<Longrightarrow> wp m (\<lambda>_. B) (\<lambda>_. C) C s"
  by (simp add: reaches_def)

lemma reaches_keeps: "keeps m A \<Longrightarrow> (\<And>s. A s \<Longrightarrow> C s) \<Longrightarrow> reaches C A m A"
  unfolding reaches_def by (auto intro!: wp_mono [OF keeps_wp])

lemma reaches_bnd:
  assumes "reaches C A m B" and "\<And>x. reaches C B (k x) D"
  shows "reaches C A (bnd m k) D"
  unfolding reaches_def
  by (auto intro: wp_seqI [OF reaches_wp [OF assms(1)]] reaches_wp [OF assms(2)])

lemma reaches_onErr:
  assumes "keeps m A" and "\<And>s. A s \<Longrightarrow> C s" and "\<And>e. reaches C A (h e) D" and "\<And>x. reaches C A (k x) D"
  shows "reaches C A (onErr m h k) D"
  unfolding reaches_def wp_onErr
  by (auto intro!: wp_mono [OF keeps_wp [OF assms(1)]] reaches_wp [OF assms(3)] reaches_wp [OF assms(4)] assms(2))

lemma reaches_ends_bnd:
  assumes "reaches C A m B" and "\<And>x. ends B (k x) C"
  shows "ends A (bnd m k) C"
  unfolding ends_def always_def
  by (auto intro: wp_seqI [OF reaches_wp [OF assms(1)]] ends_wpD [OF assms(2)])

lemma reaches_onErr_ends:
  assumes "ends A m B" and "\<And>s. B s \<Longrightarrow> C s" and "\<And>e. reaches C B (h e) D" and "\<And>x. reaches C B (k x) D"
  shows "reaches C A (onErr m h k) D"
  unfolding reaches_def wp_onErr
  by (auto intro!: wp_mono [OF ends_wpD [OF assms(1)]] reaches_wp [OF assms(3)] reaches_wp [OF assms(4)] assms(2))

text \<open>A nil test of a field, and a branch.\<close>

lemma reaches_test:
  assumes "\<And>s. I s \<Longrightarrow> C s"
    and "\<And>x. reaches C (\<lambda>s. I s \<and> f s = Some x) (k x) J"
  shows "reaches C I (bnd (fieldOf f) k) J"
  using assms by (auto simp: reaches_def wp_simps split: option.split)

lemma reaches_if:
  "(b \<Longrightarrow> reaches C A m B) \<Longrightarrow> (\<not> b \<Longrightarrow> reaches C A n B) \<Longrightarrow> reaches C A (if b then m else n) B"
  by simp

lemma reaches_pre: "reaches C A m B \<Longrightarrow> (\<And>s. A' s \<Longrightarrow> A s) \<Longrightarrow> reaches C A' m B"
  by (auto simp: reaches_def)

text \<open>A run that returns a value, in a state with \<open>Q\<close>.\<close>

definition succeeds :: "('s, 'a) go \<Rightarrow> ('s \<Rightarrow> bool) \<Rightarrow> 's \<Rightarrow> bool" where
  "succeeds m Q s = wp m (\<lambda>_. Q) (\<lambda>_ _. False) (\<lambda>_. False) s"

section \<open>Go maps with string keys and values\<close>

text \<open>\<open>None\<close> is the nil map: it reads as empty and a write to it panics.\<close>

type_synonym string_map = "(string \<rightharpoonup> string) option"

definition map_lookup :: "string_map \<Rightarrow> string \<Rightarrow> string option" where
  "map_lookup m k = (case m of None \<Rightarrow> None | Some f \<Rightarrow> f k)"

text \<open>\<open>m[k]\<close> as an expression is the zero value where the key is missing.\<close>

definition map_get :: "string_map \<Rightarrow> string \<Rightarrow> string" where
  "map_get m k = (case map_lookup m k of None \<Rightarrow> [] | Some v \<Rightarrow> v)"

text \<open>\<open>m[k] = v\<close>; the \<open>None\<close> result is the panic.\<close>

definition map_put :: "string_map \<Rightarrow> string \<Rightarrow> string \<Rightarrow> string_map option" where
  "map_put m k v = (case m of None \<Rightarrow> None | Some f \<Rightarrow> Some (Some (f(k \<mapsto> v))))"

text \<open>A map literal.\<close>

definition map_lit :: "(string \<times> string) list \<Rightarrow> string_map" where
  "map_lit kvs = Some (map_of kvs)"

lemma map_get_put [simp]:
  "map_put m k v = Some m' \<Longrightarrow> map_get m' k = v"
  by (auto simp: map_put_def map_get_def map_lookup_def split: option.splits)

lemma map_get_put_other:
  "map_put m k v = Some m' \<Longrightarrow> k' \<noteq> k \<Longrightarrow> map_get m' k' = map_get m k'"
  by (auto simp: map_put_def map_get_def map_lookup_def split: option.splits)

lemma map_put_total: "m \<noteq> None \<Longrightarrow> \<exists>m'. map_put m k v = Some m' \<and> m' \<noteq> None"
  by (auto simp: map_put_def)

lemma map_lit_not_nil [simp]: "map_lit kvs \<noteq> None"
  by (simp add: map_lit_def)

section \<open>Package strings\<close>

definition hasPrefix :: "string \<Rightarrow> string \<Rightarrow> bool" where
  "hasPrefix s p = (take (length p) s = p)"

definition trimPrefix :: "string \<Rightarrow> string \<Rightarrow> string" where
  "trimPrefix s p = (if hasPrefix s p then drop (length p) s else s)"

lemma hasPrefix_append [simp]: "hasPrefix (p @ s) p"
  by (simp add: hasPrefix_def)

lemma trimPrefix_append [simp]: "trimPrefix (p @ s) p = s"
  by (simp add: trimPrefix_def)

lemma hasPrefix_iff: "hasPrefix s p \<longleftrightarrow> (\<exists>t. s = p @ t)"
  unfolding hasPrefix_def by (metis append_eq_conv_conj append_take_drop_id)

lemma hasPrefix_Nil [simp]: "hasPrefix s []"
  by (simp add: hasPrefix_def)

lemma hasPrefix_Cons [simp]: "hasPrefix (c # s) (d # p) \<longleftrightarrow> c = d \<and> hasPrefix s p"
  by (auto simp: hasPrefix_def)

lemma hasPrefix_Nil_Cons [simp]: "\<not> hasPrefix [] (d # p)"
  by (simp add: hasPrefix_def)

section \<open>Package slices\<close>

text \<open>\<open>slices.Index\<close>, with \<open>None\<close> for -1.\<close>

fun slicesIndex :: "'a list \<Rightarrow> 'a \<Rightarrow> nat option" where
  "slicesIndex [] x = None"
| "slicesIndex (y # ys) x = (if y = x then Some 0 else map_option Suc (slicesIndex ys x))"

text \<open>\<open>slices.Delete(xs, i, j)\<close> for \<open>i \<le> j \<le> length xs\<close>.\<close>

definition slicesDelete :: "'a list \<Rightarrow> nat \<Rightarrow> nat \<Rightarrow> 'a list" where
  "slicesDelete xs i j = take i xs @ drop j xs"

lemma slicesIndex_None: "slicesIndex xs x = None \<longleftrightarrow> x \<notin> set xs"
  by (induction xs) auto

lemma slicesDelete_Index:
  "slicesIndex xs x = Some i \<Longrightarrow> slicesDelete xs i (i + 1) = remove1 x xs"
proof (induction xs arbitrary: i)
  case Nil
  then show ?case by simp
next
  case (Cons y ys)
  show ?case
  proof (cases "y = x")
    case True
    with Cons.prems show ?thesis by (simp add: slicesDelete_def)
  next
    case False
    with Cons.prems obtain j where "slicesIndex ys x = Some j" and "i = Suc j" by auto
    with False Cons.IH show ?thesis by (simp add: slicesDelete_def)
  qed
qed

end
