(* ===== verification/Api_Types.thy ===== *)
theory Api_Types
  imports Prelude
begin

text \<open>
  The data the operator works on: its own resources \<open>RemoteCluster\<close> and \<open>RemoteArbiter\<close>
  (\<^verbatim>\<open>pkg/api/arbiter/v1alpha1\<close>), the constants and condition constructors of
  \<^verbatim>\<open>pkg/controller/common.go\<close>, and the fields of the Kubernetes and Rook objects that the
  controllers read or write. A field ending in \<open>_rest\<close> stands for the fields of an object that
  the operator carries along without looking at them. Pointers are \<open>option\<close>s.
\<close>

section \<open>Object metadata\<close>

record key =
  k_namespace :: string
  k_name :: string

text \<open>\<open>types.NamespacedName.String()\<close>.\<close>

definition key_text :: "key \<Rightarrow> string" where
  "key_text k = k_namespace k @ ''/'' @ k_name k"

record owner_ref =
  or_api_version :: string
  or_kind :: string
  or_name :: string
  or_controller :: bool

record object_meta =
  om_name :: string
  om_generate_name :: string
  om_namespace :: string
  om_labels :: string_map
  om_annotations :: string_map
  om_finalizers :: "string list"
  om_owner_refs :: "owner_ref list"
  om_resource_version :: string
  om_deletion_timestamp :: "string option"

definition empty_meta :: object_meta where
  "empty_meta = \<lparr>om_name = [], om_generate_name = [], om_namespace = [], om_labels = None,
     om_annotations = None, om_finalizers = [], om_owner_refs = [], om_resource_version = [],
     om_deletion_timestamp = None\<rparr>"

definition ObjectKeyFromObject :: "object_meta \<Rightarrow> key" where
  "ObjectKeyFromObject m = \<lparr>k_namespace = om_namespace m, k_name = om_name m\<rparr>"

section \<open>Conditions\<close>

record condition =
  cond_type :: string
  cond_status :: string
  cond_reason :: string
  cond_message :: string

definition ConditionTrue :: string where [const_defs]: "ConditionTrue = ''True''"
definition ConditionFalse :: string where [const_defs]: "ConditionFalse = ''False''"
definition ConditionUnknown :: string where [const_defs]: "ConditionUnknown = ''Unknown''"

definition ReasonInit :: string where [const_defs]: "ReasonInit = ''Init''"
definition ReasonOK :: string where [const_defs]: "ReasonOK = ''OK''"
definition ReasonError :: string where [const_defs]: "ReasonError = ''Error''"

definition NewInitCondition :: "string \<Rightarrow> string \<Rightarrow> condition" where
  "NewInitCondition aType msg =
     \<lparr>cond_type = aType, cond_status = ConditionUnknown, cond_reason = ReasonInit,
      cond_message = msg\<rparr>"

definition NewOKCondition :: "string \<Rightarrow> string \<Rightarrow> condition" where
  "NewOKCondition aType msg =
     \<lparr>cond_type = aType, cond_status = ConditionTrue, cond_reason = ReasonOK,
      cond_message = msg\<rparr>"

definition NewErrorCondition :: "string \<Rightarrow> string \<Rightarrow> condition" where
  "NewErrorCondition aType msg =
     \<lparr>cond_type = aType, cond_status = ConditionFalse, cond_reason = ReasonError,
      cond_message = msg\<rparr>"

lemma condition_status_distinct [simp]:
  "ConditionTrue \<noteq> ConditionFalse" "ConditionFalse \<noteq> ConditionTrue"
  "ConditionTrue \<noteq> ConditionUnknown" "ConditionUnknown \<noteq> ConditionTrue"
  "ConditionFalse \<noteq> ConditionUnknown" "ConditionUnknown \<noteq> ConditionFalse"
  by (simp_all add: const_defs)

lemma new_condition_sel [simp]:
  "cond_type (NewInitCondition t m) = t" "cond_status (NewInitCondition t m) = ConditionUnknown"
  "cond_type (NewOKCondition t m) = t" "cond_status (NewOKCondition t m) = ConditionTrue"
  "cond_type (NewErrorCondition t m) = t" "cond_status (NewErrorCondition t m) = ConditionFalse"
  by (simp_all add: NewInitCondition_def NewOKCondition_def NewErrorCondition_def)

lemma new_condition_message [simp]:
  "cond_message (NewOKCondition t m) = m" "cond_message (NewErrorCondition t m) = m"
  by (simp_all add: NewOKCondition_def NewErrorCondition_def)

section \<open>RemoteCluster\<close>

definition SecretAvailableConditionType :: string where
  [const_defs]: "SecretAvailableConditionType = ''SecretAvailable''"
definition ConfigValidConditionType :: string where
  [const_defs]: "ConfigValidConditionType = ''ConfigValid''"
definition ClusterReachableConditionType :: string where
  [const_defs]: "ClusterReachableConditionType = ''ClusterReachable''"
definition HasEnoughPermissionsConditionType :: string where
  [const_defs]: "HasEnoughPermissionsConditionType = ''HasEnoughPermissions''"

text \<open>Both resources use the same five state names.\<close>

definition InitState :: string where [const_defs]: "InitState = ''Init''"
definition ProgressingState :: string where [const_defs]: "ProgressingState = ''Progressing''"
definition ErrorState :: string where [const_defs]: "ErrorState = ''Error''"
definition ReadyState :: string where [const_defs]: "ReadyState = ''Ready''"
definition DeletingState :: string where [const_defs]: "DeletingState = ''Deleting''"

lemma ready_state_distinct [simp]:
  "InitState \<noteq> ReadyState" "ReadyState \<noteq> InitState"
  "ProgressingState \<noteq> ReadyState" "ReadyState \<noteq> ProgressingState"
  "ErrorState \<noteq> ReadyState" "ReadyState \<noteq> ErrorState"
  "DeletingState \<noteq> ReadyState" "ReadyState \<noteq> DeletingState"
  by (simp_all add: const_defs)

lemma error_state_distinct [simp]:
  "ErrorState \<noteq> ProgressingState" "ProgressingState \<noteq> ErrorState"
  "ErrorState \<noteq> InitState" "InitState \<noteq> ErrorState"
  "ErrorState \<noteq> DeletingState" "DeletingState \<noteq> ErrorState"
  "ProgressingState \<noteq> InitState" "InitState \<noteq> ProgressingState"
  by (simp_all add: const_defs)

text \<open>\<open>Interval\<close> wraps a \<open>time.Duration\<close>, a signed 64-bit count of nanoseconds.\<close>

type_synonym interval = int

definition time_Second :: interval where "time_Second = 1000000000"
definition time_Minute :: interval where "time_Minute = 60 * time_Second"

record kubeconfig_secret_source =
  ks_name :: string
  ks_key :: string

record remote_cluster_spec =
  rcs_timeout :: "interval option"
  rcs_check_interval :: "interval option"
  rcs_access_key_ref :: kubeconfig_secret_source
  rcs_namespace :: string

record remote_status =
  st_state :: string
  st_message :: string
  st_conditions :: "condition list"

record remote_cluster =
  rc_meta :: object_meta
  rc_spec :: remote_cluster_spec
  rc_status :: remote_status

section \<open>RemoteArbiter\<close>

definition RemoteClusterExistsConditionType :: string where
  [const_defs]: "RemoteClusterExistsConditionType = ''RemoteClusterExists''"
definition RemoteClusterReadyConditionType :: string where
  [const_defs]: "RemoteClusterReadyConditionType = ''RemoteClusterReady''"
definition CephClusterExistsConditionType :: string where
  [const_defs]: "CephClusterExistsConditionType = ''CephClusterExists''"
definition CephClusterReadyConditionType :: string where
  [const_defs]: "CephClusterReadyConditionType = ''CephClusterReady''"
definition CephClusterConfiguredConditionType :: string where
  [const_defs]: "CephClusterConfiguredConditionType = ''CephClusterConfigured''"
definition MonitorDeploymentExistsConditionType :: string where
  [const_defs]: "MonitorDeploymentExistsConditionType = ''MonitorDeploymentExists''"
definition MonitorDeploymentReadyConditionType :: string where
  [const_defs]: "MonitorDeploymentReadyConditionType = ''MonitorDeploymentReady''"
definition ArbiterDeploymentExistsConditionType :: string where
  [const_defs]: "ArbiterDeploymentExistsConditionType = ''ArbiterDeploymentExists''"
definition ArbiterDeploymentReadyConditionType :: string where
  [const_defs]: "ArbiterDeploymentReadyConditionType = ''ArbiterDeploymentReady''"

record namespaced_reference =
  nr_namespace :: string
  nr_name :: string

definition NamespacedReferenceSeparator :: string where
  [const_defs]: "NamespacedReferenceSeparator = ''/''"

definition NamespacedReference_String :: "namespaced_reference \<Rightarrow> string" where
  "NamespacedReference_String r =
     nr_namespace r @ NamespacedReferenceSeparator @ nr_name r"

text \<open>\<open>Affinity\<close> and \<open>Resources\<close> are copied, never inspected: a string stands for their content.\<close>

record pod_configuration =
  pc_affinity :: "string option"
  pc_resources :: "string option"
  pc_node_selector :: string_map

record remote_cluster_configuration =
  rcc_spec :: "remote_cluster_spec option"
  rcc_name :: string

record service_configuration =
  sc_type :: string
  sc_node_ip :: string

record remote_arbiter_spec =
  ras_deployment :: pod_configuration
  ras_service :: "service_configuration option"
  ras_check_interval :: "interval option"
  ras_ceph_cluster :: namespaced_reference
  ras_remote_cluster :: remote_cluster_configuration
  ras_mon_id_prefix :: string

record remote_arbiter_status = remote_status +
  st_mon_id :: string

record remote_arbiter =
  ra_meta :: object_meta
  ra_spec :: remote_arbiter_spec
  ra_status :: remote_arbiter_status

section \<open>Kubernetes and Rook objects\<close>

record secret =
  sec_meta :: object_meta
  sec_data :: string_map

record configmap =
  cm_meta :: object_meta
  cm_data :: string_map

definition ServiceTypeClusterIP :: string where [const_defs]: "ServiceTypeClusterIP = ''ClusterIP''"
definition ServiceTypeNodePort :: string where [const_defs]: "ServiceTypeNodePort = ''NodePort''"
definition ServiceTypeLoadBalancer :: string where
  [const_defs]: "ServiceTypeLoadBalancer = ''LoadBalancer''"

lemma service_type_distinct [simp]:
  "ServiceTypeClusterIP \<noteq> ServiceTypeNodePort" "ServiceTypeNodePort \<noteq> ServiceTypeClusterIP"
  "ServiceTypeClusterIP \<noteq> ServiceTypeLoadBalancer" "ServiceTypeLoadBalancer \<noteq> ServiceTypeClusterIP"
  "ServiceTypeNodePort \<noteq> ServiceTypeLoadBalancer" "ServiceTypeLoadBalancer \<noteq> ServiceTypeNodePort"
  by (simp_all add: const_defs)

record service_port =
  sp_name :: string
  sp_port :: int
  sp_protocol :: string
  sp_target_port :: int
  sp_node_port :: int

record service =
  svc_meta :: object_meta
  svc_type :: string
  svc_cluster_ip :: string
  svc_ports :: "service_port list"
  svc_selector :: string_map
  svc_internal_traffic_policy :: "string option"
  svc_ip_families :: "string list"
  svc_ip_family_policy :: "string option"
  svc_session_affinity :: string
  svc_ingress_ips :: "string list"

record secret_key_ref =
  skr_name :: string
  skr_key :: string

record field_ref =
  fr_api_version :: string
  fr_field_path :: string

record env_var_source =
  evs_secret_key_ref :: "secret_key_ref option"
  evs_field_ref :: "field_ref option"

record env_var =
  ev_name :: string
  ev_value :: string
  ev_value_from :: "env_var_source option"

record volume_mount =
  vm_name :: string
  vm_mount_path :: string
  vm_rest :: string

text \<open>\<open>pb_exec\<close> is the command of an exec probe, \<open>None\<close> for any other probe.\<close>

record probe =
  pb_exec :: "string list option"
  pb_rest :: string

record security_context =
  secctx_drop :: "string list"
  secctx_privileged :: "bool option"

record container =
  c_name :: string
  c_image :: string
  c_image_pull_policy :: string
  c_command :: "string list"
  c_args :: "string list"
  c_env :: "env_var list"
  c_volume_mounts :: "volume_mount list"
  c_startup_probe :: "probe option"
  c_liveness_probe :: "probe option"
  c_readiness_probe :: "probe option"
  c_security_context :: "security_context option"
  c_rest :: string

text \<open>
  Of a volume source the operator looks at three: a secret (its name), a projected volume (per
  source the name of its config map, if it has one) and a host path.
\<close>

record volume =
  vol_name :: string
  vol_secret :: "string option"
  vol_projected :: "string option list option"
  vol_host_path :: "string option"
  vol_empty_dir :: bool
  vol_rest :: string

record pod_spec =
  ps_volumes :: "volume list"
  ps_containers :: "container list"
  ps_init_containers :: "container list"
  ps_service_account_name :: string
  ps_deprecated_service_account :: string
  ps_node_selector :: string_map
  ps_affinity :: "string option"
  ps_resources :: "string option"
  ps_rest :: string

record deployment_spec =
  ds_selector :: "string_map option"
  ds_template_meta :: object_meta
  ds_pod :: pod_spec
  ds_rest :: string

record deployment =
  dep_meta :: object_meta
  dep_spec :: deployment_spec
  dep_replicas :: int
  dep_unavailable_replicas :: int
  dep_updated_replicas :: int

definition empty_pod_spec :: pod_spec where
  "empty_pod_spec = \<lparr>ps_volumes = [], ps_containers = [], ps_init_containers = [],
     ps_service_account_name = [], ps_deprecated_service_account = [], ps_node_selector = None,
     ps_affinity = None, ps_resources = None, ps_rest = []\<rparr>"

definition empty_deployment_spec :: deployment_spec where
  "empty_deployment_spec = \<lparr>ds_selector = None, ds_template_meta = empty_meta,
     ds_pod = empty_pod_spec, ds_rest = []\<rparr>"

record ceph_cluster =
  ceph_meta :: object_meta
  ceph_external_mon_ids :: "string list"
  ceph_phase :: string
  ceph_rest :: string

definition rook_ConditionReady :: string where [const_defs]: "rook_ConditionReady = ''Ready''"

text \<open>An object handled through \<open>unstructured.Unstructured\<close>.\<close>

datatype kind = KSecret | KService | KConfigMap | KDeployment

record unstructured =
  un_kind :: kind
  un_meta :: object_meta
  un_rest :: string

end
