(* ===== verification/Netip.thy ===== *)
theory Netip
  imports Prelude
begin

text \<open>
  \<open>netip.ParseAddr\<close> of the Go standard library, as the webhook and the reconciler use it: which
  texts are addresses, which of them are IPv4 (\<open>Is4\<close>), and with which message the others are
  refused. The value of an IPv6 address is never used, so only its family is kept. The theorem
  of this theory is that the texts accepted as IPv4 are exactly the canonical dotted decimals.
\<close>

section \<open>Addresses and errors\<close>

datatype addr = Addr4 "nat list" | Addr6

text \<open>\<open>parseAddrError\<close>: the input, the message and the rest of the input it was found at.\<close>

datatype addr_error = AddrError string string string

definition Is4 :: "addr \<Rightarrow> bool" where
  "Is4 a = (case a of Addr4 _ \<Rightarrow> True | Addr6 \<Rightarrow> False)"

definition isDigit :: "char \<Rightarrow> bool" where
  "isDigit c \<longleftrightarrow> CHR ''0'' \<le> c \<and> c \<le> CHR ''9''"

definition digitVal :: "char \<Rightarrow> nat" where
  "digitVal c = of_char c - of_char (CHR ''0'')"

section \<open>IPv4\<close>

text \<open>
  The loop of \<open>parseIPv4Fields\<close>: \<open>prev\<close> is the character before the current one, \<open>v\<close> and
  \<open>digLen\<close> describe the current octet, and \<open>fields\<close> the finished ones.
\<close>

fun ipv4Loop ::
  "string \<Rightarrow> char option \<Rightarrow> nat \<Rightarrow> nat \<Rightarrow> nat list \<Rightarrow> string \<Rightarrow> addr_error + nat list" where
  "ipv4Loop inp prev v digLen fields [] =
     (if length fields < 3 then Inl (AddrError inp ''IPv4 address too short'' [])
      else Inr (fields @ [v]))"
| "ipv4Loop inp prev v digLen fields (c # cs) =
     (if isDigit c then
        if digLen = 1 \<and> v = 0 then Inl (AddrError inp ''IPv4 field has octet with leading zero'' [])
        else if v * 10 + digitVal c > 255 then Inl (AddrError inp ''IPv4 field has value >255'' [])
        else ipv4Loop inp (Some c) (v * 10 + digitVal c) (Suc digLen) fields cs
      else if c = CHR ''.'' then
        if prev = None \<or> cs = [] \<or> prev = Some (CHR ''.'')
        then Inl (AddrError inp ''IPv4 field must have at least one digit'' (c # cs))
        else if length fields = 3 then Inl (AddrError inp ''IPv4 address too long'' [])
        else ipv4Loop inp (Some c) 0 0 (fields @ [v]) cs
      else Inl (AddrError inp ''unexpected character'' (c # cs)))"

definition parseIPv4Fields :: "string \<Rightarrow> string \<Rightarrow> addr_error + nat list" where
  "parseIPv4Fields inp s = ipv4Loop inp None 0 0 [] s"

definition parseIPv4 :: "string \<Rightarrow> addr_error + addr" where
  "parseIPv4 s = map_sum id Addr4 (parseIPv4Fields s s)"

section \<open>IPv6\<close>

definition hexVal :: "char \<Rightarrow> nat option" where
  "hexVal c = (if isDigit c then Some (digitVal c)
     else if CHR ''a'' \<le> c \<and> c \<le> CHR ''f'' then Some (of_char c - of_char (CHR ''a'') + 10)
     else if CHR ''A'' \<le> c \<and> c \<le> CHR ''F'' then Some (of_char c - of_char (CHR ''A'') + 10)
     else None)"

text \<open>
  The inner loop over the digits of a group. It returns the number of digits and the rest. The
  accumulator of four digits stays below \<open>2^16\<close>, so the overflow branch of the code is the one
  for a fifth digit, which is tested first.
\<close>

fun hexDigits :: "string \<Rightarrow> string \<Rightarrow> nat \<Rightarrow> string \<Rightarrow> addr_error + (nat \<times> string)" where
  "hexDigits inp s off [] = Inr (off, [])"
| "hexDigits inp s off (c # cs) =
     (case hexVal c of
        None \<Rightarrow> Inr (off, c # cs)
      | Some _ \<Rightarrow>
          if off > 3 then Inl (AddrError inp ''each group must have 4 or less digits'' s)
          else hexDigits inp s (Suc off) cs)"

text \<open>
  The outer loop. \<open>n\<close> is the number of 16-bit groups still free, \<open>ell\<close> whether an ellipsis was
  seen. The result is the number of groups left and the unread rest.
\<close>

fun ipv6Loop :: "string \<Rightarrow> nat \<Rightarrow> bool \<Rightarrow> string \<Rightarrow> addr_error + (nat \<times> bool \<times> string)" where
  "ipv6Loop inp 0 ell s = Inr (0, ell, s)"
| "ipv6Loop inp (Suc n) ell s =
     (case hexDigits inp s 0 s of
        Inl e \<Rightarrow> Inl e
      | Inr (off, rest) \<Rightarrow>
          if off = 0 then
            Inl (AddrError inp ''each colon-separated field must have at least one digit'' s)
          else if rest \<noteq> [] \<and> hd rest = CHR ''.'' then
            if \<not> ell \<and> n \<noteq> 1 then
              Inl (AddrError inp
                ''embedded IPv4 address must replace the final 2 fields of the address'' s)
            else if n = 0 then
              Inl (AddrError inp
                ''too many hex fields to fit an embedded IPv4 at the end of the address'' s)
            else (case parseIPv4Fields inp s of
                Inl e \<Rightarrow> Inl e
              | Inr _ \<Rightarrow> Inr (n - 1, ell, []))
          else if rest = [] then Inr (n, ell, [])
          else if hd rest \<noteq> CHR '':'' then
            Inl (AddrError inp ''unexpected character, want colon'' rest)
          else if tl rest = [] then
            Inl (AddrError inp ''colon must be followed by more characters'' rest)
          else if hd (tl rest) = CHR '':'' then
            if ell then Inl (AddrError inp ''multiple :: in address'' (tl rest))
            else if tl (tl rest) = [] then Inr (n, True, [])
            else ipv6Loop inp n True (tl (tl rest))
          else ipv6Loop inp n ell (tl rest))"

definition parseIPv6 :: "string \<Rightarrow> addr_error + addr" where
  "parseIPv6 inp =
     (let (s, zone) = (takeWhile (\<lambda>c. c \<noteq> CHR ''%'') inp, dropWhile (\<lambda>c. c \<noteq> CHR ''%'') inp)
      in if zone = [CHR ''%''] then Inl (AddrError inp ''zone must be a non-empty string'' [])
         else if s = ''::'' then Inr Addr6
         else case (if hasPrefix s ''::'' then ipv6Loop inp 8 True (drop 2 s)
                    else ipv6Loop inp 8 False s) of
             Inl e \<Rightarrow> Inl e
           | Inr (n, ell, rest) \<Rightarrow>
               if rest \<noteq> [] then Inl (AddrError inp ''trailing garbage after address'' rest)
               else if n > 0 \<and> \<not> ell then Inl (AddrError inp ''address string too short'' [])
               else if n = 0 \<and> ell then
                 Inl (AddrError inp ''the :: must expand to at least one field of zeros'' [])
               else Inr Addr6)"

section \<open>ParseAddr\<close>

fun parseAddrScan :: "string \<Rightarrow> string \<Rightarrow> addr_error + addr" where
  "parseAddrScan inp [] = Inl (AddrError inp ''unable to parse IP'' [])"
| "parseAddrScan inp (c # cs) =
     (if c = CHR ''.'' then parseIPv4 inp
      else if c = CHR '':'' then parseIPv6 inp
      else if c = CHR ''%'' then Inl (AddrError inp ''missing IPv6 address'' [])
      else parseAddrScan inp cs)"

definition ParseAddr :: "string \<Rightarrow> addr_error + addr" where
  "ParseAddr s = parseAddrScan s s"

section \<open>Dotted decimals\<close>

definition digitChar :: "nat \<Rightarrow> char" where
  "digitChar d = char_of (48 + d)"

fun decimal :: "nat \<Rightarrow> string" where
  "decimal n = (if n < 10 then [digitChar n] else decimal (n div 10) @ [digitChar (n mod 10)])"

declare decimal.simps [simp del]

text \<open>The canonical text of four octets.\<close>

definition dotted :: "nat list \<Rightarrow> string" where
  "dotted fs = concat (map (\<lambda>f. decimal f @ ''.'') (butlast fs)) @ decimal (last fs)"

lemma digit_char: "isDigit c \<Longrightarrow> digitChar (digitVal c) = c" "isDigit c \<Longrightarrow> digitVal c < 10"
  by (auto simp add: isDigit_def digitChar_def digitVal_def less_eq_char_def)

lemma char_digit: "d < 10 \<Longrightarrow> isDigit (digitChar d)" "d < 10 \<Longrightarrow> digitVal (digitChar d) = d"
  by (simp_all add: isDigit_def digitChar_def digitVal_def less_eq_char_def)

lemma digit_not_dot: "isDigit c \<Longrightarrow> c \<noteq> CHR ''.''"
  by (auto simp: isDigit_def less_eq_char_def)

lemma decimal_0_9: "n < 10 \<Longrightarrow> decimal n = [digitChar n]"
  by (simp add: decimal.simps)

lemma decimal_ge: "\<not> n < 10 \<Longrightarrow> decimal n = decimal (n div 10) @ [digitChar (n mod 10)]"
  by (subst decimal.simps) simp

lemma decimal_snoc: "0 < v \<Longrightarrow> d < 10 \<Longrightarrow> decimal (v * 10 + d) = decimal v @ [digitChar d]"
  by (subst decimal.simps) simp

lemma decimal_not_Nil [simp]: "decimal n \<noteq> []"
  by (subst decimal.simps) simp

lemma decimal_digits: "c \<in> set (decimal n) \<Longrightarrow> isDigit c"
proof (induction n rule: decimal.induct)
  case (1 n)
  then show ?case by (cases "n < 10") (auto simp: decimal_0_9 decimal_ge char_digit)
qed

text \<open>What has been read when the loop is at \<open>s\<close>.\<close>

definition ipv4Read :: "string \<Rightarrow> char option \<Rightarrow> nat \<Rightarrow> nat \<Rightarrow> nat list \<Rightarrow> string \<Rightarrow> bool" where
  "ipv4Read rd prev v digLen fields s \<longleftrightarrow>
     rd = concat (map (\<lambda>f. decimal f @ ''.'') fields) @ (if digLen = 0 then [] else decimal v)
     \<and> prev = (if rd = [] then None else Some (last rd))
     \<and> (digLen = 0 \<longrightarrow> v = 0 \<and> (fields = [] \<or> s \<noteq> []))
     \<and> (digLen > 0 \<longrightarrow> digLen = length (decimal v))
     \<and> v \<le> 255 \<and> (\<forall>f\<in>set fields. f \<le> 255) \<and> length fields \<le> 3"

lemma decimal_length_1: "length (decimal v) = 1 \<longleftrightarrow> v < 10"
  by (subst decimal.simps) simp

lemma ipv4Read_digit:
  assumes "ipv4Read rd prev v digLen fields (c # cs)" and c: "isDigit c"
    and "\<not> (digLen = 1 \<and> v = 0)" and "v * 10 + digitVal c \<le> 255"
  shows "ipv4Read (rd @ [c]) (Some c) (v * 10 + digitVal c) (Suc digLen) fields cs"
proof (cases "digLen = 0")
  case True
  with assms show ?thesis
    by (auto simp: ipv4Read_def decimal_0_9 digit_char)
next
  case False
  with assms have "v \<noteq> 0" by (cases "v = 0") (auto simp: ipv4Read_def decimal_0_9)
  with False assms show ?thesis
    by (auto simp: ipv4Read_def decimal_snoc digit_char)
qed

lemma ipv4Read_dot:
  assumes "ipv4Read rd prev v digLen fields (CHR ''.'' # cs)"
    and "prev \<noteq> None" and "prev \<noteq> Some (CHR ''.'')" and "cs \<noteq> []" and "length fields \<noteq> 3"
  shows "ipv4Read (rd @ ''.'') (Some (CHR ''.'')) 0 0 (fields @ [v]) cs"
proof -
  have "digLen \<noteq> 0"
  proof
    assume "digLen = 0"
    then have "rd = concat (map (\<lambda>f. decimal f @ ''.'') fields)" "rd \<noteq> []" "last rd \<noteq> CHR ''.''"
      using assms by (auto simp: ipv4Read_def split: if_splits)
    then show False by (cases fields rule: rev_cases) auto
  qed
  with assms show ?thesis by (auto simp: ipv4Read_def)
qed

lemma ipv4Loop_sound:
  assumes "ipv4Loop inp prev v digLen fields s = Inr fs" and "ipv4Read rd prev v digLen fields s"
  shows "rd @ s = dotted fs \<and> length fs = 4 \<and> (\<forall>f\<in>set fs. f \<le> 255)"
  using assms
proof (induction s arbitrary: rd prev v digLen fields)
  case Nil
  then have "length fields = 3" "fs = fields @ [v]" "digLen \<noteq> 0"
    by (auto simp: ipv4Read_def split: if_splits)
  with Nil.prems(2) show ?case by (auto simp: ipv4Read_def dotted_def)
next
  case (Cons c cs)
  show ?case
  proof (cases "isDigit c")
    case True
    with Cons.prems(1) have "\<not> (digLen = 1 \<and> v = 0)" "v * 10 + digitVal c \<le> 255"
      and *: "ipv4Loop inp (Some c) (v * 10 + digitVal c) (Suc digLen) fields cs = Inr fs"
      by (auto split: if_splits)
    from Cons.IH [OF * ipv4Read_digit [OF Cons.prems(2) True this(1,2)]] show ?thesis by simp
  next
    case False
    with Cons.prems(1) have "prev \<noteq> None" "prev \<noteq> Some (CHR ''.'')" "cs \<noteq> []" "length fields \<noteq> 3"
      and dot: "c = CHR ''.''"
      and *: "ipv4Loop inp (Some c) 0 0 (fields @ [v]) cs = Inr fs"
      by (auto split: if_splits)
    from Cons.IH [OF * [unfolded dot] ipv4Read_dot [OF Cons.prems(2) [unfolded dot] this(1-4)]] dot
    show ?thesis by simp
  qed
qed

lemma ipv4Loop_octet:
  assumes "w \<le> 255"
  shows "ipv4Loop inp prev 0 0 fields (decimal w @ rest) =
    ipv4Loop inp (Some (last (decimal w))) w (length (decimal w)) fields rest"
  using assms
proof (induction w arbitrary: rest rule: decimal.induct)
  case (1 n)
  show ?case
  proof (cases "n < 10")
    case True
    with 1 show ?thesis by (simp add: decimal_0_9 char_digit)
  next
    case False
    have "n div 10 \<noteq> 0" using False by (simp add: div_eq_0_iff)
    moreover have "n div 10 * 10 + n mod 10 = n" by simp
    ultimately show ?thesis using False "1.IH" [OF False, of "digitChar (n mod 10) # rest"] "1.prems"
      by (simp add: char_digit decimal_ge)
  qed
qed

lemma last_decimal: "isDigit (last (decimal n))"
  by (rule decimal_digits [of _ n]) simp

lemma ipv4_complete:
  assumes "length fs = 4" and "\<forall>f\<in>set fs. f \<le> 255"
  shows "ipv4Loop inp None 0 0 [] (dotted fs) = Inr fs"
proof -
  obtain a b c d where fs: "fs = [a, b, c, d]"
    using assms(1) by (auto simp: length_Suc_conv numeral_eq_Suc)
  have nd: "\<not> isDigit (CHR ''.'')" using digit_not_dot by blast
  show ?thesis
    using assms(2) last_decimal [THEN digit_not_dot]
    by (simp add: fs dotted_def ipv4Loop_octet ipv4Loop_octet [where rest = "[]", simplified] nd)
qed

lemma parseIPv4Fields_iff:
  "parseIPv4Fields inp s = Inr fs \<longleftrightarrow> length fs = 4 \<and> (\<forall>f\<in>set fs. f \<le> 255) \<and> s = dotted fs"
proof
  assume "parseIPv4Fields inp s = Inr fs"
  then show "length fs = 4 \<and> (\<forall>f\<in>set fs. f \<le> 255) \<and> s = dotted fs"
    using ipv4Loop_sound [of inp None 0 0 "[]" s fs "[]"]
    by (simp add: parseIPv4Fields_def ipv4Read_def)
qed (simp add: parseIPv4Fields_def ipv4_complete)

lemma scan_dotted:
  "\<forall>c\<in>set ds. isDigit c \<Longrightarrow> parseAddrScan inp (ds @ CHR ''.'' # rest) = parseIPv4 inp"
  by (induction ds) (auto simp: isDigit_def less_eq_char_def)

lemma map_sum_Addr4: "map_sum id Addr4 x = Inr (Addr4 fs) \<longleftrightarrow> x = Inr fs"
  by (cases x) auto

lemma scan_Addr4:
  "parseAddrScan inp s = Inr (Addr4 fs) \<Longrightarrow> parseIPv4Fields inp inp = Inr fs"
proof (induction inp s rule: parseAddrScan.induct)
  case (2 inp c cs)
  then show ?case
    by (auto simp: parseIPv4_def parseIPv6_def Let_def map_sum_Addr4 split: if_splits sum.splits)
qed simp


lemma ParseAddr_Addr4_iff:
  "ParseAddr s = Inr (Addr4 fs) \<longleftrightarrow> length fs = 4 \<and> (\<forall>f\<in>set fs. f \<le> 255) \<and> s = dotted fs"
proof
  assume "ParseAddr s = Inr (Addr4 fs)"
  then show "length fs = 4 \<and> (\<forall>f\<in>set fs. f \<le> 255) \<and> s = dotted fs"
    using scan_Addr4 parseIPv4Fields_iff by (simp add: ParseAddr_def)
next
  assume *: "length fs = 4 \<and> (\<forall>f\<in>set fs. f \<le> 255) \<and> s = dotted fs"
  then obtain f gs where "fs = f # gs" "gs \<noteq> []" by (auto simp: length_Suc_conv numeral_eq_Suc)
  then have "\<exists>rest. s = decimal f @ CHR ''.'' # rest" using * by (simp add: dotted_def)
  then show "ParseAddr s = Inr (Addr4 fs)"
    using scan_dotted [of "decimal f"] decimal_digits * parseIPv4Fields_iff [of s s fs]
    by (auto simp: ParseAddr_def parseIPv4_def)
qed

text \<open>The test the operator applies: the text parses and the address is IPv4.\<close>

definition isIPv4 :: "string \<Rightarrow> bool" where
  "isIPv4 s = (case ParseAddr s of Inl _ \<Rightarrow> False | Inr a \<Rightarrow> Is4 a)"

lemma isIPv4_iff: "isIPv4 s \<longleftrightarrow> (\<exists>fs. length fs = 4 \<and> (\<forall>f\<in>set fs. f \<le> 255) \<and> s = dotted fs)"
proof -
  have "isIPv4 s \<longleftrightarrow> (\<exists>fs. ParseAddr s = Inr (Addr4 fs))"
    by (auto simp: isIPv4_def Is4_def split: sum.splits addr.splits)
  then show ?thesis by (simp add: ParseAddr_Addr4_iff)
qed

end
