(* ===== verification/Webhook.thy ===== *)
theory Webhook
  imports Api_Types Netip
begin

text \<open>
  The admission webhooks (\<^verbatim>\<open>pkg/webhook/v1alpha1\<close>): defaulting and validation of both resources.
  \<open>validation.NameIsDNSLabel\<close> of apimachinery is the parameter \<open>dns\<close>: the list of its messages
  for a name, empty for an acceptable one; its flag says that the name is a prefix. The locale
  \<open>admission\<close> is the contract of a defaulter and a validator of one kind, interpreted for both.
\<close>

type_synonym dns_check = "string \<Rightarrow> bool \<Rightarrow> string list"

section \<open>Field errors\<close>

text \<open>
  \<open>field.Invalid\<close> and \<open>field.NotSupported\<close>, with the path, the rejected value and the detail. The
  detail of a rejected address is the error of \<open>netip.ParseAddr\<close>.
\<close>

datatype field_value = IntervalValue "interval option" | StringValue string

datatype detail = Detail string | AddrDetail addr_error

datatype field_error =
    InvalidField "string list" field_value detail
  | NotSupportedField "string list" field_value "string list"

text \<open>The error of a rejected object: \<open>apierrors.NewInvalid\<close> with its name and the field errors.\<close>

datatype admission_error = NewInvalid string "field_error list"

section \<open>RemoteCluster\<close>

definition DefaultKubeconfigSecretKey :: string where
  [const_defs]: "DefaultKubeconfigSecretKey = ''kubeconfig.yaml''"
definition DefaultNamespace :: string where [const_defs]: "DefaultNamespace = ''default''"
definition DefaultMonIDPrefix :: string where [const_defs]: "DefaultMonIDPrefix = ''ext-''"

definition setRemoteClusterSpecDefaults ::
  "remote_cluster_spec \<Rightarrow> string \<Rightarrow> remote_cluster_spec" where
  "setRemoteClusterSpecDefaults sp accessKeyRefName =
     (let sp1 = (if rcs_check_interval sp = None
                 then sp\<lparr>rcs_check_interval := Some time_Minute\<rparr> else sp);
          sp2 = (if rcs_timeout sp1 = None
                 then sp1\<lparr>rcs_timeout := Some (10 * time_Second)\<rparr> else sp1);
          sp3 = (if ks_key (rcs_access_key_ref sp2) = []
                 then sp2\<lparr>rcs_access_key_ref :=
                   (rcs_access_key_ref sp2)\<lparr>ks_key := DefaultKubeconfigSecretKey\<rparr>\<rparr> else sp2);
          sp4 = (if ks_name (rcs_access_key_ref sp3) = []
                 then sp3\<lparr>rcs_access_key_ref :=
                   (rcs_access_key_ref sp3)\<lparr>ks_name := accessKeyRefName\<rparr>\<rparr> else sp3)
      in if rcs_namespace sp4 = [] then sp4\<lparr>rcs_namespace := DefaultNamespace\<rparr> else sp4)"

definition clusterDefault :: "remote_cluster \<Rightarrow> remote_cluster" where
  "clusterDefault rc =
     rc\<lparr>rc_spec := setRemoteClusterSpecDefaults (rc_spec rc) (om_name (rc_meta rc))\<rparr>"

text \<open>The two checks of an interval field.\<close>

definition intervalErrors :: "string list \<Rightarrow> interval option \<Rightarrow> string \<Rightarrow> field_error list" where
  "intervalErrors path v what =
     (case v of
        None \<Rightarrow> [InvalidField path (IntervalValue v) (Detail (what @ '' should not be empty''))]
      | Some d \<Rightarrow>
          if d < 0 then [InvalidField path (IntervalValue v) (Detail (what @ '' should not be negative''))]
          else [])"

definition nameErrors ::
  "dns_check \<Rightarrow> string list \<Rightarrow> string \<Rightarrow> bool \<Rightarrow> string \<Rightarrow> field_error list" where
  "nameErrors dns path name prefix reported =
     map (\<lambda>m. InvalidField path (StringValue reported) (Detail m)) (dns name prefix)"

definition validateRemoteClusterSpec ::
  "dns_check \<Rightarrow> remote_cluster_spec \<Rightarrow> string list \<Rightarrow> field_error list" where
  "validateRemoteClusterSpec dns sp rootPath =
     intervalErrors (rootPath @ [''checkInterval'']) (rcs_check_interval sp) ''check interval''
     @ intervalErrors (rootPath @ [''timeout'']) (rcs_timeout sp) ''timeout''
     @ nameErrors dns (rootPath @ [''namespace'']) (rcs_namespace sp) False (rcs_namespace sp)
     @ nameErrors dns (rootPath @ [''accessKeyRef'', ''name'']) (ks_name (rcs_access_key_ref sp)) False
         (ks_name (rcs_access_key_ref sp))"

definition clusterValidate :: "dns_check \<Rightarrow> remote_cluster \<Rightarrow> admission_error option" where
  "clusterValidate dns rc =
     (let errs = validateRemoteClusterSpec dns (rc_spec rc) [''spec'']
      in if length errs > 0 then Some (NewInvalid (om_name (rc_meta rc)) errs) else None)"

definition clusterValidateCreate :: "dns_check \<Rightarrow> remote_cluster \<Rightarrow> admission_error option" where
  "clusterValidateCreate dns rc = clusterValidate dns rc"

definition clusterValidateUpdate ::
  "dns_check \<Rightarrow> remote_cluster \<Rightarrow> remote_cluster \<Rightarrow> admission_error option" where
  "clusterValidateUpdate dns oldObj rc = clusterValidate dns rc"

definition clusterValidateDelete :: "dns_check \<Rightarrow> remote_cluster \<Rightarrow> admission_error option" where
  "clusterValidateDelete dns rc = clusterValidate dns rc"

section \<open>RemoteArbiter\<close>

text \<open>The five statements of the defaulter.\<close>

definition defaultCheckInterval :: "remote_arbiter_spec \<Rightarrow> remote_arbiter_spec" where
  "defaultCheckInterval sp =
     (if ras_check_interval sp = None then sp\<lparr>ras_check_interval := Some time_Minute\<rparr> else sp)"

definition defaultCephNamespace :: "string \<Rightarrow> remote_arbiter_spec \<Rightarrow> remote_arbiter_spec" where
  "defaultCephNamespace namespace sp =
     (if nr_namespace (ras_ceph_cluster sp) = []
      then sp\<lparr>ras_ceph_cluster := (ras_ceph_cluster sp)\<lparr>nr_namespace := namespace\<rparr>\<rparr> else sp)"

definition defaultMonIDPrefix :: "remote_arbiter_spec \<Rightarrow> remote_arbiter_spec" where
  "defaultMonIDPrefix sp =
     (if ras_mon_id_prefix sp = [] then sp\<lparr>ras_mon_id_prefix := DefaultMonIDPrefix\<rparr> else sp)"

definition defaultRemoteCluster :: "string \<Rightarrow> remote_arbiter_spec \<Rightarrow> remote_arbiter_spec" where
  "defaultRemoteCluster name sp =
     (case rcc_spec (ras_remote_cluster sp) of
        Some cs \<Rightarrow>
          if rcc_name (ras_remote_cluster sp) = []
          then sp\<lparr>ras_remote_cluster := (ras_remote_cluster sp)
                 \<lparr>rcc_spec := Some (setRemoteClusterSpecDefaults cs name)\<rparr>\<rparr>
          else sp
      | None \<Rightarrow> sp)"

definition defaultService :: "remote_arbiter_spec \<Rightarrow> remote_arbiter_spec" where
  "defaultService sp =
     (if ras_service sp = None
      then sp\<lparr>ras_service := Some \<lparr>sc_type = ServiceTypeClusterIP, sc_node_ip = []\<rparr>\<rparr> else sp)"

definition arbiterDefault :: "remote_arbiter \<Rightarrow> remote_arbiter" where
  "arbiterDefault ra = ra\<lparr>ra_spec :=
     defaultService (defaultRemoteCluster (om_name (ra_meta ra)) (defaultMonIDPrefix
       (defaultCephNamespace (om_namespace (ra_meta ra)) (defaultCheckInterval (ra_spec ra)))))\<rparr>"

definition serviceTypes :: "string list" where
  "serviceTypes = [ServiceTypeClusterIP, ServiceTypeNodePort, ServiceTypeLoadBalancer]"

definition serviceErrors :: "string list \<Rightarrow> service_configuration \<Rightarrow> field_error list" where
  "serviceErrors rootPath sc =
     (if sc_type sc \<in> set serviceTypes then []
      else if sc_type sc = [] then
        [InvalidField (rootPath @ [''service'', ''type'']) (StringValue (sc_type sc))
           (Detail ''service type should not be empty'')]
      else [NotSupportedField (rootPath @ [''service'', ''type'']) (StringValue (sc_type sc)) serviceTypes])
     @ (if sc_type sc = ServiceTypeNodePort then
          (case ParseAddr (sc_node_ip sc) of
             Inl err \<Rightarrow> [InvalidField (rootPath @ [''service'', ''nodeIp''])
                          (StringValue (sc_node_ip sc)) (AddrDetail err)]
           | Inr parsedIP \<Rightarrow>
               if \<not> Is4 parsedIP then
                 [InvalidField (rootPath @ [''service'', ''nodeIp'']) (StringValue (sc_node_ip sc))
                    (Detail ''should be IPv4 address'')]
               else [])
        else [])"

text \<open>
  Two of the checks report a value of another field: the name of the Ceph cluster for its
  namespace, the name of the remote cluster for the prefix of the monitor identifiers.
\<close>

definition validateRemoteArbiterSpec ::
  "dns_check \<Rightarrow> remote_arbiter_spec \<Rightarrow> string list \<Rightarrow> field_error list" where
  "validateRemoteArbiterSpec dns sp rootPath =
     (let ceph = ras_ceph_cluster sp; rcl = ras_remote_cluster sp in
      intervalErrors (rootPath @ [''checkInterval'']) (ras_check_interval sp) ''check interval''
      @ nameErrors dns (rootPath @ [''cephCluster'', ''name'']) (nr_name ceph) False (nr_name ceph)
      @ nameErrors dns (rootPath @ [''cephCluster'', ''namespace'']) (nr_namespace ceph) False (nr_name ceph)
      @ nameErrors dns (rootPath @ [''monIdPrefix'']) (ras_mon_id_prefix sp) True (rcc_name rcl)
      @ (if rcc_name rcl = [] \<and> rcc_spec rcl = None then
           [InvalidField (rootPath @ [''remoteCluster'', ''name'']) (StringValue (rcc_name rcl))
              (Detail ''should provide only one of: remote cluster name or spec''),
            InvalidField (rootPath @ [''remoteCluster'', ''spec'']) (StringValue (rcc_name rcl))
              (Detail ''should provide only one of: remote cluster name or spec'')]
         else [])
      @ (if rcc_name rcl \<noteq> [] then
           nameErrors dns (rootPath @ [''remoteCluster'', ''name'']) (rcc_name rcl) False (rcc_name rcl)
         else [])
      @ (case rcc_spec rcl of
           None \<Rightarrow> []
         | Some cs \<Rightarrow> validateRemoteClusterSpec dns cs (rootPath @ [''remoteCluster'', ''spec'']))
      @ (case ras_service sp of None \<Rightarrow> [] | Some sc \<Rightarrow> serviceErrors rootPath sc))"

definition arbiterValidate :: "dns_check \<Rightarrow> remote_arbiter \<Rightarrow> admission_error option" where
  "arbiterValidate dns ra =
     (let errs = validateRemoteArbiterSpec dns (ra_spec ra) [''spec'']
      in if length errs > 0 then Some (NewInvalid (om_name (ra_meta ra)) errs) else None)"

definition arbiterValidateCreate :: "dns_check \<Rightarrow> remote_arbiter \<Rightarrow> admission_error option" where
  "arbiterValidateCreate dns ra = arbiterValidate dns ra"

definition arbiterValidateUpdate ::
  "dns_check \<Rightarrow> remote_arbiter \<Rightarrow> remote_arbiter \<Rightarrow> admission_error option" where
  "arbiterValidateUpdate dns oldObj ra = arbiterValidate dns ra"

definition arbiterValidateDelete :: "dns_check \<Rightarrow> remote_arbiter \<Rightarrow> admission_error option" where
  "arbiterValidateDelete dns ra = arbiterValidate dns ra"

section \<open>Acceptance\<close>

lemma intervalErrors_Nil: "intervalErrors path v what = [] \<longleftrightarrow> (\<exists>d. v = Some d \<and> 0 \<le> d)"
  by (auto simp: intervalErrors_def split: option.splits)

lemma nameErrors_Nil: "nameErrors dns path name prefix reported = [] \<longleftrightarrow> dns name prefix = []"
  by (simp add: nameErrors_def)

lemma serviceErrors_Nil:
  "serviceErrors rootPath sc = [] \<longleftrightarrow>
     sc_type sc \<in> set serviceTypes \<and> (sc_type sc = ServiceTypeNodePort \<longrightarrow> isIPv4 (sc_node_ip sc))"
  by (auto simp: serviceErrors_def isIPv4_def split: sum.splits if_splits)

text \<open>What the validator accepts of the spec of a remote cluster.\<close>

definition clusterSpecOk :: "dns_check \<Rightarrow> remote_cluster_spec \<Rightarrow> bool" where
  "clusterSpecOk dns sp \<longleftrightarrow>
     (\<exists>d. rcs_check_interval sp = Some d \<and> 0 \<le> d) \<and> (\<exists>d. rcs_timeout sp = Some d \<and> 0 \<le> d) \<and>
     dns (rcs_namespace sp) False = [] \<and> dns (ks_name (rcs_access_key_ref sp)) False = []"

lemma validateRemoteClusterSpec_Nil:
  "validateRemoteClusterSpec dns sp path = [] \<longleftrightarrow> clusterSpecOk dns sp"
  by (simp add: validateRemoteClusterSpec_def intervalErrors_Nil nameErrors_Nil clusterSpecOk_def)

lemma clusterValidate_None: "clusterValidate dns rc = None \<longleftrightarrow> clusterSpecOk dns (rc_spec rc)"
  by (simp add: clusterValidate_def Let_def validateRemoteClusterSpec_Nil)

lemma arbiterValidate_None_iff_Nil:
  "arbiterValidate dns ra = None \<longleftrightarrow> validateRemoteArbiterSpec dns (ra_spec ra) [''spec''] = []"
  by (simp add: arbiterValidate_def Let_def)

section \<open>The contract of admission\<close>

text \<open>
  Admission stores \<open>dflt x\<close> if the validator does not object to it. Defaulting must be stable,
  otherwise an update that changes nothing would change the object.
\<close>

locale admission =
  fixes dflt :: "'o \<Rightarrow> 'o" and check :: "'o \<Rightarrow> admission_error option"
  assumes dflt_idem: "dflt (dflt x) = dflt x"
begin

definition admit :: "'o \<Rightarrow> admission_error + 'o" where
  "admit x = (case check (dflt x) of None \<Rightarrow> Inr (dflt x) | Some e \<Rightarrow> Inl e)"

lemma admit_iff: "admit x = Inr y \<longleftrightarrow> y = dflt x \<and> check y = None"
  by (auto simp: admit_def split: option.splits)

text \<open>An admitted object is admitted again, unchanged.\<close>

lemma admit_stable: "admit x = Inr y \<Longrightarrow> admit y = Inr y"
  by (auto simp: admit_iff dflt_idem)

end

lemma setRemoteClusterSpecDefaults_sel:
  "rcs_check_interval (setRemoteClusterSpecDefaults sp n) =
     (case rcs_check_interval sp of None \<Rightarrow> Some time_Minute | Some d \<Rightarrow> Some d)"
  "rcs_timeout (setRemoteClusterSpecDefaults sp n) =
     (case rcs_timeout sp of None \<Rightarrow> Some (10 * time_Second) | Some d \<Rightarrow> Some d)"
  "rcs_namespace (setRemoteClusterSpecDefaults sp n) =
     (if rcs_namespace sp = [] then DefaultNamespace else rcs_namespace sp)"
  "ks_name (rcs_access_key_ref (setRemoteClusterSpecDefaults sp n)) =
     (if ks_name (rcs_access_key_ref sp) = [] then n else ks_name (rcs_access_key_ref sp))"
  "ks_key (rcs_access_key_ref (setRemoteClusterSpecDefaults sp n)) =
     (if ks_key (rcs_access_key_ref sp) = [] then DefaultKubeconfigSecretKey
      else ks_key (rcs_access_key_ref sp))"
  by (simp_all add: setRemoteClusterSpecDefaults_def Let_def split: option.split)

text \<open>
  A second round of defaults changes nothing: a field that is still empty was given an empty
  default, which it is given again.
\<close>

lemma setRemoteClusterSpecDefaults_idem [simp]:
  "setRemoteClusterSpecDefaults (setRemoteClusterSpecDefaults sp n) n = setRemoteClusterSpecDefaults sp n"
  by (rule remote_cluster_spec.equality)
    (auto intro!: kubeconfig_secret_source.equality
      simp: setRemoteClusterSpecDefaults_sel const_defs split: option.split)

lemma clusterDefault_idem: "clusterDefault (clusterDefault rc) = clusterDefault rc"
  by (simp add: clusterDefault_def)

lemma arbiterDefault_meta [simp]: "ra_meta (arbiterDefault ra) = ra_meta ra"
  by (simp add: arbiterDefault_def Let_def)

text \<open>Each statement sets its own field and leaves the others.\<close>

lemma defaultCheckInterval_sel [simp]:
  "ras_check_interval (defaultCheckInterval sp) =
     (case ras_check_interval sp of None \<Rightarrow> Some time_Minute | Some d \<Rightarrow> Some d)"
  "ras_ceph_cluster (defaultCheckInterval sp) = ras_ceph_cluster sp"
  "ras_mon_id_prefix (defaultCheckInterval sp) = ras_mon_id_prefix sp"
  "ras_remote_cluster (defaultCheckInterval sp) = ras_remote_cluster sp"
  "ras_service (defaultCheckInterval sp) = ras_service sp"
  "ras_deployment (defaultCheckInterval sp) = ras_deployment sp"
  by (auto simp: defaultCheckInterval_def)

lemma defaultCephNamespace_sel [simp]:
  "ras_check_interval (defaultCephNamespace ns sp) = ras_check_interval sp"
  "nr_namespace (ras_ceph_cluster (defaultCephNamespace ns sp)) =
     (if nr_namespace (ras_ceph_cluster sp) = [] then ns else nr_namespace (ras_ceph_cluster sp))"
  "nr_name (ras_ceph_cluster (defaultCephNamespace ns sp)) = nr_name (ras_ceph_cluster sp)"
  "ras_mon_id_prefix (defaultCephNamespace ns sp) = ras_mon_id_prefix sp"
  "ras_remote_cluster (defaultCephNamespace ns sp) = ras_remote_cluster sp"
  "ras_service (defaultCephNamespace ns sp) = ras_service sp"
  "ras_deployment (defaultCephNamespace ns sp) = ras_deployment sp"
  by (auto simp: defaultCephNamespace_def)

lemma defaultMonIDPrefix_sel [simp]:
  "ras_check_interval (defaultMonIDPrefix sp) = ras_check_interval sp"
  "ras_ceph_cluster (defaultMonIDPrefix sp) = ras_ceph_cluster sp"
  "ras_mon_id_prefix (defaultMonIDPrefix sp) =
     (if ras_mon_id_prefix sp = [] then DefaultMonIDPrefix else ras_mon_id_prefix sp)"
  "ras_remote_cluster (defaultMonIDPrefix sp) = ras_remote_cluster sp"
  "ras_service (defaultMonIDPrefix sp) = ras_service sp"
  "ras_deployment (defaultMonIDPrefix sp) = ras_deployment sp"
  by (auto simp: defaultMonIDPrefix_def)

lemma defaultRemoteCluster_sel [simp]:
  "ras_check_interval (defaultRemoteCluster n sp) = ras_check_interval sp"
  "ras_ceph_cluster (defaultRemoteCluster n sp) = ras_ceph_cluster sp"
  "ras_mon_id_prefix (defaultRemoteCluster n sp) = ras_mon_id_prefix sp"
  "rcc_name (ras_remote_cluster (defaultRemoteCluster n sp)) = rcc_name (ras_remote_cluster sp)"
  "rcc_spec (ras_remote_cluster (defaultRemoteCluster n sp)) =
     (case rcc_spec (ras_remote_cluster sp) of None \<Rightarrow> None
      | Some cs \<Rightarrow> Some (if rcc_name (ras_remote_cluster sp) = []
                         then setRemoteClusterSpecDefaults cs n else cs))"
  "ras_service (defaultRemoteCluster n sp) = ras_service sp"
  "ras_deployment (defaultRemoteCluster n sp) = ras_deployment sp"
  by (auto simp: defaultRemoteCluster_def split: option.split)

lemma defaultService_sel [simp]:
  "ras_check_interval (defaultService sp) = ras_check_interval sp"
  "ras_ceph_cluster (defaultService sp) = ras_ceph_cluster sp"
  "ras_mon_id_prefix (defaultService sp) = ras_mon_id_prefix sp"
  "ras_remote_cluster (defaultService sp) = ras_remote_cluster sp"
  "ras_service (defaultService sp) =
     (case ras_service sp of None \<Rightarrow> Some \<lparr>sc_type = ServiceTypeClusterIP, sc_node_ip = []\<rparr>
      | Some sc \<Rightarrow> Some sc)"
  "ras_deployment (defaultService sp) = ras_deployment sp"
  by (auto simp: defaultService_def)

lemma arbiterDefault_idem: "arbiterDefault (arbiterDefault ra) = arbiterDefault ra"
proof (rule remote_arbiter.equality)
  show "ra_spec (arbiterDefault (arbiterDefault ra)) = ra_spec (arbiterDefault ra)"
    unfolding arbiterDefault_def
    by (rule remote_arbiter_spec.equality)
      (auto simp: const_defs intro!: namespaced_reference.equality remote_cluster_configuration.equality
        split: option.split)
qed (simp_all add: arbiterDefault_def)

interpretation cadm: admission clusterDefault "clusterValidate dns" for dns
  by unfold_locales (rule clusterDefault_idem)

interpretation aadm: admission arbiterDefault "arbiterValidate dns" for dns
  by unfold_locales (rule arbiterDefault_idem)

section \<open>Properties\<close>

definition demo_arbiter_spec :: remote_arbiter_spec where
  "demo_arbiter_spec = \<lparr>ras_deployment = \<lparr>pc_affinity = None, pc_resources = None, pc_node_selector = None\<rparr>,
     ras_service = None, ras_check_interval = None,
     ras_ceph_cluster = \<lparr>nr_namespace = [], nr_name = ''rook-ceph''\<rparr>,
     ras_remote_cluster = \<lparr>rcc_spec = Some \<lparr>rcs_timeout = None, rcs_check_interval = None,
       rcs_access_key_ref = \<lparr>ks_name = [], ks_key = []\<rparr>, rcs_namespace = []\<rparr>, rcc_name = []\<rparr>,
     ras_mon_id_prefix = []\<rparr>"

definition demo_arbiter :: remote_arbiter where
  "demo_arbiter = \<lparr>ra_meta = empty_meta\<lparr>om_name := ''arbiter'', om_namespace := ''rook-ceph''\<rparr>,
     ra_spec = demo_arbiter_spec,
     ra_status = \<lparr>st_state = [], st_message = [], st_conditions = [], st_mon_id = []\<rparr>\<rparr>"

text \<open>A check that refuses the empty name.\<close>

definition demo_dns :: dns_check where
  "demo_dns name prefix = (if name = [] then [''must not be empty''] else [])"

text \<open>
  C20: A RemoteArbiter is accepted exactly when its check interval is set and not negative, the
  names of the Ceph cluster and the prefix of the monitor identifiers are DNS labels, a remote
  cluster is given by a valid name or by a spec, a given spec is itself valid, and the service,
  if given, has one of the three supported types and, for a node port, a node address that is a
  canonical dotted decimal IPv4 address.
\<close>

theorem arbiter_accepted_iff:
  "arbiterValidateCreate dns ra = None \<longleftrightarrow>
     (\<exists>d. ras_check_interval (ra_spec ra) = Some d \<and> 0 \<le> d) \<and>
     dns (nr_name (ras_ceph_cluster (ra_spec ra))) False = [] \<and>
     dns (nr_namespace (ras_ceph_cluster (ra_spec ra))) False = [] \<and>
     dns (ras_mon_id_prefix (ra_spec ra)) True = [] \<and>
     (if rcc_name (ras_remote_cluster (ra_spec ra)) = []
      then rcc_spec (ras_remote_cluster (ra_spec ra)) \<noteq> None
      else dns (rcc_name (ras_remote_cluster (ra_spec ra))) False = []) \<and>
     (\<forall>cs. rcc_spec (ras_remote_cluster (ra_spec ra)) = Some cs \<longrightarrow>
        (\<exists>d. rcs_check_interval cs = Some d \<and> 0 \<le> d) \<and> (\<exists>d. rcs_timeout cs = Some d \<and> 0 \<le> d) \<and>
        dns (rcs_namespace cs) False = [] \<and> dns (ks_name (rcs_access_key_ref cs)) False = []) \<and>
     (\<forall>sc. ras_service (ra_spec ra) = Some sc \<longrightarrow>
        sc_type sc \<in> {ServiceTypeClusterIP, ServiceTypeNodePort, ServiceTypeLoadBalancer} \<and>
        (sc_type sc = ServiceTypeNodePort \<longrightarrow>
           (\<exists>fs. length fs = 4 \<and> (\<forall>f\<in>set fs. f \<le> 255) \<and> sc_node_ip sc = dotted fs)))"
  by (auto simp: arbiterValidateCreate_def arbiterValidate_None_iff_Nil validateRemoteArbiterSpec_def
      Let_def intervalErrors_Nil nameErrors_Nil serviceErrors_Nil validateRemoteClusterSpec_Nil
      clusterSpecOk_def isIPv4_iff serviceTypes_def split: option.split)

theorem arbiter_accepted_iff_witness:
  "arbiterValidateCreate demo_dns (demo_arbiter\<lparr>ra_spec := demo_arbiter_spec\<lparr>ras_check_interval := Some 0,
     ras_ceph_cluster := \<lparr>nr_namespace = ''rook-ceph'', nr_name = ''rook-ceph''\<rparr>, ras_mon_id_prefix := ''ext-'',
     ras_remote_cluster := \<lparr>rcc_spec = None, rcc_name = ''target''\<rparr>,
     ras_service := Some \<lparr>sc_type = ServiceTypeNodePort, sc_node_ip = ''10.0.0.255''\<rparr>\<rparr>\<rparr>) = None"
proof -
  have "dotted [10, 0, 0, 255] = ''10.0.0.255''" by code_simp
  then have "\<exists>fs. length fs = 4 \<and> (\<forall>f\<in>set fs. f \<le> 255) \<and> ''10.0.0.255'' = dotted fs"
    by (intro exI [of _ "[10, 0, 0, 255]"]) simp
  then show ?thesis
    unfolding arbiter_accepted_iff by (simp add: demo_dns_def)
qed

text \<open>
  A RemoteArbiter that names a Ceph cluster and gives a remote cluster spec, with every
  other field either left empty or valid, is accepted once the defaults are filled in, when the
  name and namespace of the resource itself are DNS labels.
\<close>

theorem default_then_accepted:
  assumes "dns (nr_name (ras_ceph_cluster (ra_spec ra))) False = []"
    and "rcc_name (ras_remote_cluster (ra_spec ra)) = []"
    and "rcc_spec (ras_remote_cluster (ra_spec ra)) = Some cs"
    and "\<And>d. Some d \<in> {ras_check_interval (ra_spec ra), rcs_check_interval cs, rcs_timeout cs} \<Longrightarrow> 0 \<le> d"
    and "\<And>n. n \<in> {nr_namespace (ras_ceph_cluster (ra_spec ra)), rcs_namespace cs,
           ks_name (rcs_access_key_ref cs)} \<Longrightarrow> n \<noteq> [] \<Longrightarrow> dns n False = []"
    and "ras_mon_id_prefix (ra_spec ra) \<noteq> [] \<Longrightarrow> dns (ras_mon_id_prefix (ra_spec ra)) True = []"
    and "ras_service (ra_spec ra) = None"
    and "dns (om_name (ra_meta ra)) False = []" and "dns (om_namespace (ra_meta ra)) False = []"
    and "dns DefaultMonIDPrefix True = []" and "dns DefaultNamespace False = []"
  shows "arbiterValidateCreate dns (arbiterDefault ra) = None"
  using assms
  by (auto simp: arbiterValidateCreate_def arbiterValidate_None_iff_Nil validateRemoteArbiterSpec_def
      arbiterDefault_def Let_def intervalErrors_Nil nameErrors_Nil serviceErrors_Nil
      validateRemoteClusterSpec_Nil clusterSpecOk_def serviceTypes_def
      setRemoteClusterSpecDefaults_sel time_Minute_def time_Second_def split: option.split)

theorem default_then_accepted_witness:
  "arbiterValidateCreate demo_dns (arbiterDefault demo_arbiter) = None"
  by (rule default_then_accepted)
    (auto simp: demo_arbiter_def demo_arbiter_spec_def demo_dns_def empty_meta_def const_defs)



text \<open>
  The validator accepts a remote cluster given both by name and by spec, although its own
  message asks for only one of the two.
\<close>

theorem name_and_spec_accepted:
  assumes "arbiterValidateCreate dns ra = None"
    and "rcc_name (ras_remote_cluster (ra_spec ra)) = []" and "dns name False = []" and "name \<noteq> []"
  shows "arbiterValidateCreate dns (ra\<lparr>ra_spec := (ra_spec ra)\<lparr>ras_remote_cluster :=
    (ras_remote_cluster (ra_spec ra))\<lparr>rcc_name := name\<rparr>\<rparr>\<rparr>) = None \<and>
    rcc_spec (ras_remote_cluster (ra_spec ra)) \<noteq> None"
  using assms
  by (auto simp: arbiterValidateCreate_def arbiterValidate_None_iff_Nil validateRemoteArbiterSpec_def
      Let_def nameErrors_Nil split: if_splits)

theorem name_and_spec_accepted_witness:
  "arbiterValidateCreate demo_dns ((arbiterDefault demo_arbiter)\<lparr>ra_spec :=
     (ra_spec (arbiterDefault demo_arbiter))\<lparr>ras_remote_cluster :=
     (ras_remote_cluster (ra_spec (arbiterDefault demo_arbiter)))\<lparr>rcc_name := ''target''\<rparr>\<rparr>\<rparr>) = None"
proof -
  have "arbiterValidateCreate demo_dns (arbiterDefault demo_arbiter) = None"
    "rcc_name (ras_remote_cluster (ra_spec (arbiterDefault demo_arbiter))) = []"
    "demo_dns ''target'' False = []"
    by code_simp+
  then show ?thesis
    by (intro name_and_spec_accepted [THEN conjunct1]) simp_all
qed

end
