(* ===== verification/Arbiter_Pod.thy ===== *)
theory Arbiter_Pod
  imports Api_Types Netip "HOL-Library.Multiset"
begin

text \<open>
  The functions of \<^verbatim>\<open>pkg/controller/remotearbiter_controller.go\<close> that build what runs on the target
  cluster and that touch no server: the public address, the rewriting of the cloned monitor's
  probes, containers and volumes, the deployment spec, the service ports, and the choice of the
  monitor to clone. A nil dereference or an index out of range of the code is \<open>Panic\<close>.
\<close>

section \<open>Constants\<close>

definition RemoteArbiterRestartAnnotation :: string where
  [const_defs]: "RemoteArbiterRestartAnnotation = ''ceph.cobaltcore.sap.com/restarted-at''"
definition RemoteArbiterResourceVersionLabel :: string where
  [const_defs]: "RemoteArbiterResourceVersionLabel = ''ceph.cobaltcore.sap.com/last-applied-resource-version''"
definition RemoteArbiterLookupLabel :: string where
  [const_defs]: "RemoteArbiterLookupLabel = ''ceph.cobaltcore.sap.com/lookup''"
definition RemoteArbiterRoleLabel :: string where
  [const_defs]: "RemoteArbiterRoleLabel = ''ceph.cobaltcore.sap.com/role''"
definition RemoteArbiterKeyringRole :: string where [const_defs]: "RemoteArbiterKeyringRole = ''keyring''"
definition RemoteArbiterEnvVarRole :: string where [const_defs]: "RemoteArbiterEnvVarRole = ''envvar''"
definition RemoteArbiterMonMapVolumeName :: string where
  [const_defs]: "RemoteArbiterMonMapVolumeName = ''arbiter-monmap''"
definition RemoteArbiterMonMapMountPath :: string where
  [const_defs]: "RemoteArbiterMonMapMountPath = ''/tmp/monmap''"

section \<open>The public address\<close>

text \<open>The loop over the ingress addresses of a load balancer.\<close>

fun firstIPv4 :: "string list \<Rightarrow> string option" where
  "firstIPv4 [] = None"
| "firstIPv4 (ip # ips) =
     (case ParseAddr ip of
        Inl _ \<Rightarrow> firstIPv4 ips
      | Inr parsedIP \<Rightarrow> if \<not> Is4 parsedIP then firstIPv4 ips else Some ip)"

definition determinePublicAddress ::
  "service option \<Rightarrow> service_configuration option \<Rightarrow> string res" where
  "determinePublicAddress arbiterService specService =
     (case arbiterService of
        None \<Rightarrow> Val ''$(ROOK_POD_IP)''
      | Some svc \<Rightarrow>
          if svc_type svc = ServiceTypeClusterIP then
            if svc_cluster_ip svc = [] then Err (ErrorText ''service cluster ip is not yet allocated'')
            else Val (svc_cluster_ip svc)
          else if svc_type svc = ServiceTypeNodePort then
            (case specService of None \<Rightarrow> Panic | Some sc \<Rightarrow> Val (sc_node_ip sc))
          else if svc_type svc = ServiceTypeLoadBalancer then
            if svc_ingress_ips svc = [] then Err (Sentinel ErrLoadBalancerAddressNotAllocated)
            else (case firstIPv4 (svc_ingress_ips svc) of
                Some ip \<Rightarrow> Val ip
              | None \<Rightarrow> Err (ErrorText ''load balancer ingress has no IPv4 address''))
          else Err (ErrorText (''unsupported service type '' @ svc_type svc)))"

text \<open>The loops of \<open>deploymentPublicAddress\<close>: the first argument with the prefix.\<close>

definition publicAddrPrefix :: string where [const_defs]: "publicAddrPrefix = ''--public-addr=''"

fun argWithPrefix :: "string \<Rightarrow> string list \<Rightarrow> string option" where
  "argWithPrefix p [] = None"
| "argWithPrefix p (a # as) = (if hasPrefix a p then Some (trimPrefix a p) else argWithPrefix p as)"

fun publicAddressOf :: "container list \<Rightarrow> string" where
  "publicAddressOf [] = []"
| "publicAddressOf (c # cs) =
     (case argWithPrefix publicAddrPrefix (c_args c) of Some a \<Rightarrow> a | None \<Rightarrow> publicAddressOf cs)"

definition deploymentPublicAddress :: "deployment \<Rightarrow> string" where
  "deploymentPublicAddress d = publicAddressOf (ps_containers (ds_pod (dep_spec d)))"

section \<open>Admin sockets in probes\<close>

text \<open>
  \<open>adminSocketPattern\<close>: one of eight daemon types, a dot, one or more characters of a class that
  contains the dot, and the suffix \<open>.asok\<close>. The class is matched greedily, so a match extends to
  the last suffix within the run of class characters. \<open>sockTail s\<close> is the number of characters
  of \<open>s\<close> before that suffix.
\<close>

definition daemonTypes :: "string list" where
  "daemonTypes = [''mon'', ''osd'', ''mds'', ''mgr'', ''rbd-mirror'', ''rgw'', ''nfs'', ''client'']"

definition asok :: string where "asok = ''.asok''"

definition sockChar :: "char \<Rightarrow> bool" where
  "sockChar c \<longleftrightarrow> CHR ''A'' \<le> c \<and> c \<le> CHR ''Z'' \<or> CHR ''a'' \<le> c \<and> c \<le> CHR ''z''
     \<or> CHR ''0'' \<le> c \<and> c \<le> CHR ''9'' \<or> c \<in> {CHR ''_'', CHR ''.'', CHR ''-''}"

fun sockTail :: "string \<Rightarrow> nat option" where
  "sockTail [] = None"
| "sockTail (c # cs) =
     (if sockChar c then
        (case sockTail cs of
           Some n \<Rightarrow> Some (Suc n)
         | None \<Rightarrow> if hasPrefix (c # cs) asok then Some 0 else None)
      else None)"

text \<open>The class and the suffix, after the dot of the daemon type.\<close>

definition sockRest :: "string \<Rightarrow> nat option" where
  "sockRest s =
     (case s of
        [] \<Rightarrow> None
      | c # cs \<Rightarrow> if sockChar c then map_option (\<lambda>n. Suc n + length asok) (sockTail cs) else None)"

text \<open>The match at the beginning of \<open>s\<close>: the text of the group and the length of the match.\<close>

fun sockMatch :: "string list \<Rightarrow> string \<Rightarrow> (string \<times> nat) option" where
  "sockMatch [] s = None"
| "sockMatch (t # ts) s =
     (if hasPrefix s (t @ ''.'') then
        (case sockRest (drop (length t + 1) s) of
           Some n \<Rightarrow> Some (t, length t + 1 + n)
         | None \<Rightarrow> sockMatch ts s)
      else sockMatch ts s)"

text \<open>
  \<open>Regexp.Expand\<close>: \<open>$name\<close> and \<open>${name}\<close> in the template stand for a group (the number 1 for the
  daemon type, 0 for the whole match, any other name for the empty text) and \<open>$$\<close> for a dollar.
  The template is a text over ASCII.
\<close>

definition nameChar :: "char \<Rightarrow> bool" where
  "nameChar c \<longleftrightarrow> CHR ''A'' \<le> c \<and> c \<le> CHR ''Z'' \<or> CHR ''a'' \<le> c \<and> c \<le> CHR ''z''
     \<or> CHR ''0'' \<le> c \<and> c \<le> CHR ''9'' \<or> c = CHR ''_''"

definition extractName :: "string \<Rightarrow> (string \<times> string) option" where
  "extractName s =
     (let brace = (s \<noteq> [] \<and> hd s = CHR ''{'');
          body = (if brace then tl s else s);
          name = takeWhile nameChar body;
          rest = dropWhile nameChar body
      in if name = [] then None
         else if brace then
           (if rest \<noteq> [] \<and> hd rest = CHR ''}'' then Some (name, tl rest) else None)
         else Some (name, rest))"

definition groupText :: "string \<Rightarrow> string \<Rightarrow> string \<Rightarrow> string" where
  "groupText whole grp name =
     (if name = ''0'' then whole else if name = ''1'' then grp else [])"

lemma extractName_shorter: "extractName s = Some (name, rest) \<Longrightarrow> length rest < length s"
proof -
  have less: "length (dropWhile nameChar b) < length b" if "takeWhile nameChar b \<noteq> []" for b
    using that by (cases b) (auto simp: le_imp_less_Suc length_dropWhile_le split: if_splits)
  assume "extractName s = Some (name, rest)"
  then show ?thesis
    using less [of s] less [of "tl s"]
    by (auto simp: extractName_def Let_def split: if_splits)
qed

function expandTemplate :: "string \<Rightarrow> string \<Rightarrow> string \<Rightarrow> string" where
  "expandTemplate whole grp [] = []"
| "expandTemplate whole grp (c # cs) =
     (if c \<noteq> CHR ''$'' then c # expandTemplate whole grp cs
      else if cs \<noteq> [] \<and> hd cs = CHR ''$'' then CHR ''$'' # expandTemplate whole grp (tl cs)
      else (case extractName cs of
          None \<Rightarrow> CHR ''$'' # expandTemplate whole grp cs
        | Some (name, rest) \<Rightarrow> groupText whole grp name @ expandTemplate whole grp rest))"
  by pat_completeness auto
termination
  by (relation "measure (\<lambda>(_, _, t). length t)") (auto simp: less_Suc_eq_le dest!: extractName_shorter)

text \<open>\<open>ReplaceAllString\<close>: from left to right, each match by the expanded template.\<close>

lemma sockMatch_pos: "sockMatch ts s = Some (g, n) \<Longrightarrow> 0 < n"
  by (induction ts) (auto split: if_splits option.splits)

function replaceSockets :: "string \<Rightarrow> string \<Rightarrow> string" where
  "replaceSockets tpl [] = []"
| "replaceSockets tpl (c # cs) =
     (case sockMatch daemonTypes (c # cs) of
        None \<Rightarrow> c # replaceSockets tpl cs
      | Some (g, n) \<Rightarrow>
          expandTemplate (take n (c # cs)) g tpl @ replaceSockets tpl (drop n (c # cs)))"
  by pat_completeness auto
termination
  by (relation "measure (\<lambda>(_, t). length t)") (auto dest!: sockMatch_pos simp: less_Suc_eq_le)

definition rewriteProbe :: "string \<Rightarrow> probe option \<Rightarrow> probe option" where
  "rewriteProbe monID p =
     (case p of
        None \<Rightarrow> None
      | Some pr \<Rightarrow>
          (case pb_exec pr of
             None \<Rightarrow> Some pr
           | Some cmd \<Rightarrow> Some (pr\<lparr>pb_exec :=
               Some (map (replaceSockets (''mon.'' @ monID @ asok)) cmd)\<rparr>)))"

definition rewriteProbeSockets :: "container \<Rightarrow> string \<Rightarrow> container" where
  "rewriteProbeSockets c monID =
     c\<lparr>c_startup_probe := rewriteProbe monID (c_startup_probe c),
       c_liveness_probe := rewriteProbe monID (c_liveness_probe c),
       c_readiness_probe := rewriteProbe monID (c_readiness_probe c)\<rparr>"

section \<open>Containers\<close>

definition monDataPath :: "string \<Rightarrow> string" where
  "monDataPath monID = ''/var/lib/ceph/mon/ceph-'' @ monID"

text \<open>Only the first mount of the data volume is moved.\<close>

fun rewriteMounts :: "string \<Rightarrow> volume_mount list \<Rightarrow> volume_mount list" where
  "rewriteMounts monID [] = []"
| "rewriteMounts monID (m # ms) =
     (if vm_name m = ''ceph-daemon-data'' then m\<lparr>vm_mount_path := monDataPath monID\<rparr> # ms
      else m # rewriteMounts monID ms)"

definition monMapVolumeMount :: volume_mount where
  "monMapVolumeMount = \<lparr>vm_name = RemoteArbiterMonMapVolumeName,
     vm_mount_path = RemoteArbiterMonMapMountPath, vm_rest = []\<rparr>"

definition rewriteArg :: "string \<Rightarrow> string \<Rightarrow> string \<Rightarrow> string" where
  "rewriteArg monID publicAddress a =
     (if hasPrefix a ''--id='' then ''--id='' @ monID
      else if hasPrefix a ''/var/lib/ceph/mon/ceph-'' then ''/var/lib/ceph/mon/ceph-'' @ monID
      else if hasPrefix a ''--setuser-match-path='' then
        ''--setuser-match-path=/var/lib/ceph/mon/ceph-'' @ monID @ ''/store.db''
      else if hasPrefix a publicAddrPrefix then publicAddrPrefix @ publicAddress
      else a)"

definition droppedArg :: "string \<Rightarrow> bool" where
  "droppedArg a \<longleftrightarrow> hasPrefix a ''--mon-host'' \<or> hasPrefix a ''--mon-initial-members''"

definition monMapArg :: string where "monMapArg = ''--monmap=/tmp/monmap/ext.monmap''"

definition rewriteArgs :: "string \<Rightarrow> string \<Rightarrow> string \<Rightarrow> string list \<Rightarrow> string list" where
  "rewriteArgs name monID publicAddress args =
     filter (\<lambda>a. \<not> droppedArg a) (map (rewriteArg monID publicAddress) args)
     @ (if name \<noteq> ''chown-container-data-dir'' then [monMapArg] else [])"

definition rewriteEnvVar :: "string \<Rightarrow> env_var \<Rightarrow> env_var" where
  "rewriteEnvVar envVarSecretName e =
     (case ev_value_from e of
        None \<Rightarrow> e
      | Some src \<Rightarrow>
          (case evs_secret_key_ref src of
             None \<Rightarrow> e
           | Some ref \<Rightarrow> e\<lparr>ev_value_from :=
               Some (src\<lparr>evs_secret_key_ref := Some (ref\<lparr>skr_name := envVarSecretName\<rparr>)\<rparr>)\<rparr>))"

definition podIPEnvVar :: env_var where
  "podIPEnvVar = \<lparr>ev_name = ''ROOK_POD_IP'', ev_value = [],
     ev_value_from = Some \<lparr>evs_secret_key_ref = None,
       evs_field_ref = Some \<lparr>fr_api_version = ''v1'', fr_field_path = ''status.podIP''\<rparr>\<rparr>\<rparr>"

definition rewriteEnv :: "string \<Rightarrow> env_var list \<Rightarrow> env_var list" where
  "rewriteEnv envVarSecretName es =
     map (rewriteEnvVar envVarSecretName) es
     @ (if \<exists>e\<in>set es. ev_name e = ''ROOK_POD_IP'' then [] else [podIPEnvVar])"

text \<open>The body of the loop of \<open>modifyContainers\<close>.\<close>

definition modifyContainer :: "string \<Rightarrow> string \<Rightarrow> string \<Rightarrow> container \<Rightarrow> container" where
  "modifyContainer monID envVarSecretName publicAddress c =
     (rewriteProbeSockets
        (c\<lparr>c_volume_mounts := rewriteMounts monID (c_volume_mounts c) @ [monMapVolumeMount],
           c_args := rewriteArgs (c_name c) monID publicAddress (c_args c)\<rparr>) monID)
     \<lparr>c_env := rewriteEnv envVarSecretName (c_env c)\<rparr>"

definition modifyContainers ::
  "container list \<Rightarrow> string \<Rightarrow> string \<Rightarrow> string \<Rightarrow> container list" where
  "modifyContainers cs monID envVarSecretName publicAddress =
     map (modifyContainer monID envVarSecretName publicAddress) cs"

definition secretEnvVar :: "string \<Rightarrow> string \<Rightarrow> string \<Rightarrow> env_var" where
  "secretEnvVar name secretName key = \<lparr>ev_name = name, ev_value = [],
     ev_value_from = Some \<lparr>evs_secret_key_ref = Some \<lparr>skr_name = secretName, skr_key = key\<rparr>,
       evs_field_ref = None\<rparr>\<rparr>"

definition getMonMapInitContainer :: "string \<Rightarrow> string \<Rightarrow> string \<Rightarrow> container" where
  "getMonMapInitContainer fsid img envVarSecretName = \<lparr>
     c_name = ''init-monmap'', c_image = img, c_image_pull_policy = ''IfNotPresent'',
     c_command = [''monmaptool''],
     c_args = [''--create'', ''--clobber'', ''--set-initial-members'', ''--fsid'', fsid, ''--addv'',
       ''$(ROOK_CEPH_MON_INITIAL_MEMBERS)'', ''$(ROOK_CEPH_MON_HOST)'', ''/tmp/monmap/ext.monmap''],
     c_env = [secretEnvVar ''ROOK_CEPH_MON_HOST'' envVarSecretName ''mon_host'',
       secretEnvVar ''ROOK_CEPH_MON_INITIAL_MEMBERS'' envVarSecretName ''mon_initial_members''],
     c_volume_mounts = [monMapVolumeMount],
     c_startup_probe = None, c_liveness_probe = None, c_readiness_probe = None,
     c_security_context = Some \<lparr>secctx_drop = [''NET_RAW''], secctx_privileged = Some False\<rparr>,
     c_rest = []\<rparr>"

section \<open>The deployment spec\<close>

definition rewriteVolume ::
  "string \<Rightarrow> configmap option \<Rightarrow> secret option \<Rightarrow> volume \<Rightarrow> (volume \<times> bool) res" where
  "rewriteVolume monID overrideConfigMap keyringSecret v =
     (if vol_name v = ''rook-config-override'' then
        (case (vol_projected v, overrideConfigMap) of
           (Some (Some _ # sources), Some cm) \<Rightarrow>
             Val (v\<lparr>vol_projected := Some (Some (om_name (cm_meta cm)) # sources)\<rparr>, True)
         | _ \<Rightarrow> Panic)
      else if vol_name v = ''rook-ceph-mons-keyring'' then
        (case (vol_secret v, keyringSecret) of
           (Some _, Some sec) \<Rightarrow> Val (v\<lparr>vol_secret := Some (om_name (sec_meta sec))\<rparr>, True)
         | _ \<Rightarrow> Panic)
      else if vol_name v = ''ceph-daemon-data'' then
        (case vol_host_path v of
           Some _ \<Rightarrow> Val (v\<lparr>vol_host_path := Some (''/var/lib/rook/mon-'' @ monID @ ''/data'')\<rparr>, True)
         | None \<Rightarrow> Panic)
      else Val (v, False))"

text \<open>The loop over the volumes is left after the third change.\<close>

fun rewriteVolumes ::
  "string \<Rightarrow> configmap option \<Rightarrow> secret option \<Rightarrow> nat \<Rightarrow> volume list \<Rightarrow> volume list res" where
  "rewriteVolumes monID cm sec volumesChanged [] = Val []"
| "rewriteVolumes monID cm sec volumesChanged (v # vs) =
     resBind (rewriteVolume monID cm sec v) (\<lambda>(v', changed).
       let n = (if changed then Suc volumesChanged else volumesChanged)
       in if n = 3 then Val (v' # vs)
          else resBind (rewriteVolumes monID cm sec n vs) (\<lambda>vs'. Val (v' # vs')))"

definition monMapVolume :: volume where
  "monMapVolume = \<lparr>vol_name = RemoteArbiterMonMapVolumeName, vol_secret = None, vol_projected = None,
     vol_host_path = None, vol_empty_dir = True, vol_rest = []\<rparr>"

text \<open>Image and \<open>--fsid\<close> argument of the first container called \<open>mon\<close>; empty where there is none.\<close>

fun monImageAndFsid :: "container list \<Rightarrow> string \<times> string" where
  "monImageAndFsid [] = ([], [])"
| "monImageAndFsid (c # cs) =
     (if c_name c \<noteq> ''mon'' then monImageAndFsid cs
      else (c_image c, case argWithPrefix ''--fsid='' (c_args c) of None \<Rightarrow> [] | Some f \<Rightarrow> f))"

text \<open>
  The address that goes into the spec. While a load balancer has none, an existing deployment
  keeps the one it has.
\<close>

definition specPublicAddress ::
  "service option \<Rightarrow> service_configuration option \<Rightarrow> deployment \<Rightarrow> string res" where
  "specPublicAddress svc specService arbiterDeployment =
     (case determinePublicAddress svc specService of
        Val a \<Rightarrow> Val a
      | Panic \<Rightarrow> Panic
      | Err e \<Rightarrow>
          if \<not> errorsIs e ErrLoadBalancerAddressNotAllocated \<or> deploymentPublicAddress arbiterDeployment = []
          then Err (Wrap ''unable to determine public address'' e)
          else Val (deploymentPublicAddress arbiterDeployment))"

text \<open>The cloned spec with everything that is replaced in it.\<close>

definition arbiterSpec ::
  "remote_arbiter \<Rightarrow> deployment \<Rightarrow> volume list \<Rightarrow> container list \<Rightarrow> container list \<Rightarrow> deployment_spec" where
  "arbiterSpec ra monitor volumes containers initContainers =
     (let podLabels = map_lit [(RemoteArbiterLookupLabel, om_name (ra_meta ra))]
      in (dep_spec monitor)\<lparr>ds_selector := Some podLabels,
           ds_template_meta := empty_meta\<lparr>om_labels := podLabels\<rparr>,
           ds_pod := (ds_pod (dep_spec monitor))
             \<lparr>ps_service_account_name := [], ps_deprecated_service_account := [],
              ps_node_selector := pc_node_selector (ras_deployment (ra_spec ra)),
              ps_affinity := pc_affinity (ras_deployment (ra_spec ra)),
              ps_resources := pc_resources (ras_deployment (ra_spec ra)),
              ps_volumes := volumes, ps_containers := containers,
              ps_init_containers := initContainers\<rparr>\<rparr>)"

text \<open>
  \<open>makeDeploymentSpec\<close>: the arbiter's deployment with the spec cloned from the monitor's and
  adapted. The deployment is unchanged when an error is returned.
\<close>

definition makeDeploymentSpec ::
  "remote_arbiter \<Rightarrow> service option \<Rightarrow> deployment \<Rightarrow> configmap option \<Rightarrow> secret option \<Rightarrow> secret option
     \<Rightarrow> deployment \<Rightarrow> deployment res" where
  "makeDeploymentSpec ra svc monitor overrideConfigMap keyringSecret envVarSecret arbiterDeployment =
     (let monID = st_mon_id (ra_status ra); pod = ds_pod (dep_spec monitor)
      in resBind (specPublicAddress svc (ras_service (ra_spec ra)) arbiterDeployment) (\<lambda>publicAddress.
         resBind (rewriteVolumes monID overrideConfigMap keyringSecret 0 (ps_volumes pod)) (\<lambda>volumes.
         (case envVarSecret of None \<Rightarrow> Panic | Some envSecret \<Rightarrow>
         let envName = om_name (sec_meta envSecret);
             containers = modifyContainers (ps_containers pod) monID envName publicAddress;
             initContainers = modifyContainers (ps_init_containers pod) monID envName publicAddress;
             (img, fsid) = monImageAndFsid containers
         in if fsid = [] then Err (ErrorText ''unable to determine fsid'')
            else if img = [] then Err (ErrorText ''unable to determine image'')
            else Val (arbiterDeployment\<lparr>dep_spec :=
              arbiterSpec ra monitor (volumes @ [monMapVolume]) containers
                (getMonMapInitContainer fsid img envName # initContainers)\<rparr>)))))"

section \<open>Service ports and choice of the monitor\<close>

definition arbiterServicePorts :: "string \<Rightarrow> service_port list" where
  "arbiterServicePorts serviceType =
     (let ports = [\<lparr>sp_name = ''tcp-msgr1'', sp_port = 6789, sp_protocol = ''TCP'', sp_target_port = 6789,
                    sp_node_port = 0\<rparr>,
                   \<lparr>sp_name = ''tcp-msgr2'', sp_port = 3300, sp_protocol = ''TCP'', sp_target_port = 3300,
                    sp_node_port = 0\<rparr>]
      in if serviceType = ServiceTypeNodePort then map (\<lambda>p. p\<lparr>sp_node_port := sp_port p\<rparr>) ports else ports)"

text \<open>
  The comparisons and assignments of \<open>reconcileArbiterService\<close>: the repaired service and whether
  anything was assigned.
\<close>

definition repairPort :: "string \<Rightarrow> service_port \<Rightarrow> service_port \<times> bool" where
  "repairPort desiredType p =
     (if desiredType = ServiceTypeNodePort then
        if sp_node_port p \<noteq> sp_port p then (p\<lparr>sp_node_port := sp_port p\<rparr>, True) else (p, False)
      else if desiredType = ServiceTypeLoadBalancer then (p, False)
      else if sp_node_port p \<noteq> 0 then (p\<lparr>sp_node_port := 0\<rparr>, True) else (p, False))"

definition repairService :: "string \<Rightarrow> service \<Rightarrow> service \<times> bool" where
  "repairService desiredType svc =
     (let ports = map (repairPort desiredType) (svc_ports svc)
      in (svc\<lparr>svc_type := desiredType, svc_ports := map fst ports\<rparr>,
          svc_type svc \<noteq> desiredType \<or> list_ex snd ports))"

definition selectTemplateMonDeployment :: "deployment list \<Rightarrow> deployment res" where
  "selectTemplateMonDeployment ds =
     (case sort_key (\<lambda>d. om_name (dep_meta d)) ds of [] \<Rightarrow> Panic | d # _ \<Rightarrow> Val d)"

end
