(* ===== verification/Kube_Client.thy ===== *)
theory Kube_Client
  imports Api_Types
begin

text \<open>
  The code the operator calls but does not contain, as parameters: the Kubernetes clients
  (controller-runtime and client-go), the condition and finalizer helpers of apimachinery and
  controller-runtime, and the clock. The API servers behind the clients are an arbitrary state
  \<open>'w\<close> that every call may change, and every call may fail. What the code relies on of the
  helpers is stated as the locales \<open>condition_lib\<close> and \<open>finalizer_lib\<close>.

  The wrappers at the end perform a call for a reconciler and append it to the log \<open>calls\<close> of
  its state. The log is what the safety properties speak about: it lists, in order, the calls
  that can change a cluster and the two kinds of probes sent to the target cluster.
\<close>

section \<open>Clients\<close>

datatype list_option =
    InNamespace string
  | MatchingLabels "(string \<times> string) list"
  | MatchingFields "(string \<times> string) list"

text \<open>
  The client of one kind of object. \<open>Create\<close>, \<open>Update\<close> and the status \<open>Update\<close> return the
  object as the server stored it: the Go client decodes the response into the argument.
\<close>

record ('o, 'w) kind_client =
  cl_get :: "key \<Rightarrow> 'w \<Rightarrow> (goerror + 'o) \<times> 'w"
  cl_list :: "list_option list \<Rightarrow> 'w \<Rightarrow> (goerror + 'o list) \<times> 'w"
  cl_create :: "'o \<Rightarrow> 'w \<Rightarrow> (goerror + 'o) \<times> 'w"
  cl_update :: "'o \<Rightarrow> 'w \<Rightarrow> (goerror + 'o) \<times> 'w"
  cl_status_update :: "'o \<Rightarrow> 'w \<Rightarrow> (goerror + 'o) \<times> 'w"
  cl_delete :: "'o \<Rightarrow> 'w \<Rightarrow> (goerror + unit) \<times> 'w"

text \<open>
  A \<open>client.Client\<close>; \<open>kc_gvk\<close> and \<open>kc_arbiter_gvk\<close> are \<open>GroupVersionKindFor\<close>, the text of the answer for
  the kinds handled as unstructured objects and API version and kind for a \<open>RemoteArbiter\<close>.
\<close>

record 'w kube_client =
  kc_secrets :: "(secret, 'w) kind_client"
  kc_configmaps :: "(configmap, 'w) kind_client"
  kc_services :: "(service, 'w) kind_client"
  kc_deployments :: "(deployment, 'w) kind_client"
  kc_cephclusters :: "(ceph_cluster, 'w) kind_client"
  kc_remoteclusters :: "(remote_cluster, 'w) kind_client"
  kc_remotearbiters :: "(remote_arbiter, 'w) kind_client"
  kc_unstructured :: "kind \<Rightarrow> (unstructured, 'w) kind_client"
  kc_gvk :: "kind \<Rightarrow> goerror + string"
  kc_arbiter_gvk :: "goerror + (string \<times> string)"

text \<open>The attributes of a \<open>SelfSubjectAccessReview\<close> and the status of the answer.\<close>

record resource_attributes =
  at_namespace :: string
  at_verb :: string
  at_group :: string
  at_version :: string
  at_resource :: string
  at_subresource :: string

record review_status =
  rv_allowed :: bool
  rv_reason :: string
  rv_evaluation_error :: string

record 'w clientset =
  cs_readyz :: "'w \<Rightarrow> (goerror + string) \<times> 'w"
  cs_access_review :: "resource_attributes \<Rightarrow> 'w \<Rightarrow> (goerror + review_status) \<times> 'w"

record rest_config =
  cfg_content :: string
  cfg_timeout :: interval

text \<open>\<open>lib_attributes_text\<close> is the \<open>String\<close> method of \<open>ResourceAttributes\<close>.\<close>

record k8s_lib =
  FindStatusCondition :: "condition list \<Rightarrow> string \<Rightarrow> condition option"
  SetStatusCondition :: "condition list \<Rightarrow> condition \<Rightarrow> condition list"
  IsStatusConditionPresentAndEqual :: "condition list \<Rightarrow> string \<Rightarrow> string \<Rightarrow> bool"
  AddFinalizer :: "string list \<Rightarrow> string \<Rightarrow> string list \<times> bool"
  RemoveFinalizer :: "string list \<Rightarrow> string \<Rightarrow> string list \<times> bool"
  ContainsFinalizer :: "string list \<Rightarrow> string \<Rightarrow> bool"
  GetControllerOf :: "owner_ref list \<Rightarrow> owner_ref option"
  NewControllerRef :: "object_meta \<Rightarrow> string \<times> string \<Rightarrow> owner_ref"
  lib_attributes_text :: "resource_attributes \<Rightarrow> string"

text \<open>Everything the reconcilers call outside the repository.\<close>

record 'w env =
  e_client :: "'w kube_client"
  RESTConfigFromKubeConfig :: "string \<Rightarrow> goerror + rest_config"
  NewForConfig :: "rest_config \<Rightarrow> goerror + 'w clientset"
  client_New :: "rest_config \<Rightarrow> 'w \<Rightarrow> (goerror + 'w kube_client) \<times> 'w"
  NewNamespacedClient :: "'w kube_client \<Rightarrow> string \<Rightarrow> 'w kube_client"
  e_now :: "'w \<Rightarrow> string"
  e_lib :: k8s_lib

section \<open>Documented behaviour of the helper libraries\<close>

text \<open>
  \<open>k8s.io/apimachinery/pkg/api/meta\<close>: conditions are keyed by their type, setting one
  inserts or replaces the entry of its type and leaves the others alone.
\<close>

locale condition_lib =
  fixes find :: "condition list \<Rightarrow> string \<Rightarrow> condition option"
    and put :: "condition list \<Rightarrow> condition \<Rightarrow> condition list"
    and present_equal :: "condition list \<Rightarrow> string \<Rightarrow> string \<Rightarrow> bool"
  assumes find_put_same: "find (put cs c) (cond_type c) = Some c"
    and find_put_other: "t \<noteq> cond_type c \<Longrightarrow> find (put cs c) t = find cs t"
    and length_put:
      "length (put cs c) = (if find cs (cond_type c) = None then Suc (length cs) else length cs)"
    and present_equal_iff:
      "present_equal cs t v \<longleftrightarrow> (\<exists>c. find cs t = Some c \<and> cond_status c = v)"
begin

lemma find_put: "find (put cs c) t = (if t = cond_type c then Some c else find cs t)"
  by (simp add: find_put_same find_put_other)

lemma present_equal_put:
  "present_equal (put cs c) t v \<longleftrightarrow>
     (if t = cond_type c then cond_status c = v else present_equal cs t v)"
  by (simp add: present_equal_iff find_put)

end

text \<open>\<open>sigs.k8s.io/controller-runtime/pkg/controller/controllerutil\<close>.\<close>

locale finalizer_lib =
  fixes add :: "string list \<Rightarrow> string \<Rightarrow> string list \<times> bool"
    and remove :: "string list \<Rightarrow> string \<Rightarrow> string list \<times> bool"
    and contains :: "string list \<Rightarrow> string \<Rightarrow> bool"
  assumes add_changed: "snd (add fs f) \<longleftrightarrow> f \<notin> set fs"
    and set_add: "set (fst (add fs f)) = insert f (set fs)"
    and add_same: "f \<in> set fs \<Longrightarrow> fst (add fs f) = fs"
    and remove_changed: "snd (remove fs f) \<longleftrightarrow> f \<in> set fs"
    and set_remove: "set (fst (remove fs f)) = set fs - {f}"
    and remove_same: "f \<notin> set fs \<Longrightarrow> fst (remove fs f) = fs"
    and contains_iff: "contains fs f \<longleftrightarrow> f \<in> set fs"

text \<open>The helper library \<open>L\<close> behaves as documented.\<close>

locale k8s_laws =
  cl: condition_lib "FindStatusCondition L" "SetStatusCondition L"
      "IsStatusConditionPresentAndEqual L" +
  fl: finalizer_lib "AddFinalizer L" "RemoveFinalizer L" "ContainsFinalizer L"
  for L :: k8s_lib

context k8s_laws
begin

lemma remove_finalizer_gone: "RemoveFinalizer L fs f = (gs, b) \<Longrightarrow> f \<notin> set gs"
  using fl.set_remove [of fs f] by simp

end

section \<open>The log of calls\<close>

datatype cluster = Source | Target

datatype object =
    SecretObj secret
  | ConfigMapObj configmap
  | ServiceObj service
  | DeploymentObj deployment
  | CephClusterObj ceph_cluster
  | RemoteClusterObj remote_cluster
  | RemoteArbiterObj remote_arbiter
  | UnstructuredObj unstructured

fun objectMeta :: "object \<Rightarrow> object_meta" where
  "objectMeta (SecretObj x) = sec_meta x"
| "objectMeta (ConfigMapObj x) = cm_meta x"
| "objectMeta (ServiceObj x) = svc_meta x"
| "objectMeta (DeploymentObj x) = dep_meta x"
| "objectMeta (CephClusterObj x) = ceph_meta x"
| "objectMeta (RemoteClusterObj x) = rc_meta x"
| "objectMeta (RemoteArbiterObj x) = ra_meta x"
| "objectMeta (UnstructuredObj x) = un_meta x"

text \<open>The flag of a write says whether the call succeeded.\<close>

datatype call =
    CreateCall cluster object bool
  | UpdateCall cluster object bool
  | StatusUpdateCall cluster object bool
  | DeleteCall cluster object bool
  | ReadyzCall "goerror + string"
  | ReviewCall resource_attributes "goerror + review_status"

text \<open>The part of a reconciler's state that all reconcilers share.\<close>

record 'w base =
  world :: 'w
  calls :: "call list"

definition isInr :: "'a + 'b \<Rightarrow> bool" where
  "isInr r = (case r of Inl _ \<Rightarrow> False | Inr _ \<Rightarrow> True)"

lemma isInr_simps [simp]: "\<not> isInr (Inl e)" "isInr (Inr x)"
  by (simp_all add: isInr_def)

section \<open>Calls as operations of the monad\<close>

text \<open>A call that only reads.\<close>

definition readCall ::
  "('w \<Rightarrow> (goerror + 'a) \<times> 'w) \<Rightarrow> (('w, 'z) base_scheme, 'a) go" where
  "readCall f = (\<lambda>s. let (r, w) = f (world s) in lift r (s\<lparr>world := w\<rparr>))"

text \<open>A call that is logged together with its outcome.\<close>

definition loggedCall ::
  "((goerror + 'a) \<Rightarrow> call) \<Rightarrow> ('w \<Rightarrow> (goerror + 'a) \<times> 'w) \<Rightarrow> (('w, 'z) base_scheme, 'a) go" where
  "loggedCall mk f = (\<lambda>s. let (r, w) = f (world s)
     in lift r (s\<lparr>world := w, calls := calls s @ [mk r]\<rparr>))"

definition apiGet ::
  "('o, 'w) kind_client \<Rightarrow> key \<Rightarrow> (('w, 'z) base_scheme, 'o) go" where
  "apiGet c k = readCall (cl_get c k)"

definition apiList ::
  "('o, 'w) kind_client \<Rightarrow> list_option list \<Rightarrow> (('w, 'z) base_scheme, 'o list) go" where
  "apiList c os = readCall (cl_list c os)"

definition apiCreate ::
  "cluster \<Rightarrow> ('o \<Rightarrow> object) \<Rightarrow> ('o, 'w) kind_client \<Rightarrow> 'o \<Rightarrow> (('w, 'z) base_scheme, 'o) go" where
  "apiCreate t mk c x = loggedCall (\<lambda>r. CreateCall t (mk x) (isInr r)) (cl_create c x)"

definition apiUpdate ::
  "cluster \<Rightarrow> ('o \<Rightarrow> object) \<Rightarrow> ('o, 'w) kind_client \<Rightarrow> 'o \<Rightarrow> (('w, 'z) base_scheme, 'o) go" where
  "apiUpdate t mk c x = loggedCall (\<lambda>r. UpdateCall t (mk x) (isInr r)) (cl_update c x)"

definition apiStatusUpdate ::
  "cluster \<Rightarrow> ('o \<Rightarrow> object) \<Rightarrow> ('o, 'w) kind_client \<Rightarrow> 'o \<Rightarrow> (('w, 'z) base_scheme, 'o) go" where
  "apiStatusUpdate t mk c x =
     loggedCall (\<lambda>r. StatusUpdateCall t (mk x) (isInr r)) (cl_status_update c x)"

definition apiDelete ::
  "cluster \<Rightarrow> ('o \<Rightarrow> object) \<Rightarrow> ('o, 'w) kind_client \<Rightarrow> 'o \<Rightarrow> (('w, 'z) base_scheme, unit) go" where
  "apiDelete t mk c x = loggedCall (\<lambda>r. DeleteCall t (mk x) (isInr r)) (cl_delete c x)"

lemma wp_readCall [wp_simps]:
  "wp (readCall f) Q E P = (\<lambda>s. case f (world s) of
     (Inl e, w) \<Rightarrow> E e (s\<lparr>world := w\<rparr>) | (Inr x, w) \<Rightarrow> Q x (s\<lparr>world := w\<rparr>))"
  by (rule ext)
    (auto simp: wp_def readCall_def lift_def ret_def fail_def split: prod.splits sum.splits)

lemma wp_loggedCall [wp_simps]:
  "wp (loggedCall mk f) Q E P = (\<lambda>s. case f (world s) of
     (Inl e, w) \<Rightarrow> E e (s\<lparr>world := w, calls := calls s @ [mk (Inl e)]\<rparr>)
   | (Inr x, w) \<Rightarrow> Q x (s\<lparr>world := w, calls := calls s @ [mk (Inr x)]\<rparr>))"
  by (rule ext)
    (auto simp: wp_def loggedCall_def lift_def ret_def fail_def split: prod.splits sum.splits)

lemmas api_defs = apiGet_def apiList_def apiCreate_def apiUpdate_def apiStatusUpdate_def
  apiDelete_def

section \<open>What a function may call\<close>

text \<open>
  \<open>emits m G\<close>: however a run of \<open>m\<close> ends and whatever the servers answer, it only extends the
  log, and every call it adds satisfies \<open>G\<close>. The component theories prove one such lemma per
  function, for every \<open>G\<close> that holds of the calls the function contains.
\<close>

named_theorems emits_intros

definition emits :: "(('w, 'z) base_scheme, 'a) go \<Rightarrow> (call \<Rightarrow> bool) \<Rightarrow> bool" where
  "emits m G \<longleftrightarrow> (\<forall>s. \<exists>new. calls (snd (m s)) = calls s @ new \<and> (\<forall>c\<in>set new. G c))"

lemma emits_run:
  assumes "emits m G" and "m s = (r, t)"
  obtains new where "calls t = calls s @ new" and "\<And>c. c \<in> set new \<Longrightarrow> G c"
  using assms unfolding emits_def by (metis snd_conv)

lemma emits_wp:
  assumes "emits m G"
  shows "wp m (\<lambda>_ t. \<exists>new. calls t = calls s @ new \<and> (\<forall>c\<in>set new. G c))
    (\<lambda>_ t. \<exists>new. calls t = calls s @ new \<and> (\<forall>c\<in>set new. G c))
    (\<lambda>t. \<exists>new. calls t = calls s @ new \<and> (\<forall>c\<in>set new. G c)) s"
  using assms unfolding emits_def wp_def by (auto split: prod.splits res.splits) (metis snd_conv)+

lemma emits_wpI:
  assumes "\<And>s. wp m (\<lambda>_ t. \<exists>new. calls t = calls s @ new \<and> (\<forall>c\<in>set new. G c))
    (\<lambda>_ t. \<exists>new. calls t = calls s @ new \<and> (\<forall>c\<in>set new. G c))
    (\<lambda>t. \<exists>new. calls t = calls s @ new \<and> (\<forall>c\<in>set new. G c)) s"
  shows "emits m G"
  unfolding emits_def
proof
  fix s
  from assms [of s] show "\<exists>new. calls (snd (m s)) = calls s @ new \<and> (\<forall>c\<in>set new. G c)"
    by (auto simp: wp_def split: prod.splits res.splits)
qed

lemma emits_all:
  "emits m G \<Longrightarrow> \<forall>c\<in>set (calls s). G c \<Longrightarrow> \<forall>c\<in>set (calls (snd (m s))). G c"
  unfolding emits_def by (metis Un_iff set_append)

lemma emits_mono: "emits m G \<Longrightarrow> (\<And>c. G c \<Longrightarrow> H c) \<Longrightarrow> emits m H"
  unfolding emits_def by metis

lemma emits_ret [emits_intros]: "emits (ret x) G"
  by (simp add: emits_def ret_def)

lemma emits_fail [emits_intros]: "emits (fail e) G"
  by (simp add: emits_def fail_def)

lemma emits_panic [emits_intros]: "emits panic G"
  by (simp add: emits_def panic_def)

lemma emits_gets [emits_intros]: "emits (gets f) G"
  by (simp add: emits_def gets_def)

lemma emits_deref [emits_intros]: "emits (deref p) G"
  by (simp add: emits_def deref_def ret_def panic_def split: option.split)

lemma emits_lift [emits_intros]: "emits (lift r) G"
  by (simp add: emits_def lift_def ret_def fail_def split: sum.split)

lemma emits_liftRes [emits_intros]: "emits (liftRes r) G"
  by (simp add: emits_def liftRes_def)

lemma emits_modify [emits_intros]: "(\<And>s. calls (f s) = calls s) \<Longrightarrow> emits (modify f) G"
  by (simp add: emits_def modify_def)

lemma emits_onErr [emits_intros]:
  assumes m: "emits m G" and h: "\<And>e. emits (h e) G" and k: "\<And>x. emits (k x) G"
  shows "emits (onErr m h k) G"
  unfolding emits_def
proof
  fix s
  obtain r t where run: "m s = (r, t)" by fastforce
  with m obtain new where new: "calls t = calls s @ new" "\<forall>c\<in>set new. G c"
    by (metis emits_run)
  define u where "u = snd (onErr m h k s)"
  have "\<exists>more. calls u = calls t @ more \<and> (\<forall>c\<in>set more. G c)"
  proof (cases r)
    case (Val x)
    with run k [of x] show ?thesis by (simp add: u_def onErr_def emits_def)
  next
    case (Err e)
    with run h [of e] show ?thesis by (simp add: u_def onErr_def emits_def)
  next
    case Panic
    with run show ?thesis by (simp add: u_def onErr_def)
  qed
  then obtain more where "calls u = calls s @ (new @ more)" "\<forall>c\<in>set (new @ more). G c"
    using new by auto
  then show "\<exists>new. calls (snd (onErr m h k s)) = calls s @ new \<and> (\<forall>c\<in>set new. G c)"
    unfolding u_def by blast
qed

lemma emits_bnd [emits_intros]: "emits m G \<Longrightarrow> (\<And>x. emits (k x) G) \<Longrightarrow> emits (bnd m k) G"
  unfolding bnd_def by (intro emits_intros)

lemma emits_fieldOf [emits_intros]: "emits (fieldOf f) G"
  unfolding fieldOf_def by (intro emits_intros)

lemma emits_wrapErr [emits_intros]: "emits m G \<Longrightarrow> emits (wrapErr t m) G"
  unfolding wrapErr_def by (intro emits_intros)

lemma emits_if [emits_intros]:
  "(b \<Longrightarrow> emits m G) \<Longrightarrow> (\<not> b \<Longrightarrow> emits n G) \<Longrightarrow> emits (if b then m else n) G"
  by simp

lemma emits_case_option [emits_intros]:
  "(p = None \<Longrightarrow> emits m G) \<Longrightarrow> (\<And>x. p = Some x \<Longrightarrow> emits (n x) G) \<Longrightarrow>
   emits (case p of None \<Rightarrow> m | Some x \<Rightarrow> n x) G"
  by (simp split: option.split)

lemma emits_case_list [emits_intros]:
  "(xs = [] \<Longrightarrow> emits m G) \<Longrightarrow> (\<And>y ys. xs = y # ys \<Longrightarrow> emits (n y ys) G) \<Longrightarrow>
   emits (case xs of [] \<Rightarrow> m | y # ys \<Rightarrow> n y ys) G"
  by (simp split: list.split)

lemma emits_case_prod [emits_intros]:
  "(\<And>x y. p = (x, y) \<Longrightarrow> emits (m x y) G) \<Longrightarrow> emits (case p of (x, y) \<Rightarrow> m x y) G"
  by (simp split: prod.split)

lemma emits_Let [emits_intros]: "emits (m v) G \<Longrightarrow> emits (Let v m) G"
  by simp

lemma emits_forEach [emits_intros]:
  "(\<And>x. x \<in> set xs \<Longrightarrow> emits (f x) G) \<Longrightarrow> emits (forEach f xs) G"
  by (induction xs) (auto intro!: emits_intros)

lemma emits_readCall [emits_intros]: "emits (readCall f) G"
  by (simp add: emits_def readCall_def lift_def ret_def fail_def split: prod.split sum.split)

lemma emits_loggedCall [emits_intros]: "(\<And>r. G (mk r)) \<Longrightarrow> emits (loggedCall mk f) G"
  by (simp add: emits_def loggedCall_def lift_def ret_def fail_def split: prod.split sum.split)

lemma emits_api [emits_intros]:
  "emits (apiGet c k) G"
  "emits (apiList c os) G"
  "(\<And>b. G (CreateCall t (mk x) b)) \<Longrightarrow> emits (apiCreate t mk c x) G"
  "(\<And>b. G (UpdateCall t (mk x) b)) \<Longrightarrow> emits (apiUpdate t mk c x) G"
  "(\<And>b. G (StatusUpdateCall t (mk x) b)) \<Longrightarrow> emits (apiStatusUpdate t mk c x) G"
  "(\<And>b. G (DeleteCall t (mk x) b)) \<Longrightarrow> emits (apiDelete t mk c x) G"
  unfolding api_defs by (auto intro!: emits_intros)

text \<open>Invariants of the log that follow from what may be called.\<close>

lemma emits_keeps: "emits m G \<Longrightarrow> keeps m (\<lambda>s. \<forall>c\<in>set (calls s). G c)"
  using emits_all unfolding keeps_def always_iff by blast

lemma emits_keeps_mem: "emits m (\<lambda>_. True) \<Longrightarrow> keeps m (\<lambda>s. c \<in> set (calls s))"
  unfolding keeps_def always_iff emits_def by (metis UnI1 set_append)

text \<open>A call keeps what depends on neither the servers nor the log.\<close>

lemma keeps_readCall [keeps_intros]:
  "(\<And>s w. I s \<Longrightarrow> I (s\<lparr>world := w\<rparr>)) \<Longrightarrow> keeps (readCall f) I"
  by (simp add: keeps_def always_def wp_simps split: prod.split sum.split)

lemma keeps_loggedCall [keeps_intros]:
  "(\<And>s w cs. I s \<Longrightarrow> I (s\<lparr>world := w, calls := cs\<rparr>)) \<Longrightarrow> keeps (loggedCall mk f) I"
  by (simp add: keeps_def always_def wp_simps split: prod.split sum.split)

lemma keeps_api [keeps_intros]:
  assumes "\<And>s w. I s \<Longrightarrow> I (s\<lparr>world := w\<rparr>)" and "\<And>s w cs. I s \<Longrightarrow> I (s\<lparr>world := w, calls := cs\<rparr>)"
  shows "keeps (apiGet c k) I" and "keeps (apiList c os) I" and "keeps (apiCreate t mk c x) I"
    and "keeps (apiUpdate t mk c x) I" and "keeps (apiStatusUpdate t mk c x) I"
    and "keeps (apiDelete t mk c x) I"
  unfolding api_defs using assms by (auto intro!: keeps_intros)

text \<open>
  Rules for reasoning about a call whatever the API server answers: a postcondition that holds
  for every answer and every later state of the servers holds after the call.
\<close>

lemma wp_readCallI:
  assumes "\<And>e w. E e (s\<lparr>world := w\<rparr>)" and "\<And>x w. Q x (s\<lparr>world := w\<rparr>)"
  shows "wp (readCall f) Q E P s"
  using assms by (simp add: wp_simps split: prod.split sum.split)

lemma wp_loggedCallI:
  assumes "\<And>e w. E e (s\<lparr>world := w, calls := calls s @ [mk (Inl e)]\<rparr>)"
    and "\<And>x w. Q x (s\<lparr>world := w, calls := calls s @ [mk (Inr x)]\<rparr>)"
  shows "wp (loggedCall mk f) Q E P s"
  using assms by (simp add: wp_simps split: prod.split sum.split)

section \<open>Servers that answer\<close>

text \<open>A read that always answers \<open>x\<close>; a write that is always stored.\<close>

definition answers :: "('w \<Rightarrow> (goerror + 'a) \<times> 'w) \<Rightarrow> 'a \<Rightarrow> bool" where
  "answers f x \<longleftrightarrow> (\<forall>w. \<exists>w'. f w = (Inr x, w'))"

definition stores :: "('o \<Rightarrow> 'w \<Rightarrow> (goerror + 'o) \<times> 'w) \<Rightarrow> ('o \<Rightarrow> 'r) \<Rightarrow> bool" where
  "stores f view \<longleftrightarrow> (\<forall>x w. \<exists>y w'. f x w = (Inr y, w') \<and> view y = view x)"

lemma wp_readCall_answers:
  "answers f x \<Longrightarrow> (\<And>w. Q x (s\<lparr>world := w\<rparr>)) \<Longrightarrow> wp (readCall f) Q Er P s"
  unfolding answers_def wp_readCall by (metis (mono_tags, lifting) case_prod_conv sum.simps(6))

lemma wp_apiGet_answers:
  "answers (cl_get c k) x \<Longrightarrow> (\<And>w. Q x (s\<lparr>world := w\<rparr>)) \<Longrightarrow> wp (apiGet c k) Q Er P s"
  unfolding apiGet_def by (rule wp_readCall_answers)

lemma wp_apiList_answers:
  "answers (cl_list c os) xs \<Longrightarrow> (\<And>w. Q xs (s\<lparr>world := w\<rparr>)) \<Longrightarrow> wp (apiList c os) Q Er P s"
  unfolding apiList_def by (rule wp_readCall_answers)

lemma wp_loggedCall_stores:
  assumes "stores f view"
    and "\<And>y w. view y = view x \<Longrightarrow> Q y (s\<lparr>world := w, calls := calls s @ [mk (Inr y)]\<rparr>)"
  shows "wp (loggedCall mk (f x)) Q Er P s"
proof -
  obtain y w where "f x (world s) = (Inr y, w)" "view y = view x"
    using assms(1) unfolding stores_def by meson
  then show ?thesis using assms(2) by (simp add: wp_loggedCall)
qed

end
