(* ===== verification/Status_Ops.thy ===== *)
theory Status_Ops
  imports Kube_Client
begin

text \<open>
  Both reconcilers keep a state, a message and a list of conditions in the status of their
  resource, and update it with the same three pure functions: set the state, add a condition
  that is missing, overwrite a condition whose status differs. The locale \<open>status_ops\<close> is the
  contract of these functions; it is interpreted for \<open>RemoteCluster\<close> and for \<open>RemoteArbiter\<close>,
  and the lemmas of its context are what the two reconcilers rely on. The abstract view of the
  conditions is the map from condition types to their statuses.
\<close>

section \<open>The functions\<close>

definition setRemoteClusterState ::
  "remote_cluster \<Rightarrow> string \<Rightarrow> string \<Rightarrow> remote_cluster \<times> bool" where
  "setRemoteClusterState rc state message =
     (if st_state (rc_status rc) = state \<and> st_message (rc_status rc) = message then (rc, False)
      else (rc\<lparr>rc_status := (rc_status rc)\<lparr>st_state := state, st_message := message\<rparr>\<rparr>, True))"

definition setRemoteClusterCondition ::
  "k8s_lib \<Rightarrow> remote_cluster \<Rightarrow> condition \<Rightarrow> remote_cluster \<times> bool" where
  "setRemoteClusterCondition L rc c =
     (case FindStatusCondition L (st_conditions (rc_status rc)) (cond_type c) of
        Some _ \<Rightarrow> (rc, False)
      | None \<Rightarrow> (rc\<lparr>rc_status := (rc_status rc)\<lparr>st_conditions :=
            SetStatusCondition L (st_conditions (rc_status rc)) c\<rparr>\<rparr>, True))"

definition updateRemoteClusterCondition ::
  "k8s_lib \<Rightarrow> remote_cluster \<Rightarrow> condition \<Rightarrow> remote_cluster \<times> bool" where
  "updateRemoteClusterCondition L rc c =
     (if IsStatusConditionPresentAndEqual L (st_conditions (rc_status rc)) (cond_type c) (cond_status c)
      then (rc, False)
      else (rc\<lparr>rc_status := (rc_status rc)\<lparr>st_conditions :=
            SetStatusCondition L (st_conditions (rc_status rc)) c\<rparr>\<rparr>, True))"

definition setRemoteArbiterState ::
  "remote_arbiter \<Rightarrow> string \<Rightarrow> string \<Rightarrow> remote_arbiter \<times> bool" where
  "setRemoteArbiterState ra state message =
     (if st_state (ra_status ra) = state \<and> st_message (ra_status ra) = message then (ra, False)
      else (ra\<lparr>ra_status := (ra_status ra)\<lparr>st_state := state, st_message := message\<rparr>\<rparr>, True))"

definition setRemoteArbiterCondition ::
  "k8s_lib \<Rightarrow> remote_arbiter \<Rightarrow> condition \<Rightarrow> remote_arbiter \<times> bool" where
  "setRemoteArbiterCondition L ra c =
     (case FindStatusCondition L (st_conditions (ra_status ra)) (cond_type c) of
        Some _ \<Rightarrow> (ra, False)
      | None \<Rightarrow> (ra\<lparr>ra_status := (ra_status ra)\<lparr>st_conditions :=
            SetStatusCondition L (st_conditions (ra_status ra)) c\<rparr>\<rparr>, True))"

definition updateRemoteArbiterCondition ::
  "k8s_lib \<Rightarrow> remote_arbiter \<Rightarrow> condition \<Rightarrow> remote_arbiter \<times> bool" where
  "updateRemoteArbiterCondition L ra c =
     (if IsStatusConditionPresentAndEqual L (st_conditions (ra_status ra)) (cond_type c) (cond_status c)
      then (ra, False)
      else (ra\<lparr>ra_status := (ra_status ra)\<lparr>st_conditions :=
            SetStatusCondition L (st_conditions (ra_status ra)) c\<rparr>\<rparr>, True))"

text \<open>
  The loop of both \<open>checkStatusInitialized\<close>: a condition of each type is added where it is
  missing.
\<close>

fun initConditions :: "('o \<Rightarrow> condition \<Rightarrow> 'o \<times> bool) \<Rightarrow> string list \<Rightarrow> 'o \<Rightarrow> 'o" where
  "initConditions setCond [] x = x"
| "initConditions setCond (t # ts) x =
     initConditions setCond ts (fst (setCond x (NewInitCondition t ''init'')))"

text \<open>The abstract view of a list of conditions: the status of each type.\<close>

definition condStatus ::
  "(condition list \<Rightarrow> string \<Rightarrow> condition option) \<Rightarrow> condition list \<Rightarrow> string \<Rightarrow> string option" where
  "condStatus get cs t = map_option cond_status (get cs t)"

section \<open>The contract\<close>

text \<open>
  \<open>find\<close> looks a condition up. \<open>rest\<close> is everything of the object but its state, message and
  conditions.
\<close>

locale status_ops =
  fixes find :: "condition list \<Rightarrow> string \<Rightarrow> condition option"
    and state_of :: "'o \<Rightarrow> string"
    and message_of :: "'o \<Rightarrow> string"
    and conds_of :: "'o \<Rightarrow> condition list"
    and rest :: "'o \<Rightarrow> 'r"
    and set_state :: "'o \<Rightarrow> string \<Rightarrow> string \<Rightarrow> 'o \<times> bool"
    and set_cond :: "'o \<Rightarrow> condition \<Rightarrow> 'o \<times> bool"
    and update_cond :: "'o \<Rightarrow> condition \<Rightarrow> 'o \<times> bool"
  assumes set_state_state: "state_of (fst (set_state x st m)) = st"
    and set_state_message: "message_of (fst (set_state x st m)) = m"
    and set_state_conds: "conds_of (fst (set_state x st m)) = conds_of x"
    and set_state_rest: "rest (fst (set_state x st m)) = rest x"
    and set_state_changed: "snd (set_state x st m) \<longleftrightarrow> state_of x \<noteq> st \<or> message_of x \<noteq> m"
    and set_cond_find: "find (conds_of (fst (set_cond x c))) t =
      (if t = cond_type c \<and> find (conds_of x) t = None then Some c else find (conds_of x) t)"
    and set_cond_length: "length (conds_of (fst (set_cond x c))) =
      (if find (conds_of x) (cond_type c) = None then Suc (length (conds_of x))
       else length (conds_of x))"
    and set_cond_state: "state_of (fst (set_cond x c)) = state_of x"
    and set_cond_message: "message_of (fst (set_cond x c)) = message_of x"
    and set_cond_rest: "rest (fst (set_cond x c)) = rest x"
    and set_cond_same: "find (conds_of x) (cond_type c) \<noteq> None \<Longrightarrow> fst (set_cond x c) = x"
    and update_cond_changed: "snd (update_cond x c) \<longleftrightarrow>
      map_option cond_status (find (conds_of x) (cond_type c)) \<noteq> Some (cond_status c)"
    and update_cond_find: "find (conds_of (fst (update_cond x c))) t =
      (if t = cond_type c \<and> snd (update_cond x c) then Some c else find (conds_of x) t)"
    and update_cond_state: "state_of (fst (update_cond x c)) = state_of x"
    and update_cond_message: "message_of (fst (update_cond x c)) = message_of x"
    and update_cond_rest: "rest (fst (update_cond x c)) = rest x"
begin

abbreviation cond_map :: "'o \<Rightarrow> string \<Rightarrow> string option" where
  "cond_map x \<equiv> condStatus find (conds_of x)"

text \<open>On the abstract view, overwriting a condition is a map update.\<close>

lemma cond_map_update_cond:
  "cond_map (fst (update_cond x c)) = (cond_map x)(cond_type c \<mapsto> cond_status c)"
  using update_cond_changed [of x c] update_cond_find [of x c]
  by (auto simp: condStatus_def fun_eq_iff)

lemma cond_map_set_state: "cond_map (fst (set_state x st m)) = cond_map x"
  by (simp add: condStatus_def set_state_conds fun_eq_iff)

lemma cond_map_set_cond:
  "cond_map (fst (set_cond x c)) t =
     (if t = cond_type c \<and> cond_map x t = None then Some (cond_status c) else cond_map x t)"
  by (auto simp: condStatus_def set_cond_find)

text \<open>The initialisation loop.\<close>

lemma init_cond_map:
  "cond_map (initConditions set_cond ts x) t =
     (if t \<in> set ts \<and> cond_map x t = None then Some ConditionUnknown else cond_map x t)"
  by (induction ts arbitrary: x) (auto simp: cond_map_set_cond)

lemma init_state:
  "state_of (initConditions set_cond ts x) = state_of x"
  "message_of (initConditions set_cond ts x) = message_of x"
  "rest (initConditions set_cond ts x) = rest x"
  by (induction ts arbitrary: x) (auto simp: set_cond_state set_cond_message set_cond_rest)

lemma init_length_mono:
  "length (conds_of x) \<le> length (conds_of (initConditions set_cond ts x))"
proof (induction ts arbitrary: x)
  case Nil
  then show ?case by simp
next
  case (Cons t ts)
  have "length (conds_of x) \<le> length (conds_of (fst (set_cond x (NewInitCondition t ''init''))))"
    by (simp add: set_cond_length)
  also have "\<dots> \<le> length (conds_of (initConditions set_cond (t # ts) x))"
    using Cons.IH by simp
  finally show ?case .
qed

text \<open>
  Comparing the number of conditions before and after, as \<open>checkStatusInitialized\<close> does, tells
  exactly whether one was missing.
\<close>

lemma init_length_eq_iff:
  "length (conds_of (initConditions set_cond ts x)) = length (conds_of x) \<longleftrightarrow>
     (\<forall>t\<in>set ts. cond_map x t \<noteq> None)"
proof (induction ts arbitrary: x)
  case Nil
  then show ?case by simp
next
  case (Cons t ts)
  let ?y = "fst (set_cond x (NewInitCondition t ''init''))"
  show ?case
  proof (cases "find (conds_of x) t")
    case None
    then have "length (conds_of ?y) = Suc (length (conds_of x))"
      by (simp add: set_cond_length)
    with init_length_mono [of ?y ts] None show ?thesis
      by (auto simp: condStatus_def)
  next
    case (Some c)
    then have "?y = x" by (intro set_cond_same) simp
    with Cons.IH [of x] Some show ?thesis by (simp add: condStatus_def)
  qed
qed

lemma init_idle:
  "\<forall>t\<in>set ts. cond_map x t \<noteq> None \<Longrightarrow> initConditions set_cond ts x = x"
proof (induction ts arbitrary: x)
  case Nil
  then show ?case by simp
next
  case (Cons t ts)
  then have "fst (set_cond x (NewInitCondition t ''init'')) = x"
    by (intro set_cond_same) (simp add: condStatus_def)
  with Cons show ?case by simp
qed

end

section \<open>Both resources satisfy the contract\<close>

abbreviation rc_state :: "remote_cluster \<Rightarrow> string" where
  "rc_state rc \<equiv> st_state (rc_status rc)"

abbreviation rc_message :: "remote_cluster \<Rightarrow> string" where
  "rc_message rc \<equiv> st_message (rc_status rc)"

abbreviation rc_conds :: "remote_cluster \<Rightarrow> condition list" where
  "rc_conds rc \<equiv> st_conditions (rc_status rc)"

abbreviation ra_state :: "remote_arbiter \<Rightarrow> string" where
  "ra_state ra \<equiv> st_state (ra_status ra)"

abbreviation ra_message :: "remote_arbiter \<Rightarrow> string" where
  "ra_message ra \<equiv> st_message (ra_status ra)"

abbreviation ra_conds :: "remote_arbiter \<Rightarrow> condition list" where
  "ra_conds ra \<equiv> st_conditions (ra_status ra)"

abbreviation ra_mon_id :: "remote_arbiter \<Rightarrow> string" where
  "ra_mon_id ra \<equiv> st_mon_id (ra_status ra)"

lemmas remote_cluster_status_defs =
  setRemoteClusterState_def setRemoteClusterCondition_def updateRemoteClusterCondition_def

lemmas remote_arbiter_status_defs =
  setRemoteArbiterState_def setRemoteArbiterCondition_def updateRemoteArbiterCondition_def

sublocale k8s_laws \<subseteq> rcst: status_ops "FindStatusCondition L" rc_state rc_message rc_conds
  "\<lambda>rc. (rc_meta rc, rc_spec rc)"
  setRemoteClusterState "setRemoteClusterCondition L" "updateRemoteClusterCondition L"
  by unfold_locales
    (auto simp: remote_cluster_status_defs cl.find_put cl.length_put cl.present_equal_iff
      split: option.splits)

sublocale k8s_laws \<subseteq> rast: status_ops "FindStatusCondition L" ra_state ra_message ra_conds
  "\<lambda>ra. (ra_meta ra, ra_spec ra, ra_mon_id ra)"
  setRemoteArbiterState "setRemoteArbiterCondition L" "updateRemoteArbiterCondition L"
  by unfold_locales
    (auto simp: remote_arbiter_status_defs cl.find_put cl.length_put cl.present_equal_iff
      split: option.splits)

section \<open>A reference implementation of the helper library\<close>

text \<open>
  The documented behaviour is satisfiable: association lists keyed by the condition type and
  duplicate-free finalizer lists. The witnesses of the properties run on it.
\<close>

fun ref_find :: "condition list \<Rightarrow> string \<Rightarrow> condition option" where
  "ref_find [] t = None"
| "ref_find (c # cs) t = (if cond_type c = t then Some c else ref_find cs t)"

fun ref_put :: "condition list \<Rightarrow> condition \<Rightarrow> condition list" where
  "ref_put [] c = [c]"
| "ref_put (d # cs) c = (if cond_type d = cond_type c then c # cs else d # ref_put cs c)"

definition ref_lib :: k8s_lib where
  "ref_lib = \<lparr>FindStatusCondition = ref_find,
     SetStatusCondition = ref_put,
     IsStatusConditionPresentAndEqual =
       (\<lambda>cs t v. case ref_find cs t of None \<Rightarrow> False | Some c \<Rightarrow> cond_status c = v),
     AddFinalizer = (\<lambda>fs f. if f \<in> set fs then (fs, False) else (fs @ [f], True)),
     RemoveFinalizer = (\<lambda>fs f. (filter (\<lambda>g. g \<noteq> f) fs, f \<in> set fs)),
     ContainsFinalizer = (\<lambda>fs f. f \<in> set fs),
     GetControllerOf = find or_controller,
     NewControllerRef = (\<lambda>m (v, k). \<lparr>or_api_version = v, or_kind = k, or_name = om_name m,
       or_controller = True\<rparr>),
     lib_attributes_text = (\<lambda>a. at_verb a @ '' '' @ at_resource a)\<rparr>"

lemma ref_find_put:
  "ref_find (ref_put cs c) t = (if t = cond_type c then Some c else ref_find cs t)"
  by (induction cs) auto

lemma ref_length_put:
  "length (ref_put cs c) =
     (if ref_find cs (cond_type c) = None then Suc (length cs) else length cs)"
  by (induction cs) auto

interpretation ref: k8s_laws ref_lib
  by unfold_locales
    (auto simp: ref_lib_def ref_find_put ref_length_put filter_id_conv split: option.splits)

end
