(* ===== verification/Demo_Server.thy ===== *)
theory Demo_Server
  imports Status_Ops
begin

text \<open>
  Concrete API servers on which the properties of the reconcilers are exercised: a client that
  serves one object and stores what it is given, a client of a kind without objects, and a
  target cluster that is ready and grants every permission. The helper library is the reference
  implementation of \<open>Status_Ops\<close>.
\<close>

definition serve :: "'o \<Rightarrow> ('o, 'w) kind_client" where
  "serve x = \<lparr>cl_get = (\<lambda>k w. (Inr x, w)), cl_list = (\<lambda>os w. (Inr [x], w)),
     cl_create = (\<lambda>y w. (Inr y, w)), cl_update = (\<lambda>y w. (Inr y, w)),
     cl_status_update = (\<lambda>y w. (Inr y, w)), cl_delete = (\<lambda>y w. (Inr (), w))\<rparr>"

definition absent :: "('o, 'w) kind_client" where
  "absent = \<lparr>cl_get = (\<lambda>k w. (Inl (APIError NotFound ''not found''), w)),
     cl_list = (\<lambda>os w. (Inr [], w)),
     cl_create = (\<lambda>y w. (Inr y, w)), cl_update = (\<lambda>y w. (Inr y, w)),
     cl_status_update = (\<lambda>y w. (Inr y, w)), cl_delete = (\<lambda>y w. (Inr (), w))\<rparr>"

definition empty_server :: "'w kube_client" where
  "empty_server = \<lparr>kc_secrets = absent, kc_configmaps = absent, kc_services = absent,
     kc_deployments = absent, kc_cephclusters = absent, kc_remoteclusters = absent,
     kc_remotearbiters = absent, kc_unstructured = (\<lambda>_. absent), kc_gvk = (\<lambda>_. Inr ''v1''),
     kc_arbiter_gvk = Inr (''ceph.cobaltcore.sap.com/v1alpha1'', ''RemoteArbiter'')\<rparr>"

definition granting :: "'w clientset" where
  "granting = \<lparr>cs_readyz = (\<lambda>w. (Inr ''ok'', w)),
     cs_access_review = (\<lambda>a w. (Inr \<lparr>rv_allowed = True, rv_reason = [], rv_evaluation_error = []\<rparr>, w))\<rparr>"

definition demo_env :: "'w clientset \<Rightarrow> 'w kube_client \<Rightarrow> 'w kube_client \<Rightarrow> 'w env" where
  "demo_env cs source target = \<lparr>e_client = source,
     RESTConfigFromKubeConfig = (\<lambda>c. Inr \<lparr>cfg_content = c, cfg_timeout = 0\<rparr>),
     NewForConfig = (\<lambda>cfg. Inr cs), client_New = (\<lambda>cfg w. (Inr target, w)),
     NewNamespacedClient = (\<lambda>c ns. c), e_now = (\<lambda>w. ''2025-01-01T00:00:00Z''), e_lib = ref_lib\<rparr>"

lemma demo_env_lib [simp]: "e_lib (demo_env cs source target) = ref_lib"
  by (simp add: demo_env_def)

definition demo_meta :: "string \<Rightarrow> object_meta" where
  "demo_meta n = empty_meta\<lparr>om_name := n, om_namespace := ''rook-ceph'', om_resource_version := ''1''\<rparr>"

definition demo_key :: "string \<Rightarrow> key" where
  "demo_key n = \<lparr>k_namespace = ''rook-ceph'', k_name = n\<rparr>"

definition demo_cluster :: remote_cluster where
  "demo_cluster = \<lparr>rc_meta = demo_meta ''target'',
     rc_spec = \<lparr>rcs_timeout = Some (30 * time_Second), rcs_check_interval = Some time_Minute,
       rcs_access_key_ref = \<lparr>ks_name = ''kubeconfig'', ks_key = ''config''\<rparr>, rcs_namespace = ''arbiter''\<rparr>,
     rc_status = \<lparr>st_state = [], st_message = [], st_conditions = []\<rparr>\<rparr>"

definition demo_secret :: secret where
  "demo_secret = \<lparr>sec_meta = (demo_meta ''kubeconfig'')\<lparr>om_finalizers :=
       [''remotecluster.ceph.cobaltcore.sap.com/finalizer'']\<rparr>,
      sec_data = map_lit [(''config'', ''...'')]\<rparr>"

definition cluster_env :: "remote_cluster \<Rightarrow> unit env" where
  "cluster_env rc = demo_env granting
     (empty_server\<lparr>kc_remoteclusters := serve rc, kc_secrets := serve demo_secret\<rparr>) empty_server"

text \<open>The same resource with a deletion timestamp and the finalizers \<open>fs\<close>.\<close>

definition deleted_cluster :: "string list \<Rightarrow> remote_cluster" where
  "deleted_cluster fs = demo_cluster\<lparr>rc_meta := (demo_meta ''target'')\<lparr>om_finalizers := fs,
     om_deletion_timestamp := Some ''2025-01-01T00:00:00Z''\<rparr>\<rparr>"

end
