(* ===== verification/Arbiter_Pod_Props.thy ===== *)
theory Arbiter_Pod_Props
  imports Arbiter_Pod Demo_Server Webhook
begin

text \<open>
  Properties of the pure part of the arbiter reconciler: what the built deployment refers to and
  advertises, the probe rewriting against the regular expression it implements, the repair of
  the service, the choice of the monitor to clone, and the input on which building panics.
\<close>

section \<open>The public address in the built deployment\<close>

lemma argWithPrefix_append:
  "argWithPrefix p (xs @ ys) = (case argWithPrefix p xs of None \<Rightarrow> argWithPrefix p ys | Some a \<Rightarrow> Some a)"
  by (induction xs) auto

lemma prefix_disjoint:
  "hasPrefix a ''--id='' \<Longrightarrow> \<not> hasPrefix a publicAddrPrefix"
  "hasPrefix a ''/var/lib/ceph/mon/ceph-'' \<Longrightarrow> \<not> hasPrefix a publicAddrPrefix"
  "hasPrefix a ''--setuser-match-path='' \<Longrightarrow> \<not> hasPrefix a publicAddrPrefix"
  "droppedArg a \<Longrightarrow> \<not> hasPrefix a publicAddrPrefix"
  by (auto simp: hasPrefix_iff droppedArg_def const_defs)

lemma rewriteArg_public:
  "hasPrefix (rewriteArg monID addr a) publicAddrPrefix \<longleftrightarrow> hasPrefix a publicAddrPrefix"
  "hasPrefix a publicAddrPrefix \<Longrightarrow> rewriteArg monID addr a = publicAddrPrefix @ addr"
proof -
  show "hasPrefix (rewriteArg monID addr a) publicAddrPrefix \<longleftrightarrow> hasPrefix a publicAddrPrefix"
    using prefix_disjoint [of a] by (auto simp: rewriteArg_def publicAddrPrefix_def)
  show "hasPrefix a publicAddrPrefix \<Longrightarrow> rewriteArg monID addr a = publicAddrPrefix @ addr"
    using prefix_disjoint [of a] by (auto simp: rewriteArg_def)
qed

lemma argWithPrefix_rewrite:
  "argWithPrefix publicAddrPrefix (filter (\<lambda>a. \<not> droppedArg a) (map (rewriteArg monID addr) args)) =
     (if \<exists>a\<in>set args. hasPrefix a publicAddrPrefix then Some addr else None)"
proof (induction args)
  case (Cons a args)
  have "\<not> droppedArg (publicAddrPrefix @ addr)"
    using prefix_disjoint(4) [of "publicAddrPrefix @ addr"] by auto
  with Cons show ?case by (auto simp: rewriteArg_public)
qed simp

lemma argWithPrefix_rewriteArgs:
  "argWithPrefix publicAddrPrefix (rewriteArgs name monID addr args) =
     (if \<exists>a\<in>set args. hasPrefix a publicAddrPrefix then Some addr else None)"
  by (auto simp: rewriteArgs_def argWithPrefix_append argWithPrefix_rewrite)
    (simp add: monMapArg_def publicAddrPrefix_def)

text \<open>Some container of the pod has an argument with the public address.\<close>

definition advertises :: "deployment \<Rightarrow> bool" where
  "advertises d \<longleftrightarrow> (\<exists>c\<in>set (ps_containers (ds_pod (dep_spec d))).
     \<exists>a\<in>set (c_args c). hasPrefix a publicAddrPrefix)"

lemma publicAddressOf_modify:
  "publicAddressOf (modifyContainers cs monID env addr) =
     (if \<exists>c\<in>set cs. \<exists>a\<in>set (c_args c). hasPrefix a publicAddrPrefix then addr else [])"
  by (induction cs)
    (auto simp: modifyContainers_def modifyContainer_def rewriteProbeSockets_def argWithPrefix_rewriteArgs)

lemma arbiterSpec_sel [simp]:
  "ps_volumes (ds_pod (arbiterSpec ra monitor vs cs ics)) = vs"
  "ps_containers (ds_pod (arbiterSpec ra monitor vs cs ics)) = cs"
  "ps_init_containers (ds_pod (arbiterSpec ra monitor vs cs ics)) = ics"
  "om_annotations (ds_template_meta (arbiterSpec ra monitor vs cs ics)) = None"
  by (simp_all add: arbiterSpec_def Let_def empty_meta_def)

lemma makeDeploymentSpec_cases:
  assumes "makeDeploymentSpec ra svc monitor cm keyring env dep = Val d"
  obtains addr volumes e img fsid containers initContainers where
    "specPublicAddress svc (ras_service (ra_spec ra)) dep = Val addr"
    "rewriteVolumes (st_mon_id (ra_status ra)) cm keyring 0 (ps_volumes (ds_pod (dep_spec monitor))) = Val volumes"
    "env = Some e"
    "containers = modifyContainers (ps_containers (ds_pod (dep_spec monitor)))
       (st_mon_id (ra_status ra)) (om_name (sec_meta e)) addr"
    "initContainers = modifyContainers (ps_init_containers (ds_pod (dep_spec monitor)))
       (st_mon_id (ra_status ra)) (om_name (sec_meta e)) addr"
    "monImageAndFsid containers = (img, fsid)" "fsid \<noteq> []" "img \<noteq> []"
    "d = dep\<lparr>dep_spec := arbiterSpec ra monitor (volumes @ [monMapVolume]) containers
       (getMonMapInitContainer fsid img (om_name (sec_meta e)) # initContainers)\<rparr>"
proof -
  from assms obtain addr volumes e where 1: "specPublicAddress svc (ras_service (ra_spec ra)) dep = Val addr"
    "rewriteVolumes (st_mon_id (ra_status ra)) cm keyring 0 (ps_volumes (ds_pod (dep_spec monitor))) = Val volumes"
    "env = Some e"
    unfolding makeDeploymentSpec_def Let_def resBind_Val by (cases env) auto
  obtain img fsid where 2: "monImageAndFsid (modifyContainers (ps_containers (ds_pod (dep_spec monitor)))
       (st_mon_id (ra_status ra)) (om_name (sec_meta e)) addr) = (img, fsid)"
    by fastforce
  from assms 1 2 show thesis
    by (intro that [OF 1 refl refl 2]) (simp_all add: makeDeploymentSpec_def Let_def split: if_splits)
qed

lemma makeDeploymentSpec_meta:
  "makeDeploymentSpec ra svc monitor cm sec env dep = Val d \<Longrightarrow> dep_meta d = dep_meta dep"
  by (erule makeDeploymentSpec_cases) auto

lemma makeDeploymentSpec_address:
  assumes "makeDeploymentSpec ra svc monitor cm keyring env dep = Val d"
    and "specPublicAddress svc (ras_service (ra_spec ra)) dep = Val addr" and "advertises monitor"
  shows "deploymentPublicAddress d = addr"
  using assms
  by (elim makeDeploymentSpec_cases) (auto simp: deploymentPublicAddress_def publicAddressOf_modify advertises_def)

section \<open>References in the built deployment\<close>

text \<open>Secret names an environment refers to.\<close>

definition envSecretNames :: "container \<Rightarrow> string set" where
  "envSecretNames c = {skr_name r |e src r. e \<in> set (c_env c) \<and> ev_value_from e = Some src
     \<and> evs_secret_key_ref src = Some r}"

lemma modifyContainer_sel:
  "c_name (modifyContainer monID env addr c) = c_name c"
  "c_args (modifyContainer monID env addr c) = rewriteArgs (c_name c) monID addr (c_args c)"
  "c_env (modifyContainer monID env addr c) = rewriteEnv env (c_env c)"
  "c_image (modifyContainer monID env addr c) = c_image c"
  by (simp_all add: modifyContainer_def rewriteProbeSockets_def)

lemma modifyContainer_env: "envSecretNames (modifyContainer monID env addr c) \<subseteq> {env}"
  by (auto simp: envSecretNames_def modifyContainer_sel rewriteEnv_def rewriteEnvVar_def podIPEnvVar_def
      split: option.splits if_splits)

lemma modifyContainer_pod_ip:
  "\<exists>e\<in>set (c_env (modifyContainer monID env addr c)). ev_name e = ''ROOK_POD_IP''"
proof (cases "\<exists>e\<in>set (c_env c). ev_name e = ''ROOK_POD_IP''")
  case True
  then obtain e where "e \<in> set (c_env c)" "ev_name e = ''ROOK_POD_IP''" by auto
  moreover have "ev_name (rewriteEnvVar env e) = ev_name e"
    by (simp add: rewriteEnvVar_def split: option.split)
  ultimately show ?thesis by (force simp: modifyContainer_sel rewriteEnv_def)
next
  case False
  then show ?thesis by (simp add: modifyContainer_sel rewriteEnv_def podIPEnvVar_def)
qed

lemma monMapArg_kept: "\<not> droppedArg monMapArg" "\<not> hasPrefix monMapArg ''--id=''"
  by (simp_all add: droppedArg_def monMapArg_def)

lemma rewriteArg_id: "hasPrefix (rewriteArg monID addr a) ''--id='' \<Longrightarrow> rewriteArg monID addr a = ''--id='' @ monID"
  by (auto simp: rewriteArg_def publicAddrPrefix_def split: if_splits)

lemma modifyContainer_args:
  assumes "a \<in> set (c_args (modifyContainer monID env addr c))"
  shows "\<not> droppedArg a" "hasPrefix a ''--id='' \<Longrightarrow> a = ''--id='' @ monID"
  using assms rewriteArg_id [of monID addr] monMapArg_kept
  by (auto simp: modifyContainer_sel rewriteArgs_def split: if_splits)

text \<open>Volumes: a volume whose name occurs once is rewritten to the arbiter's own objects.\<close>

definition volumeAdapted :: "string \<Rightarrow> configmap option \<Rightarrow> secret option \<Rightarrow> volume \<Rightarrow> bool" where
  "volumeAdapted monID cm keyring v \<longleftrightarrow>
     (vol_name v = ''rook-config-override'' \<longrightarrow>
        (\<exists>m sources. cm = Some m \<and> vol_projected v = Some (Some (om_name (cm_meta m)) # sources))) \<and>
     (vol_name v = ''rook-ceph-mons-keyring'' \<longrightarrow>
        (\<exists>k. keyring = Some k \<and> vol_secret v = Some (om_name (sec_meta k)))) \<and>
     (vol_name v = ''ceph-daemon-data'' \<longrightarrow>
        vol_host_path v = Some (''/var/lib/rook/mon-'' @ monID @ ''/data''))"

definition handled :: "string set" where
  "handled = {''rook-config-override'', ''rook-ceph-mons-keyring'', ''ceph-daemon-data''}"

lemma rewriteVolume_adapted:
  assumes "rewriteVolume monID cm keyring v = Val (v', b)"
  shows "volumeAdapted monID cm keyring v' \<and> vol_name v' = vol_name v \<and> (b \<longleftrightarrow> vol_name v \<in> handled)"
  using assms
  by (auto simp: rewriteVolume_def volumeAdapted_def handled_def split: if_splits option.splits list.splits)

lemma not_handled_adapted: "vol_name v \<notin> handled \<Longrightarrow> volumeAdapted monID cm keyring v"
  by (simp add: volumeAdapted_def handled_def)

lemma rewriteVolumes_adapted:
  assumes "rewriteVolumes monID cm keyring n vs = Val vs'"
    and "distinct (map vol_name vs)" and "n + card (handled \<inter> vol_name ` set vs) \<le> 3"
  shows "map vol_name vs' = map vol_name vs \<and> (\<forall>v\<in>set vs'. volumeAdapted monID cm keyring v)"
  using assms
proof (induction vs arbitrary: n vs')
  case (Cons v vs)
  from Cons.prems(1) obtain v' b where v: "rewriteVolume monID cm keyring v = Val (v', b)"
    by (auto simp: resBind_Val)
  note v' = rewriteVolume_adapted [OF v]
  have card: "card (handled \<inter> vol_name ` set (v # vs)) =
      (if b then Suc (card (handled \<inter> vol_name ` set vs)) else card (handled \<inter> vol_name ` set vs))"
    using v' Cons.prems(2) by (auto simp: handled_def Int_insert_right)
  let ?n = "if b then Suc n else n"
  show ?case
  proof (cases "?n = 3")
    case True
    then have "handled \<inter> vol_name ` set vs = {}"
      using Cons.prems(3) card by (auto split: if_splits simp: handled_def)
    then have "\<forall>u\<in>set vs. volumeAdapted monID cm keyring u"
      by (auto intro!: not_handled_adapted)
    with True v v' Cons.prems(1) show ?thesis by (auto simp: Let_def)
  next
    case False
    with Cons.prems(1) v obtain ws where "rewriteVolumes monID cm keyring ?n vs = Val ws" "vs' = v' # ws"
      by (auto simp: Let_def resBind_Val split: if_splits)
    with Cons.IH [of ?n ws] Cons.prems(2,3) card v' show ?thesis by (auto split: if_splits)
  qed
qed simp

lemma card_handled: "card (handled \<inter> A) \<le> 3"
proof -
  have "card (handled \<inter> A) \<le> card handled" by (rule card_mono) (auto simp: handled_def)
  also have "\<dots> = 3" by (simp add: handled_def)
  finally show ?thesis .
qed

section \<open>Choice of the monitor\<close>

lemma select_least:
  assumes "selectTemplateMonDeployment ds = Val d"
  shows "d \<in> set ds \<and> (\<forall>e\<in>set ds. om_name (dep_meta d) \<le> om_name (dep_meta e))"
proof -
  let ?k = "\<lambda>d. om_name (dep_meta d)"
  from assms obtain rest where *: "sort_key ?k ds = d # rest"
    by (auto simp: selectTemplateMonDeployment_def split: list.splits)
  have "sorted (map ?k (sort_key ?k ds))" by simp
  moreover have "set (sort_key ?k ds) = set ds" by simp
  ultimately show ?thesis unfolding * by auto
qed

lemma select_total: "ds \<noteq> [] \<Longrightarrow> \<exists>d. selectTemplateMonDeployment ds = Val d"
  unfolding selectTemplateMonDeployment_def
  by (cases "sort_key (\<lambda>d. om_name (dep_meta d)) ds") (auto dest: arg_cong [of _ _ length])

section \<open>The service\<close>

lemma repairPort_fst:
  "fst (repairPort t p) = p\<lparr>sp_node_port := if t = ServiceTypeNodePort then sp_port p
     else if t = ServiceTypeLoadBalancer then sp_node_port p else 0\<rparr>"
  by (auto simp: repairPort_def)

lemma repairPort_snd: "snd (repairPort t p) \<longleftrightarrow> fst (repairPort t p) \<noteq> p"
proof -
  have "p\<lparr>sp_node_port := x\<rparr> = p \<longleftrightarrow> sp_node_port p = x" for x
    by (metis service_port.select_convs(5) service_port.surjective service_port.update_convs(5))
  then show ?thesis by (auto simp: repairPort_def)
qed

lemma repairPort_idem: "fst (repairPort t (fst (repairPort t p))) = fst (repairPort t p)"
  by (simp add: repairPort_fst)

section \<open>Admin sockets\<close>

definition sockID :: "string \<Rightarrow> bool" where
  "sockID u \<longleftrightarrow> u \<noteq> [] \<and> (\<forall>c\<in>set u. sockChar c)"

lemma sockTail_sound:
  "sockTail s = Some n \<Longrightarrow> \<exists>u v. s = u @ asok @ v \<and> length u = n \<and> (\<forall>c\<in>set u. sockChar c)"
proof (induction s arbitrary: n)
  case (Cons c cs)
  show ?case
  proof (cases "sockTail cs")
    case None
    with Cons.prems obtain v where "n = 0" "c # cs = asok @ v"
      by (auto simp: hasPrefix_iff split: if_splits)
    then show ?thesis by (intro exI [of _ "[]"] exI [of _ v]) simp
  next
    case (Some m)
    with Cons.prems have "sockChar c" "n = Suc m" by (auto split: if_splits)
    with Cons.IH [OF Some] obtain u v where "cs = u @ asok @ v" "length u = m" "\<forall>c\<in>set u. sockChar c"
      by auto
    with \<open>sockChar c\<close> \<open>n = Suc m\<close> show ?thesis
      by (intro exI [of _ "c # u"] exI [of _ v]) simp
  qed
qed simp

lemma sockTail_complete:
  "\<forall>c\<in>set u. sockChar c \<Longrightarrow> \<exists>n. sockTail (u @ asok @ v) = Some n \<and> length u \<le> n"
proof (induction u)
  case Nil
  have "sockChar (CHR ''.'')" by (simp add: sockChar_def)
  then show ?case by (auto simp: asok_def hasPrefix_def split: option.split)
next
  case (Cons c u)
  then show ?case by auto
qed

lemma sockRest_sound:
  "sockRest s = Some n \<Longrightarrow> \<exists>u v. s = u @ asok @ v \<and> n = length (u @ asok) \<and> sockID u"
proof -
  assume "sockRest s = Some n"
  then obtain c cs m where "s = c # cs" "sockChar c" "sockTail cs = Some m" "n = Suc m + length asok"
    by (auto simp: sockRest_def split: list.splits if_splits)
  moreover from sockTail_sound [OF this(3)] obtain u v where
    "cs = u @ asok @ v" "length u = m" "\<forall>c\<in>set u. sockChar c" by blast
  ultimately show ?thesis
    by (intro exI [of _ "c # u"] exI [of _ v]) (simp add: sockID_def)
qed

lemma sockRest_complete:
  "sockID u \<Longrightarrow> \<exists>n. sockRest (u @ asok @ v) = Some n \<and> length (u @ asok) \<le> n"
  using sockTail_complete [of "tl u" v] by (cases u) (auto simp: sockRest_def sockID_def)

text \<open>The daemon types contain no dot, so at most one of them can match.\<close>

lemma hasPrefix_dot:
  "CHR ''.'' \<notin> set t \<Longrightarrow> hasPrefix s (t @ ''.'') \<longleftrightarrow> takeWhile (\<lambda>c. c \<noteq> CHR ''.'') s = t \<and> CHR ''.'' \<in> set s"
proof
  let ?P = "\<lambda>c. c \<noteq> CHR ''.''"
  assume *: "takeWhile ?P s = t \<and> CHR ''.'' \<in> set s"
  then have "dropWhile ?P s \<noteq> []" by (auto simp: dropWhile_eq_Nil_conv)
  then obtain v where "dropWhile ?P s = CHR ''.'' # v"
    using hd_dropWhile [of ?P s] by (cases "dropWhile ?P s") auto
  then have "s = takeWhile ?P s @ CHR ''.'' # v"
    using takeWhile_dropWhile_id [of ?P s] by simp
  with * have "s = (t @ ''.'') @ v" by simp
  then show "hasPrefix s (t @ ''.'')" unfolding hasPrefix_iff by blast
qed (auto simp: hasPrefix_iff takeWhile_append)

lemma sockMatch_iff:
  assumes "\<forall>t\<in>set ts. CHR ''.'' \<notin> set t"
  shows "sockMatch ts s = Some (g, n) \<longleftrightarrow>
    g \<in> set ts \<and> hasPrefix s (g @ ''.'') \<and> (\<exists>m. sockRest (drop (length g + 1) s) = Some m \<and> n = length g + 1 + m)"
  using assms
proof (induction ts)
  case (Cons t ts)
  have "t = g" if "hasPrefix s (t @ ''.'')" "hasPrefix s (g @ ''.'')" "g \<in> set ts"
    using that Cons.prems hasPrefix_dot [of t s] hasPrefix_dot [of g s] by auto
  with Cons show ?case by (auto split: option.splits if_splits)
qed simp

lemma daemonTypes_no_dot: "\<forall>t\<in>set daemonTypes. CHR ''.'' \<notin> set t"
  by (simp add: daemonTypes_def)

lemma expandTemplate_plain: "CHR ''$'' \<notin> set t \<Longrightarrow> expandTemplate w g t = t"
  by (induction t) auto

text \<open>No match begins within \<open>p\<close>.\<close>

fun skips :: "string \<Rightarrow> string \<Rightarrow> bool" where
  "skips [] s = True"
| "skips (c # p) s = (sockMatch daemonTypes (c # p @ s) = None \<and> skips p s)"

lemma replaceSockets_skip: "skips p s \<Longrightarrow> replaceSockets tpl (p @ s) = p @ replaceSockets tpl s"
  by (induction p) auto

lemma sockMatch_whole:
  assumes "sockID u"
  shows "sockMatch daemonTypes (''mon.'' @ u @ asok) = Some (''mon'', length (''mon.'' @ u @ asok))"
proof -
  obtain n where n: "sockRest (u @ asok @ []) = Some n" "length (u @ asok) \<le> n"
    using sockRest_complete [OF assms] by blast
  with sockRest_sound [OF n(1)] have "n = length (u @ asok)" by (auto dest: arg_cong [of _ _ length])
  with n show ?thesis
    by (simp add: sockMatch_iff [OF daemonTypes_no_dot] daemonTypes_def hasPrefix_def)
qed

lemma replaceSockets_mon:
  assumes "sockID u" and "CHR ''$'' \<notin> set monID"
  shows "replaceSockets (''mon.'' @ monID @ asok) (''/run/ceph/ceph-mon.'' @ u @ asok) =
    ''/run/ceph/ceph-mon.'' @ monID @ asok"
proof -
  have "skips ''/run/ceph/ceph-'' (''mon.'' @ u @ asok)"
    by (simp add: daemonTypes_def)
  then have "replaceSockets (''mon.'' @ monID @ asok) (''/run/ceph/ceph-'' @ ''mon.'' @ u @ asok) =
    ''/run/ceph/ceph-'' @ replaceSockets (''mon.'' @ monID @ asok) (''mon.'' @ u @ asok)"
    by (rule replaceSockets_skip)
  also have "replaceSockets (''mon.'' @ monID @ asok) (''mon.'' @ u @ asok) = ''mon.'' @ monID @ asok"
  proof -
    have "CHR ''$'' \<notin> set (''mon.'' @ monID @ asok)" using assms(2) by (simp add: asok_def)
    with sockMatch_whole [OF assms(1)] show ?thesis by (simp add: expandTemplate_plain)
  qed
  finally show ?thesis by simp
qed

section \<open>Panics\<close>

lemma rewriteVolumes_not_Err: "rewriteVolumes monID cm keyring n vs \<noteq> Err e"
proof (induction vs arbitrary: n)
  case (Cons v vs)
  have "rewriteVolume monID cm keyring v \<noteq> Err e" for e
    by (auto simp: rewriteVolume_def split: option.splits list.splits)
  with Cons show ?case
    by (cases "rewriteVolume monID cm keyring v")
      (auto simp: Let_def split: prod.splits elim!: resBind.elims)
qed simp

lemma rewriteVolumes_each:
  assumes "rewriteVolumes monID cm keyring n vs = Val vs'"
    and "distinct (map vol_name vs)" and "n + card (handled \<inter> vol_name ` set vs) \<le> 3"
    and "v \<in> set vs" and "vol_name v \<in> handled"
  shows "rewriteVolume monID cm keyring v \<noteq> Panic"
  using assms
proof (induction vs arbitrary: n vs')
  case (Cons u us)
  from Cons.prems(1) obtain u' b where u: "rewriteVolume monID cm keyring u = Val (u', b)"
    by (auto simp: resBind_Val)
  note u' = rewriteVolume_adapted [OF u]
  have card: "card (handled \<inter> vol_name ` set (u # us)) =
      (if b then Suc (card (handled \<inter> vol_name ` set us)) else card (handled \<inter> vol_name ` set us))"
    using u' Cons.prems(2) by (auto simp: handled_def Int_insert_right)
  show ?case
  proof (cases "v = u")
    case False
    then have v: "v \<in> set us" using Cons.prems(4) by simp
    let ?n = "if b then Suc n else n"
    have "handled \<inter> vol_name ` set us \<noteq> {}" using v Cons.prems(5) by blast
    then have "card (handled \<inter> vol_name ` set us) \<noteq> 0" by simp
    with card Cons.prems(3) have "?n \<noteq> 3" by (cases b; simp only: if_True if_False; linarith)
    then obtain ws where "rewriteVolumes monID cm keyring ?n us = Val ws"
      using Cons.prems(1) u by (auto simp: Let_def resBind_Val split: if_splits)
    with Cons.IH [of ?n ws] Cons.prems card v show ?thesis by (auto split: if_splits)
  qed (simp add: u)
qed simp

section \<open>Addresses\<close>

lemma firstIPv4_find: "firstIPv4 ips = find isIPv4 ips"
  by (induction ips) (auto simp: isIPv4_def split: sum.splits)

lemma find_IPv4: "find isIPv4 ips = Some a \<Longrightarrow> a \<in> set ips \<and> isIPv4 a"
  by (induction ips) (auto split: if_splits)

lemma determinePublicAddress_Val:
  "determinePublicAddress (Some svc) sc = Val a \<longleftrightarrow>
     svc_type svc = ServiceTypeClusterIP \<and> a = svc_cluster_ip svc \<and> a \<noteq> [] \<or>
     svc_type svc = ServiceTypeNodePort \<and> (\<exists>c. sc = Some c \<and> a = sc_node_ip c) \<or>
     svc_type svc = ServiceTypeLoadBalancer \<and> find isIPv4 (svc_ingress_ips svc) = Some a"
  by (auto simp: determinePublicAddress_def firstIPv4_find split: if_splits option.splits)

lemma repairService_changed: "snd (repairService t svc) \<longleftrightarrow> fst (repairService t svc) \<noteq> svc"
proof -
  have changed: "list_ex snd (map (repairPort t) ps) \<longleftrightarrow> map (fst \<circ> repairPort t) ps \<noteq> ps" for ps
    by (induction ps) (auto simp: repairPort_snd)
  have same: "svc\<lparr>svc_type := t, svc_ports := ps\<rparr> = svc \<longleftrightarrow> svc_type svc = t \<and> svc_ports svc = ps" for ps
    by (cases svc) auto
  show ?thesis
    unfolding repairService_def Let_def snd_conv fst_conv changed same by (auto simp: map_map)
qed

section \<open>A cloned monitor\<close>

definition demo_container :: "string \<Rightarrow> container" where
  "demo_container name = \<lparr>c_name = name, c_image = ''ceph:v19'', c_image_pull_policy = [], c_command = [''ceph-mon''],
     c_args = [''--fsid=0815'', ''--id=a'', ''--public-addr=10.1.1.1'', ''--mon-host=x''],
     c_env = [secretEnvVar ''ROOK_CEPH_MON_HOST'' ''rook-ceph-config'' ''mon_host''],
     c_volume_mounts = [], c_startup_probe = None,
     c_liveness_probe = Some \<lparr>pb_exec = Some [''ceph'', ''--admin-daemon'', ''/run/ceph/ceph-mon.a.asok''], pb_rest = []\<rparr>,
     c_readiness_probe = None, c_security_context = None, c_rest = []\<rparr>"

definition demo_volume :: "string \<Rightarrow> volume" where
  "demo_volume name = \<lparr>vol_name = name, vol_secret = Some ''rook-ceph-mons-keyring'',
     vol_projected = Some [Some ''rook-config-override''], vol_host_path = Some ''/var/lib/rook/mon-a/data'',
     vol_empty_dir = False, vol_rest = []\<rparr>"

definition demo_monitor :: "string \<Rightarrow> deployment" where
  "demo_monitor name = \<lparr>dep_meta = demo_meta name, dep_spec = empty_deployment_spec\<lparr>ds_pod := empty_pod_spec\<lparr>
     ps_volumes := map demo_volume [''rook-config-override'', ''rook-ceph-mons-keyring'', ''ceph-daemon-data''],
     ps_containers := [demo_container ''mon''],
     ps_init_containers := [demo_container ''chown-container-data-dir'']\<rparr>\<rparr>,
     dep_replicas = 1, dep_unavailable_replicas = 0, dep_updated_replicas = 1\<rparr>"

definition demo_configmap :: configmap where
  "demo_configmap = \<lparr>cm_meta = demo_meta ''arbiter-override'', cm_data = None\<rparr>"

definition demo_remote_secret :: "string \<Rightarrow> secret" where
  "demo_remote_secret n = \<lparr>sec_meta = demo_meta n, sec_data = None\<rparr>"

definition demo_built :: "deployment res" where
  "demo_built = makeDeploymentSpec demo_arbiter None (demo_monitor ''rook-ceph-mon-a'') (Some demo_configmap)
     (Some (demo_remote_secret ''arbiter-keyring'')) (Some (demo_remote_secret ''arbiter-env''))
     (demo_monitor ''arbiter'')"

lemma demo_built_Val: "\<exists>d. demo_built = Val d"
proof -
  have "isVal demo_built" by code_simp
  then show ?thesis by (simp only: isVal_iff)
qed

section \<open>Properties\<close>



text \<open>
  C37: The address the operator determined for the arbiter is the one the built deployment
  advertises, as read back by the drift check, whenever the cloned monitor has an argument for
  it; so a rebuilt deployment is not rebuilt again because of its address.
\<close>

theorem built_public_address:
  assumes "makeDeploymentSpec ra svc monitor cm keyring env dep = Val d"
    and "determinePublicAddress svc (ras_service (ra_spec ra)) = Val addr"
    and "c \<in> set (ps_containers (ds_pod (dep_spec monitor)))" and "a \<in> set (c_args c)"
    and "hasPrefix a ''--public-addr=''"
  shows "deploymentPublicAddress d = addr"
proof -
  have "advertises monitor" using assms(3-5) by (auto simp: advertises_def const_defs)
  moreover have "specPublicAddress svc (ras_service (ra_spec ra)) dep = Val addr"
    using assms(2) by (simp add: specPublicAddress_def)
  ultimately show ?thesis using makeDeploymentSpec_address [OF assms(1)] by blast
qed

theorem built_public_address_witness:
  "\<exists>d. demo_built = Val d \<and> deploymentPublicAddress d = ''$(ROOK_POD_IP)''"
proof -
  obtain d where d: "demo_built = Val d" using demo_built_Val by blast
  have "deploymentPublicAddress d = ''$(ROOK_POD_IP)''"
    by (rule built_public_address [OF d [unfolded demo_built_def], of _ "demo_container ''mon''" "''--public-addr=10.1.1.1''"])
      (simp_all add: determinePublicAddress_def demo_monitor_def demo_container_def)
  with d show ?thesis by blast
qed

text \<open>
  C22: The matcher behind the probe rewriting agrees with the regular expression: it matches at
  the beginning of a text exactly when the text begins with a daemon type, a dot, a non-empty
  identifier over the class and the suffix, and its match is the longest such text.
\<close>

theorem admin_socket_match:
  "sockMatch daemonTypes s = Some (g, n) \<longleftrightarrow>
     g \<in> set daemonTypes \<and>
     (\<exists>u v. sockID u \<and> s = g @ ''.'' @ u @ asok @ v \<and> n = length (g @ ''.'' @ u @ asok)) \<and>
     (\<forall>u v. sockID u \<longrightarrow> s = g @ ''.'' @ u @ asok @ v \<longrightarrow> length (g @ ''.'' @ u @ asok) \<le> n)"
proof -
  have pre: "hasPrefix s (g @ ''.'') \<longleftrightarrow> (\<exists>v. s = g @ ''.'' @ v)" by (simp add: hasPrefix_iff)
  have key: "(\<exists>m. sockRest t = Some m \<and> n = length g + 1 + m) \<longleftrightarrow>
      (\<exists>u v. sockID u \<and> t = u @ asok @ v \<and> n = length (g @ ''.'' @ u @ asok)) \<and>
      (\<forall>u v. sockID u \<longrightarrow> t = u @ asok @ v \<longrightarrow> length (g @ ''.'' @ u @ asok) \<le> n)" for t
  proof
    assume "\<exists>m. sockRest t = Some m \<and> n = length g + 1 + m"
    then obtain m where m: "sockRest t = Some m" "n = length g + 1 + m" by blast
    from sockRest_sound [OF m(1)] obtain u v where
      "sockID u \<and> t = u @ asok @ v \<and> n = length (g @ ''.'' @ u @ asok)" using m(2) by auto
    moreover have "length (g @ ''.'' @ u @ asok) \<le> n" if "sockID u" "t = u @ asok @ v" for u v
      using sockRest_complete [OF that(1), of v] that(2) m by auto
    ultimately show "(\<exists>u v. sockID u \<and> t = u @ asok @ v \<and> n = length (g @ ''.'' @ u @ asok)) \<and>
      (\<forall>u v. sockID u \<longrightarrow> t = u @ asok @ v \<longrightarrow> length (g @ ''.'' @ u @ asok) \<le> n)"
      by blast
  next
    assume *: "(\<exists>u v. sockID u \<and> t = u @ asok @ v \<and> n = length (g @ ''.'' @ u @ asok)) \<and>
      (\<forall>u v. sockID u \<longrightarrow> t = u @ asok @ v \<longrightarrow> length (g @ ''.'' @ u @ asok) \<le> n)"
    then obtain u v where u: "sockID u" "t = u @ asok @ v" "n = length (g @ ''.'' @ u @ asok)" by blast
    with sockRest_complete obtain m where m: "sockRest t = Some m" "length (u @ asok) \<le> m" by blast
    from sockRest_sound [OF m(1)] obtain u' v' where
      "sockID u'" "t = u' @ asok @ v'" "m = length (u' @ asok)" by blast
    with * have "length g + 1 + m \<le> n" by auto
    with m u show "\<exists>m. sockRest t = Some m \<and> n = length g + 1 + m" by auto
  qed
  show ?thesis
  proof (cases "\<exists>v. s = g @ ''.'' @ v")
    case True
    then obtain v where v: "s = g @ ''.'' @ v" by blast
    then have "drop (length g + 1) s = v" by simp
    then show ?thesis
      unfolding sockMatch_iff [OF daemonTypes_no_dot] pre key using v by simp
  next
    case False
    then show ?thesis unfolding sockMatch_iff [OF daemonTypes_no_dot] pre by blast
  qed
qed

theorem admin_socket_match_witness:
  "\<exists>u v. sockID u \<and> ''mon.a.asok.x.asok/y'' = ''mon'' @ ''.'' @ u @ asok @ v \<and>
     17 = length (''mon'' @ ''.'' @ u @ asok)"
proof -
  have "sockMatch daemonTypes ''mon.a.asok.x.asok/y'' = Some (''mon'', 17)" by code_simp
  then show ?thesis
    unfolding admin_socket_match by (elim conjE)
qed



text \<open>
  C39: Repairing a service reports a change exactly when it changes something, reaches its goal
  in one step (a second repair changes nothing), gives it the desired type, pins the node ports
  of a node-port service to the service ports, clears them for a cluster service and leaves them
  alone for a load balancer, and never touches the ports themselves. A freshly created service
  of a type needs no repair.
\<close>

theorem service_repair:
  "(snd (repairService t svc) \<longleftrightarrow> fst (repairService t svc) \<noteq> svc) \<and>
   repairService t (fst (repairService t svc)) = (fst (repairService t svc), False) \<and>
   svc_type (fst (repairService t svc)) = t \<and>
   map sp_port (svc_ports (fst (repairService t svc))) = map sp_port (svc_ports svc) \<and>
   map sp_node_port (svc_ports (fst (repairService t svc))) =
     (if t = ServiceTypeNodePort then map sp_port (svc_ports svc)
      else if t = ServiceTypeLoadBalancer then map sp_node_port (svc_ports svc)
      else map (\<lambda>_. 0) (svc_ports svc)) \<and>
   \<not> list_ex (snd \<circ> repairPort t) (arbiterServicePorts t)"
proof -
  have "repairService t (fst (repairService t svc)) = (fst (repairService t svc), False)"
    by (auto simp: repairService_def Let_def comp_def repairPort_idem list_ex_iff repairPort_snd)
  moreover have "\<not> list_ex (snd \<circ> repairPort t) (arbiterServicePorts t)"
    by (auto simp: arbiterServicePorts_def repairPort_def Let_def)
  moreover note repairService_changed [of t svc]
  ultimately show ?thesis
    by (auto simp: repairService_def Let_def comp_def repairPort_fst)
qed

text \<open>
  The monitor to clone does not depend on the order in which the server lists the monitor
  deployments: among deployments with different names it is the one with the least name.
\<close>

theorem template_deterministic:
  assumes "mset ds = mset es" and "distinct (map (\<lambda>d. om_name (dep_meta d)) ds)" and "ds \<noteq> []"
  shows "\<exists>d\<in>set ds. selectTemplateMonDeployment ds = Val d \<and> selectTemplateMonDeployment es = Val d \<and>
    (\<forall>e\<in>set ds. om_name (dep_meta d) \<le> om_name (dep_meta e))"
proof -
  have set: "set es = set ds" using assms(1) by (metis set_mset_mset)
  have "es \<noteq> []" using assms(1,3) by auto
  with assms(3) select_total obtain d e where d: "selectTemplateMonDeployment ds = Val d"
    and e: "selectTemplateMonDeployment es = Val e" by meson
  note least = select_least [OF d] select_least [OF e]
  then have "om_name (dep_meta d) = om_name (dep_meta e)" using set by (auto intro: order_antisym)
  with assms(2) least set have "d = e" by (auto simp: distinct_map dest: inj_onD)
  with d e least show ?thesis by auto
qed

theorem template_deterministic_witness:
  "\<exists>d. selectTemplateMonDeployment [demo_monitor ''rook-ceph-mon-b'', demo_monitor ''rook-ceph-mon-a''] = Val d
     \<and> selectTemplateMonDeployment [demo_monitor ''rook-ceph-mon-a'', demo_monitor ''rook-ceph-mon-b''] = Val d"
  using template_deterministic [of "[demo_monitor ''rook-ceph-mon-b'', demo_monitor ''rook-ceph-mon-a'']"
      "[demo_monitor ''rook-ceph-mon-a'', demo_monitor ''rook-ceph-mon-b'']"]
  by (auto simp: demo_monitor_def demo_meta_def)

text \<open>
  C40: Building the deployment panics on a monitor whose data volume is not a host path, as Rook
  creates it for monitors on persistent volume claims.
\<close>

theorem pvc_monitor_panics:
  assumes "specPublicAddress svc (ras_service (ra_spec ra)) dep = Val addr"
    and "distinct (map vol_name (ps_volumes (ds_pod (dep_spec monitor))))"
    and "v \<in> set (ps_volumes (ds_pod (dep_spec monitor)))" and "vol_name v = ''ceph-daemon-data''"
    and "vol_host_path v = None"
  shows "makeDeploymentSpec ra svc monitor cm keyring env dep = Panic"
proof -
  let ?r = "rewriteVolumes (st_mon_id (ra_status ra)) cm keyring 0 (ps_volumes (ds_pod (dep_spec monitor)))"
  have "rewriteVolume (st_mon_id (ra_status ra)) cm keyring v = Panic"
    using assms(4,5) by (simp add: rewriteVolume_def)
  then have "?r \<noteq> Val vs" for vs
    using rewriteVolumes_each [OF _ assms(2) _ assms(3)] card_handled assms(4) by (auto simp: handled_def)
  then have "?r = Panic" using rewriteVolumes_not_Err by (cases ?r) auto
  with assms(1) show ?thesis by (simp add: makeDeploymentSpec_def Let_def)
qed

theorem pvc_monitor_panics_witness:
  "makeDeploymentSpec demo_arbiter None ((demo_monitor ''m'')\<lparr>dep_spec := empty_deployment_spec\<lparr>ds_pod :=
     empty_pod_spec\<lparr>ps_volumes := [(demo_volume ''ceph-daemon-data'')\<lparr>vol_host_path := None\<rparr>]\<rparr>\<rparr>\<rparr>) None None None
     (demo_monitor ''arbiter'')
   = Panic"
  by (rule pvc_monitor_panics [where v = "(demo_volume ''ceph-daemon-data'')\<lparr>vol_host_path := None\<rparr>"])
    (auto simp: specPublicAddress_def determinePublicAddress_def demo_volume_def)

end
