(* ===== verification/Remote_Cluster.thy ===== *)
theory Remote_Cluster
  imports Status_Ops
begin

text \<open>
  The reconciler of \<open>RemoteCluster\<close> resources (\<^verbatim>\<open>pkg/controller/remotecluster_controller.go\<close>):
  one definition per method, run on the reconciliation state of the method's receiver argument.
  The reconciler checks, in this order, that the kubeconfig secret exists, that a client can be
  made from it, that the target cluster is ready and that the permissions suffice, and records
  each outcome in the status.
\<close>

section \<open>Constants and state\<close>

definition RemoteClusterFinalizer :: string where
  [const_defs]: "RemoteClusterFinalizer = ''remotecluster.ceph.cobaltcore.sap.com/finalizer''"

definition RemoteArbiterFinalizer :: string where
  [const_defs]: "RemoteArbiterFinalizer = ''remotearbiter.ceph.cobaltcore.sap.com/finalizer''"

lemma finalizers_distinct [simp]:
  "RemoteClusterFinalizer \<noteq> RemoteArbiterFinalizer" "RemoteArbiterFinalizer \<noteq> RemoteClusterFinalizer"
  by (simp_all add: const_defs)

definition SecretTypeName :: string where [const_defs]: "SecretTypeName = ''secret''"
definition ConfigMapTypeName :: string where [const_defs]: "ConfigMapTypeName = ''configmap''"
definition DeploymentTypeName :: string where [const_defs]: "DeploymentTypeName = ''deployment''"
definition ServiceTypeName :: string where [const_defs]: "ServiceTypeName = ''service''"
definition RemoteClusterTypeName :: string where
  [const_defs]: "RemoteClusterTypeName = ''remotecluster''"

text \<open>\<open>ctrl.Result\<close>; zero is no requeue.\<close>

record ctrl_result =
  requeue_after :: interval

definition emptyResult :: ctrl_result where "emptyResult = \<lparr>requeue_after = 0\<rparr>"

text \<open>\<open>RemoteClusterReconcilationState\<close>, with the servers and the log of calls.\<close>

record 'w rcl_state = "'w base" +
  rl_key :: key
  rl_cluster :: "remote_cluster option"
  rl_secret_key :: "key option"
  rl_secret :: "secret option"
  rl_remote_client :: "'w clientset option"

definition init_rcl :: "key \<Rightarrow> 'w \<Rightarrow> 'w rcl_state" where
  "init_rcl k w = \<lparr>world = w, calls = [], rl_key = k, rl_cluster = None, rl_secret_key = None,
     rl_secret = None, rl_remote_client = None\<rparr>"

text \<open>\<open>%s\<close> of a \<open>*types.NamespacedName\<close>.\<close>

definition key_ptr_text :: "key option \<Rightarrow> string" where
  "key_ptr_text p = (case p of None \<Rightarrow> ''<nil>'' | Some k \<Rightarrow> key_text k)"

definition theCluster :: "('w rcl_state, remote_cluster) go" where
  "theCluster = bnd (gets rl_cluster) deref"

definition putCluster :: "remote_cluster \<Rightarrow> ('w rcl_state, unit) go" where
  "putCluster rc = modify (\<lambda>s. s\<lparr>rl_cluster := Some rc\<rparr>)"

definition theSecret :: "('w rcl_state, secret) go" where
  "theSecret = bnd (gets rl_secret) deref"

lemma wp_theCluster [wp_simps]:
  "wp theCluster Q E P = (\<lambda>s. case rl_cluster s of None \<Rightarrow> P s | Some x \<Rightarrow> Q x s)"
  by (rule ext) (simp add: theCluster_def wp_simps split: option.split)

lemma wp_theSecret [wp_simps]:
  "wp theSecret Q E P = (\<lambda>s. case rl_secret s of None \<Rightarrow> P s | Some x \<Rightarrow> Q x s)"
  by (rule ext) (simp add: theSecret_def wp_simps split: option.split)

lemma wp_putCluster [wp_simps]:
  "wp (putCluster x) Q E P = (\<lambda>s. Q () (s\<lparr>rl_cluster := Some x\<rparr>))"
  by (simp add: putCluster_def wp_simps)

section \<open>Writing the status\<close>

definition rcStatusUpdate :: "'w env \<Rightarrow> remote_cluster \<Rightarrow> ('w rcl_state, unit) go" where
  "rcStatusUpdate E rc =
     bnd (apiStatusUpdate Source RemoteClusterObj (kc_remoteclusters (e_client E)) rc) putCluster"

definition updateRemoteClusterStatusOnFailure ::
  "'w env \<Rightarrow> string \<Rightarrow> goerror \<Rightarrow> ('w rcl_state, unit) go" where
  "updateRemoteClusterStatusOnFailure E conditionType err =
     bnd theCluster (\<lambda>rc.
     let statusMessage = error_text err;
         (rc1, stateSet) = setRemoteClusterState rc ErrorState statusMessage;
         (rc2, conditionSet) = updateRemoteClusterCondition (e_lib E) rc1
            (NewErrorCondition conditionType statusMessage)
     in bnd (putCluster rc2) (\<lambda>_.
        if \<not> stateSet \<and> \<not> conditionSet then ret ()
        else rcStatusUpdate E rc2))"

definition updateRemoteClusterStatusOnSuccess ::
  "'w env \<Rightarrow> string \<Rightarrow> string \<Rightarrow> string \<Rightarrow> ('w rcl_state, unit) go" where
  "updateRemoteClusterStatusOnSuccess E state conditionType statusMessage =
     bnd theCluster (\<lambda>rc.
     let (rc1, stateSet) = setRemoteClusterState rc state statusMessage;
         (rc2, conditionSet) = updateRemoteClusterCondition (e_lib E) rc1
            (NewOKCondition conditionType statusMessage)
     in bnd (putCluster rc2) (\<lambda>_.
        if \<not> conditionSet then ret ()
        else rcStatusUpdate E rc2))"

text \<open>The error of the status update is formatted with \<open>%s\<close>, not wrapped.\<close>

definition updateRemoteClusterState ::
  "'w env \<Rightarrow> string \<Rightarrow> string \<Rightarrow> ('w rcl_state, unit) go" where
  "updateRemoteClusterState E state statusMessage =
     bnd theCluster (\<lambda>rc.
     let (rc1, stateSet) = setRemoteClusterState rc state statusMessage
     in bnd (putCluster rc1) (\<lambda>_.
        if \<not> stateSet then ret ()
        else onErr (rcStatusUpdate E rc1)
          (\<lambda>err. fail (ErrorText (''unable to update status: '' @ error_text err))) ret))"

section \<open>Fetching, finalizers, clean-up\<close>

definition fetchCluster :: "'w env \<Rightarrow> ('w rcl_state, unit) go" where
  "fetchCluster E =
     bnd (gets rl_key) (\<lambda>k.
     bnd (wrapErr ''unable to get resource'' (apiGet (kc_remoteclusters (e_client E)) k)) putCluster)"

definition getSecret :: "'w env \<Rightarrow> ('w rcl_state, unit) go" where
  "getSecret E =
     bnd theCluster (\<lambda>rc.
     let k = \<lparr>k_namespace = om_namespace (rc_meta rc), k_name = ks_name (rcs_access_key_ref (rc_spec rc))\<rparr>
     in bnd (modify (\<lambda>s. s\<lparr>rl_secret_key := Some k\<rparr>)) (\<lambda>_.
        bnd (wrapErr ''unable to get resource'' (apiGet (kc_secrets (e_client E)) k)) (\<lambda>sec.
        modify (\<lambda>s. s\<lparr>rl_secret := Some sec\<rparr>))))"

definition rcSecretUpdate :: "'w env \<Rightarrow> secret \<Rightarrow> ('w rcl_state, unit) go" where
  "rcSecretUpdate E sec =
     bnd (apiUpdate Source SecretObj (kc_secrets (e_client E)) sec) (\<lambda>sec'.
     modify (\<lambda>s. s\<lparr>rl_secret := Some sec'\<rparr>))"

definition rcUpdate :: "'w env \<Rightarrow> remote_cluster \<Rightarrow> ('w rcl_state, unit) go" where
  "rcUpdate E rc =
     bnd (apiUpdate Source RemoteClusterObj (kc_remoteclusters (e_client E)) rc) putCluster"

definition cleanUpSecret :: "'w env \<Rightarrow> ('w rcl_state, unit) go" where
  "cleanUpSecret E =
     onErr (getSecret E)
       (\<lambda>err. if isNotFound err then ret ()
              else bnd (gets rl_secret_key) (\<lambda>sk.
                fail (Wrap (''unable to get '' @ SecretTypeName @ '' '' @ key_ptr_text sk
                            @ '' to remove finalizer'') err)))
       (\<lambda>_. bnd theSecret (\<lambda>sec.
         let (fs, updated) = RemoveFinalizer (e_lib E) (om_finalizers (sec_meta sec)) RemoteClusterFinalizer;
             sec' = sec\<lparr>sec_meta := (sec_meta sec)\<lparr>om_finalizers := fs\<rparr>\<rparr>
         in bnd (modify (\<lambda>s. s\<lparr>rl_secret := Some sec'\<rparr>)) (\<lambda>_.
            if \<not> updated then ret ()
            else bnd (gets rl_secret_key) (\<lambda>sk.
              wrapErr (''unable to update '' @ SecretTypeName @ '' '' @ key_ptr_text sk
                       @ '' after finalizer removal'')
                (rcSecretUpdate E sec')))))"

definition cleanUpRemoteCluster :: "'w env \<Rightarrow> ('w rcl_state, unit) go" where
  "cleanUpRemoteCluster E =
     bnd (wrapErr ''unable to update remote cluster state''
            (updateRemoteClusterState E DeletingState ''deleting'')) (\<lambda>_.
     bnd theCluster (\<lambda>rc.
     if ContainsFinalizer (e_lib E) (om_finalizers (rc_meta rc)) RemoteArbiterFinalizer
     then fail (Sentinel ErrorArbiterCleanUpNotComplete)
     else
       let (fs, updated) = RemoveFinalizer (e_lib E) (om_finalizers (rc_meta rc)) RemoteClusterFinalizer;
           rc' = rc\<lparr>rc_meta := (rc_meta rc)\<lparr>om_finalizers := fs\<rparr>\<rparr>
       in bnd (putCluster rc') (\<lambda>_.
          if \<not> updated then ret ()
          else
            bnd (wrapErr ''unable to clean up secret'' (cleanUpSecret E)) (\<lambda>_.
            bnd theCluster (\<lambda>rc''.
            bnd (gets rl_key) (\<lambda>k.
            wrapErr (''unable to update '' @ RemoteClusterTypeName @ '' '' @ key_text k
                     @ '' after finalizer removal'')
              (rcUpdate E rc'')))))))"

definition rcCheckSelfFinalizer :: "'w env \<Rightarrow> ('w rcl_state, unit) go" where
  "rcCheckSelfFinalizer E =
     bnd theCluster (\<lambda>rc.
     let (fs, updated) = AddFinalizer (e_lib E) (om_finalizers (rc_meta rc)) RemoteClusterFinalizer;
         rc' = rc\<lparr>rc_meta := (rc_meta rc)\<lparr>om_finalizers := fs\<rparr>\<rparr>
     in bnd (putCluster rc') (\<lambda>_.
        if \<not> updated then ret ()
        else wrapErr ''unable to update resource with finalizer'' (rcUpdate E rc')))"

definition rcConditionTypes :: "string list" where
  "rcConditionTypes = [SecretAvailableConditionType, ConfigValidConditionType,
     ClusterReachableConditionType, HasEnoughPermissionsConditionType]"

definition rcCheckStatusInitialized :: "'w env \<Rightarrow> ('w rcl_state, unit) go" where
  "rcCheckStatusInitialized E =
     bnd theCluster (\<lambda>rc.
     let initialConditionsCount = length (rc_conds rc);
         rc' = initConditions (setRemoteClusterCondition (e_lib E)) rcConditionTypes rc
     in bnd (putCluster rc') (\<lambda>_.
        if initialConditionsCount = length (rc_conds rc') then ret ()
        else wrapErr ''unable to update resource with conditions''
               (updateRemoteClusterState E InitState ''initialized'')))"

definition fetchSecret :: "'w env \<Rightarrow> ('w rcl_state, unit) go" where
  "fetchSecret E =
     bnd (wrapErr ''unable to get secret'' (getSecret E)) (\<lambda>_.
     bnd theSecret (\<lambda>sec.
     let (fs, added) = AddFinalizer (e_lib E) (om_finalizers (sec_meta sec)) RemoteClusterFinalizer;
         sec' = sec\<lparr>sec_meta := (sec_meta sec)\<lparr>om_finalizers := fs\<rparr>\<rparr>
     in bnd (modify (\<lambda>s. s\<lparr>rl_secret := Some sec'\<rparr>)) (\<lambda>_.
        if \<not> added then ret ()
        else wrapErr ''unable to update resource with finalizer'' (rcSecretUpdate E sec'))))"

section \<open>The target cluster\<close>

definition rcMakeRemoteClient :: "'w env \<Rightarrow> ('w rcl_state, unit) go" where
  "rcMakeRemoteClient E =
     bnd theSecret (\<lambda>sec.
     bnd theCluster (\<lambda>rc.
     case map_lookup (sec_data sec) (ks_key (rcs_access_key_ref (rc_spec rc))) of
       None \<Rightarrow> fail (ErrorText (''secret key '' @ ks_key (rcs_access_key_ref (rc_spec rc)) @ '' not found''))
     | Some kubeconfig \<Rightarrow>
         bnd (gets rl_secret_key) (\<lambda>sk.
         bnd (wrapErr (''unable to create rest config from '' @ SecretTypeName @ '' '' @ key_ptr_text sk)
                (lift (RESTConfigFromKubeConfig E kubeconfig))) (\<lambda>cfg.
         bnd (deref (rcs_timeout (rc_spec rc))) (\<lambda>timeout.
         bnd (wrapErr (''unable to create client from '' @ SecretTypeName @ '' '' @ key_ptr_text sk)
                (lift (NewForConfig E (cfg\<lparr>cfg_timeout := timeout\<rparr>)))) (\<lambda>cs.
         modify (\<lambda>s. s\<lparr>rl_remote_client := Some cs\<rparr>)))))))"

text \<open>
  When the answer is not \<open>ok\<close> the code wraps the \<open>err\<close> of the request, which is nil there, with
  \<open>%w\<close>; \<open>fmt\<close> prints it as \<^verbatim>\<open>%!w(<nil>)\<close>.
\<close>

definition checkClusterReady :: "'w env \<Rightarrow> ('w rcl_state, unit) go" where
  "checkClusterReady E =
     bnd (bnd (gets rl_remote_client) deref) (\<lambda>cs.
     bnd (wrapErr ''unable to check cluster readiness'' (loggedCall ReadyzCall (cs_readyz cs)))
       (\<lambda>readinessResponse.
     if readinessResponse \<noteq> ''ok''
     then fail (ErrorText (''unable to validate cluster readiness, response is ''
                           @ readinessResponse @ '': %!w(<nil>)''))
     else ret ()))"

definition permissionVerbs :: "string list" where
  "permissionVerbs = [''create'', ''delete'', ''get'', ''list'', ''patch'', ''update'', ''watch'']"

text \<open>Resource and API group of each review template.\<close>

definition reviewTemplates :: "(string \<times> string) list" where
  "reviewTemplates = [(''deployments'', ''apps''), (''secrets'', []), (''configmaps'', []), (''services'', [])]"

definition reviewAttributes ::
  "string \<Rightarrow> string \<times> string \<Rightarrow> string \<Rightarrow> string \<Rightarrow> resource_attributes" where
  "reviewAttributes namespace tpl verb subresource =
     \<lparr>at_namespace = namespace, at_verb = verb, at_group = snd tpl, at_version = ''v1'',
      at_resource = fst tpl, at_subresource = subresource\<rparr>"

definition getPermissionReviewRequests :: "string \<Rightarrow> resource_attributes list" where
  "getPermissionReviewRequests namespace =
     concat (map (\<lambda>tpl.
       concat (map (\<lambda>verb. [reviewAttributes namespace tpl verb [],
                            reviewAttributes namespace tpl verb ''status'']) permissionVerbs)
       @ [reviewAttributes namespace tpl ''update'' ''finalizers'']) reviewTemplates)"

text \<open>What one denied review adds to the collected errors.\<close>

definition denialErrors :: "k8s_lib \<Rightarrow> resource_attributes \<Rightarrow> review_status \<Rightarrow> goerror list" where
  "denialErrors L req resp =
     (let errs = (if rv_reason resp \<noteq> [] then [ErrorText (rv_reason resp)] else [])
              @ (if rv_evaluation_error resp \<noteq> [] then [ErrorText (rv_evaluation_error resp)] else [])
      in if errs = [] then [ErrorText (''not enough rights for '' @ lib_attributes_text L req)] else errs)"

fun reviewLoop ::
  "k8s_lib \<Rightarrow> 'w clientset \<Rightarrow> resource_attributes list \<Rightarrow> goerror list \<Rightarrow> ('w rcl_state, goerror list) go" where
  "reviewLoop L cs [] errs = ret errs"
| "reviewLoop L cs (req # reqs) errs =
     bnd (wrapErr ''unable to perform permission evaluation''
            (loggedCall (ReviewCall req) (cs_access_review cs req))) (\<lambda>resp.
     if rv_allowed resp then reviewLoop L cs reqs errs
     else reviewLoop L cs reqs (errs @ denialErrors L req resp))"

definition validatePermissions :: "'w env \<Rightarrow> ('w rcl_state, unit) go" where
  "validatePermissions E =
     bnd theCluster (\<lambda>rc.
     bnd (bnd (gets rl_remote_client) deref) (\<lambda>cs.
     bnd (reviewLoop (e_lib E) cs (getPermissionReviewRequests (rcs_namespace (rc_spec rc))) []) (\<lambda>errs.
     if errs = [] then ret ()
     else fail (Wrap ''unable to validate permissions'' (Join errs)))))"

section \<open>Reconcile\<close>

text \<open>
  The failure branch of a stage: record the failure, then return it; an error of recording it
  takes its place.
\<close>

definition rcStageFailed :: "'w env \<Rightarrow> string \<Rightarrow> string \<Rightarrow> goerror \<Rightarrow> ('w rcl_state, 'a) go" where
  "rcStageFailed E conditionType what err =
     onErr (updateRemoteClusterStatusOnFailure E conditionType err)
       (\<lambda>statusErr. fail (Wrap ''unable to update resource with conditions'' statusErr))
       (\<lambda>_. fail (Wrap what err))"

definition rcStageDone :: "'w env \<Rightarrow> string \<Rightarrow> string \<Rightarrow> ('w rcl_state, unit) go" where
  "rcStageDone E conditionType statusMessage =
     wrapErr ''unable to update resource with conditions''
       (updateRemoteClusterStatusOnSuccess E ProgressingState conditionType statusMessage)"

text \<open>The last check and the final status (lines 158 to 179).\<close>

definition rcLastStage :: "'w env \<Rightarrow> ('w rcl_state, ctrl_result) go" where
  "rcLastStage E =
     onErr (validatePermissions E)
       (rcStageFailed E HasEnoughPermissionsConditionType ''unable to check permissions'') (\<lambda>_.
     bnd (updateRemoteClusterStatusOnSuccess E ReadyState HasEnoughPermissionsConditionType
            ''cluster is ready and configured'') (\<lambda>_.
     bnd theCluster (\<lambda>rc.
     bnd (deref (rcs_check_interval (rc_spec rc))) (\<lambda>d.
     ret \<lparr>requeue_after = d\<rparr>))))"

text \<open>The checks after the status is initialised (lines 109 to 179).\<close>

definition rcStages :: "'w env \<Rightarrow> ('w rcl_state, ctrl_result) go" where
  "rcStages E =
     onErr (fetchSecret E)
       (rcStageFailed E SecretAvailableConditionType ''unable to fetch remote cluster'') (\<lambda>_.
     bnd (rcStageDone E SecretAvailableConditionType ''secret is present'') (\<lambda>_.
     onErr (rcMakeRemoteClient E)
       (rcStageFailed E ConfigValidConditionType ''unable to create remote client'') (\<lambda>_.
     bnd (rcStageDone E ConfigValidConditionType ''client initialized, config is valid'') (\<lambda>_.
     onErr (checkClusterReady E)
       (rcStageFailed E ClusterReachableConditionType ''unable to check cluster ready'') (\<lambda>_.
     bnd (rcStageDone E ClusterReachableConditionType ''cluster is ready'') (\<lambda>_.
     rcLastStage E))))))"

definition rcReconcile :: "'w env \<Rightarrow> ('w rcl_state, ctrl_result) go" where
  "rcReconcile E =
     onErr (fetchCluster E)
       (\<lambda>err. if isNotFound err then ret emptyResult else fail (Wrap ''unable to fetch self'' err)) (\<lambda>_.
     bnd theCluster (\<lambda>rc.
     if om_deletion_timestamp (rc_meta rc) \<noteq> None then
       onErr (cleanUpRemoteCluster E)
         (\<lambda>err. if errorsIs err ErrorArbiterCleanUpNotComplete then ret \<lparr>requeue_after = 5 * time_Second\<rparr>
                else fail (Wrap ''unable to clean up'' err))
         (\<lambda>_. ret emptyResult)
     else
       bnd (wrapErr ''unable to check self finalizer'' (rcCheckSelfFinalizer E)) (\<lambda>_.
       bnd (wrapErr ''unable to initialize conditions'' (rcCheckStatusInitialized E)) (\<lambda>_.
       rcStages E))))"

end
