(* ===== verification/Remote_Cluster_Props.thy ===== *)
theory Remote_Cluster_Props
  imports Remote_Cluster Demo_Server
begin

text \<open>
  Properties of the \<open>RemoteCluster\<close> reconciler. The first part bounds what each function may
  send and shows that \<open>Ready\<close> is published last and only behind both checks of the target
  cluster. The second part describes what the status writers record and follows a run on a
  healthy target cluster to its end. Then come deletion, the permission reviews and the
  initialisation of the status. The properties are stated at the end, each with an application
  to a concrete server.
\<close>

section \<open>What the functions may call\<close>

abbreviation rcStatusCall :: "remote_cluster \<Rightarrow> bool \<Rightarrow> call" where
  "rcStatusCall rc b \<equiv> StatusUpdateCall Source (RemoteClusterObj rc) b"

lemma rc_accessors_emit [emits_intros]:
  "emits theCluster G" "emits theSecret G" "emits (putCluster rc) G"
  "emits (fetchCluster E) G" "emits (getSecret E) G"
  unfolding theCluster_def theSecret_def putCluster_def fetchCluster_def getSecret_def
  by (auto intro!: emits_intros)

lemma rc_writes_emit [emits_intros]:
  "(\<And>b. G (rcStatusCall rc b)) \<Longrightarrow> emits (rcStatusUpdate E rc) G"
  "(\<And>b. G (UpdateCall Source (RemoteClusterObj rc) b)) \<Longrightarrow> emits (rcUpdate E rc) G"
  "(\<And>b. G (UpdateCall Source (SecretObj sec) b)) \<Longrightarrow> emits (rcSecretUpdate E sec) G"
  unfolding rcStatusUpdate_def rcUpdate_def rcSecretUpdate_def
  by (auto intro!: emits_intros)

lemma rc_status_writers_emit [emits_intros]:
  "(\<And>rc b. rc_state rc = ErrorState \<Longrightarrow> G (rcStatusCall rc b)) \<Longrightarrow>
     emits (updateRemoteClusterStatusOnFailure E t err) G"
  "(\<And>rc b. rc_state rc = st \<Longrightarrow> G (rcStatusCall rc b)) \<Longrightarrow>
     emits (updateRemoteClusterStatusOnSuccess E st t m) G"
  "(\<And>rc b. rc_state rc = st \<Longrightarrow> G (rcStatusCall rc b)) \<Longrightarrow>
     emits (updateRemoteClusterState E st m) G"
  unfolding updateRemoteClusterStatusOnFailure_def updateRemoteClusterStatusOnSuccess_def
    updateRemoteClusterState_def
  by (auto intro!: emits_intros simp: remote_cluster_status_defs split: if_splits)

lemma cleanUpSecret_emits [emits_intros]:
  "(\<And>sec b. G (UpdateCall Source (SecretObj sec) b)) \<Longrightarrow> emits (cleanUpSecret E) G"
  unfolding cleanUpSecret_def by (auto intro!: emits_intros)

lemma cleanUpRemoteCluster_emits [emits_intros]:
  "(\<And>rc b. rc_state rc = DeletingState \<Longrightarrow> G (rcStatusCall rc b)) \<Longrightarrow>
   (\<And>sec b. G (UpdateCall Source (SecretObj sec) b)) \<Longrightarrow>
   (\<And>rc b. G (UpdateCall Source (RemoteClusterObj rc) b)) \<Longrightarrow>
   emits (cleanUpRemoteCluster E) G"
  unfolding cleanUpRemoteCluster_def by (auto intro!: emits_intros)

lemma rc_checks_emit [emits_intros]:
  "(\<And>rc b. G (UpdateCall Source (RemoteClusterObj rc) b)) \<Longrightarrow> emits (rcCheckSelfFinalizer E) G"
  "(\<And>rc b. rc_state rc = InitState \<Longrightarrow> G (rcStatusCall rc b)) \<Longrightarrow>
     emits (rcCheckStatusInitialized E) G"
  "(\<And>sec b. G (UpdateCall Source (SecretObj sec) b)) \<Longrightarrow> emits (fetchSecret E) G"
  "emits (rcMakeRemoteClient E) G"
  "(\<And>r. G (ReadyzCall r)) \<Longrightarrow> emits (checkClusterReady E) G"
  unfolding rcCheckSelfFinalizer_def rcCheckStatusInitialized_def fetchSecret_def
    rcMakeRemoteClient_def checkClusterReady_def
  by (auto intro!: emits_intros)

lemma reviewLoop_emits [emits_intros]:
  "(\<And>a r. G (ReviewCall a r)) \<Longrightarrow> emits (reviewLoop L cs reqs errs) G"
  by (induction reqs arbitrary: errs) (auto intro!: emits_intros)

lemma validatePermissions_emits [emits_intros]:
  "(\<And>a r. G (ReviewCall a r)) \<Longrightarrow> emits (validatePermissions E) G"
  unfolding validatePermissions_def by (auto intro!: emits_intros)

lemma rc_stage_ends_emit [emits_intros]:
  "(\<And>rc b. rc_state rc = ErrorState \<Longrightarrow> G (rcStatusCall rc b)) \<Longrightarrow>
     emits (rcStageFailed E t what err) G"
  "(\<And>rc b. rc_state rc = ProgressingState \<Longrightarrow> G (rcStatusCall rc b)) \<Longrightarrow>
     emits (rcStageDone E t m) G"
  unfolding rcStageFailed_def rcStageDone_def
  by (auto intro!: emits_intros)

section \<open>Ready is published last and only after every check\<close>

fun readyWrite :: "call \<Rightarrow> bool" where
  "readyWrite (StatusUpdateCall Source (RemoteClusterObj rc) b) = (rc_state rc = ReadyState)"
| "readyWrite _ = False"

text \<open>The review of \<open>req\<close> was answered with \<open>Allowed\<close>.\<close>

definition reviewAllowed :: "call list \<Rightarrow> resource_attributes \<Rightarrow> bool" where
  "reviewAllowed log req \<longleftrightarrow> (\<exists>resp. ReviewCall req (Inr resp) \<in> set log \<and> rv_allowed resp)"

text \<open>The target cluster answered its readiness probe with \<open>ok\<close> and granted every permission.\<close>

definition targetChecked :: "string \<Rightarrow> call list \<Rightarrow> bool" where
  "targetChecked ns log \<longleftrightarrow> ReadyzCall (Inr ''ok'') \<in> set log \<and>
     (\<forall>req\<in>set (getPermissionReviewRequests ns). reviewAllowed log req)"

lemma reviewAllowed_append [simp]: "reviewAllowed log req \<Longrightarrow> reviewAllowed (log @ log') req"
  by (auto simp: reviewAllowed_def)

lemma targetChecked_append [simp]: "targetChecked ns log \<Longrightarrow> targetChecked ns (log @ log')"
  by (simp add: targetChecked_def)

lemma denialErrors_not_Nil [simp]: "denialErrors L req resp \<noteq> []"
  by (simp add: denialErrors_def Let_def)

lemma checkClusterReady_ok:
  "wp (checkClusterReady E) (\<lambda>_ t. ReadyzCall (Inr ''ok'') \<in> set (calls t))
     (\<lambda>_ _. True) (\<lambda>_. True) s"
  by (auto simp: checkClusterReady_def wp_simps split: option.splits prod.splits sum.splits)

lemma reviewLoop_keeps_cluster [keeps_intros]:
  "keeps (reviewLoop L cs reqs errs) (\<lambda>s. rl_cluster s = x)"
  by (induction reqs arbitrary: errs) (auto intro!: keeps_intros)

lemma reviewLoop_allowed:
  "wp (reviewLoop L cs reqs errs)
     (\<lambda>errs' t. errs' = [] \<longrightarrow> errs = [] \<and> (\<forall>req\<in>set reqs. reviewAllowed (calls t) req))
     (\<lambda>_ _. True) (\<lambda>_. True) s"
proof (induction reqs arbitrary: errs s)
  case Nil
  then show ?case by (simp add: wp_simps)
next
  case (Cons req reqs)
  have rest: "wp (reviewLoop L cs reqs errs')
      (\<lambda>errs'' t. errs'' = [] \<longrightarrow> errs' = [] \<and> (\<forall>q\<in>set reqs. reviewAllowed (calls t) q)
         \<and> (\<exists>new. calls t = calls u @ new)) (\<lambda>_ _. True) (\<lambda>_. True) u" for errs' u
    by (rule wp_mono [OF wp_conj [OF Cons.IH [of errs' u] emits_wp [of _ "\<lambda>_. True" u]]])
      (auto intro!: emits_intros)
  have here: "reviewAllowed (log @ ReviewCall req (Inr resp) # new) req"
    if "rv_allowed resp" for log new resp
    using that by (auto simp: reviewAllowed_def)
  show ?case
    unfolding reviewLoop.simps wp_bnd wp_wrapErr wp_if
    by (rule wp_loggedCallI) (auto intro!: wp_mono [OF rest] simp: here)
qed

lemma validatePermissions_allowed:
  "wp (validatePermissions E)
     (\<lambda>_ t. \<exists>rc. rl_cluster t = Some rc \<and>
        (\<forall>req\<in>set (getPermissionReviewRequests (rcs_namespace (rc_spec rc))). reviewAllowed (calls t) req))
     (\<lambda>_ _. True) (\<lambda>_. True) s"
proof -
  have loop: "wp (reviewLoop L cs reqs [])
      (\<lambda>errs t. rl_cluster t = rl_cluster s \<and>
         (errs = [] \<longrightarrow> (\<forall>req\<in>set reqs. reviewAllowed (calls t) req))) (\<lambda>_ _. True) (\<lambda>_. True) s"
    for L cs reqs
    by (rule wp_mono [OF wp_conj [OF keeps_wp [OF reviewLoop_keeps_cluster refl] reviewLoop_allowed]])
      auto
  show ?thesis
    by (auto simp: validatePermissions_def wp_simps split: option.split
        intro!: wp_mono [OF loop])
qed

abbreviation noReady :: "'w rcl_state \<Rightarrow> bool" where
  "noReady s \<equiv> \<forall>c\<in>set (calls s). \<not> readyWrite c"

definition readyGate :: "'w rcl_state \<Rightarrow> bool" where
  "readyGate t \<longleftrightarrow> noReady t \<or>
     (\<exists>log rc b. calls t = log @ [rcStatusCall rc b] \<and> (\<forall>c\<in>set log. \<not> readyWrite c)
        \<and> rc_state rc = ReadyState \<and> targetChecked (rcs_namespace (rc_spec rc)) log)"

lemma noReady_gate [intro]: "noReady t \<Longrightarrow> readyGate t"
  by (simp add: readyGate_def)

lemma rc_final_write:
  assumes "noReady s" and "rl_cluster s = Some rc"
    and "targetChecked (rcs_namespace (rc_spec rc)) (calls s)"
  shows "always (updateRemoteClusterStatusOnSuccess E ReadyState t m) readyGate s"
  using assms
  by (auto simp: updateRemoteClusterStatusOnSuccess_def rcStatusUpdate_def apiStatusUpdate_def
      always_def wp_simps remote_cluster_status_defs readyGate_def
      split: option.splits prod.splits sum.splits if_splits)

text \<open>A function that publishes no Ready keeps \<open>noReady\<close>, so it also ends behind the gate.\<close>

lemma keeps_noReady: "emits m (\<lambda>c. \<not> readyWrite c) \<Longrightarrow> keeps m noReady"
  by (rule emits_keeps)

lemma ends_noReady: "emits m (\<lambda>c. \<not> readyWrite c) \<Longrightarrow> ends noReady m readyGate"
  by (rule ends_keeps [OF emits_keeps]) auto

lemmas gate_intros = ends_onErr ends_bnd keeps_noReady noReady_gate

lemma rc_stage_gate:
  assumes "emits m (\<lambda>c. \<not> readyWrite c)" and "ends noReady k readyGate"
  shows "ends noReady (onErr m (rcStageFailed E ct what) (\<lambda>_. bnd (rcStageDone E ct msg) (\<lambda>_. k)))
    readyGate"
  by (intro gate_intros assms ends_noReady) (auto intro!: emits_intros)

text \<open>From the readiness probe on.\<close>

definition probed :: "'w rcl_state \<Rightarrow> bool" where
  "probed s \<longleftrightarrow> noReady s \<and> ReadyzCall (Inr ''ok'') \<in> set (calls s)"

lemma keeps_probed: "emits m (\<lambda>c. \<not> readyWrite c) \<Longrightarrow> keeps m probed"
  unfolding probed_def
  by (intro keeps_conj emits_keeps_mem emits_keeps) (auto intro: emits_mono)

lemma probed_gate [intro]: "probed t \<Longrightarrow> readyGate t"
  by (auto simp: probed_def)

lemma rcLastStage_gate: "ends probed (rcLastStage E) readyGate"
proof -
  have perms: "wp (validatePermissions E)
    (\<lambda>_ t. probed t \<and> (\<exists>rc. rl_cluster t = Some rc \<and> targetChecked (rcs_namespace (rc_spec rc)) (calls t)))
    (\<lambda>_. probed) readyGate s" if "probed s" for s
    by (rule wp_mono [OF wp_conj [OF validatePermissions_allowed keeps_wp [OF keeps_probed that]]])
      (auto intro!: emits_intros simp: targetChecked_def probed_def)
  have "wp (rcLastStage E) (\<lambda>_. readyGate) (\<lambda>_. readyGate) readyGate s" if "probed s" for s
    unfolding rcLastStage_def
  proof (rule wp_onErrI [OF perms [OF that]], goal_cases)
    case (1 e t)
    moreover have "ends probed (rcStageFailed E HasEnoughPermissionsConditionType
        ''unable to check permissions'' e :: ('a rcl_state, ctrl_result) go) readyGate"
      by (intro ends_keeps keeps_probed) (auto intro!: emits_intros)
    ultimately show ?case by (rule ends_wpD [rotated])
  next
    case (2 x t)
    then have "always (updateRemoteClusterStatusOnSuccess E ReadyState
        HasEnoughPermissionsConditionType ''cluster is ready and configured'') readyGate t"
      by (auto intro: rc_final_write simp: probed_def)
    then show ?case
      unfolding always_def
      by (rule wp_seqI) (simp add: wp_simps split: option.split)
  qed
  then show ?thesis by (simp add: ends_def always_def)
qed

lemma rc_probe_stage_gate:
  "ends noReady (onErr (checkClusterReady E)
     (rcStageFailed E ClusterReachableConditionType ''unable to check cluster ready'')
     (\<lambda>_. bnd (rcStageDone E ClusterReachableConditionType ''cluster is ready'') (\<lambda>_. rcLastStage E)))
   readyGate" (is "ends _ (onErr _ ?fail (\<lambda>_. ?rest)) _")
proof -
  have probe: "wp (checkClusterReady E) (\<lambda>_. probed) (\<lambda>_. noReady) readyGate s" if "noReady s" for s
    by (rule wp_mono [OF wp_conj [OF checkClusterReady_ok keeps_wp [OF emits_keeps that]]])
      (auto intro!: emits_intros simp: probed_def)
  have rest: "ends probed ?rest readyGate"
    by (intro ends_bnd keeps_probed rcLastStage_gate) (auto intro!: emits_intros)
  have failed: "ends noReady (?fail e) readyGate" for e
    by (rule ends_noReady) (auto intro!: emits_intros)
  have "wp (onErr (checkClusterReady E) ?fail (\<lambda>_. ?rest))
      (\<lambda>_. readyGate) (\<lambda>_. readyGate) readyGate s" if "noReady s" for s
    by (rule wp_onErrI [OF probe [OF that] ends_wpD [OF failed] ends_wpD [OF rest]])
  then show ?thesis by (simp add: ends_def always_def)
qed

lemma rcReconcile_gate: "ends noReady (rcReconcile E) readyGate"
  unfolding rcReconcile_def rcStages_def
  by (intro gate_intros ends_if rc_stage_gate rc_probe_stage_gate)
    (auto intro!: emits_intros ends_noReady)

section \<open>What the status writers record\<close>

text \<open>The object after \<open>updateRemoteClusterStatusOnSuccess\<close> and \<open>\<dots>OnFailure\<close>, before it is sent.\<close>

definition rcRecorded :: "k8s_lib \<Rightarrow> remote_cluster \<Rightarrow> string \<Rightarrow> condition \<Rightarrow> remote_cluster" where
  "rcRecorded L x st c =
     fst (updateRemoteClusterCondition L (fst (setRemoteClusterState x st (cond_message c))) c)"

abbreviation rcCond :: "k8s_lib \<Rightarrow> remote_cluster \<Rightarrow> string \<Rightarrow> string option" where
  "rcCond L x \<equiv> condStatus (FindStatusCondition L) (rc_conds x)"

context k8s_laws
begin

lemma rc_recorded:
  "rc_state (rcRecorded L x st c) = st" "rc_message (rcRecorded L x st c) = cond_message c"
  "rc_spec (rcRecorded L x st c) = rc_spec x" "rc_meta (rcRecorded L x st c) = rc_meta x"
  "rcCond L (rcRecorded L x st c) = (rcCond L x)(cond_type c \<mapsto> cond_status c)"
  using rcst.update_cond_rest [of "fst (setRemoteClusterState x st (cond_message c))" c]
    rcst.set_state_rest [of x st "cond_message c"]
  by (simp_all add: rcRecorded_def rcst.update_cond_state rcst.update_cond_message rcst.set_state_state
      rcst.set_state_message rcst.cond_map_update_cond rcst.cond_map_set_state)

lemma wp_onSuccess:
  assumes "rl_cluster s = Some x" and "e_lib E = L"
  shows "wp (updateRemoteClusterStatusOnSuccess E st ct m) Q Er P s =
    (let y = rcRecorded L x st (NewOKCondition ct m); u = s\<lparr>rl_cluster := Some y\<rparr>
     in if rcCond L x ct = Some ConditionTrue then Q () u else wp (rcStatusUpdate E y) Q Er P u)"
  using assms rcst.update_cond_changed [of "fst (setRemoteClusterState x st m)" "NewOKCondition ct m"]
  by (auto simp: updateRemoteClusterStatusOnSuccess_def wp_simps
      split_beta Let_def condStatus_def rcst.set_state_conds rcRecorded_def)

lemma wp_onFailure:
  assumes "rl_cluster s = Some x" and "e_lib E = L"
  shows "wp (updateRemoteClusterStatusOnFailure E ct err) Q Er P s =
    (let y = rcRecorded L x ErrorState (NewErrorCondition ct (error_text err));
         u = s\<lparr>rl_cluster := Some y\<rparr>
     in if rc_state x = ErrorState \<and> rc_message x = error_text err \<and> rcCond L x ct = Some ConditionFalse
        then Q () u else wp (rcStatusUpdate E y) Q Er P u)"
  using assms rcst.set_state_changed [of x ErrorState "error_text err"]
    rcst.update_cond_changed [of "fst (setRemoteClusterState x ErrorState (error_text err))"
      "NewErrorCondition ct (error_text err)"]
  by (auto simp: updateRemoteClusterStatusOnFailure_def wp_simps
      split_beta Let_def condStatus_def rcst.set_state_conds rcRecorded_def)

end

section \<open>A healthy target cluster\<close>

text \<open>The server stores what it is given: the answer agrees with the object sent.\<close>

definition rcAgrees :: "remote_cluster \<Rightarrow> remote_cluster \<Rightarrow> bool" where
  "rcAgrees x y \<longleftrightarrow> rc_spec y = rc_spec x \<and> rc_status y = rc_status x
     \<and> om_namespace (rc_meta y) = om_namespace (rc_meta x)"

definition rcHealthy ::
  "'w env \<Rightarrow> key \<Rightarrow> remote_cluster \<Rightarrow> interval \<Rightarrow> bool" where
  "rcHealthy E k rc d \<longleftrightarrow>
     om_deletion_timestamp (rc_meta rc) = None \<and> rcs_check_interval (rc_spec rc) = Some d \<and>
     (\<forall>w. \<exists>w'. cl_get (kc_remoteclusters (e_client E)) k w = (Inr rc, w')) \<and>
     (\<forall>x w. \<exists>y w'. cl_update (kc_remoteclusters (e_client E)) x w = (Inr y, w') \<and> rcAgrees x y) \<and>
     (\<forall>x w. \<exists>y w'. cl_status_update (kc_remoteclusters (e_client E)) x w = (Inr y, w') \<and> rcAgrees x y) \<and>
     (\<forall>x w. \<exists>y w'. cl_update (kc_secrets (e_client E)) x w = (Inr y, w') \<and> sec_data y = sec_data x) \<and>
     (\<exists>sec kubeconfig cfg timeout cs.
        (\<forall>w. \<exists>w'. cl_get (kc_secrets (e_client E)) \<lparr>k_namespace = om_namespace (rc_meta rc),
           k_name = ks_name (rcs_access_key_ref (rc_spec rc))\<rparr> w = (Inr sec, w')) \<and>
        map_lookup (sec_data sec) (ks_key (rcs_access_key_ref (rc_spec rc))) = Some kubeconfig \<and>
        RESTConfigFromKubeConfig E kubeconfig = Inr cfg \<and>
        rcs_timeout (rc_spec rc) = Some timeout \<and>
        NewForConfig E (cfg\<lparr>cfg_timeout := timeout\<rparr>) = Inr cs \<and>
        (\<forall>w. \<exists>w'. cs_readyz cs w = (Inr ''ok'', w')) \<and>
        (\<forall>a\<in>set (getPermissionReviewRequests (rcs_namespace (rc_spec rc))). \<forall>w. \<exists>resp w'.
           cs_access_review cs a w = (Inr resp, w') \<and> rv_allowed resp))"

text \<open>
  The reconciler's copy of the resource during a healthy run: the conditions in \<open>ts\<close> are true,
  the permission condition is as it was fetched, and Ready has not been published.
\<close>

definition rcOnTrack ::
  "k8s_lib \<Rightarrow> remote_cluster \<Rightarrow> string set \<Rightarrow> 'w rcl_state \<Rightarrow> bool" where
  "rcOnTrack L rc ts s \<longleftrightarrow> noReady s \<and> (\<exists>x. rl_cluster s = Some x \<and> rc_spec x = rc_spec rc
     \<and> om_namespace (rc_meta x) = om_namespace (rc_meta rc)
     \<and> (\<forall>t\<in>ts. condStatus (FindStatusCondition L) (rc_conds x) t = Some ConditionTrue)
     \<and> (condStatus (FindStatusCondition L) (rc_conds x) HasEnoughPermissionsConditionType = Some ConditionTrue
        \<longleftrightarrow> condStatus (FindStatusCondition L) (rc_conds rc) HasEnoughPermissionsConditionType = Some ConditionTrue))"

lemma rcHealthyD:
  assumes "rcHealthy E k rc d"
  shows "\<exists>w'. cl_get (kc_remoteclusters (e_client E)) k w = (Inr rc, w')"
    and "\<exists>y w'. cl_update (kc_remoteclusters (e_client E)) x w = (Inr y, w') \<and> rcAgrees x y"
    and "\<exists>y w'. cl_status_update (kc_remoteclusters (e_client E)) x w = (Inr y, w') \<and> rcAgrees x y"
    and "\<exists>y w'. cl_update (kc_secrets (e_client E)) z w = (Inr y, w') \<and> sec_data y = sec_data z"
    and "om_deletion_timestamp (rc_meta rc) = None" and "rcs_check_interval (rc_spec rc) = Some d"
  using assms unfolding rcHealthy_def by blast+

lemma wp_rcStatusUpdate_healthy:
  assumes "rcHealthy E k rc d"
    and "\<And>y w. rcAgrees x y \<Longrightarrow> Q () (s\<lparr>world := w, calls := calls s @ [rcStatusCall x True], rl_cluster := Some y\<rparr>)"
  shows "wp (rcStatusUpdate E x) Q Er P s"
  using assms(2) rcHealthyD(3) [OF assms(1), of x "world s"]
  by (auto simp: rcStatusUpdate_def apiStatusUpdate_def wp_simps)

lemma wp_rcUpdate_healthy:
  assumes "rcHealthy E k rc d"
    and "\<And>y w. rcAgrees x y \<Longrightarrow> Q () (s\<lparr>world := w,
      calls := calls s @ [UpdateCall Source (RemoteClusterObj x) True], rl_cluster := Some y\<rparr>)"
  shows "wp (rcUpdate E x) Q Er P s"
  using assms(2) rcHealthyD(2) [OF assms(1), of x "world s"]
  by (auto simp: rcUpdate_def apiUpdate_def wp_simps)

context k8s_laws
begin

lemma stageDone_healthy:
  assumes H: "rcHealthy E k rc d" and lib: "e_lib E = L" and s: "rcOnTrack L rc ts s"
    and ct: "ct \<noteq> HasEnoughPermissionsConditionType"
  shows "wp (rcStageDone E ct m) (\<lambda>_. rcOnTrack L rc (insert ct ts)) (\<lambda>_ _. False) (\<lambda>_. False) s"
proof -
  obtain x where x: "rl_cluster s = Some x" using s by (auto simp: rcOnTrack_def)
  show ?thesis
    unfolding rcStageDone_def wp_wrapErr wp_onSuccess [OF x lib] Let_def
    using s ct x
    by (auto simp: rcOnTrack_def rc_recorded rcAgrees_def intro!: wp_rcStatusUpdate_healthy [OF H])
qed

lemma finalizer_healthy:
  assumes H: "rcHealthy E k rc d" and lib: "e_lib E = L" and s: "rcOnTrack L rc ts s"
  shows "wp (rcCheckSelfFinalizer E) (\<lambda>_. rcOnTrack L rc ts) (\<lambda>_ _. False) (\<lambda>_. False) s"
  using s
  by (auto simp: rcOnTrack_def rcCheckSelfFinalizer_def wp_simps
      split_beta Let_def rcAgrees_def intro!: wp_rcUpdate_healthy [OF H])

lemma init_healthy:
  assumes H: "rcHealthy E k rc d" and lib: "e_lib E = L" and s: "rcOnTrack L rc {} s"
  shows "wp (rcCheckStatusInitialized E) (\<lambda>_. rcOnTrack L rc {}) (\<lambda>_ _. False) (\<lambda>_. False) s"
proof -
  obtain x where x: "rl_cluster s = Some x" using s by (auto simp: rcOnTrack_def)
  let ?y = "initConditions (setRemoteClusterCondition L) rcConditionTypes x"
  have "rc_spec ?y = rc_spec x" "rc_meta ?y = rc_meta x"
    using rcst.init_state(3) [of rcConditionTypes x] by auto
  moreover have "rcCond L ?y t = Some ConditionTrue \<longleftrightarrow> rcCond L x t = Some ConditionTrue" for t
    by (simp add: rcst.init_cond_map)
  ultimately show ?thesis
    using s x lib
    by (auto simp: rcOnTrack_def rcCheckStatusInitialized_def updateRemoteClusterState_def
        wp_simps
        split_beta Let_def rcAgrees_def remote_cluster_status_defs split: if_splits
        intro!: wp_rcStatusUpdate_healthy [OF H])
qed

lemma onSuccess_ready_healthy:
  assumes H: "rcHealthy E k rc d" and lib: "e_lib E = L" and s: "rcOnTrack L rc ts s"
  shows "wp (updateRemoteClusterStatusOnSuccess E ReadyState HasEnoughPermissionsConditionType m)
     (\<lambda>_ t. \<exists>x. rl_cluster t = Some x \<and> rc_state x = ReadyState \<and> rc_spec x = rc_spec rc \<and>
        (\<forall>ct\<in>insert HasEnoughPermissionsConditionType ts. rcCond L x ct = Some ConditionTrue) \<and>
        ((\<exists>c\<in>set (calls t). readyWrite c) \<longleftrightarrow>
          rcCond L rc HasEnoughPermissionsConditionType \<noteq> Some ConditionTrue))
     (\<lambda>_ _. False) (\<lambda>_. False) s"
proof -
  obtain x where x: "rl_cluster s = Some x" using s by (auto simp: rcOnTrack_def)
  show ?thesis
    unfolding wp_onSuccess [OF x lib] Let_def
    using s x
    by (auto simp: rcOnTrack_def rc_recorded rcAgrees_def intro!: wp_rcStatusUpdate_healthy [OF H])
qed

end

lemma stageDone_frame: "keeps (rcStageDone E ct m) (\<lambda>s. rl_secret s = a \<and> rl_remote_client s = b)"
  unfolding rcStageDone_def updateRemoteClusterStatusOnSuccess_def rcStatusUpdate_def putCluster_def
    theCluster_def
  by (auto intro!: keeps_intros simp: split_beta)

lemma reviewLoop_healthy:
  assumes "\<forall>a\<in>set reqs. \<forall>w. \<exists>resp w'. cs_access_review cs a w = (Inr resp, w') \<and> rv_allowed resp"
    and "\<And>w new. (\<forall>c\<in>set new. \<not> readyWrite c) \<Longrightarrow> Q errs (s\<lparr>world := w, calls := calls s @ new\<rparr>)"
  shows "wp (reviewLoop L cs reqs errs) Q Er P s"
  using assms
proof (induction reqs arbitrary: s)
  case Nil
  from Nil.prems(2) [of "[]" "world s"] show ?case by (simp add: wp_simps)
next
  case (Cons a reqs)
  from Cons.prems(1) obtain resp w' where
    "cs_access_review cs a (world s) = (Inr resp, w')" "rv_allowed resp"
    unfolding list.set by blast
  then show ?case
    using Cons.prems(1)
    by (auto simp: wp_simps intro!: Cons.IH Cons.prems(2))
qed

text \<open>The stages of a healthy run, one after the other.\<close>

definition rcEndsReady :: "'w env \<Rightarrow> remote_cluster \<Rightarrow> 'w rcl_state \<Rightarrow> bool" where
  "rcEndsReady E rc t \<longleftrightarrow> (\<exists>x. rl_cluster t = Some x \<and> rc_state x = ReadyState \<and>
     (\<forall>ct\<in>set rcConditionTypes. rcCond (e_lib E) x ct = Some ConditionTrue) \<and>
     ((\<exists>c\<in>set (calls t). readyWrite c) \<longleftrightarrow>
        rcCond (e_lib E) rc HasEnoughPermissionsConditionType \<noteq> Some ConditionTrue))"

lemma rcLastStage_healthy:
  assumes laws: "k8s_laws (e_lib E)" and H: "rcHealthy E k rc d"
    and s: "rcOnTrack (e_lib E) rc
      {SecretAvailableConditionType, ConfigValidConditionType, ClusterReachableConditionType} s"
    and cs: "rl_remote_client s = Some cs"
    and reviews: "\<forall>a\<in>set (getPermissionReviewRequests (rcs_namespace (rc_spec rc))). \<forall>w. \<exists>resp w'.
      cs_access_review cs a w = (Inr resp, w') \<and> rv_allowed resp"
  shows "wp (rcLastStage E) (\<lambda>r t. requeue_after r = d \<and> rcEndsReady E rc t) (\<lambda>_ _. False) (\<lambda>_. False) s"
proof -
  obtain x where x: "rl_cluster s = Some x" and spec: "rc_spec x = rc_spec rc"
    using s by (auto simp: rcOnTrack_def)
  have perms: "wp (validatePermissions E) (\<lambda>_. rcOnTrack (e_lib E) rc
      {SecretAvailableConditionType, ConfigValidConditionType, ClusterReachableConditionType})
      (\<lambda>_ _. False) (\<lambda>_. False) s"
    using x spec cs reviews s
    by (auto simp: validatePermissions_def wp_simps rcOnTrack_def
        intro!: reviewLoop_healthy)
  show ?thesis
    unfolding rcLastStage_def
  proof (rule wp_onErrI [OF perms], goal_cases)
    case (2 u t)
    show ?case
      by (rule wp_seqI [OF k8s_laws.onSuccess_ready_healthy [OF laws H refl 2]])
        (auto simp: wp_simps rcHealthyD(6) [OF H] rcEndsReady_def rcConditionTypes_def)
  qed simp
qed

lemma fetchSecret_healthy:
  assumes H: "rcHealthy E k rc d" and s: "rcOnTrack L rc ts s"
    and sec: "\<forall>w. \<exists>w'. cl_get (kc_secrets (e_client E)) \<lparr>k_namespace = om_namespace (rc_meta rc),
           k_name = ks_name (rcs_access_key_ref (rc_spec rc))\<rparr> w = (Inr sec, w')"
  shows "wp (fetchSecret E) (\<lambda>_ t. rcOnTrack L rc ts t \<and>
      (\<exists>sec'. rl_secret t = Some sec' \<and> sec_data sec' = sec_data sec)) (\<lambda>_ _. False) (\<lambda>_. False) s"
proof -
  obtain w where got: "cl_get (kc_secrets (e_client E)) \<lparr>k_namespace = om_namespace (rc_meta rc),
      k_name = ks_name (rcs_access_key_ref (rc_spec rc))\<rparr> (world s) = (Inr sec, w)"
    using sec by blast
  let ?sec = "sec\<lparr>sec_meta := (sec_meta sec)\<lparr>om_finalizers :=
    fst (AddFinalizer (e_lib E) (om_finalizers (sec_meta sec)) RemoteClusterFinalizer)\<rparr>\<rparr>"
  from rcHealthyD(4) [OF H, of ?sec w] obtain y w' where
    "cl_update (kc_secrets (e_client E)) ?sec w = (Inr y, w')" "sec_data y = sec_data sec"
    by auto
  with got s show ?thesis
    by (auto simp: rcOnTrack_def fetchSecret_def getSecret_def theSecret_def
        rcSecretUpdate_def api_defs wp_simps split_beta Let_def)
qed

lemma rcStages_healthy:
  assumes laws: "k8s_laws (e_lib E)" and H: "rcHealthy E k rc d" and s: "rcOnTrack (e_lib E) rc {} s"
  shows "wp (rcStages E) (\<lambda>r t. requeue_after r = d \<and> rcEndsReady E rc t) (\<lambda>_ _. False) (\<lambda>_. False) s"
proof -
  from H obtain sec kubeconfig cfg timeout cs where
    sec: "\<forall>w. \<exists>w'. cl_get (kc_secrets (e_client E)) \<lparr>k_namespace = om_namespace (rc_meta rc),
           k_name = ks_name (rcs_access_key_ref (rc_spec rc))\<rparr> w = (Inr sec, w')"
    and config: "map_lookup (sec_data sec) (ks_key (rcs_access_key_ref (rc_spec rc))) = Some kubeconfig"
      "RESTConfigFromKubeConfig E kubeconfig = Inr cfg" "rcs_timeout (rc_spec rc) = Some timeout"
      "NewForConfig E (cfg\<lparr>cfg_timeout := timeout\<rparr>) = Inr cs"
    and ready: "\<And>w. \<exists>w'. cs_readyz cs w = (Inr ''ok'', w')"
    and reviews: "\<forall>a\<in>set (getPermissionReviewRequests (rcs_namespace (rc_spec rc))). \<forall>w. \<exists>resp w'.
           cs_access_review cs a w = (Inr resp, w') \<and> rv_allowed resp"
    unfolding rcHealthy_def by blast
  let ?on = "rcOnTrack (e_lib E) rc"
  have stage: "wp (rcStageDone E ct m)
      (\<lambda>_ t. ?on (insert ct ts) t \<and> rl_secret t = rl_secret u \<and> rl_remote_client t = rl_remote_client u)
      (\<lambda>_ _. False) (\<lambda>_. False) u"
    if "?on ts u" and "ct \<noteq> HasEnoughPermissionsConditionType" for ct m ts u
    by (rule wp_mono [OF wp_conj [OF k8s_laws.stageDone_healthy [OF laws H refl that]
            keeps_wp [OF stageDone_frame]]]) auto
  have client: "wp (rcMakeRemoteClient E) (\<lambda>_ t. ?on ts t \<and> rl_remote_client t = Some cs)
      (\<lambda>_ _. False) (\<lambda>_. False) u"
    if "?on ts u" "rl_secret u = Some sec'" "sec_data sec' = sec_data sec" for ts u sec'
    using that config
    by (auto simp: rcOnTrack_def rcMakeRemoteClient_def wp_simps)
  have probe: "wp (checkClusterReady E) (\<lambda>_ t. ?on ts t \<and> rl_remote_client t = Some cs)
      (\<lambda>_ _. False) (\<lambda>_. False) u" if "?on ts u" "rl_remote_client u = Some cs" for ts u
    using that ready [of "world u"]
    by (auto simp: rcOnTrack_def checkClusterReady_def wp_simps)
  show ?thesis
    unfolding rcStages_def
    apply (rule wp_onErrI [OF fetchSecret_healthy [OF H s sec]], simp)
    apply (elim conjE exE)
    apply (rule wp_seqI [OF stage], assumption, simp add: const_defs)
    apply (elim conjE)
    apply (rule wp_onErrI [OF client], assumption, simp, assumption, simp)
    apply (elim conjE)
    apply (rule wp_seqI [OF stage], assumption, simp add: const_defs)
    apply (elim conjE)
    apply (rule wp_onErrI [OF probe], assumption, simp, simp)
    apply (elim conjE)
    apply (rule wp_seqI [OF stage], assumption, simp add: const_defs)
    apply (rule rcLastStage_healthy [OF laws H _ _ reviews])
     apply (auto simp: insert_commute)
    done
qed

lemma rcReconcile_healthy:
  assumes laws: "k8s_laws (e_lib E)" and H: "rcHealthy E k rc d"
  shows "wp (rcReconcile E) (\<lambda>r t. requeue_after r = d \<and> rcEndsReady E rc t)
    (\<lambda>_ _. False) (\<lambda>_. False) (init_rcl k w)"
proof -
  have fetch: "wp (fetchCluster E) (\<lambda>_ t. rl_cluster t = Some rc \<and> rcOnTrack (e_lib E) rc {} t)
      (\<lambda>_ _. False) (\<lambda>_. False) (init_rcl k w)"
    using rcHealthyD(1) [OF H, of w]
    by (auto simp: fetchCluster_def init_rcl_def apiGet_def wp_simps rcOnTrack_def)
  have rest: "wp (bnd (wrapErr ''unable to check self finalizer'' (rcCheckSelfFinalizer E)) (\<lambda>_.
       bnd (wrapErr ''unable to initialize conditions'' (rcCheckStatusInitialized E)) (\<lambda>_. rcStages E)))
      (\<lambda>r t. requeue_after r = d \<and> rcEndsReady E rc t) (\<lambda>_ _. False) (\<lambda>_. False) s"
    if "rcOnTrack (e_lib E) rc {} s" for s
    unfolding wp_bnd wp_wrapErr
    by (rule wp_mono [OF k8s_laws.finalizer_healthy [OF laws H refl that]],
        rule wp_mono [OF k8s_laws.init_healthy [OF laws H refl]])
      (auto intro: rcStages_healthy [OF laws H])
  show ?thesis
    unfolding rcReconcile_def
    by (rule wp_onErrI [OF fetch])
      (auto simp: wp_bnd [of theCluster] wp_theCluster rcHealthyD(5) [OF H] intro: rest)
qed

lemma cluster_env_healthy:
  assumes "rcs_timeout (rc_spec rc) = Some d'" "rcs_check_interval (rc_spec rc) = Some d"
    "ks_key (rcs_access_key_ref (rc_spec rc)) = ''config''" "om_deletion_timestamp (rc_meta rc) = None"
  shows "rcHealthy (cluster_env rc) k rc d"
  using assms
  by (simp add: rcHealthy_def cluster_env_def demo_env_def serve_def rcAgrees_def demo_secret_def
      map_lit_def map_lookup_def granting_def)

lemma demo_cluster_healthy: "rcHealthy (cluster_env demo_cluster) k demo_cluster time_Minute"
  by (rule cluster_env_healthy)
    (simp_all add: demo_cluster_def demo_meta_def empty_meta_def)

lemma cluster_env_laws: "k8s_laws (e_lib (cluster_env rc))"
  by (simp add: cluster_env_def ref.k8s_laws_axioms)

section \<open>Deletion\<close>

text \<open>Calls that may precede the removal of the finalizer from the resource.\<close>

fun cleanCall :: "call \<Rightarrow> bool" where
  "cleanCall (UpdateCall Source (RemoteClusterObj _) _) = False"
| "cleanCall (UpdateCall Source (SecretObj sec) b) =
     (b \<and> RemoteClusterFinalizer \<notin> set (om_finalizers (sec_meta sec)))"
| "cleanCall _ = True"

fun releases :: "call \<Rightarrow> bool" where
  "releases (UpdateCall Source (RemoteClusterObj _) _) = True"
| "releases _ = False"

lemma cleanCall_not_releases: "cleanCall c \<Longrightarrow> \<not> releases c"
  by (cases c rule: cleanCall.cases) auto

definition releasedInOrder :: "'w rcl_state \<Rightarrow> bool" where
  "releasedInOrder t \<longleftrightarrow> (\<forall>c\<in>set (calls t). \<not> releases c) \<or>
     (\<exists>before rc b. calls t = before @ [UpdateCall Source (RemoteClusterObj rc) b]
        \<and> RemoteClusterFinalizer \<notin> set (om_finalizers (rc_meta rc))
        \<and> RemoteArbiterFinalizer \<notin> set (om_finalizers (rc_meta rc))
        \<and> (\<forall>c\<in>set before. cleanCall c))"

lemma clean_releasedInOrder: "\<forall>c\<in>set (calls t). cleanCall c \<Longrightarrow> releasedInOrder t"
  by (auto simp: releasedInOrder_def cleanCall_not_releases)

context k8s_laws
begin

text \<open>Cleaning up the secret succeeds only when the finalizer is off it or the secret is gone.\<close>

lemma cleanUpSecret_calls:
  assumes "e_lib E = L" and "rl_cluster s = Some x" and "\<forall>c\<in>set (calls s). cleanCall c"
  shows "wp (cleanUpSecret E)
    (\<lambda>_ t. rl_cluster t = Some x \<and> (\<forall>c\<in>set (calls t). cleanCall c))
    (\<lambda>_. releasedInOrder) (\<lambda>_. False) s"
  using assms clean_releasedInOrder [of s]
  by (auto simp: cleanUpSecret_def getSecret_def rcSecretUpdate_def api_defs wp_simps
      releasedInOrder_def cleanCall_not_releases
      split_beta Let_def fl.set_remove split: prod.splits sum.splits)

lemma rcUpdate_released:
  assumes "\<forall>c\<in>set (calls s). cleanCall c"
    and "RemoteClusterFinalizer \<notin> set (om_finalizers (rc_meta x))"
    and "RemoteArbiterFinalizer \<notin> set (om_finalizers (rc_meta x))"
  shows "wp (rcUpdate E x) (\<lambda>_. releasedInOrder) (\<lambda>_. releasedInOrder) releasedInOrder s"
  using assms
  by (auto simp: rcUpdate_def apiUpdate_def wp_simps releasedInOrder_def split: prod.splits sum.splits)

lemma cleanUp_order:
  assumes lib: "e_lib E = L" and "rl_cluster s = Some x" and "calls s = []"
  shows "wp (cleanUpRemoteCluster E) (\<lambda>_. releasedInOrder) (\<lambda>_. releasedInOrder) releasedInOrder s"
proof -
  have state: "wp (updateRemoteClusterState E DeletingState ''deleting'')
     (\<lambda>_ t. rl_cluster t \<noteq> None \<and> (\<forall>c\<in>set (calls t). cleanCall c))
     (\<lambda>_ t. \<forall>c\<in>set (calls t). cleanCall c) (\<lambda>_. False) s"
    using assms
    by (auto simp: updateRemoteClusterState_def rcStatusUpdate_def apiStatusUpdate_def
        wp_simps split_beta Let_def split: prod.splits sum.splits)
  show ?thesis
    unfolding cleanUpRemoteCluster_def wp_bnd [of "wrapErr _ _"] wp_wrapErr
    by (rule wp_mono [OF state])
      (auto simp: wp_simps split_beta Let_def clean_releasedInOrder lib fl.contains_iff fl.set_remove
        intro!: wp_mono [OF cleanUpSecret_calls [OF lib]] rcUpdate_released split: option.splits)
qed

text \<open>While an arbiter holds its finalizer on the resource, clean-up stops after the state.\<close>

lemma cleanUp_waits:
  assumes lib: "e_lib E = L" and "rl_cluster s = Some x"
    and "RemoteArbiterFinalizer \<in> set (om_finalizers (rc_meta x))"
    and stores: "\<And>y z w. fst (cl_status_update (kc_remoteclusters (e_client E)) y w) = Inr z \<Longrightarrow>
      om_finalizers (rc_meta z) = om_finalizers (rc_meta y)"
  shows "wp (cleanUpRemoteCluster E) (\<lambda>_ _. False)
    (\<lambda>e t. (e = Sentinel ErrorArbiterCleanUpNotComplete \<or> \<not> errorsIs e ErrorArbiterCleanUpNotComplete)
       \<and> (\<exists>new. calls t = calls s @ new \<and> (\<forall>c\<in>set new. \<exists>y b. c = rcStatusCall y b \<and> rc_state y = DeletingState)))
    (\<lambda>_. False) s"
  using assms
  by (auto simp: cleanUpRemoteCluster_def updateRemoteClusterState_def rcStatusUpdate_def apiStatusUpdate_def
      setRemoteClusterState_def fl.contains_iff wp_simps split_beta Let_def split: prod.splits sum.splits)

end

section \<open>Permissions\<close>

text \<open>Every request is about one resource and one pair of a verb and a subresource.\<close>

definition reviewKinds :: "(string \<times> string) list" where
  "reviewKinds = concat (map (\<lambda>verb. [(verb, []), (verb, ''status'')]) permissionVerbs)
     @ [(''update'', ''finalizers'')]"

lemma permission_requests_product:
  "getPermissionReviewRequests ns =
     map (\<lambda>(tpl, verb, sub). reviewAttributes ns tpl verb sub) (List.product reviewTemplates reviewKinds)"
  by (simp add: getPermissionReviewRequests_def reviewKinds_def product_concat_map map_concat comp_def)

lemma inj_reviewAttributes: "inj (\<lambda>(tpl, verb, sub). reviewAttributes ns tpl verb sub)"
  by (auto simp: inj_def reviewAttributes_def prod_eq_iff)

lemma review_facts:
  "length reviewTemplates = 4" "distinct reviewTemplates" "length reviewKinds = 15" "distinct reviewKinds"
  by (simp_all add: reviewTemplates_def reviewKinds_def permissionVerbs_def)

lemma denials_Nil_iff:
  "concat (map (\<lambda>a. if rv_allowed (resp a) then [] else denialErrors L a (resp a)) reqs) = [] \<longleftrightarrow>
     (\<forall>a\<in>set reqs. rv_allowed (resp a))"
  by (induction reqs) auto

text \<open>The loop over the reviews, when each answer depends on the request alone.\<close>

lemma reviewLoop_run:
  assumes "\<And>a w. cs_access_review cs a w = (Inr (resp a), w)"
  shows "reviewLoop L cs reqs errs s =
    (Val (errs @ concat (map (\<lambda>a. if rv_allowed (resp a) then [] else denialErrors L a (resp a)) reqs)),
     s\<lparr>calls := calls s @ map (\<lambda>a. ReviewCall a (Inr (resp a))) reqs\<rparr>)"
proof (induction reqs arbitrary: errs s)
  case Nil
  then show ?case by (simp add: ret_def)
next
  case (Cons a reqs)
  then show ?case
    by (simp add: assms bnd_def wrapErr_def onErr_def loggedCall_def lift_def ret_def)
qed

section \<open>Initialisation\<close>

context k8s_laws
begin

lemma init_run:
  assumes lib: "e_lib E = L" and x: "rl_cluster s = Some x"
    and run: "rcCheckStatusInitialized E s = (r, t)"
  shows "if \<forall>ct\<in>set rcConditionTypes. rcCond L x ct \<noteq> None then r = Val () \<and> t = s
    else if rc_state x = InitState \<and> rc_message x = ''initialized'' then r = Val () \<and> calls t = calls s
    else \<exists>y. calls t = calls s @ [rcStatusCall y (r = Val ())] \<and> rc_state y = InitState \<and>
       rc_spec y = rc_spec x \<and> rc_meta y = rc_meta x \<and>
       (\<forall>ct. rcCond L y ct =
          (if ct \<in> set rcConditionTypes \<and> rcCond L x ct = None then Some ConditionUnknown
           else rcCond L x ct))"
proof -
  let ?y = "initConditions (setRemoteClusterCondition L) rcConditionTypes x"
  have y: "rc_state ?y = rc_state x" "rc_message ?y = rc_message x" "rc_meta ?y = rc_meta x" "rc_spec ?y = rc_spec x"
    using rcst.init_state [of rcConditionTypes x] by auto
  have idle: "?y = x" if "\<forall>ct\<in>set rcConditionTypes. rcCond L x ct \<noteq> None"
    using that by (rule rcst.init_idle)
  note len = rcst.init_length_eq_iff [of rcConditionTypes x]
  have conds: "rcCond L ?y ct = (if ct \<in> set rcConditionTypes \<and> rcCond L x ct = None then Some ConditionUnknown
           else rcCond L x ct)" for ct
    by (rule rcst.init_cond_map)
  have "wp (rcCheckStatusInitialized E)
    (\<lambda>_ t. if \<forall>ct\<in>set rcConditionTypes. rcCond L x ct \<noteq> None then t = s
       else if rc_state x = InitState \<and> rc_message x = ''initialized'' then calls t = calls s
       else calls t = calls s @ [rcStatusCall (fst (setRemoteClusterState ?y InitState ''initialized'')) True])
    (\<lambda>_ t. (\<exists>ct\<in>set rcConditionTypes. rcCond L x ct = None) \<and> 
       \<not> (rc_state x = InitState \<and> rc_message x = ''initialized'') \<and>
      calls t = calls s @ [rcStatusCall (fst (setRemoteClusterState ?y InitState ''initialized'')) False])
    (\<lambda>_. False) s"
    using x idle len lib
    by (auto simp: rcCheckStatusInitialized_def updateRemoteClusterState_def rcStatusUpdate_def
        apiStatusUpdate_def setRemoteClusterState_def y wp_simps split_beta Let_def split: sum.splits)
  then show ?thesis
    using run y conds rcst.set_state_rest [of ?y InitState "''initialized''"]
     rcst.set_state_conds [of ?y InitState "''initialized''"]
     rcst.set_state_state [of ?y InitState "''initialized''"]
    by (auto simp: wp_def split: res.splits if_splits)
qed

end

lemma rcStageFailed_spec:
  assumes laws: "k8s_laws (e_lib E)" and x: "rl_cluster s = Some x"
  shows "wp (rcStageFailed E ct what err) (\<lambda>_ _. False)
    (\<lambda>e t. if rc_state x = ErrorState \<and> rc_message x = error_text err \<and>
          rcCond (e_lib E) x ct = Some ConditionFalse
       then e = Wrap what err \<and> calls t = calls s
       else \<exists>b. calls t = calls s @ [rcStatusCall
           (rcRecorded (e_lib E) x ErrorState (NewErrorCondition ct (error_text err))) b] \<and>
         (if b then e = Wrap what err
          else \<exists>e'. e = Wrap ''unable to update resource with conditions'' e')) (\<lambda>_. False) s"
  unfolding rcStageFailed_def wp_onErr k8s_laws.wp_onFailure [OF laws x refl]
  by (auto simp: wp_simps rcStatusUpdate_def apiStatusUpdate_def Let_def split: prod.splits sum.splits)

lemma readyWriteE:
  assumes "readyWrite c" obtains rc b where "c = rcStatusCall rc b" "rc_state rc = ReadyState"
  using assms by (cases c rule: readyWrite.cases) auto

lemma releasesE:
  assumes "releases c" obtains rc b where "c = UpdateCall Source (RemoteClusterObj rc) b"
  using assms by (cases c rule: releases.cases) auto

text \<open>A resource that failed after it had been ready, for instance on an outage of the target.\<close>

definition recovered_cluster :: remote_cluster where
  "recovered_cluster = demo_cluster\<lparr>rc_status := \<lparr>st_state = ErrorState, st_message = ''connection refused'',
     st_conditions = [NewOKCondition SecretAvailableConditionType [], NewOKCondition ConfigValidConditionType [],
       NewErrorCondition ClusterReachableConditionType ''connection refused'',
       NewOKCondition HasEnoughPermissionsConditionType []]\<rparr>\<rparr>"

section \<open>Properties\<close>

text \<open>
  C1: A RemoteCluster is published as Ready only by the last call of a reconciliation, and
  only after, in the same run, the target cluster answered its readiness probe with ok and
  every permission review for the namespace in the spec was answered with Allowed, whatever
  the API servers answer.
\<close>

theorem rc_ready_gate:
  assumes "rcReconcile E (init_rcl k w) = (r, t)" and "rcStatusCall rc b \<in> set (calls t)"
    and "rc_state rc = ReadyState"
  shows "\<exists>log. calls t = log @ [rcStatusCall rc b] \<and>
    ReadyzCall (Inr ''ok'') \<in> set log \<and>
    (\<forall>req\<in>set (getPermissionReviewRequests (rcs_namespace (rc_spec rc))). reviewAllowed log req)"
proof -
  have "readyGate t"
    using endsD [OF rcReconcile_gate, of "init_rcl k w" E] assms(1)
    by (simp add: always_iff init_rcl_def)
  then obtain log rc' b' where log: "calls t = log @ [rcStatusCall rc' b']"
    and no: "\<forall>c\<in>set log. \<not> readyWrite c"
    and checked: "targetChecked (rcs_namespace (rc_spec rc')) log"
    using assms(2,3) unfolding readyGate_def by (metis readyWrite.simps(1))
  have "rcStatusCall rc b \<notin> set log"
    using no assms(3) by (metis readyWrite.simps(1))
  with log checked assms(2) show ?thesis by (auto simp: targetChecked_def)
qed

theorem rc_ready_gate_witness:
  "\<exists>log rc b. calls (snd (rcReconcile (cluster_env demo_cluster) (init_rcl (demo_key ''target'') ())))
      = log @ [rcStatusCall rc b] \<and> rc_state rc = ReadyState \<and> ReadyzCall (Inr ''ok'') \<in> set log \<and>
    (\<forall>req\<in>set (getPermissionReviewRequests (rcs_namespace (rc_spec rc))). reviewAllowed log req)"
proof -
  obtain r t where run: "rcReconcile (cluster_env demo_cluster) (init_rcl (demo_key ''target'') ()) = (r, t)"
    by fastforce
  have "rcCond (e_lib (cluster_env demo_cluster)) demo_cluster HasEnoughPermissionsConditionType = None"
    by (simp add: cluster_env_def demo_cluster_def condStatus_def ref_lib_def)
  then obtain c where "c \<in> set (calls t)" "readyWrite c"
    using rcReconcile_healthy [OF cluster_env_laws demo_cluster_healthy, of "demo_key ''target''" "()"] run
    by (auto simp: wp_def rcEndsReady_def split: res.splits)
  then show ?thesis
    using rc_ready_gate [OF run] run by (elim readyWriteE) (metis snd_conv)
qed



text \<open>
  C25: In such a healthy run the state Ready is sent to the API server exactly when the
  condition HasEnoughPermissions was not already True in the fetched object. A resource that
  failed in an earlier stage after having been ready keeps that condition, so its recovery
  is never published as Ready: the success path only writes when the condition changes.
\<close>

theorem rc_ready_published_iff:
  assumes "k8s_laws (e_lib E)" and "rcHealthy E k rc d"
  shows "(\<exists>c\<in>set (calls (snd (rcReconcile E (init_rcl k w)))). readyWrite c) \<longleftrightarrow>
    rcCond (e_lib E) rc HasEnoughPermissionsConditionType \<noteq> Some ConditionTrue"
  using rcReconcile_healthy [OF assms, of w]
  by (auto simp: wp_def rcEndsReady_def split: prod.splits res.splits)

theorem rc_ready_published_iff_witness:
  "\<not> (\<exists>c\<in>set (calls (snd (rcReconcile (cluster_env recovered_cluster)
     (init_rcl (demo_key ''target'') ())))). readyWrite c)"
proof -
  have "rcHealthy (cluster_env recovered_cluster) (demo_key ''target'') recovered_cluster time_Minute"
    by (rule cluster_env_healthy)
      (simp_all add: recovered_cluster_def demo_cluster_def demo_meta_def empty_meta_def)
  moreover have "rcCond (e_lib (cluster_env recovered_cluster)) recovered_cluster
      HasEnoughPermissionsConditionType = Some ConditionTrue"
    by (simp add: cluster_env_def recovered_cluster_def condStatus_def ref_lib_def const_defs
        NewOKCondition_def NewErrorCondition_def)
  ultimately show ?thesis
    using rc_ready_published_iff [OF cluster_env_laws] by blast
qed

text \<open>
  C27: The failure branch of a stage sends exactly one status update, with state Error, the
  error text as message and the condition of the stage False, every other condition, the
  metadata and the spec unchanged; it sends none when that is already recorded. It returns the
  error of the stage, or the error of the status update when that failed.
\<close>

theorem rc_failure_recorded:
  assumes laws: "k8s_laws (e_lib E)" and x: "rl_cluster s = Some x"
    and run: "rcStageFailed E ct what err s = (r, t)"
  shows "if rc_state x = ErrorState \<and> rc_message x = error_text err \<and>
        rcCond (e_lib E) x ct = Some ConditionFalse
    then r = Err (Wrap what err) \<and> calls t = calls s
    else \<exists>y b. calls t = calls s @ [rcStatusCall y b] \<and>
      rc_state y = ErrorState \<and> rc_message y = error_text err \<and>
      rc_spec y = rc_spec x \<and> rc_meta y = rc_meta x \<and>
      rcCond (e_lib E) y = (rcCond (e_lib E) x)(ct \<mapsto> ConditionFalse) \<and>
      (if b then r = Err (Wrap what err)
       else \<exists>e. r = Err (Wrap ''unable to update resource with conditions'' e))"
proof -
  obtain e where e: "r = Err e" and out: "if rc_state x = ErrorState \<and> rc_message x = error_text err \<and>
        rcCond (e_lib E) x ct = Some ConditionFalse
      then e = Wrap what err \<and> calls t = calls s
      else \<exists>b. calls t = calls s @ [rcStatusCall
          (rcRecorded (e_lib E) x ErrorState (NewErrorCondition ct (error_text err))) b] \<and>
        (if b then e = Wrap what err
         else \<exists>e'. e = Wrap ''unable to update resource with conditions'' e')"
    using wp_must_fail [OF run rcStageFailed_spec [OF laws x]] by blast
  show ?thesis
  proof (cases "rc_state x = ErrorState \<and> rc_message x = error_text err \<and>
      rcCond (e_lib E) x ct = Some ConditionFalse")
    case True
    with out e show ?thesis by simp
  next
    case False
    let ?y = "rcRecorded (e_lib E) x ErrorState (NewErrorCondition ct (error_text err))"
    from out False obtain b where b: "calls t = calls s @ [rcStatusCall ?y b]"
      "if b then e = Wrap what err else \<exists>e'. e = Wrap ''unable to update resource with conditions'' e'"
      by (auto split: if_splits)
    have "if b then r = Err (Wrap what err)
       else \<exists>e. r = Err (Wrap ''unable to update resource with conditions'' e)"
      using b(2) e by (cases b) auto
    with b(1) show ?thesis
      unfolding if_not_P [OF False]
      by (intro exI [of _ ?y] exI [of _ b]) (simp add: k8s_laws.rc_recorded [OF laws])
  qed
qed

theorem rc_failure_recorded_witness:
  "\<exists>y b. calls (snd (rcStageFailed (cluster_env demo_cluster) ClusterReachableConditionType ''check''
       (ErrorText ''down'') ((init_rcl (demo_key ''target'') ())\<lparr>rl_cluster := Some demo_cluster\<rparr>)
         :: unit res \<times> unit rcl_state)) = [rcStatusCall y b] \<and>
     rc_state y = ErrorState \<and> rc_message y = ''down'' \<and>
     rcCond ref_lib y ClusterReachableConditionType = Some ConditionFalse"
proof -
  let ?s = "(init_rcl (demo_key ''target'') ())\<lparr>rl_cluster := Some demo_cluster\<rparr>"
  obtain r :: "unit res" and t where run: "rcStageFailed (cluster_env demo_cluster)
      ClusterReachableConditionType ''check'' (ErrorText ''down'') ?s = (r, t)" by fastforce
  have "rc_state demo_cluster \<noteq> ErrorState" "calls ?s = []" "rl_cluster ?s = Some demo_cluster"
    by (simp_all add: demo_cluster_def const_defs init_rcl_def)
  with rc_failure_recorded [OF cluster_env_laws _ run] show ?thesis
    unfolding run by (auto simp: cluster_env_def)
qed





text \<open>
  The permission reviews are sixty different requests: for deployments, secrets,
  config maps and services every one of the seven verbs on the resource and on its status,
  and update on its finalizers.
\<close>

theorem permission_requests:
  "length (getPermissionReviewRequests ns) = 60 \<and> distinct (getPermissionReviewRequests ns) \<and>
   set (getPermissionReviewRequests ns) =
     {reviewAttributes ns tpl verb sub |tpl verb sub. tpl \<in> set reviewTemplates \<and>
        (verb \<in> set permissionVerbs \<and> sub \<in> {[], ''status''} \<or> verb = ''update'' \<and> sub = ''finalizers'')}"
proof (intro conjI)
  show "length (getPermissionReviewRequests ns) = 60"
    by (simp add: permission_requests_product review_facts)
  show "distinct (getPermissionReviewRequests ns)"
    unfolding permission_requests_product distinct_map
    by (simp add: review_facts distinct_product inj_on_subset [OF inj_reviewAttributes])
qed (auto simp: getPermissionReviewRequests_def)

text \<open>
  C28: When the answer to a review depends on the request alone, the permission check sends
  every review once, in order, succeeds exactly when all are allowed, and otherwise fails
  with the joined reasons of all denials in the order of the requests.
\<close>

theorem validatePermissions_run:
  assumes "rl_cluster s = Some rc" and "rl_remote_client s = Some cs"
    and "\<And>a w. cs_access_review cs a w = (Inr (resp a), w)"
  defines "reqs \<equiv> getPermissionReviewRequests (rcs_namespace (rc_spec rc))"
  shows "validatePermissions E s =
    (if \<forall>a\<in>set reqs. rv_allowed (resp a) then Val ()
     else Err (Wrap ''unable to validate permissions'' (Join (concat (map (\<lambda>a.
       if rv_allowed (resp a) then [] else denialErrors (e_lib E) a (resp a)) reqs)))),
     s\<lparr>calls := calls s @ map (\<lambda>a. ReviewCall a (Inr (resp a))) reqs\<rparr>)"
  using assms(1,2)
  by (auto simp: validatePermissions_def theCluster_def bnd_def onErr_def gets_def deref_def ret_def
      fail_def reviewLoop_run [OF assms(3)] reqs_def denials_Nil_iff simp del: concat_eq_Nil_conv)

theorem validatePermissions_run_witness:
  "validatePermissions (cluster_env demo_cluster) ((init_rcl (demo_key ''target'') ())
       \<lparr>rl_cluster := Some demo_cluster, rl_remote_client := Some granting\<rparr>) =
     (Val (), (init_rcl (demo_key ''target'') ())
       \<lparr>rl_cluster := Some demo_cluster, rl_remote_client := Some granting,
        calls := map (\<lambda>a. ReviewCall a (Inr \<lparr>rv_allowed = True, rv_reason = [], rv_evaluation_error = []\<rparr>))
          (getPermissionReviewRequests ''arbiter'')\<rparr>)"
  by (subst validatePermissions_run [where resp = "\<lambda>_. \<lparr>rv_allowed = True, rv_reason = [],
        rv_evaluation_error = []\<rparr>" and cs = granting and rc = demo_cluster])
    (simp_all add: init_rcl_def granting_def demo_cluster_def)

text \<open>
  C29: Initialising the status adds the missing conditions as Unknown, changes no other
  condition, and sends them with state Init in one status update. It sends nothing when no
  condition is missing, and nothing either when the state is already Init with the message
  of the initialisation.
\<close>

theorem rc_status_initialized:
  assumes laws: "k8s_laws (e_lib E)" and x: "rl_cluster s = Some x"
    and run: "rcCheckStatusInitialized E s = (r, t)"
  shows "if \<forall>ct\<in>set rcConditionTypes. rcCond (e_lib E) x ct \<noteq> None then r = Val () \<and> t = s
    else if rc_state x = InitState \<and> rc_message x = ''initialized'' then r = Val () \<and> calls t = calls s
    else \<exists>y. calls t = calls s @ [rcStatusCall y (r = Val ())] \<and> rc_state y = InitState \<and>
       rc_spec y = rc_spec x \<and> rc_meta y = rc_meta x \<and>
       (\<forall>ct. rcCond (e_lib E) y ct =
          (if ct \<in> set rcConditionTypes \<and> rcCond (e_lib E) x ct = None then Some ConditionUnknown
           else rcCond (e_lib E) x ct))"
  by (rule k8s_laws.init_run [OF laws refl x run])

theorem rc_status_initialized_witness:
  "\<exists>y b. calls (snd (rcCheckStatusInitialized (cluster_env demo_cluster)
       ((init_rcl (demo_key ''target'') ())\<lparr>rl_cluster := Some demo_cluster\<rparr>))) = [rcStatusCall y b] \<and>
     rc_state y = InitState \<and> rcCond ref_lib y SecretAvailableConditionType = Some ConditionUnknown"
proof -
  let ?s = "(init_rcl (demo_key ''target'') ())\<lparr>rl_cluster := Some demo_cluster\<rparr>"
  obtain r t where run: "rcCheckStatusInitialized (cluster_env demo_cluster) ?s = (r, t)" by fastforce
  have lib: "e_lib (cluster_env demo_cluster) = ref_lib" by (simp add: cluster_env_def)
  have x: "rl_cluster ?s = Some demo_cluster" by simp
  have missing: "rcCond ref_lib demo_cluster SecretAvailableConditionType = None"
    and mem: "SecretAvailableConditionType \<in> set rcConditionTypes"
    and other: "rc_state demo_cluster \<noteq> InitState" and calls: "calls ?s = []"
    by (simp_all add: demo_cluster_def const_defs init_rcl_def condStatus_def ref_lib_def
       rcConditionTypes_def)
  have some: "\<not> (\<forall>ct\<in>set rcConditionTypes. rcCond ref_lib demo_cluster ct \<noteq> None)"
    using missing mem by blast
  from rc_status_initialized [OF cluster_env_laws x run, unfolded lib if_not_P [OF some]]
  show ?thesis unfolding run using other calls missing mem by auto
qed

end
