(* ===== verification/Cluster_Pipeline.thy ===== *)
theory Cluster_Pipeline
  imports Remote_Cluster_Props
begin

text \<open>
  An abstract specification of the status of a RemoteCluster, a pipeline of stages that pass one after
  the other, and the lemmas that the reconciler follows it: each check leaves the resource alone and
  provides what the next one needs, and each status writer performs one step of the pipeline.
\<close>

section \<open>The abstract pipeline\<close>

record status_view =
  v_state :: string
  v_cond :: "string \<Rightarrow> string option"

definition passStage :: "string \<Rightarrow> status_view \<Rightarrow> status_view" where
  "passStage ct v = \<lparr>v_state = ProgressingState, v_cond = (v_cond v)(ct \<mapsto> ConditionTrue)\<rparr>"

definition failStage :: "string \<Rightarrow> status_view \<Rightarrow> status_view" where
  "failStage ct v = \<lparr>v_state = ErrorState, v_cond = (v_cond v)(ct \<mapsto> ConditionFalse)\<rparr>"

text \<open>The status after \<open>n\<close> of the stages have passed.\<close>

definition pipelineSpec :: "string list \<Rightarrow> nat \<Rightarrow> status_view \<Rightarrow> status_view" where
  "pipelineSpec cts n v = (let u = fold passStage (take n cts) v
     in if n < length cts then failStage (cts ! n) u else u\<lparr>v_state := ReadyState\<rparr>)"

text \<open>Before the first stage, conditions that are missing are unknown.\<close>

definition initView :: "string list \<Rightarrow> status_view \<Rightarrow> status_view" where
  "initView cts v = v\<lparr>v_cond := (\<lambda>ct. if ct \<in> set cts \<and> v_cond v ct = None then Some ConditionUnknown else v_cond v ct)\<rparr>"

section \<open>The reconciler between its stages\<close>

definition rcView :: "k8s_lib \<Rightarrow> remote_cluster \<Rightarrow> status_view" where
  "rcView L rc = \<lparr>v_state = rc_state rc, v_cond = rcCond L rc\<rparr>"

definition rcAt :: "k8s_lib \<Rightarrow> remote_cluster_spec \<Rightarrow> status_view \<Rightarrow> 'w rcl_state \<Rightarrow> bool" where
  "rcAt L sp v s \<longleftrightarrow> (\<exists>rc. rl_cluster s = Some rc \<and> rc_spec rc = sp \<and> rcView L rc = v)"

text \<open>The server stores the RemoteClusters it is sent; everything else may fail.\<close>

definition rcStoring :: "'w env \<Rightarrow> bool" where
  "rcStoring E \<longleftrightarrow> stores (cl_update (kc_remoteclusters (e_client E))) (\<lambda>x. (rc_spec x, rc_status x)) \<and>
     stores (cl_status_update (kc_remoteclusters (e_client E))) (\<lambda>x. (rc_spec x, rc_status x))"

lemma rcView_status: "rc_status y = rc_status x \<Longrightarrow> rcView L y = rcView L x"
  by (simp add: rcView_def)

lemma wp_store:
  assumes "rcStoring E" and "rc_spec x = sp" and "rcView L x = v"
  shows "wp (rcUpdate E x) (\<lambda>_. rcAt L sp v) Er P s" "wp (rcStatusUpdate E x) (\<lambda>_. rcAt L sp v) Er P s"
proof -
  have "\<exists>y w'. cl_update (kc_remoteclusters (e_client E)) x (world s) = (Inr y, w') \<and> (rc_spec y, rc_status y) = (rc_spec x, rc_status x)"
    "\<exists>y w'. cl_status_update (kc_remoteclusters (e_client E)) x (world s) = (Inr y, w') \<and> (rc_spec y, rc_status y) = (rc_spec x, rc_status x)"
    using assms(1) unfolding rcStoring_def stores_def by blast+
  then show "wp (rcUpdate E x) (\<lambda>_. rcAt L sp v) Er P s" "wp (rcStatusUpdate E x) (\<lambda>_. rcAt L sp v) Er P s"
    using assms(2,3)
    by (auto simp: rcUpdate_def rcStatusUpdate_def apiUpdate_def apiStatusUpdate_def wp_simps rcAt_def rcView_def)
qed

text \<open>The checks leave the resource alone, make what the next check needs, and do not panic.\<close>

lemma fetchSecret_at:
  "rcAt L sp v s \<Longrightarrow> wp (fetchSecret E) (\<lambda>_ t. rcAt L sp v t \<and> rl_secret t \<noteq> None) (\<lambda>_. rcAt L sp v) (\<lambda>_. False) s"
  by (auto simp: rcAt_def fetchSecret_def getSecret_def rcSecretUpdate_def api_defs wp_simps Let_def split_beta
    split: prod.split sum.split)

lemma rcMakeRemoteClient_at:
  "rcAt L sp v s \<Longrightarrow> rl_secret s \<noteq> None \<Longrightarrow> rcs_timeout sp \<noteq> None \<Longrightarrow>
   wp (rcMakeRemoteClient E) (\<lambda>_ t. rcAt L sp v t \<and> rl_remote_client t \<noteq> None) (\<lambda>_. rcAt L sp v) (\<lambda>_. False) s"
  by (auto simp: rcAt_def rcMakeRemoteClient_def wp_simps split: option.split sum.split)

lemma checkClusterReady_at:
  "rcAt L sp v s \<Longrightarrow> rl_remote_client s \<noteq> None \<Longrightarrow>
   wp (checkClusterReady E) (\<lambda>_ t. rcAt L sp v t \<and> rl_remote_client t \<noteq> None) (\<lambda>_. rcAt L sp v) (\<lambda>_. False) s"
  by (auto simp: rcAt_def checkClusterReady_def wp_simps split: option.split prod.split sum.split)

lemma reviewLoop_at:
  "rcAt L sp v s \<Longrightarrow> wp (reviewLoop K cs reqs errs) (\<lambda>_. rcAt L sp v) (\<lambda>_. rcAt L sp v) (\<lambda>_. False) s"
proof (induction reqs arbitrary: errs s)
  case (Cons a reqs)
  have "rcAt L sp v (s\<lparr>world := w, calls := cl\<rparr>)" for w cl using Cons.prems by (simp add: rcAt_def)
  then show ?case by (simp add: wp_simps Cons.IH split: prod.split sum.split)
qed (simp add: wp_simps)

lemma validatePermissions_at:
  "rcAt L sp v s \<Longrightarrow> rl_remote_client s \<noteq> None \<Longrightarrow>
   wp (validatePermissions E) (\<lambda>_. rcAt L sp v) (\<lambda>_. rcAt L sp v) (\<lambda>_. False) s"
  unfolding validatePermissions_def
  by (auto simp: wp_simps split: option.split intro!: wp_mono [OF reviewLoop_at]) (auto simp: rcAt_def)

context k8s_laws
begin

lemma stageFailed_at:
  assumes "rcStoring E" and "e_lib E = L" and "rcAt L sp v s"
  shows "wp (rcStageFailed E ct what err) (\<lambda>_ _. False) (\<lambda>_. rcAt L sp (failStage ct v)) (\<lambda>_. False) s"
proof -
  obtain x where x: "rl_cluster s = Some x" "rc_spec x = sp" "rcView L x = v" using assms(3) by (auto simp: rcAt_def)
  let ?y = "rcRecorded L x ErrorState (NewErrorCondition ct (error_text err))"
  have y: "rc_spec ?y = sp" "rcView L ?y = failStage ct v"
    using x by (auto simp add: rc_recorded rcView_def failStage_def)
  have "rcAt L sp (failStage ct v) (s\<lparr>rl_cluster := Some ?y\<rparr>)" using y by (simp add: rcAt_def)
  then show ?thesis
    unfolding rcStageFailed_def wp_onErr wp_onFailure [OF x(1) assms(2)] Let_def wp_fail
    by (auto intro!: wp_store(2) [OF assms(1) y])
qed

lemma onSuccess_at:
  assumes "rcStoring E" and "e_lib E = L" and "rcAt L sp v s"
  shows "wp (updateRemoteClusterStatusOnSuccess E st ct m)
    (\<lambda>_. rcAt L sp \<lparr>v_state = st, v_cond = (v_cond v)(ct \<mapsto> ConditionTrue)\<rparr>) (\<lambda>_ _. False) (\<lambda>_. False) s"
proof -
  obtain x where x: "rl_cluster s = Some x" "rc_spec x = sp" "rcView L x = v" using assms(3) by (auto simp: rcAt_def)
  let ?y = "rcRecorded L x st (NewOKCondition ct m)" and ?v = "\<lparr>v_state = st, v_cond = (v_cond v)(ct \<mapsto> ConditionTrue)\<rparr>"
  have y: "rc_spec ?y = sp" "rcView L ?y = ?v" using x by (auto simp add: rc_recorded rcView_def)
  have "rcAt L sp ?v (s\<lparr>rl_cluster := Some ?y\<rparr>)" using y by (simp add: rcAt_def)
  then show ?thesis
    unfolding wp_onSuccess [OF x(1) assms(2)] Let_def by (auto intro!: wp_store(2) [OF assms(1) y])
qed

lemma stageDone_at:
  assumes "rcStoring E" and "e_lib E = L" and "rcAt L sp v s"
  shows "wp (rcStageDone E ct m) (\<lambda>_ t. rcAt L sp (passStage ct v) t \<and> rl_secret t = rl_secret s \<and>
    rl_remote_client t = rl_remote_client s) (\<lambda>_ _. False) (\<lambda>_. False) s"
proof -
  have "wp (rcStageDone E ct m) (\<lambda>_. rcAt L sp (passStage ct v)) (\<lambda>_ _. False) (\<lambda>_. False) s"
    unfolding rcStageDone_def wp_wrapErr passStage_def by (rule onSuccess_at [OF assms])
  from wp_conj [OF this keeps_wp [OF stageDone_frame [of E ct m "rl_secret s" "rl_remote_client s"]]]
  show ?thesis by (auto intro: wp_mono)
qed

lemma rcStages_pipeline:
  assumes E: "rcStoring E" "e_lib E = L" and s: "rcAt L sp v s"
    and sp: "rcs_timeout sp \<noteq> None" "rcs_check_interval sp = Some d"
  shows "wp (rcStages E)
    (\<lambda>r t. r = \<lparr>requeue_after = d\<rparr> \<and> rcAt L sp (pipelineSpec rcConditionTypes 4 v) t)
    (\<lambda>_ t. \<exists>n<4. rcAt L sp (pipelineSpec rcConditionTypes n v) t) (\<lambda>_. False) s" (is "wp _ ?Q ?Er _ _")
proof -
  define v1 where "v1 = passStage SecretAvailableConditionType v"
  define v2 where "v2 = passStage ConfigValidConditionType v1"
  define v3 where "v3 = passStage ClusterReachableConditionType v2"
  have spec: "pipelineSpec rcConditionTypes 0 v = failStage SecretAvailableConditionType v"
    "pipelineSpec rcConditionTypes 1 v = failStage ConfigValidConditionType v1"
    "pipelineSpec rcConditionTypes 2 v = failStage ClusterReachableConditionType v2"
    "pipelineSpec rcConditionTypes 3 v = failStage HasEnoughPermissionsConditionType v3"
    "pipelineSpec rcConditionTypes 4 v =
       \<lparr>v_state = ReadyState, v_cond = (v_cond v3)(HasEnoughPermissionsConditionType \<mapsto> ConditionTrue)\<rparr>"
    by (simp_all add: pipelineSpec_def rcConditionTypes_def v1_def v2_def v3_def passStage_def numeral_2_eq_2 numeral_3_eq_3 numeral_eq_Suc)
  have failed: "wp (rcStageFailed E ct what err) ?Q ?Er (\<lambda>_. False) t"
    if "rcAt L sp u t" "n < 4" "pipelineSpec rcConditionTypes n v = failStage ct u" for ct what err u t n
    by (rule wp_mono [OF stageFailed_at [OF E that(1)]]) (use that(2,3) in \<open>auto intro!: exI [of _ n]\<close>)
  have stage: "wp (onErr m (rcStageFailed E ct what) (\<lambda>_. bnd (rcStageDone E ct msg) (\<lambda>_. k))) ?Q ?Er (\<lambda>_. False) t"
    if "wp m (\<lambda>_ t. rcAt L sp u t \<and> A (rl_secret t) (rl_remote_client t)) (\<lambda>_. rcAt L sp u) (\<lambda>_. False) t"
      "n < 4" "pipelineSpec rcConditionTypes n v = failStage ct u"
      "\<And>x. rcAt L sp (passStage ct u) x \<Longrightarrow> A (rl_secret x) (rl_remote_client x) \<Longrightarrow> wp k ?Q ?Er (\<lambda>_. False) x"
    for ct what msg u A n k t and m :: "('a rcl_state, unit) go"
  proof (rule wp_onErrI [OF that(1)])
    show "wp (rcStageFailed E ct what e) ?Q ?Er (\<lambda>_. False) x" if "rcAt L sp u x" for e x
      using that \<open>n < 4\<close> \<open>pipelineSpec rcConditionTypes n v = failStage ct u\<close> by (rule failed)
    show "wp (bnd (rcStageDone E ct msg) (\<lambda>_. k)) ?Q ?Er (\<lambda>_. False) x"
      if x: "rcAt L sp u x \<and> A (rl_secret x) (rl_remote_client x)" for x
      unfolding wp_bnd
      by (rule wp_mono [OF stageDone_at [OF E conjunct1 [OF x]]])
        (use x in \<open>auto intro: \<open>\<And>x. rcAt L sp (passStage ct u) x \<Longrightarrow> A (rl_secret x) (rl_remote_client x) \<Longrightarrow> wp k ?Q ?Er (\<lambda>_. False) x\<close>\<close>)
  qed
  have last: "wp (rcLastStage E) ?Q ?Er (\<lambda>_. False) t" if "rcAt L sp v3 t" "rl_remote_client t \<noteq> None" for t
    unfolding rcLastStage_def
  proof (rule wp_onErrI [OF validatePermissions_at [OF that]])
    fix e and u :: "'a rcl_state" assume "rcAt L sp v3 u"
    then show "wp (rcStageFailed E HasEnoughPermissionsConditionType ''unable to check permissions'' e) ?Q ?Er (\<lambda>_. False) u"
      by (rule failed [where n = 3]) (simp_all add: spec)
  next
    fix u :: "'a rcl_state" assume "rcAt L sp v3 u"
    note success = onSuccess_at [OF E this]
    show "wp (bnd (updateRemoteClusterStatusOnSuccess E ReadyState HasEnoughPermissionsConditionType
        ''cluster is ready and configured'') (\<lambda>_. bnd theCluster (\<lambda>rc. bnd (deref (rcs_check_interval (rc_spec rc)))
        (\<lambda>d. ret \<lparr>requeue_after = d\<rparr>)))) ?Q ?Er (\<lambda>_. False) u"
      unfolding wp_bnd
      by (rule wp_mono [OF success]) (use sp(2) in \<open>auto simp: wp_simps rcAt_def spec\<close>)
  qed
  show ?thesis
    unfolding rcStages_def
  proof (rule stage [where n = 0 and u = v and A = "\<lambda>sec c. sec \<noteq> None"])
    fix x :: "'a rcl_state" assume "rcAt L sp (passStage SecretAvailableConditionType v) x" "rl_secret x \<noteq> None"
    note client = rcMakeRemoteClient_at [OF this sp(1)]
    show "wp (onErr (rcMakeRemoteClient E) (rcStageFailed E ConfigValidConditionType ''unable to create remote client'')
        (\<lambda>_. bnd (rcStageDone E ConfigValidConditionType ''client initialized, config is valid'') (\<lambda>_.
         onErr (checkClusterReady E) (rcStageFailed E ClusterReachableConditionType ''unable to check cluster ready'') (\<lambda>_.
         bnd (rcStageDone E ClusterReachableConditionType ''cluster is ready'') (\<lambda>_. rcLastStage E))))) ?Q ?Er (\<lambda>_. False) x"
    proof (rule stage [where n = 1 and u = v1 and A = "\<lambda>sec c. c \<noteq> None", OF client [folded v1_def]])
      fix y :: "'a rcl_state" assume "rcAt L sp (passStage ConfigValidConditionType v1) y" "rl_remote_client y \<noteq> None"
      note ready = checkClusterReady_at [OF this]
      show "wp (onErr (checkClusterReady E) (rcStageFailed E ClusterReachableConditionType ''unable to check cluster ready'') (\<lambda>_.
         bnd (rcStageDone E ClusterReachableConditionType ''cluster is ready'') (\<lambda>_. rcLastStage E))) ?Q ?Er (\<lambda>_. False) y"
        by (rule stage [where n = 2 and u = v2 and A = "\<lambda>sec c. c \<noteq> None", OF ready [folded v2_def]])
          (simp, simp add: spec(3), rule last, simp_all add: v3_def)
    qed (simp, rule spec(2))
  qed (rule fetchSecret_at [OF s], simp, rule spec(1))
qed

lemma finalizer_at:
  assumes "rcStoring E" and "rcAt L sp v s"
  shows "wp (rcCheckSelfFinalizer E) (\<lambda>_. rcAt L sp v) (\<lambda>_ _. False) (\<lambda>_. False) s"
  using assms(2)
  by (auto simp: rcAt_def [of _ _ _ s] rcCheckSelfFinalizer_def wp_simps split_beta Let_def rcView_def
    intro!: wp_store(1) [OF assms(1)]) (auto simp: rcAt_def rcView_def)

lemma init_at:
  assumes "rcStoring E" and "e_lib E = L" and "rcAt L sp v s"
  shows "wp (rcCheckStatusInitialized E) (\<lambda>_ t. \<exists>st. rcAt L sp ((initView rcConditionTypes v)\<lparr>v_state := st\<rparr>) t)
    (\<lambda>_ _. False) (\<lambda>_. False) s"
proof -
  obtain x where x: "rl_cluster s = Some x" "rc_spec x = sp" "rcView L x = v" using assms(3) by (auto simp: rcAt_def)
  let ?y = "initConditions (setRemoteClusterCondition L) rcConditionTypes x"
  have spec: "rc_spec ?y = sp" using rcst.init_state(3) [of rcConditionTypes x] x(2) by auto
  have "rcCond L ?y = v_cond (initView rcConditionTypes v)"
    using x(3) by (auto simp: rcst.init_cond_map initView_def rcView_def)
  then have view: "rcView L ?y = (initView rcConditionTypes v)\<lparr>v_state := rc_state ?y\<rparr>" 
    "rcView L (fst (setRemoteClusterState ?y InitState m)) = (initView rcConditionTypes v)\<lparr>v_state := InitState\<rparr>" for m
    by (simp_all add: rcView_def initView_def rcst.set_state_conds rcst.set_state_state)
  have set_spec: "rc_spec (fst (setRemoteClusterState ?y InitState m)) = sp" for m
    using rcst.set_state_rest [of ?y InitState m] spec by auto
  note stored = wp_store(2) [OF assms(1) set_spec view(2)]
  have keep: "rcAt L sp ((initView rcConditionTypes v)\<lparr>v_state := rc_state ?y\<rparr>) (s\<lparr>rl_cluster := Some ?y\<rparr>)"
    using view(1) spec by (auto simp: rcAt_def)
  have set: "rcAt L sp ((initView rcConditionTypes v)\<lparr>v_state := InitState\<rparr>)
      (s\<lparr>rl_cluster := Some (fst (setRemoteClusterState ?y InitState m))\<rparr>)" for m
    using view(2) set_spec by (auto simp: rcAt_def)
  show ?thesis
    unfolding rcCheckStatusInitialized_def updateRemoteClusterState_def assms(2) Let_def
    using x(1) keep set
    by (auto simp: wp_simps split_beta intro!: wp_mono [OF stored])
qed

lemma rcReconcile_pipeline:
  assumes "rcStoring E" and "e_lib E = L" and got: "cl_get (kc_remoteclusters (e_client E)) k w = (Inr rc, w')"
    and "om_deletion_timestamp (rc_meta rc) = None" and "rcs_timeout (rc_spec rc) \<noteq> None"
    and "rcs_check_interval (rc_spec rc) = Some d"
  shows "wp (rcReconcile E)
    (\<lambda>r t. r = \<lparr>requeue_after = d\<rparr> \<and> (\<exists>st. rcAt L (rc_spec rc) (pipelineSpec rcConditionTypes 4
       ((initView rcConditionTypes (rcView L rc))\<lparr>v_state := st\<rparr>)) t))
    (\<lambda>_ t. \<exists>n<4. \<exists>st. rcAt L (rc_spec rc) (pipelineSpec rcConditionTypes n
       ((initView rcConditionTypes (rcView L rc))\<lparr>v_state := st\<rparr>)) t) (\<lambda>_. False) (init_rcl k w)"
proof -
  let ?s = "(init_rcl k w)\<lparr>world := w', rl_cluster := Some rc\<rparr>"
  have "rcAt L (rc_spec rc) (rcView L rc) ?s" by (simp add: rcAt_def)
  note fin = finalizer_at [OF assms(1) this]
  have stages: "wp (bnd (wrapErr ''unable to check self finalizer'' (rcCheckSelfFinalizer E)) (\<lambda>_.
     bnd (wrapErr ''unable to initialize conditions'' (rcCheckStatusInitialized E)) (\<lambda>_. rcStages E)))
    (\<lambda>r t. r = \<lparr>requeue_after = d\<rparr> \<and> (\<exists>st. rcAt L (rc_spec rc) (pipelineSpec rcConditionTypes 4
       ((initView rcConditionTypes (rcView L rc))\<lparr>v_state := st\<rparr>)) t))
    (\<lambda>_ t. \<exists>n<4. \<exists>st. rcAt L (rc_spec rc) (pipelineSpec rcConditionTypes n
       ((initView rcConditionTypes (rcView L rc))\<lparr>v_state := st\<rparr>)) t) (\<lambda>_. False) ?s"
    unfolding wp_bnd wp_wrapErr
    by (auto intro!: wp_mono [OF fin] wp_mono [OF init_at [OF assms(1,2)]]
      wp_mono [OF rcStages_pipeline [OF assms(1,2) _ assms(5,6)]])
  then show ?thesis
    using got assms(4) unfolding rcReconcile_def fetchCluster_def
    by (simp add: wp_simps apiGet_def init_rcl_def)
qed

end

lemma pipelineSpec_state: "pipelineSpec cts n (v\<lparr>v_state := st\<rparr>) = pipelineSpec cts n v"
proof -
  have "v_cond (fold passStage xs (u\<lparr>v_state := st\<rparr>)) = v_cond (fold passStage xs u)" for xs u
    by (induction xs arbitrary: u) (simp_all add: passStage_def)
  then show ?thesis by (simp add: pipelineSpec_def failStage_def Let_def)
qed

end
