(* ===== verification/Arbiter.thy ===== *)
theory Arbiter
  imports Remote_Cluster Arbiter_Pod
begin

text \<open>
  The reconciler of \<open>RemoteArbiter\<close> resources (\<^verbatim>\<open>pkg/controller/remotearbiter_controller.go\<close>), one
  definition per method, on the state of \<open>RemoteArbiterReconcilationState\<close>. The stages of
  \<open>Reconcile\<close> are split at its comments: the remote cluster, the Ceph cluster and the reserved
  monitor identifier, the monitor to clone, and the arbiter's own objects on the target.
\<close>

section \<open>State\<close>

record 'w ral_state = "'w base" +
  al_key :: key
  al_arbiter :: "remote_arbiter option"
  al_cluster_key :: "key option"
  al_cluster :: "remote_cluster option"
  al_secret_key :: "key option"
  al_secret :: "secret option"
  al_client :: "'w kube_client option"
  al_ceph_key :: "key option"
  al_ceph :: "ceph_cluster option"
  al_monitor :: "deployment option"
  al_mon_keyring :: "secret option"
  al_mon_override :: "configmap option"
  al_mon_envvar :: "secret option"
  al_service_key :: "key option"
  al_service :: "service option"
  al_deployment_key :: "key option"
  al_deployment :: "deployment option"
  al_keyring_key :: "key option"
  al_keyring :: "secret option"
  al_override_key :: "key option"
  al_override :: "configmap option"
  al_envvar_key :: "key option"
  al_envvar :: "secret option"
  al_outdated :: bool
  al_should_restart :: bool

definition init_ral :: "key \<Rightarrow> 'w \<Rightarrow> 'w ral_state" where
  "init_ral k w = \<lparr>world = w, calls = [], al_key = k, al_arbiter = None, al_cluster_key = None,
     al_cluster = None, al_secret_key = None, al_secret = None, al_client = None, al_ceph_key = None,
     al_ceph = None, al_monitor = None, al_mon_keyring = None, al_mon_override = None,
     al_mon_envvar = None, al_service_key = None, al_service = None, al_deployment_key = None,
     al_deployment = None, al_keyring_key = None, al_keyring = None, al_override_key = None,
     al_override = None, al_envvar_key = None, al_envvar = None, al_outdated = False,
     al_should_restart = False\<rparr>"

abbreviation theArbiter :: "('w ral_state, remote_arbiter) go" where
  "theArbiter \<equiv> fieldOf al_arbiter"

definition putArbiter :: "remote_arbiter \<Rightarrow> ('w ral_state, unit) go" where
  "putArbiter ra = modify (\<lambda>s. s\<lparr>al_arbiter := Some ra\<rparr>)"

section \<open>Writing the status\<close>

definition arStatusUpdate :: "'w env \<Rightarrow> remote_arbiter \<Rightarrow> ('w ral_state, unit) go" where
  "arStatusUpdate E ra =
     bnd (apiStatusUpdate Source RemoteArbiterObj (kc_remotearbiters (e_client E)) ra) putArbiter"

definition updateRemoteArbiterStatusOnFailure ::
  "'w env \<Rightarrow> string \<Rightarrow> goerror \<Rightarrow> ('w ral_state, unit) go" where
  "updateRemoteArbiterStatusOnFailure E conditionType err =
     bnd theArbiter (\<lambda>ra.
     let statusMessage = error_text err;
         (ra1, stateSet) = setRemoteArbiterState ra ErrorState statusMessage;
         (ra2, conditionSet) = updateRemoteArbiterCondition (e_lib E) ra1
            (NewErrorCondition conditionType statusMessage)
     in bnd (putArbiter ra2) (\<lambda>_.
        if \<not> stateSet \<and> \<not> conditionSet then ret ()
        else wrapErr ''unable to update resource status'' (arStatusUpdate E ra2)))"

definition updateRemoteArbiterStatusOnSuccess ::
  "'w env \<Rightarrow> string \<Rightarrow> string \<Rightarrow> string \<Rightarrow> ('w ral_state, unit) go" where
  "updateRemoteArbiterStatusOnSuccess E state conditionType statusMessage =
     bnd theArbiter (\<lambda>ra.
     let (ra1, stateSet) = setRemoteArbiterState ra state statusMessage;
         (ra2, conditionSet) = updateRemoteArbiterCondition (e_lib E) ra1
            (NewOKCondition conditionType statusMessage)
     in bnd (putArbiter ra2) (\<lambda>_.
        if \<not> conditionSet then ret ()
        else wrapErr ''unable to update resource status'' (arStatusUpdate E ra2)))"

definition updateRemoteArbiterState :: "'w env \<Rightarrow> string \<Rightarrow> string \<Rightarrow> ('w ral_state, unit) go" where
  "updateRemoteArbiterState E state message =
     bnd theArbiter (\<lambda>ra.
     let (ra1, stateSet) = setRemoteArbiterState ra state message
     in bnd (putArbiter ra1) (\<lambda>_.
        if \<not> stateSet then ret ()
        else wrapErr ''unable to update resource status'' (arStatusUpdate E ra1)))"

section \<open>The resource itself\<close>

definition fetchArbiter :: "'w env \<Rightarrow> ('w ral_state, unit) go" where
  "fetchArbiter E =
     bnd (gets al_key) (\<lambda>k.
     bnd (wrapErr ''unable to get resource'' (apiGet (kc_remotearbiters (e_client E)) k)) putArbiter)"

definition arUpdate :: "'w env \<Rightarrow> remote_arbiter \<Rightarrow> ('w ral_state, unit) go" where
  "arUpdate E ra = bnd (apiUpdate Source RemoteArbiterObj (kc_remotearbiters (e_client E)) ra) putArbiter"

definition arCheckSelfFinalizer :: "'w env \<Rightarrow> ('w ral_state, unit) go" where
  "arCheckSelfFinalizer E =
     bnd theArbiter (\<lambda>ra.
     let (fs, updated) = AddFinalizer (e_lib E) (om_finalizers (ra_meta ra)) RemoteArbiterFinalizer;
         ra' = ra\<lparr>ra_meta := (ra_meta ra)\<lparr>om_finalizers := fs\<rparr>\<rparr>
     in bnd (putArbiter ra') (\<lambda>_.
        if \<not> updated then ret ()
        else wrapErr ''unable to update resource with finalizer'' (arUpdate E ra')))"

definition arConditionTypes :: "string list" where
  "arConditionTypes = [RemoteClusterExistsConditionType, RemoteClusterReadyConditionType,
     CephClusterExistsConditionType, CephClusterReadyConditionType, CephClusterConfiguredConditionType,
     MonitorDeploymentExistsConditionType, MonitorDeploymentReadyConditionType,
     ArbiterDeploymentExistsConditionType, ArbiterDeploymentReadyConditionType]"

definition arCheckStatusInitialized :: "'w env \<Rightarrow> ('w ral_state, unit) go" where
  "arCheckStatusInitialized E =
     bnd theArbiter (\<lambda>ra.
     let initialConditionsCount = length (ra_conds ra);
         ra' = initConditions (setRemoteArbiterCondition (e_lib E)) arConditionTypes ra
     in bnd (putArbiter ra') (\<lambda>_.
        if initialConditionsCount = length (ra_conds ra') then ret ()
        else wrapErr ''unable to update resource with conditions''
               (updateRemoteArbiterState E InitState ''initialized'')))"

section \<open>The remote cluster\<close>

definition RemoteClusterOwnerKey :: string where [const_defs]: "RemoteClusterOwnerKey = ''.remotecluster.owner''"

definition arClusterUpdate :: "'w env \<Rightarrow> remote_cluster \<Rightarrow> ('w ral_state, unit) go" where
  "arClusterUpdate E rc =
     bnd (apiUpdate Source RemoteClusterObj (kc_remoteclusters (e_client E)) rc) (\<lambda>rc'.
     modify (\<lambda>s. s\<lparr>al_cluster := Some rc'\<rparr>))"

definition getRemoteClusterByOwnerReference ::
  "'w env \<Rightarrow> remote_arbiter \<Rightarrow> ('w ral_state, remote_cluster) go" where
  "getRemoteClusterByOwnerReference E ra =
     bnd (wrapErr ''unable to list resources''
            (apiList (kc_remoteclusters (e_client E))
               [InNamespace (om_namespace (ra_meta ra)),
                MatchingFields [(RemoteClusterOwnerKey, om_name (ra_meta ra))]])) (\<lambda>items.
     case items of
       [] \<Rightarrow> fail (Sentinel ErrorNotCreated)
     | rc # others \<Rightarrow>
         if others \<noteq> [] then fail (ErrorText ''more than one remote cluster is linked to arbiter resource'')
         else ret rc)"

definition getRemoteClusterByName :: "'w env \<Rightarrow> key \<Rightarrow> ('w ral_state, remote_cluster) go" where
  "getRemoteClusterByName E name =
     wrapErr ''unable to get resource'' (apiGet (kc_remoteclusters (e_client E)) name)"

definition getRemoteCluster :: "'w env \<Rightarrow> remote_arbiter \<Rightarrow> ('w ral_state, remote_cluster) go" where
  "getRemoteCluster E ra =
     (if rcc_name (ras_remote_cluster (ra_spec ra)) = [] then getRemoteClusterByOwnerReference E ra
      else getRemoteClusterByName E \<lparr>k_namespace = om_namespace (ra_meta ra),
             k_name = rcc_name (ras_remote_cluster (ra_spec ra))\<rparr>)"

definition createRemoteCluster :: "'w env \<Rightarrow> remote_arbiter \<Rightarrow> ('w ral_state, remote_cluster) go" where
  "createRemoteCluster E ra =
     (case rcc_spec (ras_remote_cluster (ra_spec ra)) of
        None \<Rightarrow> fail (ErrorText ''remote cluster spec is nil'')
      | Some sp \<Rightarrow>
          bnd (wrapErr ''unable to get gvk'' (lift (kc_arbiter_gvk (e_client E)))) (\<lambda>gvk.
          let ownerRef = NewControllerRef (e_lib E) (ra_meta ra) gvk;
              rc = \<lparr>rc_meta = empty_meta\<lparr>om_generate_name := ''remote-cluster-'',
                      om_namespace := om_namespace (ra_meta ra),
                      om_finalizers := [RemoteArbiterFinalizer], om_owner_refs := [ownerRef]\<rparr>,
                    rc_spec = sp, rc_status = \<lparr>st_state = [], st_message = [], st_conditions = []\<rparr>\<rparr>
          in wrapErr ''unable to create resource''
               (apiCreate Source RemoteClusterObj (kc_remoteclusters (e_client E)) rc)))"

definition setRemoteCluster :: "remote_cluster \<Rightarrow> ('w ral_state, unit) go" where
  "setRemoteCluster rc = modify (\<lambda>s. s\<lparr>al_cluster := Some rc,
     al_cluster_key := Some (ObjectKeyFromObject (rc_meta rc))\<rparr>)"

definition fetchRemoteCluster :: "'w env \<Rightarrow> ('w ral_state, unit) go" where
  "fetchRemoteCluster E =
     bnd theArbiter (\<lambda>ra.
     onErr (getRemoteCluster E ra)
       (\<lambda>err. if \<not> errorsIs err ErrorNotCreated then fail (Wrap ''unable to get remote cluster'' err)
              else bnd (wrapErr ''unable to create remote cluster'' (createRemoteCluster E ra)) setRemoteCluster)
       (\<lambda>rc. bnd (setRemoteCluster rc) (\<lambda>_.
          let (fs, added) = AddFinalizer (e_lib E) (om_finalizers (rc_meta rc)) RemoteArbiterFinalizer;
              rc' = rc\<lparr>rc_meta := (rc_meta rc)\<lparr>om_finalizers := fs\<rparr>\<rparr>
          in bnd (modify (\<lambda>s. s\<lparr>al_cluster := Some rc'\<rparr>)) (\<lambda>_.
             if \<not> added then ret ()
             else wrapErr ''unable to update resource with finalizer'' (arClusterUpdate E rc')))))"

definition arMakeRemoteClient :: "'w env \<Rightarrow> ('w ral_state, unit) go" where
  "arMakeRemoteClient E =
     bnd (fieldOf al_cluster) (\<lambda>rc.
     let k = \<lparr>k_namespace = om_namespace (rc_meta rc), k_name = ks_name (rcs_access_key_ref (rc_spec rc))\<rparr>
     in bnd (modify (\<lambda>s. s\<lparr>al_secret_key := Some k\<rparr>)) (\<lambda>_.
        bnd (wrapErr (''unable to get '' @ SecretTypeName @ '' '' @ key_text k)
               (apiGet (kc_secrets (e_client E)) k)) (\<lambda>sec.
        bnd (modify (\<lambda>s. s\<lparr>al_secret := Some sec\<rparr>)) (\<lambda>_.
        case map_lookup (sec_data sec) (ks_key (rcs_access_key_ref (rc_spec rc))) of
          None \<Rightarrow> fail (ErrorText (''secret key '' @ ks_key (rcs_access_key_ref (rc_spec rc)) @ '' not found''))
        | Some kubeconfig \<Rightarrow>
            bnd (wrapErr (''unable to create rest config from '' @ SecretTypeName @ '' '' @ key_text k)
                   (lift (RESTConfigFromKubeConfig E kubeconfig))) (\<lambda>cfg.
            bnd (deref (rcs_timeout (rc_spec rc))) (\<lambda>timeout.
            bnd (wrapErr (''unable to create client from '' @ SecretTypeName @ '' '' @ key_text k)
                   (readCall (client_New E (cfg\<lparr>cfg_timeout := timeout\<rparr>)))) (\<lambda>c.
            modify (\<lambda>s. s\<lparr>al_client := Some (NewNamespacedClient E c (rcs_namespace (rc_spec rc)))\<rparr>))))))))"

section \<open>The Ceph cluster\<close>

definition fetchCephCluster :: "'w env \<Rightarrow> ('w ral_state, unit) go" where
  "fetchCephCluster E =
     bnd theArbiter (\<lambda>ra.
     let k = \<lparr>k_namespace = nr_namespace (ras_ceph_cluster (ra_spec ra)),
              k_name = nr_name (ras_ceph_cluster (ra_spec ra))\<rparr>
     in bnd (modify (\<lambda>s. s\<lparr>al_ceph_key := Some k\<rparr>)) (\<lambda>_.
        bnd (wrapErr ''unable to get resource'' (apiGet (kc_cephclusters (e_client E)) k)) (\<lambda>ceph.
        modify (\<lambda>s. s\<lparr>al_ceph := Some ceph\<rparr>))))"

definition arCephUpdate :: "'w env \<Rightarrow> ceph_cluster \<Rightarrow> ('w ral_state, unit) go" where
  "arCephUpdate E ceph =
     bnd (apiUpdate Source CephClusterObj (kc_cephclusters (e_client E)) ceph) (\<lambda>ceph'.
     modify (\<lambda>s. s\<lparr>al_ceph := Some ceph'\<rparr>))"

text \<open>The identifiers of a prefix: the suffixes are the bytes 97 to 122.\<close>

definition potentialIDs :: "string \<Rightarrow> string list" where
  "potentialIDs prefix = map (\<lambda>suffixCode. prefix @ [char_of suffixCode]) [97..<123::nat]"

definition pickExternalID :: "string \<Rightarrow> string \<Rightarrow> string list \<Rightarrow> string" where
  "pickExternalID monID prefix externalMonIDs =
     (if monID \<noteq> [] then monID
      else case find (\<lambda>i. i \<notin> set externalMonIDs) (potentialIDs prefix) of
        None \<Rightarrow> []
      | Some i \<Rightarrow> i)"

definition reserveExternalArbiterID :: "'w env \<Rightarrow> ('w ral_state, unit) go" where
  "reserveExternalArbiterID E =
     bnd theArbiter (\<lambda>ra.
     bnd (fieldOf al_ceph) (\<lambda>ceph.
     let prefix = ras_mon_id_prefix (ra_spec ra);
         externalID = pickExternalID (st_mon_id (ra_status ra)) prefix (ceph_external_mon_ids ceph)
     in if externalID = [] then
          fail (ErrorText (''ids with prefix '' @ prefix @ '' and suffixes from a to z are occupied''))
        else if externalID \<in> set (ceph_external_mon_ids ceph) then ret ()
        else
          let ra' = ra\<lparr>ra_status := (ra_status ra)\<lparr>st_mon_id := externalID\<rparr>\<rparr>;
              ceph' = ceph\<lparr>ceph_external_mon_ids := ceph_external_mon_ids ceph @ [externalID]\<rparr>
          in bnd (putArbiter ra') (\<lambda>_.
             bnd (wrapErr ''unable to update resource status'' (arStatusUpdate E ra')) (\<lambda>_.
             bnd (modify (\<lambda>s. s\<lparr>al_ceph := Some ceph'\<rparr>)) (\<lambda>_.
             wrapErr ''unable to update resource'' (arCephUpdate E ceph'))))))"

section \<open>The monitor to clone\<close>

text \<open>
  The loop over the volumes of the monitor: names of the keyring secret and of the override
  config map. The test for leaving the loop is only reached at a volume that is neither.
\<close>

fun monitorVolumeNames :: "string \<Rightarrow> string \<Rightarrow> volume list \<Rightarrow> goerror + (string \<times> string)" where
  "monitorVolumeNames keyring override [] = Inr (keyring, override)"
| "monitorVolumeNames keyring override (v # vs) =
     (if vol_name v = ''rook-ceph-mons-keyring'' then
        (case vol_secret v of
           None \<Rightarrow> Inl (ErrorText ''keyring secret reference is nil'')
         | Some n \<Rightarrow> monitorVolumeNames n override vs)
      else if vol_name v = ''rook-config-override'' then
        (case vol_projected v of
           None \<Rightarrow> Inl (ErrorText ''override config volume reference is nil'')
         | Some sources \<Rightarrow>
             (case sources of
                [None] \<Rightarrow> Inl (ErrorText ''override config configmap reference is nil'')
              | [Some n] \<Rightarrow> monitorVolumeNames keyring n vs
              | _ \<Rightarrow> Inl (ErrorText (''expected override config volume source to have len 1, got ''
                              @ decimal (length sources)))))
      else if keyring \<noteq> [] \<and> override \<noteq> [] then Inr (keyring, override)
      else monitorVolumeNames keyring override vs)"

text \<open>The last container called \<open>mon\<close>, and the loop over its environment.\<close>

definition monContainer :: "container list \<Rightarrow> container option" where
  "monContainer cs = (case filter (\<lambda>c. c_name c = ''mon'') cs of [] \<Rightarrow> None | ms \<Rightarrow> Some (last ms))"

fun envVarSecretName :: "string \<Rightarrow> env_var list \<Rightarrow> goerror + string" where
  "envVarSecretName n [] = Inr n"
| "envVarSecretName n (e # es) =
     (if ev_name e \<noteq> ''ROOK_CEPH_MON_HOST'' then envVarSecretName n es
      else case ev_value_from e of
          None \<Rightarrow> Inl (ErrorText ''env var value source is nil'')
        | Some src \<Rightarrow>
            (case evs_secret_key_ref src of
               None \<Rightarrow> Inl (ErrorText ''env var secret key ref is nil'')
             | Some r \<Rightarrow> envVarSecretName (skr_name r) es))"

text \<open>The second half of \<open>fetchMonitorDeployment\<close>: the secret of the environment variables.\<close>

definition fetchMonitorEnvVarSecret :: "'w env \<Rightarrow> deployment \<Rightarrow> ('w ral_state, unit) go" where
  "fetchMonitorEnvVarSecret E monitor =
     (case monContainer (ps_containers (ds_pod (dep_spec monitor))) of
        None \<Rightarrow> fail (ErrorText ''unable to find mon container in spec template'')
      | Some c \<Rightarrow>
          if length (c_env c) = 0 then fail (ErrorText ''no env vars found'')
          else
            bnd (lift (envVarSecretName [] (c_env c))) (\<lambda>n.
            if n = [] then fail (ErrorText ''unable to find env var secret'')
            else
              bnd (wrapErr ''unable to get resource'' (apiGet (kc_secrets (e_client E))
                     \<lparr>k_namespace = om_namespace (dep_meta monitor), k_name = n\<rparr>)) (\<lambda>sec.
              modify (\<lambda>s. s\<lparr>al_mon_envvar := Some sec\<rparr>))))"

definition fetchMonitorDeployment :: "'w env \<Rightarrow> ('w ral_state, unit) go" where
  "fetchMonitorDeployment E =
     bnd theArbiter (\<lambda>ra.
     bnd (wrapErr ''unable to list resources''
            (apiList (kc_deployments (e_client E))
               [MatchingLabels [(''ceph_daemon_type'', ''mon''),
                  (''app.kubernetes.io/part-of'', nr_name (ras_ceph_cluster (ra_spec ra)))],
                InNamespace (nr_namespace (ras_ceph_cluster (ra_spec ra)))])) (\<lambda>items.
     if items = [] then fail (ErrorText ''monitor deployments not found'')
     else
       bnd (liftRes (selectTemplateMonDeployment items)) (\<lambda>monitor.
       bnd (modify (\<lambda>s. s\<lparr>al_monitor := Some monitor\<rparr>)) (\<lambda>_.
       bnd (lift (monitorVolumeNames [] [] (ps_volumes (ds_pod (dep_spec monitor))))) (\<lambda>(keyringName, overrideName).
       if keyringName = [] then fail (ErrorText ''unable to find keyring secret volume'')
       else if overrideName = [] then fail (ErrorText ''unable to find override config secret volume'')
       else
         bnd (wrapErr ''unable to get resource'' (apiGet (kc_secrets (e_client E))
                \<lparr>k_namespace = om_namespace (dep_meta monitor), k_name = keyringName\<rparr>)) (\<lambda>keyring.
         bnd (modify (\<lambda>s. s\<lparr>al_mon_keyring := Some keyring\<rparr>)) (\<lambda>_.
         bnd (wrapErr ''unable to get resource'' (apiGet (kc_configmaps (e_client E))
                \<lparr>k_namespace = om_namespace (dep_meta monitor), k_name = overrideName\<rparr>)) (\<lambda>override.
         bnd (modify (\<lambda>s. s\<lparr>al_mon_override := Some override\<rparr>)) (\<lambda>_.
         fetchMonitorEnvVarSecret E monitor)))))))))"

section \<open>Objects on the target cluster\<close>

abbreviation theClient :: "('w ral_state, 'w kube_client) go" where
  "theClient \<equiv> fieldOf al_client"

definition remoteMeta :: "string \<Rightarrow> string \<Rightarrow> (string \<times> string) list \<Rightarrow> object_meta" where
  "remoteMeta generateName namespace labels =
     empty_meta\<lparr>om_generate_name := generateName, om_namespace := namespace,
       om_labels := map_lit labels, om_finalizers := [RemoteArbiterFinalizer]\<rparr>"

definition createArbiterKeyringSecret :: "'w env \<Rightarrow> ('w ral_state, unit) go" where
  "createArbiterKeyringSecret E =
     bnd (fieldOf al_cluster) (\<lambda>rc.
     bnd (fieldOf al_mon_keyring) (\<lambda>mon.
     bnd theArbiter (\<lambda>ra.
     bnd theClient (\<lambda>c.
     bnd (wrapErr ''unable to create resource'' (apiCreate Target SecretObj (kc_secrets c)
       \<lparr>sec_meta = remoteMeta ''arbiter-keyring-secret-'' (rcs_namespace (rc_spec rc))
          [(RemoteArbiterResourceVersionLabel, om_resource_version (sec_meta mon)),
           (RemoteArbiterLookupLabel, om_name (ra_meta ra)),
           (RemoteArbiterRoleLabel, RemoteArbiterKeyringRole)],
        sec_data = sec_data mon\<rparr>)) (\<lambda>sec.
     modify (\<lambda>s. s\<lparr>al_keyring := Some sec\<rparr>))))))"

definition createArbiterEnvVarSecret :: "'w env \<Rightarrow> ('w ral_state, unit) go" where
  "createArbiterEnvVarSecret E =
     bnd (fieldOf al_cluster) (\<lambda>rc.
     bnd (fieldOf al_mon_envvar) (\<lambda>mon.
     bnd theArbiter (\<lambda>ra.
     bnd theClient (\<lambda>c.
     bnd (wrapErr ''unable to create resource'' (apiCreate Target SecretObj (kc_secrets c)
       \<lparr>sec_meta = remoteMeta ''arbiter-env-var-secret-'' (rcs_namespace (rc_spec rc))
          [(RemoteArbiterResourceVersionLabel, om_resource_version (sec_meta mon)),
           (RemoteArbiterLookupLabel, om_name (ra_meta ra)),
           (RemoteArbiterRoleLabel, RemoteArbiterEnvVarRole)],
        sec_data = sec_data mon\<rparr>)) (\<lambda>sec.
     modify (\<lambda>s. s\<lparr>al_envvar := Some sec\<rparr>))))))"

definition createArbiterOverrideConfigMap :: "'w env \<Rightarrow> ('w ral_state, unit) go" where
  "createArbiterOverrideConfigMap E =
     bnd (fieldOf al_cluster) (\<lambda>rc.
     bnd (fieldOf al_mon_override) (\<lambda>mon.
     bnd theArbiter (\<lambda>ra.
     bnd theClient (\<lambda>c.
     bnd (wrapErr ''unable to create resource'' (apiCreate Target ConfigMapObj (kc_configmaps c)
       \<lparr>cm_meta = remoteMeta ''arbiter-override-configmap-'' (rcs_namespace (rc_spec rc))
          [(RemoteArbiterResourceVersionLabel, om_resource_version (cm_meta mon)),
           (RemoteArbiterLookupLabel, om_name (ra_meta ra))],
        cm_data = cm_data mon\<rparr>)) (\<lambda>cm.
     modify (\<lambda>s. s\<lparr>al_override := Some cm\<rparr>))))))"

text \<open>Building the spec of the deployment in the state.\<close>

definition arMakeDeploymentSpec :: "('w ral_state, unit) go" where
  "arMakeDeploymentSpec =
     bnd theArbiter (\<lambda>ra.
     bnd (fieldOf al_monitor) (\<lambda>monitor.
     bnd (fieldOf al_deployment) (\<lambda>dep.
     bnd (gets id) (\<lambda>s.
     bnd (liftRes (makeDeploymentSpec ra (al_service s) monitor (al_override s) (al_keyring s)
                     (al_envvar s) dep)) (\<lambda>dep'.
     modify (\<lambda>s. s\<lparr>al_deployment := Some dep'\<rparr>))))))"

text \<open>The version label of a new deployment is taken from the override config map.\<close>

definition createArbiterDeployment :: "'w env \<Rightarrow> ('w ral_state, unit) go" where
  "createArbiterDeployment E =
     bnd (fieldOf al_cluster) (\<lambda>rc.
     bnd (fieldOf al_mon_override) (\<lambda>override.
     bnd theArbiter (\<lambda>ra.
     bnd (modify (\<lambda>s. s\<lparr>al_deployment := Some
       \<lparr>dep_meta = remoteMeta ''arbiter-deployment-'' (rcs_namespace (rc_spec rc))
          [(RemoteArbiterResourceVersionLabel, om_resource_version (cm_meta override)),
           (RemoteArbiterLookupLabel, om_name (ra_meta ra))],
        dep_spec = empty_deployment_spec, dep_replicas = 0, dep_unavailable_replicas = 0,
        dep_updated_replicas = 0\<rparr>\<rparr>)) (\<lambda>_.
     bnd (wrapErr ''unable to make deployment spec'' arMakeDeploymentSpec) (\<lambda>_.
     bnd theClient (\<lambda>c.
     bnd (fieldOf al_deployment) (\<lambda>dep.
     bnd (wrapErr ''unable to create resource''
            (apiCreate Target DeploymentObj (kc_deployments c) dep)) (\<lambda>dep'.
     modify (\<lambda>s. s\<lparr>al_deployment := Some dep'\<rparr>)))))))))"

definition createArbiterService :: "'w env \<Rightarrow> ('w ral_state, unit) go" where
  "createArbiterService E =
     bnd (fieldOf al_cluster) (\<lambda>rc.
     bnd theArbiter (\<lambda>ra.
     bnd (deref (ras_service (ra_spec ra))) (\<lambda>sc.
     let svc = \<lparr>svc_meta = remoteMeta ''arbiter-service-'' (rcs_namespace (rc_spec rc))
                  [(RemoteArbiterLookupLabel, om_name (ra_meta ra))],
                svc_type = sc_type sc, svc_cluster_ip = [], svc_ports = arbiterServicePorts (sc_type sc),
                svc_selector = map_lit [(RemoteArbiterLookupLabel, om_name (ra_meta ra))],
                svc_internal_traffic_policy = Some ''Cluster'', svc_ip_families = [''IPv4''],
                svc_ip_family_policy = Some ''SingleStack'', svc_session_affinity = ''None'',
                svc_ingress_ips = []\<rparr>
     in bnd (modify (\<lambda>s. s\<lparr>al_service := Some svc\<rparr>)) (\<lambda>_.
        bnd theClient (\<lambda>c.
        bnd (wrapErr ''unable to create resource'' (apiCreate Target ServiceObj (kc_services c) svc)) (\<lambda>svc'.
        modify (\<lambda>s. s\<lparr>al_service := Some svc'\<rparr>)))))))"

definition reconcileArbiterService :: "'w env \<Rightarrow> ('w ral_state, unit) go" where
  "reconcileArbiterService E =
     bnd theArbiter (\<lambda>ra.
     bnd (deref (ras_service (ra_spec ra))) (\<lambda>sc.
     bnd (fieldOf al_service) (\<lambda>svc.
     let (svc', serviceUpdated) = repairService (sc_type sc) svc
     in bnd (modify (\<lambda>s. s\<lparr>al_service := Some svc'\<rparr>)) (\<lambda>_.
        if \<not> serviceUpdated then ret ()
        else
          bnd theClient (\<lambda>c.
          bnd (gets al_service_key) (\<lambda>k.
          bnd (wrapErr (''unable to update resource '' @ ServiceTypeName @ '' '' @ key_ptr_text k)
                 (apiUpdate Target ServiceObj (kc_services c) svc')) (\<lambda>svc''.
          modify (\<lambda>s. s\<lparr>al_service := Some svc''\<rparr>))))))))"

text \<open>
  The five lookups of \<open>fetchArbiterDeployment\<close> have the same shape: no object, create it; one
  object, use it; more, fail.
\<close>

definition oneOrCreate ::
  "string \<Rightarrow> 'o list \<Rightarrow> ('s, unit) go \<Rightarrow> ('o \<Rightarrow> ('s, unit) go) \<Rightarrow> ('s, unit) go" where
  "oneOrCreate what items create use =
     (case items of
        [] \<Rightarrow> create
      | [x] \<Rightarrow> use x
      | _ \<Rightarrow> fail (ErrorText (''expected to get 1 '' @ what @ '', but got '' @ decimal (length items))))"

definition fetchArbiterKeyring :: "'w env \<Rightarrow> list_option list \<Rightarrow> ('w ral_state, unit) go" where
  "fetchArbiterKeyring E selectors =
     bnd theClient (\<lambda>c.
     bnd (wrapErr ''unable to list keyring secret'' (apiList (kc_secrets c)
       (selectors @ [MatchingLabels [(RemoteArbiterRoleLabel, RemoteArbiterKeyringRole)]]))) (\<lambda>items.
     oneOrCreate ''keyring secret'' items
       (wrapErr ''unable to create keyring secret'' (createArbiterKeyringSecret E))
       (\<lambda>x. modify (\<lambda>s. s\<lparr>al_keyring := Some x,
          al_keyring_key := Some (ObjectKeyFromObject (sec_meta x))\<rparr>))))"

definition fetchArbiterEnvVar :: "'w env \<Rightarrow> list_option list \<Rightarrow> ('w ral_state, unit) go" where
  "fetchArbiterEnvVar E selectors =
     bnd theClient (\<lambda>c.
     bnd (wrapErr ''unable to list env var secret'' (apiList (kc_secrets c)
       (selectors @ [MatchingLabels [(RemoteArbiterRoleLabel, RemoteArbiterEnvVarRole)]]))) (\<lambda>items.
     oneOrCreate ''env var secret'' items
       (wrapErr ''unable to create env var secret'' (createArbiterEnvVarSecret E))
       (\<lambda>x. modify (\<lambda>s. s\<lparr>al_envvar := Some x,
          al_envvar_key := Some (ObjectKeyFromObject (sec_meta x))\<rparr>))))"

definition fetchArbiterOverride :: "'w env \<Rightarrow> list_option list \<Rightarrow> ('w ral_state, unit) go" where
  "fetchArbiterOverride E selectors =
     bnd theClient (\<lambda>c.
     bnd (wrapErr ''unable to list override configmap'' (apiList (kc_configmaps c) selectors)) (\<lambda>items.
     oneOrCreate ''override config'' items
       (wrapErr ''unable to create override configmap'' (createArbiterOverrideConfigMap E))
       (\<lambda>x. modify (\<lambda>s. s\<lparr>al_override := Some x,
          al_override_key := Some (ObjectKeyFromObject (cm_meta x))\<rparr>))))"

definition fetchArbiterService :: "'w env \<Rightarrow> list_option list \<Rightarrow> ('w ral_state, unit) go" where
  "fetchArbiterService E selectors =
     bnd theClient (\<lambda>c.
     bnd (wrapErr ''unable to list service'' (apiList (kc_services c) selectors)) (\<lambda>items.
     oneOrCreate ''service'' items
       (wrapErr ''unable to create service'' (createArbiterService E))
       (\<lambda>x. bnd (modify (\<lambda>s. s\<lparr>al_service := Some x,
               al_service_key := Some (ObjectKeyFromObject (svc_meta x))\<rparr>)) (\<lambda>_.
            wrapErr ''unable to reconcile service'' (reconcileArbiterService E)))))"

definition fetchArbiterDeployments :: "'w env \<Rightarrow> list_option list \<Rightarrow> ('w ral_state, unit) go" where
  "fetchArbiterDeployments E selectors =
     bnd theClient (\<lambda>c.
     bnd (wrapErr ''unable to list deployment'' (apiList (kc_deployments c) selectors)) (\<lambda>items.
     oneOrCreate ''deployment'' items
       (wrapErr ''unable to create deployment'' (createArbiterDeployment E))
       (\<lambda>x. modify (\<lambda>s. s\<lparr>al_deployment := Some x,
          al_deployment_key := Some (ObjectKeyFromObject (dep_meta x))\<rparr>))))"

definition fetchArbiterDeployment :: "'w env \<Rightarrow> ('w ral_state, unit) go" where
  "fetchArbiterDeployment E =
     bnd (fieldOf al_cluster) (\<lambda>rc.
     bnd theArbiter (\<lambda>ra.
     let selectors = [InNamespace (rcs_namespace (rc_spec rc)),
                      MatchingLabels [(RemoteArbiterLookupLabel, om_name (ra_meta ra))]]
     in bnd (fetchArbiterKeyring E selectors) (\<lambda>_.
        bnd (fetchArbiterEnvVar E selectors) (\<lambda>_.
        bnd (fetchArbiterOverride E selectors) (\<lambda>_.
        bnd (if ras_service (ra_spec ra) \<noteq> None then fetchArbiterService E selectors else ret ()) (\<lambda>_.
        fetchArbiterDeployments E selectors))))))"

section \<open>Keeping the objects up to date\<close>

text \<open>\<open>Labels[key] = version; Data = data\<close> on the metadata of a mirrored object.\<close>

definition stampVersion :: "object_meta \<Rightarrow> string \<Rightarrow> ('s, object_meta) go" where
  "stampVersion m version =
     bnd (deref (map_put (om_labels m) RemoteArbiterResourceVersionLabel version)) (\<lambda>labels.
     ret (m\<lparr>om_labels := labels\<rparr>))"

definition updateArbiterKeyringSecret :: "'w env \<Rightarrow> ('w ral_state, unit) go" where
  "updateArbiterKeyringSecret E =
     bnd (fieldOf al_keyring) (\<lambda>sec.
     bnd (fieldOf al_mon_keyring) (\<lambda>mon.
     bnd (stampVersion (sec_meta sec) (om_resource_version (sec_meta mon))) (\<lambda>m.
     let sec' = sec\<lparr>sec_meta := m, sec_data := sec_data mon\<rparr>
     in bnd (modify (\<lambda>s. s\<lparr>al_keyring := Some sec'\<rparr>)) (\<lambda>_.
        bnd theClient (\<lambda>c.
        bnd (gets al_keyring_key) (\<lambda>k.
        bnd (wrapErr (''unable to update resource '' @ SecretTypeName @ '' '' @ key_ptr_text k)
               (apiUpdate Target SecretObj (kc_secrets c) sec')) (\<lambda>sec''.
        modify (\<lambda>s. s\<lparr>al_keyring := Some sec''\<rparr>))))))))"

definition updateArbiterEnvVarSecret :: "'w env \<Rightarrow> ('w ral_state, unit) go" where
  "updateArbiterEnvVarSecret E =
     bnd (fieldOf al_envvar) (\<lambda>sec.
     bnd (fieldOf al_mon_envvar) (\<lambda>mon.
     bnd (stampVersion (sec_meta sec) (om_resource_version (sec_meta mon))) (\<lambda>m.
     let sec' = sec\<lparr>sec_meta := m, sec_data := sec_data mon\<rparr>
     in bnd (modify (\<lambda>s. s\<lparr>al_envvar := Some sec'\<rparr>)) (\<lambda>_.
        bnd theClient (\<lambda>c.
        bnd (gets al_envvar_key) (\<lambda>k.
        bnd (wrapErr (''unable to update resource '' @ SecretTypeName @ '' '' @ key_ptr_text k)
               (apiUpdate Target SecretObj (kc_secrets c) sec')) (\<lambda>sec''.
        modify (\<lambda>s. s\<lparr>al_envvar := Some sec''\<rparr>))))))))"

definition updateArbiterOverrideConfigMap :: "'w env \<Rightarrow> ('w ral_state, unit) go" where
  "updateArbiterOverrideConfigMap E =
     bnd (fieldOf al_override) (\<lambda>cm.
     bnd (fieldOf al_mon_override) (\<lambda>mon.
     bnd (stampVersion (cm_meta cm) (om_resource_version (cm_meta mon))) (\<lambda>m.
     let cm' = cm\<lparr>cm_meta := m, cm_data := cm_data mon\<rparr>
     in bnd (modify (\<lambda>s. s\<lparr>al_override := Some cm'\<rparr>)) (\<lambda>_.
        bnd theClient (\<lambda>c.
        bnd (gets al_override_key) (\<lambda>k.
        bnd (wrapErr (''unable to update resource '' @ ConfigMapTypeName @ '' '' @ key_ptr_text k)
               (apiUpdate Target ConfigMapObj (kc_configmaps c) cm')) (\<lambda>cm''.
        modify (\<lambda>s. s\<lparr>al_override := Some cm''\<rparr>))))))))"

text \<open>The restart annotation with the current time; a missing annotation map is made first.\<close>

definition annotateRestart :: "string \<Rightarrow> deployment \<Rightarrow> deployment" where
  "annotateRestart now dep =
     (let tm = ds_template_meta (dep_spec dep);
          annotations = (case om_annotations tm of None \<Rightarrow> Map.empty | Some f \<Rightarrow> f)
      in dep\<lparr>dep_spec := (dep_spec dep)\<lparr>ds_template_meta := tm\<lparr>om_annotations :=
           Some (annotations(RemoteArbiterRestartAnnotation \<mapsto> now))\<rparr>\<rparr>\<rparr>)"

definition arDeploymentUpdate :: "deployment \<Rightarrow> ('w ral_state, unit) go" where
  "arDeploymentUpdate dep =
     bnd (modify (\<lambda>s. s\<lparr>al_deployment := Some dep\<rparr>)) (\<lambda>_.
     bnd theClient (\<lambda>c.
     bnd (gets al_deployment_key) (\<lambda>k.
     bnd (wrapErr (''unable to update resource '' @ DeploymentTypeName @ '' '' @ key_ptr_text k)
            (apiUpdate Target DeploymentObj (kc_deployments c) dep)) (\<lambda>dep'.
     modify (\<lambda>s. s\<lparr>al_deployment := Some dep'\<rparr>)))))"

text \<open>The error of building the spec is formatted with \<open>%s\<close> here, not wrapped.\<close>

definition updateArbiterDeployment :: "'w env \<Rightarrow> ('w ral_state, unit) go" where
  "updateArbiterDeployment E =
     onErr arMakeDeploymentSpec
       (\<lambda>err. fail (ErrorText (''unable to make deployment spec: '' @ error_text err))) (\<lambda>_.
     bnd (fieldOf al_deployment) (\<lambda>dep.
     bnd (fieldOf al_monitor) (\<lambda>monitor.
     bnd (stampVersion (dep_meta dep) (om_resource_version (dep_meta monitor))) (\<lambda>m.
     bnd (gets (\<lambda>s. e_now E (world s))) (\<lambda>now.
     arDeploymentUpdate (annotateRestart now (dep\<lparr>dep_meta := m\<rparr>)))))))"

definition restartArbiterDeployment :: "'w env \<Rightarrow> ('w ral_state, unit) go" where
  "restartArbiterDeployment E =
     bnd (fieldOf al_deployment) (\<lambda>dep.
     bnd (gets (\<lambda>s. e_now E (world s))) (\<lambda>now.
     arDeploymentUpdate (annotateRestart now dep)))"

definition markOutdated :: "bool \<Rightarrow> ('w ral_state, unit) go" where
  "markOutdated restart = modify (\<lambda>s. s\<lparr>al_outdated := True, al_should_restart := restart\<rparr>)"

definition lastAppliedVersion :: "object_meta \<Rightarrow> string" where
  "lastAppliedVersion m = map_get (om_labels m) RemoteArbiterResourceVersionLabel"

definition checkKeyring :: "'w env \<Rightarrow> ('w ral_state, unit) go" where
  "checkKeyring E =
     bnd (fieldOf al_keyring) (\<lambda>sec.
     bnd (fieldOf al_mon_keyring) (\<lambda>mon.
     if om_resource_version (sec_meta mon) \<noteq> lastAppliedVersion (sec_meta sec) then
       bnd (wrapErr ''unable to update arbiter keyring secret'' (updateArbiterKeyringSecret E)) (\<lambda>_.
       markOutdated True)
     else ret ()))"

definition checkEnvVar :: "'w env \<Rightarrow> ('w ral_state, unit) go" where
  "checkEnvVar E =
     bnd (fieldOf al_envvar) (\<lambda>sec.
     bnd (fieldOf al_mon_envvar) (\<lambda>mon.
     if om_resource_version (sec_meta mon) \<noteq> lastAppliedVersion (sec_meta sec) then
       bnd (wrapErr ''unable to update arbiter env var secret'' (updateArbiterEnvVarSecret E)) (\<lambda>_.
       markOutdated True)
     else ret ()))"

definition checkOverride :: "'w env \<Rightarrow> ('w ral_state, unit) go" where
  "checkOverride E =
     bnd (fieldOf al_override) (\<lambda>cm.
     bnd (fieldOf al_mon_override) (\<lambda>mon.
     if om_resource_version (cm_meta mon) \<noteq> lastAppliedVersion (cm_meta cm) then
       bnd (wrapErr ''unable to update arbiter override configmap'' (updateArbiterOverrideConfigMap E)) (\<lambda>_.
       markOutdated True)
     else ret ()))"

definition checkDeploymentVersion :: "'w env \<Rightarrow> ('w ral_state, unit) go" where
  "checkDeploymentVersion E =
     bnd (fieldOf al_deployment) (\<lambda>dep.
     bnd (fieldOf al_monitor) (\<lambda>mon.
     if om_resource_version (dep_meta mon) \<noteq> lastAppliedVersion (dep_meta dep) then
       bnd (wrapErr ''unable to update arbiter deployment'' (updateArbiterDeployment E)) (\<lambda>_.
       markOutdated False)
     else ret ()))"

text \<open>
  The desired address: while a load balancer has none, the applied one.
\<close>

definition desiredPublicAddress ::
  "service option \<Rightarrow> service_configuration option \<Rightarrow> string \<Rightarrow> string res" where
  "desiredPublicAddress svc specService applied =
     (case determinePublicAddress svc specService of
        Val a \<Rightarrow> Val a
      | Panic \<Rightarrow> Panic
      | Err e \<Rightarrow>
          if \<not> errorsIs e ErrLoadBalancerAddressNotAllocated
          then Err (Wrap ''unable to determine desired public address'' e)
          else Val applied)"

definition checkPublicAddress :: "'w env \<Rightarrow> ('w ral_state, unit) go" where
  "checkPublicAddress E =
     bnd (fieldOf al_deployment) (\<lambda>dep.
     bnd theArbiter (\<lambda>ra.
     bnd (gets al_service) (\<lambda>svc.
     bnd (liftRes (desiredPublicAddress svc (ras_service (ra_spec ra)) (deploymentPublicAddress dep))) (\<lambda>desired.
     if desired \<noteq> deploymentPublicAddress dep then
       bnd (wrapErr ''unable to update arbiter deployment'' (updateArbiterDeployment E)) (\<lambda>_.
       markOutdated False)
     else ret ()))))"

definition checkArbiterDeploymentUpToDate :: "'w env \<Rightarrow> ('w ral_state, unit) go" where
  "checkArbiterDeploymentUpToDate E =
     bnd (checkKeyring E) (\<lambda>_.
     bnd (checkEnvVar E) (\<lambda>_.
     bnd (checkOverride E) (\<lambda>_.
     bnd (checkDeploymentVersion E) (\<lambda>_.
     checkPublicAddress E))))"

section \<open>Deletion\<close>

definition cleanUpCephCluster :: "'w env \<Rightarrow> ('w ral_state, unit) go" where
  "cleanUpCephCluster E =
     bnd theArbiter (\<lambda>ra.
     if st_mon_id (ra_status ra) = [] then ret ()
     else
       onErr (fetchCephCluster E)
         (\<lambda>err. if isNotFound err then ret () else fail (Wrap ''unable to get remote cluster'' err))
         (\<lambda>_. bnd (fieldOf al_ceph) (\<lambda>ceph.
            case slicesIndex (ceph_external_mon_ids ceph) (st_mon_id (ra_status ra)) of
              None \<Rightarrow> ret ()
            | Some idx \<Rightarrow>
                let ceph' = ceph\<lparr>ceph_external_mon_ids :=
                      slicesDelete (ceph_external_mon_ids ceph) idx (idx + 1)\<rparr>
                in bnd (modify (\<lambda>s. s\<lparr>al_ceph := Some ceph'\<rparr>)) (\<lambda>_.
                   wrapErr ''unable to update ceph cluster'' (arCephUpdate E ceph')))))"

definition clusterTypes :: "kind list" where
  "clusterTypes = [KSecret, KService, KConfigMap, KDeployment]"

text \<open>The loop that collects the objects to delete; it asks the client of the reconciler itself.\<close>

fun collectObjects ::
  "'w env \<Rightarrow> string \<Rightarrow> list_option list \<Rightarrow> kind list \<Rightarrow> unstructured list \<Rightarrow>
   ('w ral_state, unstructured list) go" where
  "collectObjects E clusterText selectors [] objectsToDelete = ret objectsToDelete"
| "collectObjects E clusterText selectors (k # ks) objectsToDelete =
     bnd (wrapErr (''unable to get resource gvk '' @ clusterText) (lift (kc_gvk (e_client E) k))) (\<lambda>gvk.
     bnd (wrapErr (''unable to list remote resources '' @ clusterText)
            (apiList (kc_unstructured (e_client E) k) selectors)) (\<lambda>items.
     collectObjects E clusterText selectors ks (objectsToDelete @ items)))"

text \<open>The body of the loop that deletes them, on the target cluster.\<close>

definition deleteObject :: "'w env \<Rightarrow> string \<Rightarrow> unstructured \<Rightarrow> ('w ral_state, unit) go" where
  "deleteObject E clusterText x =
     (let objectKey = key_text (ObjectKeyFromObject (un_meta x))
      in bnd (wrapErr (''unable to get resource gvk '' @ clusterText @ '' key '' @ objectKey)
                (lift (kc_gvk (e_client E) (un_kind x)))) (\<lambda>gvk.
         let (fs, updated) = RemoveFinalizer (e_lib E) (om_finalizers (un_meta x)) RemoteArbiterFinalizer;
             x' = x\<lparr>un_meta := (un_meta x)\<lparr>om_finalizers := fs\<rparr>\<rparr>
         in if \<not> updated then ret ()
            else
              bnd theClient (\<lambda>c.
              bnd (wrapErr (''unable to update resource after finalizer removal '' @ clusterText @ '' ''
                            @ gvk @ '' '' @ objectKey)
                     (apiUpdate Target UnstructuredObj (kc_unstructured c (un_kind x)) x')) (\<lambda>x''.
              wrapErr (''unable to delete resource after finalizer removal '' @ clusterText @ '' ''
                       @ gvk @ '' '' @ objectKey)
                (apiDelete Target UnstructuredObj (kc_unstructured c (un_kind x)) x'')))))"

text \<open>Without a client for the target cluster its objects are left behind.\<close>

definition cleanUpArbiterDeployment :: "'w env \<Rightarrow> ('w ral_state, unit) go" where
  "cleanUpArbiterDeployment E =
     onErr (arMakeRemoteClient E) (\<lambda>err. ret ()) (\<lambda>_.
     bnd (fieldOf al_cluster) (\<lambda>rc.
     bnd theArbiter (\<lambda>ra.
     bnd (gets al_cluster_key) (\<lambda>k.
     let clusterText = RemoteClusterTypeName @ '' '' @ key_ptr_text k;
         selectors = [InNamespace (rcs_namespace (rc_spec rc)),
                      MatchingLabels [(RemoteArbiterLookupLabel, om_name (ra_meta ra))]]
     in bnd (collectObjects E clusterText selectors clusterTypes []) (\<lambda>objectsToDelete.
        forEach (deleteObject E clusterText) objectsToDelete)))))"

definition arCleanUpRemoteCluster :: "'w env \<Rightarrow> ('w ral_state, unit) go" where
  "arCleanUpRemoteCluster E =
     bnd theArbiter (\<lambda>ra.
     onErr (getRemoteCluster E ra)
       (\<lambda>err. if errorsIs err ErrorNotCreated \<or> isNotFound err then ret ()
              else fail (Wrap ''unable to get remote cluster'' err))
       (\<lambda>rc.
          let (fs, updated) = RemoveFinalizer (e_lib E) (om_finalizers (rc_meta rc)) RemoteArbiterFinalizer;
              rc' = rc\<lparr>rc_meta := (rc_meta rc)\<lparr>om_finalizers := fs\<rparr>\<rparr>
          in bnd (setRemoteCluster rc') (\<lambda>_.
             if \<not> updated then ret ()
             else
               bnd (gets al_cluster_key) (\<lambda>k.
               bnd (wrapErr (''unable to clean up arbiter deployment components '' @ RemoteClusterTypeName
                             @ '' '' @ key_ptr_text k)
                      (cleanUpArbiterDeployment E)) (\<lambda>_.
               wrapErr ''unable to update resource after finalizer removal'' (arClusterUpdate E rc'))))))"

definition cleanUpRemoteArbiter :: "'w env \<Rightarrow> ('w ral_state, unit) go" where
  "cleanUpRemoteArbiter E =
     bnd (wrapErr ''unable to update remote arbiter state''
            (updateRemoteArbiterState E DeletingState ''deleting'')) (\<lambda>_.
     bnd theArbiter (\<lambda>ra.
     let (fs, updated) = RemoveFinalizer (e_lib E) (om_finalizers (ra_meta ra)) RemoteArbiterFinalizer;
         ra' = ra\<lparr>ra_meta := (ra_meta ra)\<lparr>om_finalizers := fs\<rparr>\<rparr>
     in bnd (putArbiter ra') (\<lambda>_.
        if \<not> updated then ret ()
        else
          bnd (wrapErr ''unable to clean up remote cluster'' (arCleanUpRemoteCluster E)) (\<lambda>_.
          bnd (wrapErr ''unable to clean up ceph cluster'' (cleanUpCephCluster E)) (\<lambda>_.
          bnd theArbiter (\<lambda>ra''.
          wrapErr ''unable to update resource after finalizer removal'' (arUpdate E ra'')))))))"

section \<open>Reconcile\<close>

definition arStageFailed :: "'w env \<Rightarrow> string \<Rightarrow> string \<Rightarrow> goerror \<Rightarrow> ('w ral_state, 'a) go" where
  "arStageFailed E conditionType what err =
     onErr (updateRemoteArbiterStatusOnFailure E conditionType err)
       (\<lambda>statusErr. fail (Wrap ''unable to update resource with conditions'' statusErr))
       (\<lambda>_. fail (Wrap what err))"

definition arStageDone :: "'w env \<Rightarrow> string \<Rightarrow> string \<Rightarrow> string \<Rightarrow> ('w ral_state, unit) go" where
  "arStageDone E state conditionType statusMessage =
     wrapErr ''unable to update resource with conditions''
       (updateRemoteArbiterStatusOnSuccess E state conditionType statusMessage)"

text \<open>The two tests of a deployment's status, with the text of the error they make.\<close>

definition deploymentTrouble :: "string \<Rightarrow> deployment \<Rightarrow> goerror option" where
  "deploymentTrouble what dep =
     (if dep_replicas dep = 0 \<or> dep_unavailable_replicas dep \<noteq> 0
      then Some (ErrorText (what @ '' deployment is not ready''))
      else if dep_updated_replicas dep \<noteq> dep_replicas dep
      then Some (ErrorText (what @ '' deployment is updating self''))
      else None)"

text \<open>The remote cluster: lines 150 to 193.\<close>

definition arClusterStage :: "'w env \<Rightarrow> ('w ral_state, unit) go" where
  "arClusterStage E =
     onErr (fetchRemoteCluster E)
       (arStageFailed E RemoteClusterExistsConditionType ''unable to fetch remote cluster'') (\<lambda>_.
     bnd (arStageDone E ProgressingState RemoteClusterExistsConditionType ''remote cluster fetched'') (\<lambda>_.
     bnd (fieldOf al_cluster) (\<lambda>rc.
     if rc_state rc \<noteq> ReadyState
     then arStageFailed E RemoteClusterReadyConditionType ''unable to use remote cluster''
            (ErrorText ''remote cluster not ready'')
     else
       onErr (arMakeRemoteClient E)
         (arStageFailed E RemoteClusterReadyConditionType ''unable to make remote client'') (\<lambda>_.
       arStageDone E ProgressingState RemoteClusterReadyConditionType ''remote client usable''))))"

text \<open>The Ceph cluster and the reserved identifier: lines 195 to 245.\<close>

definition arCephStage :: "'w env \<Rightarrow> ('w ral_state, unit) go" where
  "arCephStage E =
     onErr (fetchCephCluster E)
       (arStageFailed E CephClusterExistsConditionType ''unable to fetch ceph cluster'') (\<lambda>_.
     bnd (arStageDone E ProgressingState CephClusterExistsConditionType ''ceph cluster fetched'') (\<lambda>_.
     bnd (fieldOf al_ceph) (\<lambda>ceph.
     if ceph_phase ceph \<noteq> rook_ConditionReady
     then arStageFailed E CephClusterReadyConditionType ''unable to use ceph cluster''
            (ErrorText ''ceph cluster not ready'')
     else
       bnd (arStageDone E ProgressingState CephClusterReadyConditionType ''ceph cluster ready'') (\<lambda>_.
       onErr (reserveExternalArbiterID E)
         (arStageFailed E CephClusterConfiguredConditionType ''unable to reserve external arbiter id'') (\<lambda>_.
       arStageDone E ProgressingState CephClusterConfiguredConditionType ''ceph cluster configured'')))))"

text \<open>The monitor to clone: lines 247 to 289.\<close>

definition arMonitorStage :: "'w env \<Rightarrow> ('w ral_state, unit) go" where
  "arMonitorStage E =
     onErr (fetchMonitorDeployment E)
       (arStageFailed E MonitorDeploymentExistsConditionType ''unable to fetch monitor deployment'') (\<lambda>_.
     bnd (arStageDone E ProgressingState MonitorDeploymentExistsConditionType ''monitor deployment fetched'') (\<lambda>_.
     bnd (fieldOf al_monitor) (\<lambda>dep.
     case deploymentTrouble ''monitor'' dep of
       Some err \<Rightarrow> arStageFailed E MonitorDeploymentReadyConditionType ''unable to use monitor deployment'' err
     | None \<Rightarrow>
         arStageDone E ProgressingState MonitorDeploymentReadyConditionType ''monitor deployment is ready'')))"

text \<open>The objects of the arbiter: lines 291 to 361.\<close>

definition arArbiterStage :: "'w env \<Rightarrow> ('w ral_state, ctrl_result) go" where
  "arArbiterStage E =
     onErr (fetchArbiterDeployment E)
       (arStageFailed E ArbiterDeploymentExistsConditionType ''unable to fetch arbiter deployment'') (\<lambda>_.
     bnd (arStageDone E ProgressingState ArbiterDeploymentExistsConditionType ''arbiter deployment fetched'') (\<lambda>_.
     onErr (checkArbiterDeploymentUpToDate E)
       (arStageFailed E ArbiterDeploymentReadyConditionType
          ''unable to check if arbiter deployment up to date'') (\<lambda>_.
     bnd (gets al_should_restart) (\<lambda>shouldRestart.
     onErr (if shouldRestart then restartArbiterDeployment E else ret ())
       (arStageFailed E ArbiterDeploymentReadyConditionType ''unable to restart arbiter deployment'') (\<lambda>_.
     bnd (fieldOf al_deployment) (\<lambda>dep.
     case deploymentTrouble ''arbiter'' dep of
       Some err \<Rightarrow> arStageFailed E ArbiterDeploymentReadyConditionType ''unable to use arbiter deployment'' err
     | None \<Rightarrow>
         bnd (arStageDone E ReadyState ArbiterDeploymentReadyConditionType ''arbiter deployment ready'') (\<lambda>_.
         bnd theArbiter (\<lambda>ra.
         bnd (deref (ras_check_interval (ra_spec ra))) (\<lambda>d.
         ret \<lparr>requeue_after = d\<rparr>)))))))))"

definition arStages :: "'w env \<Rightarrow> ('w ral_state, ctrl_result) go" where
  "arStages E =
     bnd (arClusterStage E) (\<lambda>_. bnd (arCephStage E) (\<lambda>_. bnd (arMonitorStage E) (\<lambda>_. arArbiterStage E)))"

definition arReconcile :: "'w env \<Rightarrow> ('w ral_state, ctrl_result) go" where
  "arReconcile E =
     onErr (fetchArbiter E)
       (\<lambda>err. if isNotFound err then ret emptyResult else fail (Wrap ''unable to fetch self'' err)) (\<lambda>_.
     bnd theArbiter (\<lambda>ra.
     if om_deletion_timestamp (ra_meta ra) \<noteq> None then
       bnd (wrapErr ''unable to clean up'' (cleanUpRemoteArbiter E)) (\<lambda>_. ret emptyResult)
     else
       bnd (wrapErr ''unable to check self finalizer'' (arCheckSelfFinalizer E)) (\<lambda>_.
       bnd (wrapErr ''unable to initialize conditions'' (arCheckStatusInitialized E)) (\<lambda>_.
       arStages E))))"

end
