(* ===== verification/Arbiter_Demo.thy ===== *)
theory Arbiter_Demo
  imports Arbiter Arbiter_Pod_Props Demo_Server
begin

text \<open>
  Servers on which the properties of the \<open>RemoteArbiter\<close> reconciler are exercised: a source cluster
  with a ready remote cluster, a ready Ceph cluster and one running monitor, and a target cluster
  that holds the arbiter's objects, copied from the source at resource version 1.
\<close>

definition live_arbiter :: remote_arbiter where
  "live_arbiter = demo_arbiter\<lparr>ra_spec := demo_arbiter_spec\<lparr>ras_check_interval := Some time_Minute,
     ras_ceph_cluster := \<lparr>nr_namespace = ''rook-ceph'', nr_name = ''rook-ceph''\<rparr>,
     ras_remote_cluster := \<lparr>rcc_spec = None, rcc_name = ''target''\<rparr>, ras_mon_id_prefix := ''ext-''\<rparr>\<rparr>"

definition ready_cluster :: remote_cluster where
  "ready_cluster = demo_cluster\<lparr>rc_status := \<lparr>st_state = ReadyState, st_message = [], st_conditions = []\<rparr>\<rparr>"

definition demo_ceph :: "string list \<Rightarrow> ceph_cluster" where
  "demo_ceph ids = \<lparr>ceph_meta = demo_meta ''rook-ceph'', ceph_external_mon_ids = ids,
     ceph_phase = rook_ConditionReady, ceph_rest = []\<rparr>"

definition copied_meta :: "string \<Rightarrow> object_meta" where
  "copied_meta n = (demo_meta n)\<lparr>om_labels := map_lit [(RemoteArbiterResourceVersionLabel, ''1''),
       (RemoteArbiterLookupLabel, ''arbiter'')], om_finalizers := [RemoteArbiterFinalizer]\<rparr>"

definition copied_secret :: secret where
  "copied_secret = \<lparr>sec_meta = copied_meta ''arbiter-secret'', sec_data = None\<rparr>"

definition copied_deployment :: "string \<Rightarrow> deployment" where
  "copied_deployment addr = (demo_monitor ''arbiter-deployment'')\<lparr>dep_meta := copied_meta ''arbiter-deployment'',
     dep_spec := empty_deployment_spec\<lparr>ds_pod := empty_pod_spec\<lparr>ps_containers :=
       [(demo_container ''mon'')\<lparr>c_args := [publicAddrPrefix @ addr]\<rparr>]\<rparr>\<rparr>\<rparr>"

definition demo_target :: "'w kube_client" where
  "demo_target = empty_server\<lparr>kc_secrets := serve copied_secret,
     kc_configmaps := serve (demo_configmap\<lparr>cm_meta := copied_meta ''arbiter-override''\<rparr>),
     kc_deployments := serve (copied_deployment ''$(ROOK_POD_IP)'')\<rparr>"

definition demo_source :: "remote_arbiter \<Rightarrow> string list \<Rightarrow> 'w kube_client" where
  "demo_source ra ids = empty_server\<lparr>kc_remotearbiters := serve ra, kc_remoteclusters := serve ready_cluster,
     kc_secrets := serve demo_secret, kc_configmaps := serve demo_configmap,
     kc_cephclusters := serve (demo_ceph ids), kc_deployments := serve (demo_monitor ''rook-ceph-mon-a'')\<rparr>"

definition arbiter_env :: "remote_arbiter \<Rightarrow> string list \<Rightarrow> unit env" where
  "arbiter_env ra ids = demo_env granting (demo_source ra ids) demo_target"

lemma arbiter_env_lib [simp]: "e_lib (arbiter_env ra ids) = ref_lib"
  by (simp add: arbiter_env_def)

lemma arbiter_env_laws: "k8s_laws (e_lib (arbiter_env ra ids))"
  by (simp add: ref.k8s_laws_axioms)

lemma arbiter_env_get:
  "cl_get (kc_remotearbiters (e_client (arbiter_env ra ids))) k w = (Inr ra, w)"
  by (simp add: arbiter_env_def demo_env_def demo_source_def serve_def)

lemma arbiter_env_status:
  "cl_status_update (kc_remotearbiters (e_client (arbiter_env ra ids))) x w = (Inr y, w') \<longleftrightarrow> y = x \<and> w' = w"
  by (auto simp: arbiter_env_def demo_env_def demo_source_def serve_def)

text \<open>The run of the reconciler on these servers.\<close>

definition demo_run :: "remote_arbiter \<Rightarrow> string list \<Rightarrow> ctrl_result res \<times> unit ral_state" where
  "demo_run ra ids = arReconcile (arbiter_env ra ids) (init_ral (demo_key ''arbiter'') ())"

text \<open>The same resource being deleted.\<close>

definition deleted_arbiter :: remote_arbiter where
  "deleted_arbiter = live_arbiter\<lparr>ra_meta := (ra_meta live_arbiter)\<lparr>om_finalizers := [RemoteArbiterFinalizer],
     om_deletion_timestamp := Some ''2025-01-01T00:00:00Z''\<rparr>,
     ra_status := (ra_status live_arbiter)\<lparr>st_mon_id := ''ext-a''\<rparr>\<rparr>"

end
