(* ===== verification/Arbiter_Safety.thy ===== *)
theory Arbiter_Safety
  imports Arbiter_Demo
begin

text \<open>
  Safety of the \<open>RemoteArbiter\<close> reconciler, whatever the servers answer. The first part bounds what
  each function may send; from it follows what a run may write at all. The second part follows
  the stages: each one establishes that a part of the system was seen ready, later stages keep it,
  and so the state Ready is published last and only when every part was.
\<close>

section \<open>What the functions may call\<close>

abbreviation arStatusCall :: "remote_arbiter \<Rightarrow> bool \<Rightarrow> call" where
  "arStatusCall ra b \<equiv> StatusUpdateCall Source (RemoteArbiterObj ra) b"

lemma ar_writes_emit [emits_intros]:
  "emits (putArbiter ra) G" "emits (setRemoteCluster rc) G" "emits (markOutdated b) G"
  "(\<And>b. G (arStatusCall ra b)) \<Longrightarrow> emits (arStatusUpdate E ra) G"
  "(\<And>b. G (UpdateCall Source (RemoteArbiterObj ra) b)) \<Longrightarrow> emits (arUpdate E ra) G"
  "(\<And>b. G (UpdateCall Source (RemoteClusterObj rc) b)) \<Longrightarrow> emits (arClusterUpdate E rc) G"
  "(\<And>b. G (UpdateCall Source (CephClusterObj ceph) b)) \<Longrightarrow> emits (arCephUpdate E ceph) G"
  unfolding putArbiter_def setRemoteCluster_def markOutdated_def arStatusUpdate_def arUpdate_def
    arClusterUpdate_def arCephUpdate_def
  by (auto intro!: emits_intros)

lemma ar_status_writers_emit [emits_intros]:
  "(\<And>ra b. ra_state ra = ErrorState \<Longrightarrow> G (arStatusCall ra b)) \<Longrightarrow>
     emits (updateRemoteArbiterStatusOnFailure E t err) G"
  "(\<And>ra b. ra_state ra = st \<Longrightarrow> G (arStatusCall ra b)) \<Longrightarrow>
     emits (updateRemoteArbiterStatusOnSuccess E st t m) G"
  "(\<And>ra b. ra_state ra = st \<Longrightarrow> G (arStatusCall ra b)) \<Longrightarrow>
     emits (updateRemoteArbiterState E st m) G"
  unfolding updateRemoteArbiterStatusOnFailure_def updateRemoteArbiterStatusOnSuccess_def
    updateRemoteArbiterState_def
  by (auto intro!: emits_intros simp: remote_arbiter_status_defs split: if_splits)

lemma ar_stage_ends_emit [emits_intros]:
  "(\<And>ra b. ra_state ra = ErrorState \<Longrightarrow> G (arStatusCall ra b)) \<Longrightarrow>
     emits (arStageFailed E t what err) G"
  "(\<And>ra b. ra_state ra = st \<Longrightarrow> G (arStatusCall ra b)) \<Longrightarrow> emits (arStageDone E st t m) G"
  unfolding arStageFailed_def arStageDone_def
  by (auto intro!: emits_intros)

lemma ar_reads_emit [emits_intros]:
  "emits (fetchArbiter E) G" "emits (getRemoteCluster E ra) G" "emits (arMakeRemoteClient E) G"
  "emits (fetchCephCluster E) G" "emits (fetchMonitorDeployment E) G" "emits arMakeDeploymentSpec G"
  unfolding fetchArbiter_def getRemoteCluster_def getRemoteClusterByName_def
    getRemoteClusterByOwnerReference_def arMakeRemoteClient_def fetchCephCluster_def
    fetchMonitorDeployment_def fetchMonitorEnvVarSecret_def arMakeDeploymentSpec_def
  by (auto intro!: emits_intros)

lemma ar_checks_emit [emits_intros]:
  "(\<And>ra b. G (UpdateCall Source (RemoteArbiterObj ra) b)) \<Longrightarrow> emits (arCheckSelfFinalizer E) G"
  "(\<And>ra b. ra_state ra = InitState \<Longrightarrow> G (arStatusCall ra b)) \<Longrightarrow> emits (arCheckStatusInitialized E) G"
  "(\<And>rc b. G (UpdateCall Source (RemoteClusterObj rc) b)) \<Longrightarrow>
   (\<And>rc b. G (CreateCall Source (RemoteClusterObj rc) b)) \<Longrightarrow> emits (fetchRemoteCluster E) G"
  unfolding arCheckSelfFinalizer_def arCheckStatusInitialized_def fetchRemoteCluster_def
    createRemoteCluster_def
  by (auto intro!: emits_intros)

text \<open>Everything sent to the target carries the operator's finalizer and the lookup label.\<close>

definition ownMeta :: "object_meta \<Rightarrow> bool" where
  "ownMeta m \<longleftrightarrow> RemoteArbiterFinalizer \<in> set (om_finalizers m)
     \<and> map_lookup (om_labels m) RemoteArbiterLookupLabel \<noteq> None \<and> om_generate_name m \<noteq> []"

fun workload :: "object \<Rightarrow> bool" where
  "workload (SecretObj _) = True"
| "workload (ConfigMapObj _) = True"
| "workload (ServiceObj _) = True"
| "workload (DeploymentObj _) = True"
| "workload _ = False"

lemma remoteMeta_own:
  "n \<noteq> [] \<Longrightarrow> RemoteArbiterLookupLabel \<in> fst ` set kvs \<Longrightarrow> ownMeta (remoteMeta n ns kvs)"
  by (auto simp: ownMeta_def remoteMeta_def map_lookup_def map_lit_def map_of_eq_None_iff)

lemma ar_creates_emit [emits_intros]:
  assumes "\<And>x b. workload x \<Longrightarrow> ownMeta (objectMeta x) \<Longrightarrow> G (CreateCall Target x b)"
  shows "emits (createArbiterKeyringSecret E) G" "emits (createArbiterEnvVarSecret E) G"
    "emits (createArbiterOverrideConfigMap E) G" "emits (createArbiterService E) G"
  unfolding createArbiterKeyringSecret_def createArbiterEnvVarSecret_def
    createArbiterOverrideConfigMap_def createArbiterService_def
  by (auto intro!: emits_intros assms remoteMeta_own)

lemma createArbiterDeployment_emits [emits_intros]:
  assumes "\<And>x b. workload x \<Longrightarrow> ownMeta (objectMeta x) \<Longrightarrow> G (CreateCall Target x b)"
  shows "emits (createArbiterDeployment E) G"
  by (rule emits_wpI)
    (auto simp: createArbiterDeployment_def arMakeDeploymentSpec_def apiCreate_def wp_simps
      makeDeploymentSpec_meta split: option.splits res.splits prod.splits sum.splits
      intro!: assms remoteMeta_own)

lemma ar_updates_emit [emits_intros]:
  assumes "\<And>x b. workload x \<Longrightarrow> G (UpdateCall Target x b)"
  shows "emits (reconcileArbiterService E) G" "emits (updateArbiterKeyringSecret E) G"
    "emits (updateArbiterEnvVarSecret E) G" "emits (updateArbiterOverrideConfigMap E) G"
    "emits (arDeploymentUpdate dep) G" "emits (restartArbiterDeployment E) G"
    "emits (updateArbiterDeployment E) G"
  unfolding reconcileArbiterService_def updateArbiterKeyringSecret_def updateArbiterEnvVarSecret_def
    updateArbiterOverrideConfigMap_def arDeploymentUpdate_def restartArbiterDeployment_def
    updateArbiterDeployment_def stampVersion_def
  by (auto intro!: emits_intros assms)

lemma oneOrCreate_emits [emits_intros]:
  "emits c G \<Longrightarrow> (\<And>x. emits (u x) G) \<Longrightarrow> emits (oneOrCreate what xs c u) G"
  unfolding oneOrCreate_def by (auto intro!: emits_intros split: list.split)

lemma ar_target_emit [emits_intros]:
  assumes "\<And>x b. workload x \<Longrightarrow> G (UpdateCall Target x b)"
  shows "emits (checkArbiterDeploymentUpToDate E) G"
    and "(\<And>x b. workload x \<Longrightarrow> ownMeta (objectMeta x) \<Longrightarrow> G (CreateCall Target x b)) \<Longrightarrow>
      emits (fetchArbiterDeployment E) G"
  unfolding checkArbiterDeploymentUpToDate_def checkKeyring_def checkEnvVar_def checkOverride_def
    checkDeploymentVersion_def checkPublicAddress_def fetchArbiterDeployment_def fetchArbiterKeyring_def
    fetchArbiterEnvVar_def fetchArbiterOverride_def fetchArbiterService_def fetchArbiterDeployments_def
  by (auto intro!: emits_intros assms)

lemma ar_ceph_emit [emits_intros]:
  assumes "\<And>c b. G (UpdateCall Source (CephClusterObj c) b)"
  shows "emits (cleanUpCephCluster E) G"
    and "(\<And>ra b. G (arStatusCall ra b)) \<Longrightarrow> emits (reserveExternalArbiterID E) G"
  unfolding cleanUpCephCluster_def reserveExternalArbiterID_def
  by (auto intro!: emits_intros assms)

lemma collectObjects_emits [emits_intros]: "emits (collectObjects E t os ks acc) G"
  by (induction ks arbitrary: acc) (auto intro!: emits_intros)

lemma ar_cleanup_emit [emits_intros]:
  assumes "\<And>x b. RemoteArbiterFinalizer \<notin> set (om_finalizers (un_meta x)) \<Longrightarrow>
      G (UpdateCall Target (UnstructuredObj x) b)"
    and "\<And>x b. G (DeleteCall Target (UnstructuredObj x) b)"
    and "k8s_laws (e_lib E)"
  shows "emits (cleanUpArbiterDeployment E) G"
  unfolding cleanUpArbiterDeployment_def deleteObject_def
  by (auto intro!: emits_intros assms dest!: k8s_laws.remove_finalizer_gone [OF assms(3)])


section \<open>What a run may write\<close>

fun inScope :: "bool \<Rightarrow> call \<Rightarrow> bool" where
  "inScope deleting (CreateCall Source (RemoteClusterObj rc) b) = (\<not> deleting)"
| "inScope deleting (CreateCall Target x b) = (\<not> deleting \<and> workload x \<and> ownMeta (objectMeta x))"
| "inScope deleting (UpdateCall Source (RemoteArbiterObj ra) b) = True"
| "inScope deleting (UpdateCall Source (RemoteClusterObj rc) b) = True"
| "inScope deleting (UpdateCall Source (CephClusterObj ceph) b) = True"
| "inScope deleting (UpdateCall Target (UnstructuredObj x) b) =
     (deleting \<and> RemoteArbiterFinalizer \<notin> set (om_finalizers (un_meta x)))"
| "inScope deleting (UpdateCall Target x b) = (\<not> deleting \<and> workload x)"
| "inScope deleting (StatusUpdateCall Source (RemoteArbiterObj ra) b) =
     (deleting \<longrightarrow> ra_state ra = DeletingState)"
| "inScope deleting (DeleteCall Target (UnstructuredObj x) b) = deleting"
| "inScope deleting c = False"

lemma inScope_update [simp]: "workload x \<Longrightarrow> inScope False (UpdateCall Target x b)"
  by (cases x) auto

lemma arStages_scope: "emits (arStages E) (inScope False)"
  unfolding arStages_def arClusterStage_def arCephStage_def arMonitorStage_def arArbiterStage_def
  by (auto intro!: emits_intros)

lemma cleanUpRemoteArbiter_scope:
  "k8s_laws (e_lib E) \<Longrightarrow> emits (cleanUpRemoteArbiter E) (inScope True)"
  unfolding cleanUpRemoteArbiter_def arCleanUpRemoteCluster_def
  by (auto intro!: emits_intros)

lemma arReconcile_scope:
  assumes "k8s_laws (e_lib E)" and "cl_get (kc_remotearbiters (e_client E)) k w = (Inr ra, w')"
    and "c \<in> set (calls (snd (arReconcile E (init_ral k w))))"
  shows "inScope (om_deletion_timestamp (ra_meta ra) \<noteq> None) c"
proof -
  let ?d = "om_deletion_timestamp (ra_meta ra) \<noteq> None"
  let ?s = "(init_ral k w)\<lparr>world := w', al_arbiter := Some ra\<rparr>"
  let ?m = "if ?d then bnd (wrapErr ''unable to clean up'' (cleanUpRemoteArbiter E)) (\<lambda>_. ret emptyResult)
     else
       bnd (wrapErr ''unable to check self finalizer'' (arCheckSelfFinalizer E)) (\<lambda>_.
       bnd (wrapErr ''unable to initialize conditions'' (arCheckStatusInitialized E)) (\<lambda>_.
       arStages E))"
  have "arReconcile E (init_ral k w) = ?m ?s"
    using assms(2)
    by (simp add: arReconcile_def fetchArbiter_def fieldOf_def apiGet_def readCall_def putArbiter_def init_ral_def
        bnd_def onErr_def wrapErr_def gets_def lift_def ret_def modify_def deref_def)
  moreover have "emits ?m (inScope ?d)"
    using cleanUpRemoteArbiter_scope [OF assms(1)] arStages_scope by (auto intro!: emits_intros)
  then have "\<forall>c\<in>set (calls (snd (?m ?s))). inScope ?d c"
    by (rule emits_all) (simp add: init_ral_def)
  ultimately show ?thesis using assms(3) by metis
qed


section \<open>Ready is published last and only on ready parts\<close>

fun arReadyWrite :: "call \<Rightarrow> bool" where
  "arReadyWrite (StatusUpdateCall Source (RemoteArbiterObj ra) b) = (ra_state ra = ReadyState)"
| "arReadyWrite _ = False"

definition arNoReady :: "'w ral_state \<Rightarrow> bool" where
  "arNoReady s \<longleftrightarrow> (\<forall>c\<in>set (calls s). \<not> arReadyWrite c)"

lemma keeps_arNoReady: "emits m (\<lambda>c. \<not> arReadyWrite c) \<Longrightarrow> keeps m arNoReady"
  using emits_keeps [of m "\<lambda>c. \<not> arReadyWrite c"] by (simp add: arNoReady_def [abs_def])

definition clusterSeenReady :: "'w ral_state \<Rightarrow> bool" where
  "clusterSeenReady s \<longleftrightarrow> (\<exists>rc. al_cluster s = Some rc \<and> rc_state rc = ReadyState)"

text \<open>The Ceph cluster as it was read, or as it was sent when an identifier was added to it.\<close>

definition cephSeenReady :: "'w ral_state \<Rightarrow> bool" where
  "cephSeenReady s \<longleftrightarrow> (\<exists>ceph. ceph_phase ceph = rook_ConditionReady \<and>
     (al_ceph s = Some ceph \<or> (\<exists>b. UpdateCall Source (CephClusterObj ceph) b \<in> set (calls s))))"

definition monitorSeenReady :: "'w ral_state \<Rightarrow> bool" where
  "monitorSeenReady s \<longleftrightarrow> (\<exists>mon. al_monitor s = Some mon \<and> deploymentTrouble ''monitor'' mon = None)"

definition arReadyGate :: "'w ral_state \<Rightarrow> bool" where
  "arReadyGate t \<longleftrightarrow> arNoReady t \<or>
     (\<exists>log ra b dep. calls t = log @ [arStatusCall ra b] \<and> (\<forall>c\<in>set log. \<not> arReadyWrite c)
        \<and> ra_state ra = ReadyState \<and> clusterSeenReady t \<and> cephSeenReady t \<and> monitorSeenReady t
        \<and> al_deployment t = Some dep \<and> deploymentTrouble ''arbiter'' dep = None)"

definition afterCluster :: "'w ral_state \<Rightarrow> bool" where
  "afterCluster s \<longleftrightarrow> arNoReady s \<and> clusterSeenReady s"

definition afterCeph :: "'w ral_state \<Rightarrow> bool" where
  "afterCeph s \<longleftrightarrow> afterCluster s \<and> cephSeenReady s"

definition afterMonitor :: "'w ral_state \<Rightarrow> bool" where
  "afterMonitor s \<longleftrightarrow> afterCeph s \<and> monitorSeenReady s"

lemma after_gate:
  "arNoReady s \<Longrightarrow> arReadyGate s" "afterCluster s \<Longrightarrow> arReadyGate s"
  "afterCeph s \<Longrightarrow> arReadyGate s" "afterMonitor s \<Longrightarrow> arReadyGate s"
  by (auto simp: arReadyGate_def afterCluster_def afterCeph_def afterMonitor_def)

text \<open>What a function leaves alone.\<close>

definition frame :: "('w ral_state \<Rightarrow> 'x) \<Rightarrow> ('w ral_state, 'a) go \<Rightarrow> bool" where
  "frame f m \<longleftrightarrow> (\<forall>v. keeps m (\<lambda>s. f s = v))"

lemma frameD: "frame f m \<Longrightarrow> f (snd (m s)) = f s"
  by (simp add: frame_def keeps_def always_iff)

abbreviation inputs where "inputs s \<equiv> (al_cluster s, al_ceph s, al_monitor s)"

lemma keeps_frame: "frame f m \<Longrightarrow> keeps m (\<lambda>s. P (f s))"
  by (simp add: keeps_def always_iff frameD)

lemma ar_status_frame:
  "frame inputs (arStageFailed E t what err)" "frame inputs (arStageDone E st t m)"
  "frame al_deployment (arStageFailed E t what err)" "frame al_deployment (arStageDone E st t m)"
  unfolding frame_def arStageFailed_def arStageDone_def updateRemoteArbiterStatusOnFailure_def
    updateRemoteArbiterStatusOnSuccess_def arStatusUpdate_def putArbiter_def
  by (auto intro!: keeps_intros)

lemma ar_target_frame:
  "frame inputs (fetchArbiterDeployment E)" "frame inputs (checkArbiterDeploymentUpToDate E)"
  "frame inputs (restartArbiterDeployment E)"
  unfolding frame_def fetchArbiterDeployment_def fetchArbiterKeyring_def fetchArbiterEnvVar_def
    fetchArbiterOverride_def fetchArbiterService_def fetchArbiterDeployments_def oneOrCreate_def
    createArbiterKeyringSecret_def createArbiterEnvVarSecret_def createArbiterOverrideConfigMap_def
    createArbiterService_def createArbiterDeployment_def arMakeDeploymentSpec_def reconcileArbiterService_def
    checkArbiterDeploymentUpToDate_def checkKeyring_def checkEnvVar_def checkOverride_def
    checkDeploymentVersion_def checkPublicAddress_def updateArbiterKeyringSecret_def
    updateArbiterEnvVarSecret_def updateArbiterOverrideConfigMap_def updateArbiterDeployment_def
    restartArbiterDeployment_def arDeploymentUpdate_def stampVersion_def markOutdated_def
  by (auto intro!: keeps_intros)


lemma frame_cluster_keep:
  assumes "emits m (\<lambda>c. \<not> arReadyWrite c)" and "frame al_cluster m"
  shows "keeps m afterCluster"
proof -
  have "keeps m clusterSeenReady"
    using keeps_frame [OF assms(2), of "\<lambda>x. \<exists>rc. x = Some rc \<and> rc_state rc = ReadyState"]
    by (simp add: clusterSeenReady_def [abs_def])
  then show ?thesis
    unfolding afterCluster_def by (rule keeps_conj [OF keeps_arNoReady [OF assms(1)]])
qed

lemma frame_ceph_keep:
  assumes "emits m (\<lambda>c. \<not> arReadyWrite c)" and "frame al_cluster m" and "frame al_ceph m"
  shows "keeps m afterCeph"
proof -
  have "cephSeenReady (snd (m s))" if "cephSeenReady s" for s
  proof -
    have "al_ceph (snd (m s)) = al_ceph s" by (rule frameD [OF assms(3)])
    moreover have "set (calls s) \<subseteq> set (calls (snd (m s)))"
      using assms(1) unfolding emits_def by (metis Un_upper1 set_append)
    ultimately show ?thesis using that unfolding cephSeenReady_def by auto
  qed
  then have "keeps m cephSeenReady" by (simp add: keeps_def always_iff)
  then show ?thesis
    unfolding afterCeph_def by (rule keeps_conj [OF frame_cluster_keep [OF assms(1,2)]])
qed

lemma frame_inputs: "frame inputs m \<Longrightarrow> frame al_cluster m \<and> frame al_ceph m \<and> frame al_monitor m"
  by (auto simp: frame_def keeps_def always_iff)

lemma frame_keep:
  assumes "emits m (\<lambda>c. \<not> arReadyWrite c)" and "frame inputs m"
  shows "keeps m arNoReady" "keeps m afterCluster" "keeps m afterCeph" "keeps m afterMonitor"
proof -
  note fr = frame_inputs [OF assms(2)]
  show "keeps m arNoReady" by (rule keeps_arNoReady [OF assms(1)])
  show "keeps m afterCluster" and ce: "keeps m afterCeph"
    using fr by (auto intro: frame_cluster_keep frame_ceph_keep assms(1))
  have "keeps m monitorSeenReady"
    using fr keeps_frame [of al_monitor m "\<lambda>z. \<exists>mon. z = Some mon \<and> deploymentTrouble ''monitor'' mon = None"]
    by (simp add: monitorSeenReady_def [abs_def])
  then show "keeps m afterMonitor" unfolding afterMonitor_def by (rule keeps_conj [OF ce])
qed

lemma arStageFailed_keeps:
  "keeps (arStageFailed E t what err) arNoReady" "keeps (arStageFailed E t what err) afterCluster"
  "keeps (arStageFailed E t what err) afterCeph" "keeps (arStageFailed E t what err) afterMonitor"
  by (intro frame_keep ar_status_frame; auto intro!: emits_intros)+

lemma arStageDone_keeps:
  assumes "st \<noteq> ReadyState"
  shows "keeps (arStageDone E st t m) arNoReady" "keeps (arStageDone E st t m) afterCluster"
    "keeps (arStageDone E st t m) afterCeph" "keeps (arStageDone E st t m) afterMonitor"
  using assms by (intro frame_keep ar_status_frame; auto intro!: emits_intros)+

lemma ar_target_keeps:
  "keeps (fetchArbiterDeployment E) afterMonitor" "keeps (checkArbiterDeploymentUpToDate E) afterMonitor"
  "keeps (restartArbiterDeployment E) afterMonitor"
  by (intro frame_keep ar_target_frame; auto intro!: emits_intros)+

lemma ready_not_progressing [simp]: "ProgressingState \<noteq> ReadyState" "ReadyState \<noteq> ProgressingState"
  by (simp_all add: const_defs)

text \<open>The last write.\<close>

lemma ar_final_write:
  assumes "afterMonitor s" and "al_deployment s = Some dep" and "deploymentTrouble ''arbiter'' dep = None"
  shows "always (arStageDone E ReadyState t m) arReadyGate s"
  using assms
  by (auto simp: arStageDone_def updateRemoteArbiterStatusOnSuccess_def arStatusUpdate_def apiStatusUpdate_def
      putArbiter_def always_def wp_simps remote_arbiter_status_defs arReadyGate_def arNoReady_def afterMonitor_def
      afterCeph_def afterCluster_def clusterSeenReady_def cephSeenReady_def monitorSeenReady_def
      split: option.splits prod.splits sum.splits if_splits)

lemma arArbiterStage_gate: "ends afterMonitor (arArbiterStage E) arReadyGate"
proof -
  have last: "ends afterMonitor (bnd (fieldOf al_deployment) (\<lambda>dep.
     case deploymentTrouble ''arbiter'' dep of
       Some err \<Rightarrow> arStageFailed E ArbiterDeploymentReadyConditionType ''unable to use arbiter deployment'' err
     | None \<Rightarrow>
         bnd (arStageDone E ReadyState ArbiterDeploymentReadyConditionType ''arbiter deployment ready'') (\<lambda>_.
         bnd theArbiter (\<lambda>ra.
         bnd (deref (ras_check_interval (ra_spec ra))) (\<lambda>d.
         ret \<lparr>requeue_after = d\<rparr>))))) arReadyGate" (is "ends _ ?last _")
  proof -
    have "wp ?last (\<lambda>_. arReadyGate) (\<lambda>_. arReadyGate) arReadyGate s" if s: "afterMonitor s" for s
    proof -
      have failed: "wp (arStageFailed E t what e) (\<lambda>_. arReadyGate) (\<lambda>_. arReadyGate) arReadyGate s" for t what e
        by (rule wp_mono [OF keeps_wp [OF arStageFailed_keeps(4) s]]) (auto intro: after_gate)
      show ?thesis
        unfolding wp_bnd wp_fieldOf wp_case_option
        using ar_final_write [OF s, unfolded always_def]
        by (auto simp: failed after_gate s wp_simps split: option.split intro!: wp_mono [OF ar_final_write [OF s, unfolded always_def]])
    qed
    then show ?thesis by (simp add: ends_def always_def)
  qed
  show ?thesis
    unfolding arArbiterStage_def
    by (intro last ends_onErr ends_bnd ends_keeps ar_target_keeps arStageFailed_keeps arStageDone_keeps
        keeps_if keeps_ret keeps_gets) (auto intro: after_gate)
qed


text \<open>The stages before, each from the invariant of its predecessor to its own.\<close>

lemma arStageFailed_reaches:
  assumes "keeps (arStageFailed E t what err :: ('w ral_state, 'a) go) I" and "\<And>s. I s \<Longrightarrow> C s"
  shows "reaches C I (arStageFailed E t what err :: ('w ral_state, 'a) go) B"
proof -
  have "wp (arStageFailed E t what err :: ('w ral_state, 'a) go) (\<lambda>_. B) (\<lambda>_. C) C s" if "I s" for s
    using keeps_wp [OF assms(1) that] assms(2)
    by (simp add: arStageFailed_def wp_simps)
      (erule wp_mono; simp)
  then show ?thesis by (simp add: reaches_def)
qed

lemma ar_frames:
  "frame inputs (arMakeRemoteClient E)" "frame al_cluster (fetchCephCluster E)"
  "frame al_cluster (reserveExternalArbiterID E)"
  "frame al_cluster (fetchMonitorDeployment E)" "frame al_ceph (fetchMonitorDeployment E)"
  unfolding frame_def arMakeRemoteClient_def fetchCephCluster_def fetchMonitorDeployment_def
    fetchMonitorEnvVarSecret_def reserveExternalArbiterID_def arStatusUpdate_def arCephUpdate_def putArbiter_def
  by (auto intro!: keeps_intros)

lemma ar_stage_reaches:
  assumes "keeps m I" and "\<And>s. I s \<Longrightarrow> C s" and "\<And>e. keeps (arStageFailed E ct what e :: ('w ral_state, 'b) go) I"
    and "keeps (arStageDone E st ct msg) I" and "reaches C I rest J"
  shows "reaches C I (onErr m (arStageFailed E ct what) (\<lambda>_. bnd (arStageDone E st ct msg) (\<lambda>_. rest)) ::
    ('w ral_state, 'b) go) J"
  by (rule reaches_onErr [OF assms(1)])
    (auto intro: assms arStageFailed_reaches reaches_bnd reaches_keeps)

lemma ar_last_stage_reaches:
  assumes "keeps m I" and "\<And>s. I s \<Longrightarrow> C s" and "\<And>e. keeps (arStageFailed E ct what e :: ('w ral_state, unit) go) I"
    and "keeps (arStageDone E st ct msg) I"
  shows "reaches C I (onErr m (arStageFailed E ct what) (\<lambda>_. arStageDone E st ct msg)) I"
  by (rule reaches_onErr [OF assms(1)])
    (auto intro: assms arStageFailed_reaches reaches_keeps)

lemma arClusterStage_gate: "reaches arReadyGate arNoReady (arClusterStage E) afterCluster"
proof -
  have fetch: "keeps (fetchRemoteCluster E) arNoReady" by (rule keeps_arNoReady) (auto intro!: emits_intros)
  have client: "keeps (arMakeRemoteClient E) afterCluster"
    by (rule frame_keep) (auto intro!: emits_intros ar_frames)
  have use: "reaches arReadyGate afterCluster (onErr (arMakeRemoteClient E)
         (arStageFailed E RemoteClusterReadyConditionType ''unable to make remote client'') (\<lambda>_.
       arStageDone E ProgressingState RemoteClusterReadyConditionType ''remote client usable'')) afterCluster"
    by (intro ar_last_stage_reaches client arStageFailed_keeps arStageDone_keeps) (auto intro: after_gate)
  have failed: "reaches arReadyGate arNoReady (arStageFailed E ct what e) afterCluster" for ct what e
    by (intro arStageFailed_reaches arStageFailed_keeps after_gate)
  show ?thesis
    unfolding arClusterStage_def
    by (intro ar_stage_reaches fetch reaches_test reaches_if arStageFailed_keeps arStageDone_keeps
        reaches_pre [OF failed] reaches_pre [OF use] after_gate(1))
      (auto simp: afterCluster_def clusterSeenReady_def)
qed

text \<open>The answer to a status update carries the state that was sent.\<close>

definition arStatusStored :: "'w env \<Rightarrow> bool" where
  "arStatusStored E \<longleftrightarrow> (\<forall>x w y w'. cl_status_update (kc_remotearbiters (e_client E)) x w = (Inr y, w') \<longrightarrow>
     ra_state y = ra_state x)"

definition progressing :: "'w ral_state \<Rightarrow> bool" where
  "progressing s \<longleftrightarrow> (\<exists>ra. al_arbiter s = Some ra \<and> ra_state ra = ProgressingState)"

lemma arStageDone_progressing:
  assumes "arStatusStored E"
  shows "reaches arReadyGate afterCeph (arStageDone E ProgressingState ct m) (\<lambda>s. afterCeph s \<and> progressing s)"
proof -
  have "wp (arStageDone E ProgressingState ct m) (\<lambda>_. progressing) (\<lambda>_ _. True) (\<lambda>_. True) s" for s
    using assms
    by (auto simp: arStageDone_def updateRemoteArbiterStatusOnSuccess_def arStatusUpdate_def apiStatusUpdate_def
        putArbiter_def wp_simps remote_arbiter_status_defs progressing_def arStatusStored_def
        split: option.splits prod.splits sum.splits if_splits)
  moreover have "keeps (arStageDone E ProgressingState ct m) afterCeph" by (rule arStageDone_keeps) simp
  ultimately show ?thesis
    unfolding reaches_def
    by (auto intro: wp_mono [OF wp_conj [OF _ keeps_wp]] after_gate)
qed

lemma cephSeen:
  "al_ceph s = Some ceph \<Longrightarrow> ceph_phase ceph = rook_ConditionReady \<Longrightarrow> cephSeenReady s"
  "UpdateCall Source (CephClusterObj ceph) b \<in> set (calls s) \<Longrightarrow> ceph_phase ceph = rook_ConditionReady \<Longrightarrow>
     cephSeenReady s"
  by (auto simp: cephSeenReady_def)

lemma cephSeenE:
  assumes "cephSeenReady s"
  obtains ceph where "al_ceph s = Some ceph" "ceph_phase ceph = rook_ConditionReady"
  | ceph b where "UpdateCall Source (CephClusterObj ceph) b \<in> set (calls s)" "ceph_phase ceph = rook_ConditionReady"
  using assms by (auto simp: cephSeenReady_def)

lemma reserve_afterCeph: "ends (\<lambda>s. afterCeph s \<and> progressing s) (reserveExternalArbiterID E) afterCeph"
proof -
  have log: "wp (reserveExternalArbiterID E) (\<lambda>_. arNoReady) (\<lambda>_. arNoReady) arNoReady s"
    if "arNoReady s" "progressing s" for s
    using that
    by (auto simp: reserveExternalArbiterID_def arStatusUpdate_def arCephUpdate_def api_defs putArbiter_def
        Let_def wp_simps progressing_def arNoReady_def split: option.splits prod.splits sum.splits)
  have ceph: "wp (reserveExternalArbiterID E) (\<lambda>_. cephSeenReady) (\<lambda>_. cephSeenReady) cephSeenReady s"
    if "cephSeenReady s" for s
    using that
    by (rule cephSeenE)
      (auto simp: reserveExternalArbiterID_def arStatusUpdate_def arCephUpdate_def api_defs putArbiter_def
        Let_def wp_simps intro: cephSeen split: option.splits prod.splits sum.splits)
  have cluster: "keeps (reserveExternalArbiterID E) clusterSeenReady"
    using keeps_frame [OF ar_frames(3), where P = "\<lambda>x. \<exists>rc. x = Some rc \<and> rc_state rc = ReadyState"]
    by (simp add: clusterSeenReady_def [abs_def])
  have "wp (reserveExternalArbiterID E) (\<lambda>_. afterCeph) (\<lambda>_. afterCeph) afterCeph s"
    if "afterCeph s \<and> progressing s" for s
    by (rule wp_mono [OF wp_conj [OF wp_conj [OF log keeps_wp [OF cluster]] ceph]])
      (use that in \<open>auto simp: afterCeph_def afterCluster_def\<close>)
  then show ?thesis by (simp add: ends_def always_def)
qed

lemma arCephStage_gate:
  assumes "arStatusStored E"
  shows "reaches arReadyGate afterCluster (arCephStage E) afterCeph"
proof -
  have fetch: "keeps (fetchCephCluster E) afterCluster"
    by (rule frame_cluster_keep) (auto intro!: emits_intros ar_frames)
  have reserve: "reaches arReadyGate afterCeph
      (bnd (arStageDone E ProgressingState CephClusterReadyConditionType ''ceph cluster ready'') (\<lambda>_.
       onErr (reserveExternalArbiterID E)
         (arStageFailed E CephClusterConfiguredConditionType ''unable to reserve external arbiter id'') (\<lambda>_.
       arStageDone E ProgressingState CephClusterConfiguredConditionType ''ceph cluster configured''))) afterCeph"
    by (intro reaches_bnd [OF arStageDone_progressing [OF assms]] reaches_onErr_ends [OF reserve_afterCeph]
        arStageFailed_reaches arStageFailed_keeps reaches_keeps arStageDone_keeps) (auto intro: after_gate)
  have failed: "reaches arReadyGate afterCluster (arStageFailed E ct what e) afterCeph" for ct what e
    by (intro arStageFailed_reaches arStageFailed_keeps after_gate(2))
  show ?thesis
    unfolding arCephStage_def
    by (intro ar_stage_reaches fetch reaches_test reaches_if arStageFailed_keeps arStageDone_keeps
        reaches_pre [OF failed] reaches_pre [OF reserve] after_gate(2))
      (auto simp: afterCeph_def cephSeenReady_def)
qed

lemma arMonitorStage_gate: "reaches arReadyGate afterCeph (arMonitorStage E) afterMonitor"
proof -
  have fetch: "keeps (fetchMonitorDeployment E) afterCeph"
    by (rule frame_ceph_keep) (auto intro!: emits_intros ar_frames)
  have ready: "reaches arReadyGate afterMonitor
      (arStageDone E ProgressingState MonitorDeploymentReadyConditionType ''monitor deployment is ready'') afterMonitor"
    by (intro reaches_keeps arStageDone_keeps after_gate(4)) simp
  have failed: "reaches arReadyGate afterCeph (arStageFailed E ct what e) afterMonitor" for ct what e
    by (intro arStageFailed_reaches arStageFailed_keeps after_gate(3))
  have test: "reaches arReadyGate (\<lambda>s. afterCeph s \<and> al_monitor s = Some dep)
     (case deploymentTrouble ''monitor'' dep of
       Some err \<Rightarrow> arStageFailed E MonitorDeploymentReadyConditionType ''unable to use monitor deployment'' err
     | None \<Rightarrow>
         arStageDone E ProgressingState MonitorDeploymentReadyConditionType ''monitor deployment is ready'')
     afterMonitor" for dep
    by (auto split: option.split intro!: reaches_pre [OF failed] reaches_pre [OF ready]
        simp: afterMonitor_def monitorSeenReady_def)
  show ?thesis
    unfolding arMonitorStage_def
    by (intro ar_stage_reaches fetch reaches_test test arStageFailed_keeps arStageDone_keeps after_gate(3)) auto
qed

lemma arReconcile_gate:
  assumes "arStatusStored E"
  shows "ends arNoReady (arReconcile E) arReadyGate"
proof -
  have stages: "ends arNoReady (arStages E) arReadyGate"
    unfolding arStages_def
    by (rule reaches_ends_bnd [OF arClusterStage_gate], rule reaches_ends_bnd [OF arCephStage_gate [OF assms]],
        rule reaches_ends_bnd [OF arMonitorStage_gate], rule arArbiterStage_gate)
  have clean: "emits (cleanUpRemoteArbiter E) (\<lambda>c. \<not> arReadyWrite c)"
    unfolding cleanUpRemoteArbiter_def arCleanUpRemoteCluster_def cleanUpArbiterDeployment_def deleteObject_def
    by (auto intro!: emits_intros)
  show ?thesis
    unfolding arReconcile_def
    by (intro ends_onErr ends_bnd ends_if keeps_arNoReady stages)
      (auto intro!: emits_intros ends_keeps keeps_arNoReady after_gate(1) clean)
qed

section \<open>Properties\<close>



end
