(* ===== verification/Arbiter_Run.thy ===== *)
theory Arbiter_Run
  imports Arbiter_Safety
begin

text \<open>
  A run of the \<open>RemoteArbiter\<close> reconciler when all goes well. A \<open>scene\<close> names the objects the
  servers hold; \<open>arHealthy\<close> says that the servers answer with them, store what they are sent, that
  every part is ready and the copies on the target are up to date. Each stage then succeeds and
  leaves the objects of the scene in the state, and the run ends in state Ready. The gate proved in
  \<open>Arbiter_Safety\<close> is stated here as a property, applied to such a run.
\<close>

section \<open>The scene\<close>

text \<open>What is kept of a resource by a storing server.\<close>

definition arView :: "remote_arbiter \<Rightarrow> string \<times> string \<times> remote_arbiter_spec \<times> remote_arbiter_status" where
  "arView ra = (om_name (ra_meta ra), om_namespace (ra_meta ra), ra_spec ra, ra_status ra)"

definition clView :: "remote_cluster \<Rightarrow> string \<times> remote_cluster_spec \<times> remote_status" where
  "clView rc = (om_namespace (rc_meta rc), rc_spec rc, rc_status rc)"

record 'w scene =
  sn_arbiter :: remote_arbiter
  sn_cluster :: remote_cluster
  sn_client :: "'w kube_client"
  sn_ceph :: ceph_cluster
  sn_monitor :: deployment
  sn_mon_keyring :: secret
  sn_mon_override :: configmap
  sn_mon_envvar :: secret
  sn_keyring :: secret
  sn_envvar :: secret
  sn_override :: configmap
  sn_service :: "service option"
  sn_deployment :: deployment

definition clusterServed :: "'w env \<Rightarrow> 'w scene \<Rightarrow> bool" where
  "clusterServed E S \<longleftrightarrow>
     (let ra = sn_arbiter S; rc = sn_cluster S; ns = om_namespace (ra_meta ra);
          n = rcc_name (ras_remote_cluster (ra_spec ra)) in
     (if n = [] then answers (cl_list (kc_remoteclusters (e_client E)) [InNamespace ns,
          MatchingFields [(RemoteClusterOwnerKey, om_name (ra_meta ra))]]) [rc]
      else answers (cl_get (kc_remoteclusters (e_client E)) \<lparr>k_namespace = ns, k_name = n\<rparr>) rc) \<and>
     stores (cl_update (kc_remoteclusters (e_client E))) clView \<and> rc_state rc = ReadyState \<and>
     (\<exists>sec kubeconfig cfg timeout c.
        answers (cl_get (kc_secrets (e_client E)) \<lparr>k_namespace = om_namespace (rc_meta rc),
           k_name = ks_name (rcs_access_key_ref (rc_spec rc))\<rparr>) sec \<and>
        map_lookup (sec_data sec) (ks_key (rcs_access_key_ref (rc_spec rc))) = Some kubeconfig \<and>
        RESTConfigFromKubeConfig E kubeconfig = Inr cfg \<and> rcs_timeout (rc_spec rc) = Some timeout \<and>
        answers (client_New E (cfg\<lparr>cfg_timeout := timeout\<rparr>)) c \<and>
        sn_client S = NewNamespacedClient E c (rcs_namespace (rc_spec rc))))"

definition cephServed :: "'w env \<Rightarrow> 'w scene \<Rightarrow> bool" where
  "cephServed E S \<longleftrightarrow>
     (let ra = sn_arbiter S; ceph = sn_ceph S in
     answers (cl_get (kc_cephclusters (e_client E)) \<lparr>k_namespace = nr_namespace (ras_ceph_cluster (ra_spec ra)),
       k_name = nr_name (ras_ceph_cluster (ra_spec ra))\<rparr>) ceph \<and>
     stores (cl_update (kc_cephclusters (e_client E))) ceph_external_mon_ids \<and>
     ceph_phase ceph = rook_ConditionReady \<and>
     pickExternalID (ra_mon_id ra) (ras_mon_id_prefix (ra_spec ra)) (ceph_external_mon_ids ceph) \<noteq> [])"

definition monitorServed :: "'w env \<Rightarrow> 'w scene \<Rightarrow> bool" where
  "monitorServed E S \<longleftrightarrow>
     (let ref = ras_ceph_cluster (ra_spec (sn_arbiter S)); mon = sn_monitor S; ns = om_namespace (dep_meta mon);
          pod = ds_pod (dep_spec mon) in
     (\<exists>mons keyringName overrideName c envName.
        answers (cl_list (kc_deployments (e_client E)) [MatchingLabels [(''ceph_daemon_type'', ''mon''),
          (''app.kubernetes.io/part-of'', nr_name ref)], InNamespace (nr_namespace ref)]) mons \<and>
        mons \<noteq> [] \<and> selectTemplateMonDeployment mons = Val mon \<and>
        monitorVolumeNames [] [] (ps_volumes pod) = Inr (keyringName, overrideName) \<and>
        keyringName \<noteq> [] \<and> overrideName \<noteq> [] \<and>
        answers (cl_get (kc_secrets (e_client E)) \<lparr>k_namespace = ns, k_name = keyringName\<rparr>) (sn_mon_keyring S) \<and>
        answers (cl_get (kc_configmaps (e_client E)) \<lparr>k_namespace = ns, k_name = overrideName\<rparr>) (sn_mon_override S) \<and>
        monContainer (ps_containers pod) = Some c \<and> c_env c \<noteq> [] \<and>
        envVarSecretName [] (c_env c) = Inr envName \<and> envName \<noteq> [] \<and>
        answers (cl_get (kc_secrets (e_client E)) \<lparr>k_namespace = ns, k_name = envName\<rparr>) (sn_mon_envvar S)) \<and>
     deploymentTrouble ''monitor'' mon = None)"

definition targetServed :: "'w scene \<Rightarrow> bool" where
  "targetServed S \<longleftrightarrow>
     (let ra = sn_arbiter S; c = sn_client S; dep = sn_deployment S;
          sel = [InNamespace (rcs_namespace (rc_spec (sn_cluster S))),
                 MatchingLabels [(RemoteArbiterLookupLabel, om_name (ra_meta ra))]] in
     answers (cl_list (kc_secrets c) (sel @ [MatchingLabels [(RemoteArbiterRoleLabel, RemoteArbiterKeyringRole)]])) [sn_keyring S] \<and>
     answers (cl_list (kc_secrets c) (sel @ [MatchingLabels [(RemoteArbiterRoleLabel, RemoteArbiterEnvVarRole)]])) [sn_envvar S] \<and>
     answers (cl_list (kc_configmaps c) sel) [sn_override S] \<and>
     (case ras_service (ra_spec ra) of None \<Rightarrow> sn_service S = None
      | Some sc \<Rightarrow> (\<exists>svc. sn_service S = Some svc \<and> answers (cl_list (kc_services c) sel) [svc] \<and>
          \<not> snd (repairService (sc_type sc) svc))) \<and>
     answers (cl_list (kc_deployments c) sel) [dep] \<and> deploymentTrouble ''arbiter'' dep = None)"

text \<open>The versions on the target are those of the source, and the address is the desired one.\<close>

definition sceneUpToDate :: "'w scene \<Rightarrow> bool" where
  "sceneUpToDate S \<longleftrightarrow>
     lastAppliedVersion (sec_meta (sn_keyring S)) = om_resource_version (sec_meta (sn_mon_keyring S)) \<and>
     lastAppliedVersion (sec_meta (sn_envvar S)) = om_resource_version (sec_meta (sn_mon_envvar S)) \<and>
     lastAppliedVersion (cm_meta (sn_override S)) = om_resource_version (cm_meta (sn_mon_override S)) \<and>
     lastAppliedVersion (dep_meta (sn_deployment S)) = om_resource_version (dep_meta (sn_monitor S)) \<and>
     desiredPublicAddress (sn_service S) (ras_service (ra_spec (sn_arbiter S)))
       (deploymentPublicAddress (sn_deployment S)) = Val (deploymentPublicAddress (sn_deployment S))"

definition arHealthy :: "'w env \<Rightarrow> key \<Rightarrow> 'w scene \<Rightarrow> interval \<Rightarrow> bool" where
  "arHealthy E k S d \<longleftrightarrow>
     answers (cl_get (kc_remotearbiters (e_client E)) k) (sn_arbiter S) \<and>
     stores (cl_update (kc_remotearbiters (e_client E))) arView \<and>
     stores (cl_status_update (kc_remotearbiters (e_client E))) arView \<and>
     om_deletion_timestamp (ra_meta (sn_arbiter S)) = None \<and>
     ras_check_interval (ra_spec (sn_arbiter S)) = Some d \<and>
     clusterServed E S \<and> cephServed E S \<and> monitorServed E S \<and> targetServed S \<and> sceneUpToDate S"


section \<open>What the status writers record\<close>

definition arRecorded :: "k8s_lib \<Rightarrow> remote_arbiter \<Rightarrow> string \<Rightarrow> condition \<Rightarrow> remote_arbiter" where
  "arRecorded L x st c =
     fst (updateRemoteArbiterCondition L (fst (setRemoteArbiterState x st (cond_message c))) c)"

abbreviation arCond :: "k8s_lib \<Rightarrow> remote_arbiter \<Rightarrow> string \<Rightarrow> string option" where
  "arCond L x \<equiv> condStatus (FindStatusCondition L) (ra_conds x)"

lemma wp_putArbiter [wp_simps]: "wp (putArbiter x) Q Er P = (\<lambda>s. Q () (s\<lparr>al_arbiter := Some x\<rparr>))"
  by (simp add: putArbiter_def wp_simps)

context k8s_laws
begin

lemma ar_recorded:
  "ra_state (arRecorded L x st c) = st" "ra_message (arRecorded L x st c) = cond_message c"
  "ra_spec (arRecorded L x st c) = ra_spec x" "ra_meta (arRecorded L x st c) = ra_meta x"
  "ra_mon_id (arRecorded L x st c) = ra_mon_id x"
  "arCond L (arRecorded L x st c) = (arCond L x)(cond_type c \<mapsto> cond_status c)"
  using rast.update_cond_rest [of "fst (setRemoteArbiterState x st (cond_message c))" c]
    rast.set_state_rest [of x st "cond_message c"]
  by (simp_all add: arRecorded_def rast.update_cond_state rast.update_cond_message rast.set_state_state
      rast.set_state_message rast.cond_map_update_cond rast.cond_map_set_state)

lemma wp_arOnSuccess:
  assumes "al_arbiter s = Some x" and "e_lib E = L"
  shows "wp (updateRemoteArbiterStatusOnSuccess E st ct m) Q Er P s =
    (let y = arRecorded L x st (NewOKCondition ct m); u = s\<lparr>al_arbiter := Some y\<rparr>
     in if arCond L x ct = Some ConditionTrue then Q () u
        else wp (arStatusUpdate E y) Q (\<lambda>e. Er (Wrap ''unable to update resource status'' e)) P u)"
  using assms rast.update_cond_changed [of "fst (setRemoteArbiterState x st m)" "NewOKCondition ct m"]
  by (auto simp: updateRemoteArbiterStatusOnSuccess_def wp_simps
      split_beta Let_def condStatus_def rast.set_state_conds arRecorded_def)

lemma wp_arOnFailure:
  assumes "al_arbiter s = Some x" and "e_lib E = L"
  shows "wp (updateRemoteArbiterStatusOnFailure E ct err) Q Er P s =
    (let y = arRecorded L x ErrorState (NewErrorCondition ct (error_text err));
         u = s\<lparr>al_arbiter := Some y\<rparr>
     in if ra_state x = ErrorState \<and> ra_message x = error_text err \<and> arCond L x ct = Some ConditionFalse
        then Q () u
        else wp (arStatusUpdate E y) Q (\<lambda>e. Er (Wrap ''unable to update resource status'' e)) P u)"
  using assms rast.set_state_changed [of x ErrorState "error_text err"]
    rast.update_cond_changed [of "fst (setRemoteArbiterState x ErrorState (error_text err))"
      "NewErrorCondition ct (error_text err)"]
  by (auto simp: updateRemoteArbiterStatusOnFailure_def wp_simps
      split_beta Let_def condStatus_def rast.set_state_conds arRecorded_def)

text \<open>A successful stage on a server that stores the status.\<close>

lemma arStageDone_stored:
  assumes "stores (cl_status_update (kc_remotearbiters (e_client E))) arView"
    and x: "al_arbiter s = Some x" and lib: "e_lib E = L"
    and Q: "\<And>y w new. om_name (ra_meta y) = om_name (ra_meta x) \<Longrightarrow>
      om_namespace (ra_meta y) = om_namespace (ra_meta x) \<Longrightarrow> ra_spec y = ra_spec x \<Longrightarrow> ra_mon_id y = ra_mon_id x \<Longrightarrow>
      ra_state y = st \<Longrightarrow> arCond L y = (arCond L x)(ct \<mapsto> ConditionTrue) \<Longrightarrow>
      (\<forall>c\<in>set new. \<exists>z b. c = arStatusCall z b \<and> ra_state z = st) \<Longrightarrow>
      (new = [] \<longleftrightarrow> arCond L x ct = Some ConditionTrue) \<Longrightarrow>
      Q () (s\<lparr>world := w, calls := calls s @ new, al_arbiter := Some y\<rparr>)"
  shows "wp (arStageDone E st ct m) Q Er P s"
proof -
  let ?y = "arRecorded L x st (NewOKCondition ct m)"
  have upd: "wp (arStatusUpdate E ?y) Q Er' P (s\<lparr>al_arbiter := Some ?y\<rparr>)"
    if "arCond L x ct \<noteq> Some ConditionTrue" for Er'
    unfolding arStatusUpdate_def apiStatusUpdate_def wp_bnd wp_putArbiter
  proof (rule wp_loggedCall_stores [OF assms(1)], goal_cases)
    case (1 y w)
    then show ?case
      using Q [of y "[arStatusCall ?y True]" w] that by (auto simp: arView_def ar_recorded)
  qed
  have "wp (arStageDone E st ct m) Q Er P s = (if arCond L x ct = Some ConditionTrue
      then Q () (s\<lparr>al_arbiter := Some ?y\<rparr>)
      else wp (arStatusUpdate E ?y) Q (\<lambda>e. Er (Wrap ''unable to update resource with conditions''
        (Wrap ''unable to update resource status'' e))) P (s\<lparr>al_arbiter := Some ?y\<rparr>))"
    unfolding arStageDone_def wp_wrapErr wp_arOnSuccess [OF x lib] Let_def ..
  moreover have "Q () (s\<lparr>al_arbiter := Some ?y\<rparr>)" if "arCond L x ct = Some ConditionTrue"
    using Q [of ?y "[]" "world s"] that by (simp add: ar_recorded)
  ultimately show ?thesis using upd by simp
qed

end

section \<open>A healthy run\<close>

fun onTarget :: "call \<Rightarrow> bool" where
  "onTarget (CreateCall t _ _) = (t = Target)"
| "onTarget (UpdateCall t _ _) = (t = Target)"
| "onTarget (StatusUpdateCall t _ _) = (t = Target)"
| "onTarget (DeleteCall t _ _) = (t = Target)"
| "onTarget _ = True"

text \<open>
  The reconciler's copy of the resource during a healthy run: the conditions in \<open>ts\<close> are true, the
  condition of the last stage is as it was fetched, an identifier is available, and neither Ready
  nor anything to the target was sent.
\<close>

definition arOnTrack :: "k8s_lib \<Rightarrow> 'w scene \<Rightarrow> string set \<Rightarrow> 'w ral_state \<Rightarrow> bool" where
  "arOnTrack L S ts s \<longleftrightarrow> (\<forall>c\<in>set (calls s). \<not> arReadyWrite c \<and> \<not> onTarget c) \<and>
     (\<exists>x. al_arbiter s = Some x \<and> ra_spec x = ra_spec (sn_arbiter S) \<and>
        om_name (ra_meta x) = om_name (ra_meta (sn_arbiter S)) \<and>
        om_namespace (ra_meta x) = om_namespace (ra_meta (sn_arbiter S)) \<and>
        pickExternalID (ra_mon_id x) (ras_mon_id_prefix (ra_spec x)) (ceph_external_mon_ids (sn_ceph S)) \<noteq> [] \<and>
        (ts \<noteq> {} \<longrightarrow> ra_state x = ProgressingState) \<and>
        (\<forall>t\<in>ts. arCond L x t = Some ConditionTrue) \<and>
        (arCond L x ArbiterDeploymentReadyConditionType = Some ConditionTrue \<longleftrightarrow>
         arCond L (sn_arbiter S) ArbiterDeploymentReadyConditionType = Some ConditionTrue))"

text \<open>What the stages have put into the state.\<close>

definition hasCluster :: "'w scene \<Rightarrow> 'w ral_state \<Rightarrow> bool" where
  "hasCluster S s \<longleftrightarrow> al_client s = Some (sn_client S) \<and>
     (\<exists>rc. al_cluster s = Some rc \<and> rc_spec rc = rc_spec (sn_cluster S))"

definition hasMonitor :: "'w scene \<Rightarrow> 'w ral_state \<Rightarrow> bool" where
  "hasMonitor S s \<longleftrightarrow> al_monitor s = Some (sn_monitor S) \<and> al_mon_keyring s = Some (sn_mon_keyring S) \<and>
     al_mon_override s = Some (sn_mon_override S) \<and> al_mon_envvar s = Some (sn_mon_envvar S)"

definition hasArbiter :: "'w scene \<Rightarrow> 'w ral_state \<Rightarrow> bool" where
  "hasArbiter S s \<longleftrightarrow> al_keyring s = Some (sn_keyring S) \<and> al_envvar s = Some (sn_envvar S) \<and>
     al_override s = Some (sn_override S) \<and> al_service s = sn_service S \<and>
     al_deployment s = Some (sn_deployment S) \<and> \<not> al_should_restart s"

lemma arHealthyD:
  assumes "arHealthy E k S d"
  shows "answers (cl_get (kc_remotearbiters (e_client E)) k) (sn_arbiter S)"
    and "stores (cl_update (kc_remotearbiters (e_client E))) arView"
    and "stores (cl_status_update (kc_remotearbiters (e_client E))) arView"
    and "om_deletion_timestamp (ra_meta (sn_arbiter S)) = None"
    and "ras_check_interval (ra_spec (sn_arbiter S)) = Some d"
    and "clusterServed E S" and "cephServed E S" and "monitorServed E S" and "targetServed S"
    and "sceneUpToDate S"
  using assms by (simp_all add: arHealthy_def)

lemma arOnTrack_world [simp]: "arOnTrack L S ts (s\<lparr>world := w\<rparr>) = arOnTrack L S ts s"
  by (simp add: arOnTrack_def)

context k8s_laws
begin

text \<open>A stage that ends well adds its condition and leaves the rest of the state alone.\<close>

lemma arStageDone_healthy:
  assumes H: "arHealthy E k S d" and lib: "e_lib E = L" and s: "arOnTrack L S ts s"
    and ct: "ct \<noteq> ArbiterDeploymentReadyConditionType" and "st = ProgressingState"
    and R: "\<And>w cs y. R (s\<lparr>world := w, calls := cs, al_arbiter := y\<rparr>)"
  shows "wp (arStageDone E st ct m) (\<lambda>_ t. arOnTrack L S (insert ct ts) t \<and> R t) (\<lambda>_ _. False) (\<lambda>_. False) s"
proof -
  obtain x where x: "al_arbiter s = Some x" using s by (auto simp: arOnTrack_def)
  show ?thesis
    by (rule arStageDone_stored [OF arHealthyD(3) [OF H] x lib])
      (use s x ct assms(5) R in \<open>auto simp: arOnTrack_def\<close>)
qed

lemma ar_finalizer_healthy:
  assumes H: "arHealthy E k S d" and s: "arOnTrack L S {} s"
    and R: "\<And>w cs y. R (s\<lparr>world := w, calls := cs, al_arbiter := y\<rparr>)"
  shows "wp (arCheckSelfFinalizer E) (\<lambda>_ t. arOnTrack L S {} t \<and> R t) (\<lambda>_ _. False) (\<lambda>_. False) s"
proof -
  obtain x where x: "al_arbiter s = Some x" using s by (auto simp: arOnTrack_def)
  let ?x = "x\<lparr>ra_meta := (ra_meta x)\<lparr>om_finalizers :=
    fst (AddFinalizer (e_lib E) (om_finalizers (ra_meta x)) RemoteArbiterFinalizer)\<rparr>\<rparr>"
  have "wp (arUpdate E ?x) (\<lambda>_ t. arOnTrack L S {} t \<and> R t) (\<lambda>_ _. False) (\<lambda>_. False) (s\<lparr>al_arbiter := Some ?x\<rparr>)"
    unfolding arUpdate_def apiUpdate_def wp_bnd wp_putArbiter
    by (rule wp_loggedCall_stores [OF arHealthyD(2) [OF H]])
      (use s x R in \<open>auto simp: arOnTrack_def arView_def\<close>)
  moreover have "arOnTrack L S {} (s\<lparr>al_arbiter := Some ?x\<rparr>) \<and> R (s\<lparr>al_arbiter := Some ?x\<rparr>)"
    using s x R [where w = "world s" and cs = "calls s" and y = "Some ?x"] by (auto simp: arOnTrack_def)
  ultimately show ?thesis
    using x by (auto simp: arCheckSelfFinalizer_def wp_simps split_beta Let_def)
qed

lemma ar_init_healthy:
  assumes H: "arHealthy E k S d" and lib: "e_lib E = L" and s: "arOnTrack L S {} s"
    and R: "\<And>w cs y. R (s\<lparr>world := w, calls := cs, al_arbiter := y\<rparr>)"
  shows "wp (arCheckStatusInitialized E) (\<lambda>_ t. arOnTrack L S {} t \<and> R t) (\<lambda>_ _. False) (\<lambda>_. False) s"
proof -
  obtain x where x: "al_arbiter s = Some x" using s by (auto simp: arOnTrack_def)
  let ?y = "initConditions (setRemoteArbiterCondition L) arConditionTypes x"
  have y: "ra_spec ?y = ra_spec x" "ra_meta ?y = ra_meta x" "ra_mon_id ?y = ra_mon_id x"
    using rast.init_state(3) [of arConditionTypes x] by auto
  have c: "arCond L ?y t = Some ConditionTrue \<longleftrightarrow> arCond L x t = Some ConditionTrue" for t
    by (simp add: rast.init_cond_map)
  have 0: "arOnTrack L S {} (s\<lparr>al_arbiter := Some ?y\<rparr>) \<and> R (s\<lparr>al_arbiter := Some ?y\<rparr>)"
    using s x R [where w = "world s" and cs = "calls s" and y = "Some ?y"] y c by (auto simp: arOnTrack_def)
  let ?z = "fst (setRemoteArbiterState ?y InitState ''initialized'')"
  have z: "ra_spec ?z = ra_spec x" "ra_meta ?z = ra_meta x" "ra_mon_id ?z = ra_mon_id x" "ra_conds ?z = ra_conds ?y"
    "ra_state ?z = InitState"
    using y by (simp_all add: setRemoteArbiterState_def)
  have u: "wp (arStatusUpdate E ?z) (\<lambda>_ t. arOnTrack L S {} t \<and> R t) (\<lambda>_ _. False) (\<lambda>_. False)
      (s\<lparr>al_arbiter := Some ?z\<rparr>)"
    unfolding arStatusUpdate_def apiStatusUpdate_def wp_bnd wp_putArbiter
    by (rule wp_loggedCall_stores [OF arHealthyD(3) [OF H]])
      (use s x R z c in \<open>auto simp: arOnTrack_def arView_def const_defs\<close>)
  have same: "\<not> snd (setRemoteArbiterState ?y InitState ''initialized'') \<Longrightarrow> ?z = ?y"
    by (auto simp: setRemoteArbiterState_def)
  show ?thesis
    using x lib 0 u same
    by (auto simp: arCheckStatusInitialized_def updateRemoteArbiterState_def wp_simps split_beta Let_def)
qed

end

definition fresh :: "'w ral_state \<Rightarrow> bool" where
  "fresh s \<longleftrightarrow> al_service s = None \<and> \<not> al_should_restart s"

lemma arOnTrack_frame [simp]:
  "arOnTrack L S ts (s\<lparr>al_cluster := a1\<rparr>) = arOnTrack L S ts s"
  "arOnTrack L S ts (s\<lparr>al_cluster_key := a2\<rparr>) = arOnTrack L S ts s"
  "arOnTrack L S ts (s\<lparr>al_secret_key := a2\<rparr>) = arOnTrack L S ts s"
  "arOnTrack L S ts (s\<lparr>al_secret := a3\<rparr>) = arOnTrack L S ts s"
  "arOnTrack L S ts (s\<lparr>al_client := a4\<rparr>) = arOnTrack L S ts s"
  "arOnTrack L S ts (s\<lparr>al_ceph_key := a2\<rparr>) = arOnTrack L S ts s"
  "arOnTrack L S ts (s\<lparr>al_ceph := a5\<rparr>) = arOnTrack L S ts s"
  "arOnTrack L S ts (s\<lparr>al_monitor := a6\<rparr>) = arOnTrack L S ts s"
  "arOnTrack L S ts (s\<lparr>al_mon_keyring := a3\<rparr>) = arOnTrack L S ts s"
  "arOnTrack L S ts (s\<lparr>al_mon_override := a7\<rparr>) = arOnTrack L S ts s"
  "arOnTrack L S ts (s\<lparr>al_mon_envvar := a3\<rparr>) = arOnTrack L S ts s"
  "arOnTrack L S ts (s\<lparr>al_service_key := a2\<rparr>) = arOnTrack L S ts s"
  "arOnTrack L S ts (s\<lparr>al_service := a8\<rparr>) = arOnTrack L S ts s"
  "arOnTrack L S ts (s\<lparr>al_deployment_key := a2\<rparr>) = arOnTrack L S ts s"
  "arOnTrack L S ts (s\<lparr>al_deployment := a6\<rparr>) = arOnTrack L S ts s"
  "arOnTrack L S ts (s\<lparr>al_keyring_key := a2\<rparr>) = arOnTrack L S ts s"
  "arOnTrack L S ts (s\<lparr>al_keyring := a3\<rparr>) = arOnTrack L S ts s"
  "arOnTrack L S ts (s\<lparr>al_override_key := a2\<rparr>) = arOnTrack L S ts s"
  "arOnTrack L S ts (s\<lparr>al_override := a7\<rparr>) = arOnTrack L S ts s"
  "arOnTrack L S ts (s\<lparr>al_envvar_key := a2\<rparr>) = arOnTrack L S ts s"
  "arOnTrack L S ts (s\<lparr>al_envvar := a3\<rparr>) = arOnTrack L S ts s"
  by (simp_all add: arOnTrack_def)

lemma arOnTrackE:
  assumes "arOnTrack L S ts s"
  obtains x where "al_arbiter s = Some x" "ra_spec x = ra_spec (sn_arbiter S)"
    "om_name (ra_meta x) = om_name (ra_meta (sn_arbiter S))"
    "om_namespace (ra_meta x) = om_namespace (ra_meta (sn_arbiter S))"
  using assms by (auto simp: arOnTrack_def)

text \<open>Facts about the state that the status does not touch.\<close>

definition steady :: "('w ral_state \<Rightarrow> bool) \<Rightarrow> bool" where
  "steady R \<longleftrightarrow> (\<forall>s w cs y. R s \<longrightarrow> R (s\<lparr>world := w, calls := cs, al_arbiter := y\<rparr>))"

lemma steady_facts [simp]:
  "steady fresh" "steady (hasCluster S)" "steady (hasMonitor S)" "steady (hasArbiter S)"
  "steady (\<lambda>s. \<exists>rc. al_cluster s = Some rc \<and> clView rc = v)" "steady (\<lambda>s. al_ceph s = c)"
  by (auto simp: steady_def fresh_def hasCluster_def hasMonitor_def hasArbiter_def)

lemma steady_conj [simp]: "steady R \<Longrightarrow> steady R' \<Longrightarrow> steady (\<lambda>s. R s \<and> R' s)"
  by (auto simp: steady_def)

context k8s_laws
begin

lemma arStageDone_succeeds:
  assumes "arHealthy E k S d" and "e_lib E = L" and "arOnTrack L S ts s"
    and "ct \<noteq> ArbiterDeploymentReadyConditionType" and "steady R" and "R s"
  shows "succeeds (arStageDone E ProgressingState ct m) (\<lambda>t. arOnTrack L S (insert ct ts) t \<and> R t) s"
  unfolding succeeds_def
  by (rule arStageDone_healthy [OF assms(1-4)]) (use assms(5,6) in \<open>auto simp: steady_def const_defs\<close>)

lemma ar_stage_succeeds:
  assumes "arHealthy E k S d" and "e_lib E = L"
    and "succeeds m (\<lambda>t. arOnTrack L S ts t \<and> R t) s"
    and "ct \<noteq> ArbiterDeploymentReadyConditionType" and "steady R"
    and k: "\<And>u. arOnTrack L S (insert ct ts) u \<Longrightarrow> R u \<Longrightarrow> succeeds n Q u"
  shows "succeeds (onErr m (arStageFailed E ct' what) (\<lambda>_. bnd (arStageDone E ProgressingState ct msg) (\<lambda>_. n))) Q s"
proof -
  have n: "wp (bnd (arStageDone E ProgressingState ct msg) (\<lambda>_. n)) (\<lambda>_. Q) (\<lambda>_ _. False) (\<lambda>_. False) t"
    if "arOnTrack L S ts t \<and> R t" for t
    by (rule wp_seqI [OF arStageDone_succeeds [unfolded succeeds_def, OF assms(1,2) _ assms(4,5)]])
      (use that k in \<open>auto simp: succeeds_def\<close>)
  show ?thesis
    unfolding succeeds_def by (rule wp_onErrI [OF assms(3) [unfolded succeeds_def] _ n]) simp_all
qed

lemma ar_last_stage_succeeds:
  assumes "arHealthy E k S d" and "e_lib E = L"
    and "succeeds m (\<lambda>t. arOnTrack L S ts t \<and> R t) s"
    and "ct \<noteq> ArbiterDeploymentReadyConditionType" and "steady R"
  shows "succeeds (onErr m (arStageFailed E ct' what) (\<lambda>_. arStageDone E ProgressingState ct msg))
    (\<lambda>t. arOnTrack L S (insert ct ts) t \<and> R t) s"
  unfolding succeeds_def
  by (rule wp_onErrI [OF assms(3) [unfolded succeeds_def]])
    (use arStageDone_succeeds [unfolded succeeds_def, OF assms(1,2) _ assms(4,5)] in auto)

end

lemma fetchRemoteCluster_healthy:
  assumes C: "clusterServed E S" and s: "arOnTrack L S ts s" "fresh s"
  shows "succeeds (fetchRemoteCluster E) (\<lambda>t. arOnTrack L S ts t \<and> (fresh t \<and>
      (\<exists>rc. al_cluster t = Some rc \<and> clView rc = clView (sn_cluster S)))) s"
proof -
  obtain x where x: "al_arbiter s = Some x" and spec: "ra_spec x = ra_spec (sn_arbiter S)"
    and meta: "om_name (ra_meta x) = om_name (ra_meta (sn_arbiter S))"
      "om_namespace (ra_meta x) = om_namespace (ra_meta (sn_arbiter S))"
    using s(1) by (rule arOnTrackE)
  have get: "wp (getRemoteCluster E x) (\<lambda>rc t. rc = sn_cluster S \<and> arOnTrack L S ts t \<and> fresh t)
      (\<lambda>_ _. False) (\<lambda>_. False) s"
    using C s spec meta
    by (auto simp: getRemoteCluster_def getRemoteClusterByName_def getRemoteClusterByOwnerReference_def
        clusterServed_def Let_def wp_simps fresh_def split: if_splits
        intro!: wp_apiGet_answers wp_apiList_answers)
  have upd: "wp (arClusterUpdate E rc) (\<lambda>_ t. arOnTrack L S ts t \<and> fresh t \<and>
      (\<exists>rc. al_cluster t = Some rc \<and> clView rc = clView (sn_cluster S))) (\<lambda>_ _. False) (\<lambda>_. False) t"
    if "arOnTrack L S ts t" "fresh t" "clView rc = clView (sn_cluster S)" for t rc
    unfolding arClusterUpdate_def apiUpdate_def wp_bnd wp_modify
    by (rule wp_loggedCall_stores [of _ clView])
      (use C that in \<open>auto simp: clusterServed_def Let_def arOnTrack_def fresh_def\<close>)
  have view: "clView (rc\<lparr>rc_meta := (rc_meta rc)\<lparr>om_finalizers := fs\<rparr>\<rparr>) = clView rc" for rc fs
    by (simp add: clView_def)
  have fr: "fresh (t\<lparr>al_cluster_key := a, al_cluster := b\<rparr>) = fresh t" for t a b by (simp add: fresh_def)
  show ?thesis
    unfolding succeeds_def fetchRemoteCluster_def wp_bnd [of "fieldOf _"] wp_fieldOf x option.case
    by (rule wp_onErrI [OF get])
      (auto simp: wp_simps setRemoteCluster_def split_beta Let_def view fr intro!: upd)
qed

lemma arMakeRemoteClient_healthy:
  assumes C: "clusterServed E S" and s: "arOnTrack L S ts s" "fresh s"
    and rc: "al_cluster s = Some rc" "clView rc = clView (sn_cluster S)"
  shows "succeeds (arMakeRemoteClient E) (\<lambda>t. arOnTrack L S ts t \<and> (fresh t \<and> hasCluster S t)) s"
proof -
  have view: "om_namespace (rc_meta rc) = om_namespace (rc_meta (sn_cluster S))" "rc_spec rc = rc_spec (sn_cluster S)"
    using rc(2) by (simp_all add: clView_def)
  from C obtain sec kubeconfig cfg timeout c where
    sec: "answers (cl_get (kc_secrets (e_client E)) \<lparr>k_namespace = om_namespace (rc_meta (sn_cluster S)),
           k_name = ks_name (rcs_access_key_ref (rc_spec (sn_cluster S)))\<rparr>) sec"
    and "map_lookup (sec_data sec) (ks_key (rcs_access_key_ref (rc_spec (sn_cluster S)))) = Some kubeconfig"
      "RESTConfigFromKubeConfig E kubeconfig = Inr cfg" "rcs_timeout (rc_spec (sn_cluster S)) = Some timeout"
    and client: "answers (client_New E (cfg\<lparr>cfg_timeout := timeout\<rparr>)) c"
    and "sn_client S = NewNamespacedClient E c (rcs_namespace (rc_spec (sn_cluster S)))"
    unfolding clusterServed_def Let_def by auto
  with s rc(1) view show ?thesis
    by (auto simp: succeeds_def arMakeRemoteClient_def Let_def wp_simps hasCluster_def fresh_def
        simp del: wp_readCall intro!: wp_apiGet_answers [OF sec] wp_readCall_answers [OF client])
qed

context k8s_laws
begin

lemma arClusterStage_healthy:
  assumes H: "arHealthy E k S d" and lib: "e_lib E = L" and s: "arOnTrack L S {} s" "fresh s"
  shows "succeeds (arClusterStage E) (\<lambda>t. arOnTrack L S {RemoteClusterReadyConditionType, RemoteClusterExistsConditionType} t
     \<and> (fresh t \<and> hasCluster S t)) s"
  unfolding arClusterStage_def
proof (rule ar_stage_succeeds [OF H lib fetchRemoteCluster_healthy [OF arHealthyD(6) [OF H] s]])
  fix u assume u: "arOnTrack L S {RemoteClusterExistsConditionType} u"
    and "fresh u \<and> (\<exists>rc. al_cluster u = Some rc \<and> clView rc = clView (sn_cluster S))"
  then obtain rc where rc: "fresh u" "al_cluster u = Some rc" "clView rc = clView (sn_cluster S)" by blast
  have ready: "rc_state rc = ReadyState"
    using arHealthyD(6) [OF H] rc(3) by (simp add: clusterServed_def Let_def clView_def)
  have "succeeds (onErr (arMakeRemoteClient E)
        (arStageFailed E RemoteClusterReadyConditionType ''unable to make remote client'') (\<lambda>_.
      arStageDone E ProgressingState RemoteClusterReadyConditionType ''remote client usable''))
    (\<lambda>t. arOnTrack L S {RemoteClusterReadyConditionType, RemoteClusterExistsConditionType} t
       \<and> (fresh t \<and> hasCluster S t)) u"
    by (rule ar_last_stage_succeeds [OF H lib arMakeRemoteClient_healthy [OF arHealthyD(6) [OF H] u rc]])
      (simp_all add: const_defs)
  with rc ready show "succeeds (bnd (fieldOf al_cluster) (\<lambda>rc.
        if rc_state rc \<noteq> ReadyState
        then arStageFailed E RemoteClusterReadyConditionType ''unable to use remote cluster''
               (ErrorText ''remote cluster not ready'')
        else onErr (arMakeRemoteClient E)
            (arStageFailed E RemoteClusterReadyConditionType ''unable to make remote client'') (\<lambda>_.
          arStageDone E ProgressingState RemoteClusterReadyConditionType ''remote client usable'')))
    (\<lambda>t. arOnTrack L S {RemoteClusterReadyConditionType, RemoteClusterExistsConditionType} t
       \<and> (fresh t \<and> hasCluster S t)) u"
    by (simp add: succeeds_def wp_bnd [of "fieldOf _"] wp_fieldOf)
qed (simp_all add: const_defs)

end

lemma fetchCephCluster_healthy:
  assumes C: "cephServed E S" and s: "arOnTrack L S ts s" "fresh s" "hasCluster S s"
  shows "succeeds (fetchCephCluster E) (\<lambda>t. arOnTrack L S ts t \<and> (al_ceph t = Some (sn_ceph S) \<and>
     (fresh t \<and> hasCluster S t))) s"
proof -
  obtain x where x: "al_arbiter s = Some x" "ra_spec x = ra_spec (sn_arbiter S)" using s(1) by (rule arOnTrackE)
  have get: "answers (cl_get (kc_cephclusters (e_client E))
      \<lparr>k_namespace = nr_namespace (ras_ceph_cluster (ra_spec x)), k_name = nr_name (ras_ceph_cluster (ra_spec x))\<rparr>)
      (sn_ceph S)" using C x(2) by (simp add: cephServed_def Let_def)
  show ?thesis
    using s x(1)
    by (auto simp: succeeds_def fetchCephCluster_def Let_def wp_simps hasCluster_def fresh_def
        intro!: wp_apiGet_answers [OF get])
qed

lemma pick_idem: "i \<noteq> [] \<Longrightarrow> pickExternalID i p ids = i"
  by (simp add: pickExternalID_def)

lemma reserve_healthy:
  assumes H: "arHealthy E k S d" and s: "arOnTrack L S ts s" "fresh s" "hasCluster S s"
    and c: "al_ceph s = Some (sn_ceph S)" and ts: "ts \<noteq> {}"
  shows "succeeds (reserveExternalArbiterID E) (\<lambda>t. arOnTrack L S ts t \<and> (fresh t \<and> hasCluster S t)) s"
proof -
  obtain x where x: "al_arbiter s = Some x" using s(1) by (rule arOnTrackE)
  let ?i = "pickExternalID (ra_mon_id x) (ras_mon_id_prefix (ra_spec x)) (ceph_external_mon_ids (sn_ceph S))"
  let ?x = "x\<lparr>ra_status := (ra_status x)\<lparr>st_mon_id := ?i\<rparr>\<rparr>"
  have i: "?i \<noteq> []" using s(1) x by (auto simp: arOnTrack_def)
  have ceph: "wp (arCephUpdate E ceph) (\<lambda>_ t. arOnTrack L S ts t \<and> fresh t \<and> hasCluster S t)
      (\<lambda>_ _. False) (\<lambda>_. False) u" if "arOnTrack L S ts u" "fresh u" "hasCluster S u" for ceph u
    unfolding arCephUpdate_def apiUpdate_def wp_bnd wp_modify
    by (rule wp_loggedCall_stores [of _ ceph_external_mon_ids])
      (use arHealthyD(7) [OF H] that in \<open>auto simp: cephServed_def Let_def arOnTrack_def fresh_def hasCluster_def\<close>)
  have status: "wp (arStatusUpdate E ?x) (\<lambda>_ t. arOnTrack L S ts t \<and> fresh t \<and> hasCluster S t)
      (\<lambda>_ _. False) (\<lambda>_. False) (s\<lparr>al_arbiter := Some ?x\<rparr>)"
    unfolding arStatusUpdate_def apiStatusUpdate_def wp_bnd wp_putArbiter
    by (rule wp_loggedCall_stores [OF arHealthyD(3) [OF H]])
      (use s x i ts in \<open>auto simp: arOnTrack_def arView_def fresh_def hasCluster_def pick_idem\<close>)
  have keep: "fresh (t\<lparr>al_ceph := a\<rparr>) = fresh t" "hasCluster S (t\<lparr>al_ceph := a\<rparr>) = hasCluster S t" for t a
    by (simp_all add: fresh_def hasCluster_def)
  show ?thesis
    using x c i s
    by (auto simp: succeeds_def reserveExternalArbiterID_def Let_def wp_simps keep
        intro!: wp_mono [OF status] ceph)
qed

lemma fetchMonitorDeployment_healthy:
  assumes C: "monitorServed E S" and s: "arOnTrack L S ts s" "fresh s" "hasCluster S s"
  shows "succeeds (fetchMonitorDeployment E) (\<lambda>t. arOnTrack L S ts t \<and> (hasMonitor S t \<and> (fresh t \<and> hasCluster S t))) s"
proof -
  obtain x where x: "al_arbiter s = Some x" "ra_spec x = ra_spec (sn_arbiter S)" using s(1) by (rule arOnTrackE)
  let ?ns = "om_namespace (dep_meta (sn_monitor S))" and ?pod = "ds_pod (dep_spec (sn_monitor S))"
  from C obtain mons kn on c en where
    mons: "answers (cl_list (kc_deployments (e_client E)) [MatchingLabels [(''ceph_daemon_type'', ''mon''),
          (''app.kubernetes.io/part-of'', nr_name (ras_ceph_cluster (ra_spec x)))],
          InNamespace (nr_namespace (ras_ceph_cluster (ra_spec x)))]) mons"
      "mons \<noteq> []" "selectTemplateMonDeployment mons = Val (sn_monitor S)"
    and names: "monitorVolumeNames [] [] (ps_volumes ?pod) = Inr (kn, on)" "kn \<noteq> []" "on \<noteq> []"
      "monContainer (ps_containers ?pod) = Some c" "c_env c \<noteq> []" "envVarSecretName [] (c_env c) = Inr en" "en \<noteq> []"
    and gets: "answers (cl_get (kc_secrets (e_client E)) \<lparr>k_namespace = ?ns, k_name = kn\<rparr>) (sn_mon_keyring S)"
      "answers (cl_get (kc_configmaps (e_client E)) \<lparr>k_namespace = ?ns, k_name = on\<rparr>) (sn_mon_override S)"
      "answers (cl_get (kc_secrets (e_client E)) \<lparr>k_namespace = ?ns, k_name = en\<rparr>) (sn_mon_envvar S)"
    unfolding monitorServed_def Let_def x(2) by blast
  show ?thesis
    unfolding succeeds_def fetchMonitorDeployment_def fetchMonitorEnvVarSecret_def wp_bnd wp_fieldOf x(1) option.case
      wp_wrapErr
    by (rule wp_apiList_answers [OF mons(1)])
      (use s mons names in \<open>auto simp: wp_simps hasCluster_def fresh_def hasMonitor_def
        intro!: wp_apiGet_answers [OF gets(1)] wp_apiGet_answers [OF gets(2)] wp_apiGet_answers [OF gets(3)]\<close>)
qed

lemma fetchArbiterDeployment_healthy:
  assumes C: "targetServed S" and s: "arOnTrack L S ts s" "hasMonitor S s" "fresh s" "hasCluster S s"
  shows "succeeds (fetchArbiterDeployment E) (\<lambda>t. arOnTrack L S ts t \<and> (hasArbiter S t \<and> hasMonitor S t)) s"
proof -
  obtain x where x: "al_arbiter s = Some x" "ra_spec x = ra_spec (sn_arbiter S)"
    "om_name (ra_meta x) = om_name (ra_meta (sn_arbiter S))" using s(1) by (rule arOnTrackE)
  obtain rc where rc: "al_cluster s = Some rc" "rc_spec rc = rc_spec (sn_cluster S)"
    "al_client s = Some (sn_client S)" using s(4) by (auto simp: hasCluster_def)
  let ?sel = "[InNamespace (rcs_namespace (rc_spec (sn_cluster S))),
       MatchingLabels [(RemoteArbiterLookupLabel, om_name (ra_meta (sn_arbiter S)))]]"
  let ?c = "sn_client S"
  have lists: "answers (cl_list (kc_secrets ?c) (?sel @ [MatchingLabels [(RemoteArbiterRoleLabel, RemoteArbiterKeyringRole)]])) [sn_keyring S]"
    "answers (cl_list (kc_secrets ?c) (?sel @ [MatchingLabels [(RemoteArbiterRoleLabel, RemoteArbiterEnvVarRole)]])) [sn_envvar S]"
    "answers (cl_list (kc_configmaps ?c) ?sel) [sn_override S]"
    "answers (cl_list (kc_deployments ?c) ?sel) [sn_deployment S]"
    using C by (simp_all add: targetServed_def Let_def)
  define R where "R u \<longleftrightarrow> arOnTrack L S ts u \<and> hasMonitor S u \<and> hasCluster S u \<and> al_arbiter u = Some x \<and>
     al_keyring u = Some (sn_keyring S) \<and> al_envvar u = Some (sn_envvar S) \<and> al_override u = Some (sn_override S) \<and>
     \<not> al_should_restart u" for u
  have R: "R (u\<lparr>world := w\<rparr>) = R u" "R (u\<lparr>al_service := v, al_service_key := k\<rparr>) = R u" "R (u\<lparr>al_service := v\<rparr>) = R u"
    for u w v k by (simp_all add: R_def hasMonitor_def hasCluster_def)
  have client: "R u \<Longrightarrow> al_client u = Some ?c" "R u \<Longrightarrow> al_arbiter u = Some x" for u
    by (simp_all add: R_def hasCluster_def)
  have svc: "wp (if ras_service (ra_spec x) \<noteq> None then fetchArbiterService E ?sel else ret ())
      (\<lambda>_ t. R t \<and> al_service t = sn_service S) (\<lambda>_ _. False) (\<lambda>_. False) u"
    if u: "R u" "al_service u = None" for u
  proof (cases "ras_service (ra_spec (sn_arbiter S))")
    case None
    with C u x show ?thesis by (simp add: targetServed_def Let_def wp_simps)
  next
    case (Some sc)
    with C obtain svc where v: "sn_service S = Some svc" and l: "answers (cl_list (kc_services ?c) ?sel) [svc]"
      and r: "\<not> snd (repairService (sc_type sc) svc)"
      by (auto simp: targetServed_def Let_def)
    from r have "repairService (sc_type sc) svc = (svc, False)"
      using repairService_changed by (metis prod.collapse)
    with Some v u x client [OF u(1)] show ?thesis
      by (auto simp: fetchArbiterService_def oneOrCreate_def reconcileArbiterService_def wp_simps R
          intro!: wp_apiList_answers [OF l])
  qed
  have objects: "wp (bnd (fetchArbiterKeyring E ?sel) (\<lambda>_. bnd (fetchArbiterEnvVar E ?sel) (\<lambda>_. fetchArbiterOverride E ?sel)))
     (\<lambda>_ t. R t \<and> al_service t = None) (\<lambda>_ _. False) (\<lambda>_. False) s"
    using s x rc
    by (auto simp: fetchArbiterKeyring_def fetchArbiterEnvVar_def fetchArbiterOverride_def oneOrCreate_def wp_simps
        R_def fresh_def hasMonitor_def hasCluster_def
        intro!: wp_apiList_answers [OF lists(1) [simplified]] wp_apiList_answers [OF lists(2) [simplified]]
          wp_apiList_answers [OF lists(3)])
  have deployment: "wp (fetchArbiterDeployments E ?sel) (\<lambda>_ t. arOnTrack L S ts t \<and> (hasArbiter S t \<and> hasMonitor S t))
     (\<lambda>_ _. False) (\<lambda>_. False) u" if "R u" "al_service u = sn_service S" for u
    using that client [OF that(1)]
    by (auto simp: fetchArbiterDeployments_def oneOrCreate_def wp_simps R_def hasMonitor_def hasArbiter_def
        intro!: wp_apiList_answers [OF lists(4)])
  have "wp (fetchArbiterDeployment E) Q Er P s = wp (bnd (fetchArbiterKeyring E ?sel) (\<lambda>_.
      bnd (fetchArbiterEnvVar E ?sel) (\<lambda>_. fetchArbiterOverride E ?sel)))
     (\<lambda>_. wp (if ras_service (ra_spec x) \<noteq> None then fetchArbiterService E ?sel else ret ())
       (\<lambda>_. wp (fetchArbiterDeployments E ?sel) Q Er P) Er P) Er P s" for Q Er P
    using x rc by (simp add: fetchArbiterDeployment_def wp_bnd wp_fieldOf Let_def)
  then show ?thesis
    unfolding succeeds_def
    by (simp only:) (rule wp_mono [OF objects]; (rule wp_mono [OF svc])?; use deployment in auto)
qed

lemma check_healthy:
  assumes C: "sceneUpToDate S" and s: "arOnTrack L S ts s" "hasArbiter S s" "hasMonitor S s"
  shows "succeeds (checkArbiterDeploymentUpToDate E) (\<lambda>t. t = s) s"
proof -
  obtain x where "al_arbiter s = Some x" "ra_spec x = ra_spec (sn_arbiter S)" using s(1) by (rule arOnTrackE)
  with C s(2,3) show ?thesis
    by (auto simp: succeeds_def checkArbiterDeploymentUpToDate_def checkKeyring_def checkEnvVar_def checkOverride_def
        checkDeploymentVersion_def checkPublicAddress_def wp_simps sceneUpToDate_def hasArbiter_def hasMonitor_def)
qed

text \<open>What a healthy run ends with.\<close>

definition arEndsReady :: "'w env \<Rightarrow> 'w scene \<Rightarrow> 'w ral_state \<Rightarrow> bool" where
  "arEndsReady E S t \<longleftrightarrow> (\<exists>x. al_arbiter t = Some x \<and> ra_state x = ReadyState \<and>
     (\<forall>ct\<in>set arConditionTypes. arCond (e_lib E) x ct = Some ConditionTrue) \<and>
     (\<forall>c\<in>set (calls t). \<not> onTarget c) \<and>
     ((\<exists>c\<in>set (calls t). arReadyWrite c) \<longleftrightarrow>
        arCond (e_lib E) (sn_arbiter S) ArbiterDeploymentReadyConditionType \<noteq> Some ConditionTrue))"

abbreviation earlierConditions :: "string set" where
  "earlierConditions \<equiv> set arConditionTypes - {ArbiterDeploymentReadyConditionType}"

context k8s_laws
begin

lemma arCephStage_healthy:
  assumes H: "arHealthy E k S d" and lib: "e_lib E = L" and s: "arOnTrack L S ts s" "fresh s \<and> hasCluster S s"
  shows "succeeds (arCephStage E) (\<lambda>t. arOnTrack L S (insert CephClusterConfiguredConditionType
     (insert CephClusterReadyConditionType (insert CephClusterExistsConditionType ts))) t \<and> (fresh t \<and> hasCluster S t)) s"
  unfolding arCephStage_def
proof (rule ar_stage_succeeds [OF H lib fetchCephCluster_healthy [OF arHealthyD(7) [OF H] s(1)]], goal_cases)
  case (5 u)
  have ready: "ceph_phase (sn_ceph S) = rook_ConditionReady"
    using arHealthyD(7) [OF H] by (simp add: cephServed_def Let_def)
  let ?ts = "insert CephClusterReadyConditionType (insert CephClusterExistsConditionType ts)"
  have reserve: "succeeds (onErr (reserveExternalArbiterID E)
         (arStageFailed E CephClusterConfiguredConditionType ''unable to reserve external arbiter id'') (\<lambda>_.
       arStageDone E ProgressingState CephClusterConfiguredConditionType ''ceph cluster configured''))
     (\<lambda>t. arOnTrack L S (insert CephClusterConfiguredConditionType ?ts) t \<and> (fresh t \<and> hasCluster S t)) v"
    if "arOnTrack L S ?ts v" "al_ceph v = Some (sn_ceph S) \<and> fresh v \<and> hasCluster S v" for v
    by (rule ar_last_stage_succeeds [OF H lib reserve_healthy [OF H that(1)]])
      (use that(2) in \<open>simp_all add: const_defs\<close>)
  have stage: "succeeds (arStageDone E ProgressingState CephClusterReadyConditionType ''ceph cluster ready'')
     (\<lambda>t. arOnTrack L S ?ts t \<and> (al_ceph t = Some (sn_ceph S) \<and> (fresh t \<and> hasCluster S t))) u"
    by (rule arStageDone_succeeds [OF H lib 5(1)]) (use 5(2) in \<open>simp_all add: const_defs\<close>)
  show ?case
    using 5(2) ready
    by (simp add: succeeds_def wp_bnd [of "fieldOf _"] wp_fieldOf)
      (rule wp_seqI [OF stage [unfolded succeeds_def]], use reserve in \<open>simp add: succeeds_def\<close>)
qed (use s(2) in \<open>simp_all add: const_defs\<close>)

lemma arMonitorStage_healthy:
  assumes H: "arHealthy E k S d" and lib: "e_lib E = L" and s: "arOnTrack L S ts s" "fresh s \<and> hasCluster S s"
  shows "succeeds (arMonitorStage E) (\<lambda>t. arOnTrack L S (insert MonitorDeploymentReadyConditionType
     (insert MonitorDeploymentExistsConditionType ts)) t \<and> (hasMonitor S t \<and> (fresh t \<and> hasCluster S t))) s"
  unfolding arMonitorStage_def
proof (rule ar_stage_succeeds [OF H lib fetchMonitorDeployment_healthy [OF arHealthyD(8) [OF H] s(1)]], goal_cases)
  case (5 u)
  have ready: "deploymentTrouble ''monitor'' (sn_monitor S) = None" "al_monitor u = Some (sn_monitor S)"
    using arHealthyD(8) [OF H] 5(2) by (simp_all add: monitorServed_def Let_def hasMonitor_def)
  have "succeeds (arStageDone E ProgressingState MonitorDeploymentReadyConditionType ''monitor deployment is ready'')
     (\<lambda>t. arOnTrack L S (insert MonitorDeploymentReadyConditionType
     (insert MonitorDeploymentExistsConditionType ts)) t \<and> (hasMonitor S t \<and> (fresh t \<and> hasCluster S t))) u"
    by (rule arStageDone_succeeds [OF H lib 5(1)]) (use 5(2) in \<open>simp_all add: const_defs\<close>)
  with ready show ?case by (simp add: succeeds_def wp_bnd [of "fieldOf _"] wp_fieldOf)
qed (use s(2) in \<open>simp_all add: const_defs\<close>)

lemma arFinal_healthy:
  assumes H: "arHealthy E k S d" and lib: "e_lib E = L"
    and s: "arOnTrack L S ts s" and ts: "earlierConditions \<subseteq> ts"
  shows "wp (bnd (arStageDone E ReadyState ArbiterDeploymentReadyConditionType m) (\<lambda>_.
         bnd theArbiter (\<lambda>ra. bnd (deref (ras_check_interval (ra_spec ra))) (\<lambda>d. ret \<lparr>requeue_after = d\<rparr>))))
     (\<lambda>r t. requeue_after r = d \<and> arEndsReady E S t) (\<lambda>_ _. False) (\<lambda>_. False) s"
proof -
  obtain x where x: "al_arbiter s = Some x" using s by (rule arOnTrackE)
  show ?thesis
    unfolding wp_bnd [of "arStageDone _ _ _ _"]
  proof (rule arStageDone_stored [OF arHealthyD(3) [OF H] x lib], goal_cases)
    case (1 y w new)
    have "arCond L y ct = Some ConditionTrue" if "ct \<in> set arConditionTypes" for ct
      using 1(6) that s x ts by (auto simp: arOnTrack_def)
    moreover have "\<not> onTarget c" if "c \<in> set (calls s @ new)" for c
      using that s 1(7) by (auto simp: arOnTrack_def)
    moreover have "(\<exists>c\<in>set (calls s @ new). arReadyWrite c) \<longleftrightarrow> new \<noteq> []"
      using s 1(7) by (cases new) (auto simp: arOnTrack_def)
    moreover have "new \<noteq> [] \<longleftrightarrow> arCond L (sn_arbiter S) ArbiterDeploymentReadyConditionType \<noteq> Some ConditionTrue"
      using 1(8) s x by (auto simp: arOnTrack_def)
    moreover have "ras_check_interval (ra_spec y) = Some d"
      using arHealthyD(5) [OF H] 1(3) s x by (auto simp: arOnTrack_def)
    ultimately show ?case using 1(5) lib by (simp add: wp_simps arEndsReady_def)
  qed
qed

lemma arArbiterStage_healthy:
  assumes H: "arHealthy E k S d" and lib: "e_lib E = L"
    and s: "arOnTrack L S ts s" "hasMonitor S s \<and> fresh s \<and> hasCluster S s"
    and ts: "earlierConditions \<subseteq> insert ArbiterDeploymentExistsConditionType ts"
  shows "wp (arArbiterStage E) (\<lambda>r t. requeue_after r = d \<and> arEndsReady E S t) (\<lambda>_ _. False) (\<lambda>_. False) s"
proof -
  note fetch = fetchArbiterDeployment_healthy [OF arHealthyD(9) [OF H] s(1), unfolded succeeds_def]
  have trouble: "deploymentTrouble ''arbiter'' (sn_deployment S) = None"
    using arHealthyD(9) [OF H] by (simp add: targetServed_def Let_def)
  show ?thesis
    unfolding arArbiterStage_def
  proof (rule wp_onErrI [OF fetch], goal_cases)
    case (5 e t)
    have stage: "succeeds (arStageDone E ProgressingState ArbiterDeploymentExistsConditionType ''arbiter deployment fetched'')
       (\<lambda>u. arOnTrack L S (insert ArbiterDeploymentExistsConditionType ts) u \<and> (hasArbiter S u \<and> hasMonitor S u)) t"
      by (rule arStageDone_succeeds [OF H lib]) (use 5 in \<open>simp_all add: const_defs\<close>)
    show ?case
    proof (rule wp_seqI [OF stage [unfolded succeeds_def]], goal_cases)
      case (1 _ u)
      note u = 1
      have check: "wp (checkArbiterDeploymentUpToDate E) (\<lambda>_ v. v = u) (\<lambda>_ _. False) (\<lambda>_. False) u"
        using check_healthy [OF arHealthyD(10) [OF H]] u by (auto simp: succeeds_def)
      have "\<not> al_should_restart u" "al_deployment u = Some (sn_deployment S)" using u by (simp_all add: hasArbiter_def)
      then show ?case
        by (intro wp_onErrI [OF check]) (use arFinal_healthy [OF H lib] u ts trouble in
          \<open>auto simp: wp_bnd [of "gets _"] wp_gets wp_onErr wp_ret wp_bnd [of "fieldOf al_deployment"] wp_fieldOf\<close>)
    qed
  qed (use s(2) in simp_all)
qed

end

lemma arStages_healthy:
  assumes laws: "k8s_laws (e_lib E)" and H: "arHealthy E k S d"
    and s: "arOnTrack (e_lib E) S {} s" "fresh s"
  shows "wp (arStages E) (\<lambda>r t. requeue_after r = d \<and> arEndsReady E S t) (\<lambda>_ _. False) (\<lambda>_. False) s"
  unfolding arStages_def
proof (rule wp_seqI [OF k8s_laws.arClusterStage_healthy [OF laws H refl s, unfolded succeeds_def]], elim conjE)
  fix t :: "'a ral_state"
  assume t: "arOnTrack (e_lib E) S {RemoteClusterReadyConditionType, RemoteClusterExistsConditionType} t"
    and "fresh t" "hasCluster S t"
  then have f: "fresh t \<and> hasCluster S t" by simp
  show "wp (bnd (arCephStage E) (\<lambda>_. bnd (arMonitorStage E) (\<lambda>_. arArbiterStage E)))
     (\<lambda>r t. requeue_after r = d \<and> arEndsReady E S t) (\<lambda>_ _. False) (\<lambda>_. False) t"
    apply (rule wp_seqI [OF k8s_laws.arCephStage_healthy [OF laws H refl t f, unfolded succeeds_def]])
    apply (rule wp_seqI [OF k8s_laws.arMonitorStage_healthy [OF laws H refl, unfolded succeeds_def]])
      apply (erule conjunct1)
     apply (erule conjunct2)
    apply (rule k8s_laws.arArbiterStage_healthy [OF laws H refl])
      apply (erule conjunct1)
     apply (erule conjunct2)
    apply (auto simp: arConditionTypes_def)
    done
qed

lemma arReconcile_healthy:
  assumes laws: "k8s_laws (e_lib E)" and H: "arHealthy E k S d"
  shows "wp (arReconcile E) (\<lambda>r t. requeue_after r = d \<and> arEndsReady E S t)
    (\<lambda>_ _. False) (\<lambda>_. False) (init_ral k w)"
proof -
  have pick: "pickExternalID (ra_mon_id (sn_arbiter S)) (ras_mon_id_prefix (ra_spec (sn_arbiter S)))
      (ceph_external_mon_ids (sn_ceph S)) \<noteq> []"
    using arHealthyD(7) [OF H] by (simp add: cephServed_def Let_def)
  have fetch: "wp (fetchArbiter E) (\<lambda>_ t. al_arbiter t = Some (sn_arbiter S) \<and> arOnTrack (e_lib E) S {} t \<and> fresh t)
      (\<lambda>_ _. False) (\<lambda>_. False) (init_ral k w)"
    using pick
    by (auto simp: fetchArbiter_def init_ral_def wp_simps arOnTrack_def fresh_def
        intro!: wp_apiGet_answers [OF arHealthyD(1) [OF H]])
  have R: "fresh (s\<lparr>world := w, calls := cs, al_arbiter := y\<rparr>) = fresh s" for s :: "'a ral_state" and w cs y
    by (simp add: fresh_def)
  have rest: "wp (bnd (wrapErr ''unable to check self finalizer'' (arCheckSelfFinalizer E)) (\<lambda>_.
       bnd (wrapErr ''unable to initialize conditions'' (arCheckStatusInitialized E)) (\<lambda>_. arStages E)))
      (\<lambda>r t. requeue_after r = d \<and> arEndsReady E S t) (\<lambda>_ _. False) (\<lambda>_. False) s"
    if "arOnTrack (e_lib E) S {} s" "fresh s" for s
    unfolding wp_bnd wp_wrapErr
    by (rule wp_mono [OF k8s_laws.ar_finalizer_healthy [where R = fresh, OF laws H that(1)]],
        simp add: R that(2),
        rule wp_mono [OF k8s_laws.ar_init_healthy [where R = fresh, OF laws H refl]])
      (auto simp: R intro: arStages_healthy [OF laws H])
  show ?thesis
    unfolding arReconcile_def
    by (rule wp_onErrI [OF fetch])
      (auto simp: wp_bnd [of "fieldOf _"] wp_fieldOf arHealthyD(4) [OF H] intro: rest)
qed

text \<open>The demonstration servers.\<close>

definition demo_scene :: "remote_arbiter \<Rightarrow> string list \<Rightarrow> unit scene" where
  "demo_scene ra ids = \<lparr>sn_arbiter = ra, sn_cluster = ready_cluster, sn_client = demo_target, sn_ceph = demo_ceph ids,
     sn_monitor = demo_monitor ''rook-ceph-mon-a'', sn_mon_keyring = demo_secret, sn_mon_override = demo_configmap,
     sn_mon_envvar = demo_secret, sn_keyring = copied_secret, sn_envvar = copied_secret,
     sn_override = demo_configmap\<lparr>cm_meta := copied_meta ''arbiter-override''\<rparr>, sn_service = None,
     sn_deployment = copied_deployment ''$(ROOK_POD_IP)''\<rparr>"

lemma demo_served:
  "answers (cl_get (serve x) k) x" "answers (cl_list (serve x) os) [x]"
  "stores (cl_update (serve x)) v" "stores (cl_status_update (serve x)) v"
  by (auto simp: answers_def stores_def serve_def)

lemma live_arbiter_healthy:
  assumes "pickExternalID [] ''ext-'' ids \<noteq> []"
  shows "arHealthy (arbiter_env live_arbiter ids) k (demo_scene live_arbiter ids) time_Minute"
proof -
  let ?S = "demo_scene live_arbiter ids" and ?E = "arbiter_env live_arbiter ids"
  have ra: "ras_service (ra_spec live_arbiter) = None" "ras_check_interval (ra_spec live_arbiter) = Some time_Minute"
    "om_deletion_timestamp (ra_meta live_arbiter) = None" "rcc_name (ras_remote_cluster (ra_spec live_arbiter)) \<noteq> []"
    by (simp_all add: live_arbiter_def demo_arbiter_spec_def demo_arbiter_def empty_meta_def)
  have cl: "kc_remoteclusters (e_client ?E) = serve ready_cluster" "kc_secrets (e_client ?E) = serve demo_secret"
    "kc_cephclusters (e_client ?E) = serve (demo_ceph ids)" "kc_configmaps (e_client ?E) = serve demo_configmap"
    "kc_deployments (e_client ?E) = serve (demo_monitor ''rook-ceph-mon-a'')"
    "kc_remotearbiters (e_client ?E) = serve live_arbiter"
    by (simp_all add: arbiter_env_def demo_env_def demo_source_def)
  have "clusterServed ?E ?S"
  proof -
    have "map_lookup (sec_data demo_secret) (ks_key (rcs_access_key_ref (rc_spec ready_cluster))) = Some ''...''"
      "rcs_timeout (rc_spec ready_cluster) = Some (30 * time_Second)" "rc_state ready_cluster = ReadyState"
      by (simp_all add: demo_secret_def ready_cluster_def demo_cluster_def map_lookup_def map_lit_def)
    then show ?thesis
      unfolding clusterServed_def Let_def cl using ra
      by (auto simp: demo_scene_def demo_served intro!: exI [of _ demo_secret])
        (auto simp: answers_def arbiter_env_def demo_env_def)
  qed
  moreover have "cephServed ?E ?S"
    unfolding cephServed_def Let_def cl using assms
    by (simp add: demo_scene_def demo_served demo_ceph_def live_arbiter_def demo_arbiter_def)
  moreover have "monitorServed ?E ?S" 
  proof -
    have "monitorVolumeNames [] [] (ps_volumes (ds_pod (dep_spec (demo_monitor ''rook-ceph-mon-a'')))) =
        Inr (''rook-ceph-mons-keyring'', ''rook-config-override'')"
      by code_simp
    moreover have "selectTemplateMonDeployment [demo_monitor ''rook-ceph-mon-a''] = Val (demo_monitor ''rook-ceph-mon-a'')"
      by (simp add: selectTemplateMonDeployment_def)
    moreover have "envVarSecretName [] (c_env (demo_container ''mon'')) = Inr ''rook-ceph-config''" by code_simp
    moreover have "monContainer (ps_containers (ds_pod (dep_spec (demo_monitor ''rook-ceph-mon-a'')))) =
        Some (demo_container ''mon'')" 
      by (simp add: monContainer_def demo_monitor_def demo_container_def)
    moreover have "c_env (demo_container ''mon'') \<noteq> []" by (simp add: demo_container_def)
    moreover have "deploymentTrouble ''monitor'' (demo_monitor ''rook-ceph-mon-a'') = None"
      by (simp add: deploymentTrouble_def demo_monitor_def)
    ultimately show ?thesis
      unfolding monitorServed_def Let_def cl by (auto simp: demo_scene_def demo_served intro!: exI [of _ "[demo_monitor ''rook-ceph-mon-a'']"])
  qed
  moreover have "targetServed ?S"
    using ra by (simp add: targetServed_def demo_scene_def demo_target_def demo_served deploymentTrouble_def copied_deployment_def
       demo_monitor_def)
  moreover have "sceneUpToDate ?S"
    by (simp add: sceneUpToDate_def demo_scene_def copied_secret_def copied_meta_def demo_secret_def demo_meta_def
       lastAppliedVersion_def map_get_def map_lookup_def map_lit_def demo_configmap_def copied_deployment_def demo_monitor_def
       desiredPublicAddress_def determinePublicAddress_def deploymentPublicAddress_def)
  ultimately show ?thesis
    unfolding arHealthy_def cl using ra by (simp add: demo_scene_def demo_served)
qed

lemma demo_run_healthy:
  "wp (arReconcile (arbiter_env live_arbiter [])) (\<lambda>r t. requeue_after r = time_Minute \<and>
      arEndsReady (arbiter_env live_arbiter []) (demo_scene live_arbiter []) t) (\<lambda>_ _. False) (\<lambda>_. False)
    (init_ral (demo_key ''arbiter'') ())"
proof -
  have "pickExternalID [] ''ext-'' [] \<noteq> []" by code_simp
  then show ?thesis by (intro arReconcile_healthy arbiter_env_laws live_arbiter_healthy)
qed

lemma demo_not_ready: "arCond ref_lib live_arbiter ct = None"
  by (simp add: live_arbiter_def demo_arbiter_def condStatus_def ref_lib_def)

section \<open>Properties\<close>

text \<open>
  C2: When the API server stores the state it is sent, the state Ready of a RemoteArbiter is
  published by the last call of a run at most, and only when in the same run the remote cluster
  was Ready, the Ceph cluster was Ready, and the deployments of the cloned monitor and of the
  arbiter had replicas, all of them available and updated.
\<close>

theorem ar_ready_gate:
  assumes stored: "\<And>x w y w'. cl_status_update (kc_remotearbiters (e_client E)) x w = (Inr y, w') \<Longrightarrow>
      ra_state y = ra_state x"
    and run: "arReconcile E (init_ral k w) = (r, t)"
    and "StatusUpdateCall Source (RemoteArbiterObj ra) b \<in> set (calls t)" and "ra_state ra = ReadyState"
  shows "\<exists>log rc ceph mon dep. calls t = log @ [StatusUpdateCall Source (RemoteArbiterObj ra) b] \<and>
    (\<forall>ra' b'. StatusUpdateCall Source (RemoteArbiterObj ra') b' \<in> set log \<longrightarrow> ra_state ra' \<noteq> ReadyState) \<and>
    al_cluster t = Some rc \<and> rc_state rc = ReadyState \<and>
    ceph_phase ceph = rook_ConditionReady \<and>
    (al_ceph t = Some ceph \<or> (\<exists>b. UpdateCall Source (CephClusterObj ceph) b \<in> set log)) \<and>
    al_monitor t = Some mon \<and> dep_replicas mon \<noteq> 0 \<and> dep_unavailable_replicas mon = 0 \<and>
    dep_updated_replicas mon = dep_replicas mon \<and>
    al_deployment t = Some dep \<and> dep_replicas dep \<noteq> 0 \<and> dep_unavailable_replicas dep = 0 \<and>
    dep_updated_replicas dep = dep_replicas dep"
proof -
  have "arStatusStored E" using stored by (auto simp: arStatusStored_def)
  then have "always (arReconcile E) arReadyGate (init_ral k w)"
    by (rule endsD [OF arReconcile_gate]) (simp add: arNoReady_def init_ral_def)
  then have "arReadyGate t" using run by (simp add: always_iff)
  moreover have "\<not> arNoReady t" using assms(3,4) by (auto simp: arNoReady_def intro!: bexI [of _ "arStatusCall ra b"])
  ultimately obtain log ra' b' dep where
    log: "calls t = log @ [arStatusCall ra' b']" "\<forall>c\<in>set log. \<not> arReadyWrite c"
    and parts: "clusterSeenReady t" "cephSeenReady t" "monitorSeenReady t" "al_deployment t = Some dep"
      "deploymentTrouble ''arbiter'' dep = None"
    by (auto simp: arReadyGate_def)
  have eq: "arStatusCall ra b = arStatusCall ra' b'" using log assms(3,4) by auto
  have quiet: "\<forall>ra' b'. arStatusCall ra' b' \<in> set log \<longrightarrow> ra_state ra' \<noteq> ReadyState"
    using log(2) by auto
  obtain ceph where ceph: "ceph_phase ceph = rook_ConditionReady"
    "al_ceph t = Some ceph \<or> (\<exists>b. UpdateCall Source (CephClusterObj ceph) b \<in> set log)"
    using parts(2) log(1) by (elim cephSeenE) auto
  show ?thesis
    using log(1) eq quiet ceph parts(1,3-5)
    unfolding clusterSeenReady_def monitorSeenReady_def deploymentTrouble_def
    by (auto split: if_splits)
qed

theorem ar_ready_gate_witness:
  "\<exists>t mon dep. snd (demo_run live_arbiter []) = t \<and>
     al_monitor t = Some mon \<and> dep_replicas mon \<noteq> 0 \<and> al_deployment t = Some dep \<and> dep_replicas dep \<noteq> 0"
proof -
  obtain r t where run: "arReconcile (arbiter_env live_arbiter []) (init_ral (demo_key ''arbiter'') ()) = (r, t)"
    by fastforce
  then have "\<exists>c\<in>set (calls t). arReadyWrite c"
    using wp_must_return [OF run demo_run_healthy] by (auto simp: arEndsReady_def demo_scene_def demo_not_ready)
  then obtain ra b where "StatusUpdateCall Source (RemoteArbiterObj ra) b \<in> set (calls t)" "ra_state ra = ReadyState"
    by (auto elim!: arReadyWrite.elims)
  from ar_ready_gate [OF _ run this] run show ?thesis
    by (auto simp: arbiter_env_status demo_run_def)
qed



text \<open>
  C30: In such a run the state Ready is sent to the API server exactly when the condition of the last
  stage was not already true: after a failure of an earlier stage and its recovery the resource is
  not published as Ready.
\<close>

theorem ar_ready_published_iff:
  assumes laws: "k8s_laws (e_lib E)" and H: "arHealthy E k S d" and run: "arReconcile E (init_ral k w) = (r, t)"
  shows "(\<exists>ra b. StatusUpdateCall Source (RemoteArbiterObj ra) b \<in> set (calls t) \<and> ra_state ra = ReadyState) \<longleftrightarrow>
    arCond (e_lib E) (sn_arbiter S) ArbiterDeploymentReadyConditionType \<noteq> Some ConditionTrue"
proof -
  have "(\<exists>c\<in>set (calls t). arReadyWrite c) \<longleftrightarrow>
      (\<exists>ra b. StatusUpdateCall Source (RemoteArbiterObj ra) b \<in> set (calls t) \<and> ra_state ra = ReadyState)"
    by (auto elim!: arReadyWrite.elims intro!: bexI)
  then show ?thesis
    using wp_must_return [OF run arReconcile_healthy [OF laws H]] by (auto simp: arEndsReady_def)
qed

theorem ar_ready_published_iff_witness:
  "\<exists>ra b. StatusUpdateCall Source (RemoteArbiterObj ra) b \<in> set (calls (snd (demo_run live_arbiter []))) \<and>
     ra_state ra = ReadyState"
proof -
  obtain r t where run: "arReconcile (arbiter_env live_arbiter []) (init_ral (demo_key ''arbiter'') ()) = (r, t)"
    by fastforce
  have "pickExternalID [] ''ext-'' [] \<noteq> []" by code_simp
  from ar_ready_published_iff [OF arbiter_env_laws live_arbiter_healthy [OF this] run] run
  show ?thesis by (simp add: demo_run_def demo_scene_def demo_not_ready)
qed

end
