(* ===== verification/Arbiter_Deletion.thy ===== *)
theory Arbiter_Deletion
  imports Arbiter_Safety
begin

text \<open>
  The deletion of a RemoteArbiter: a calculus for functions that report every failed call (\<open>honest\<close>),
  the order of the clean-up, and where it looks for the objects to delete.
\<close>

section \<open>Functions that report every failed call\<close>

fun callOk :: "call \<Rightarrow> bool" where
  "callOk (CreateCall _ _ b) = b"
| "callOk (UpdateCall _ _ b) = b"
| "callOk (StatusUpdateCall _ _ b) = b"
| "callOk (DeleteCall _ _ b) = b"
| "callOk (ReadyzCall r) = isInr r"
| "callOk (ReviewCall _ r) = isInr r"

text \<open>\<open>honest m\<close>: when \<open>m\<close> returns a value, every call it made succeeded.\<close>

named_theorems honest_intros

definition okSince :: "('w, 'z) base_scheme \<Rightarrow> ('w, 'z) base_scheme \<Rightarrow> bool" where
  "okSince s t \<longleftrightarrow> (\<exists>new. calls t = calls s @ new \<and> list_all callOk new)"

lemma okSince_trans: "okSince s t \<Longrightarrow> okSince t u \<Longrightarrow> okSince s u"
  by (auto simp: okSince_def)

lemma okSince_same: "calls t = calls s \<Longrightarrow> okSince s t"
  by (simp add: okSince_def)

definition honest :: "(('w, 'z) base_scheme, 'a) go \<Rightarrow> bool" where
  "honest m \<longleftrightarrow> (\<forall>s. wp m (\<lambda>_. okSince s) (\<lambda>_ _. True) (\<lambda>_. True) s)"

lemma honest_basic [honest_intros]:
  "honest (ret x)" "honest (fail e)" "honest panic" "honest (gets f)" "honest (deref p)" "honest (lift r)"
  "honest (fieldOf g)" "honest (readCall h)"
  by (auto simp: honest_def wp_simps okSince_def split: option.split sum.split prod.split)

lemma honest_modify [honest_intros]: "(\<And>s. calls (f s) = calls s) \<Longrightarrow> honest (modify f)"
  by (simp add: honest_def wp_simps okSince_def)

lemma honestD: "honest m \<Longrightarrow> okSince s t \<Longrightarrow> wp m (\<lambda>_. okSince s) (\<lambda>_ _. True) (\<lambda>_. True) t"
  unfolding honest_def by (auto intro: wp_mono okSince_trans)

lemma honest_bnd [honest_intros]:
  "honest m \<Longrightarrow> (\<And>x. honest (k x)) \<Longrightarrow> honest (bnd m k)"
  unfolding honest_def [of "bnd m k"] by (auto intro!: wp_seqI intro: honestD okSince_same)

text \<open>An error may be swallowed only where no call was made.\<close>

lemma honest_onErr [honest_intros]:
  assumes "emits m (\<lambda>_. False)" and "\<And>e. honest (h e)" and "\<And>x. honest (k x)"
  shows "honest (onErr m h k)"
  unfolding honest_def wp_onErr
  by (auto intro!: wp_mono [OF emits_wp [OF assms(1)]] honestD assms(2,3) okSince_same)

lemma honest_wrapErr [honest_intros]: "honest m \<Longrightarrow> honest (wrapErr t m)"
  by (simp add: honest_def wp_simps)

lemma honest_branch [honest_intros]:
  "(b \<Longrightarrow> honest m) \<Longrightarrow> (\<not> b \<Longrightarrow> honest n) \<Longrightarrow> honest (if b then m else n)"
  "(p = None \<Longrightarrow> honest m) \<Longrightarrow> (\<And>x. p = Some x \<Longrightarrow> honest (k x)) \<Longrightarrow> honest (case p of None \<Rightarrow> m | Some x \<Rightarrow> k x)"
  "(\<And>x y. q = (x, y) \<Longrightarrow> honest (g x y)) \<Longrightarrow> honest (case q of (x, y) \<Rightarrow> g x y)"
  "honest (h v) \<Longrightarrow> honest (Let v h)"
  by (auto split: option.split prod.split)

lemma honest_forEach [honest_intros]: "(\<And>x. x \<in> set xs \<Longrightarrow> honest (f x)) \<Longrightarrow> honest (forEach f xs)"
  by (induction xs) (auto intro!: honest_intros)

lemma honest_api [honest_intros]:
  "honest (apiGet c k)" "honest (apiList c os)" "honest (apiUpdate t mk c x)"
  "honest (apiStatusUpdate t mk c x)" "honest (apiDelete t mk c y)"
  by (auto simp: honest_def api_defs wp_simps okSince_def split: sum.split prod.split)

section \<open>The order of a deletion\<close>

fun deletionRank :: "call \<Rightarrow> nat" where
  "deletionRank (StatusUpdateCall Source (RemoteArbiterObj _) _) = 0"
| "deletionRank (UpdateCall Target _ _) = 1"
| "deletionRank (DeleteCall Target _ _) = 1"
| "deletionRank (UpdateCall Source (RemoteClusterObj _) _) = 2"
| "deletionRank (UpdateCall Source (CephClusterObj _) _) = 3"
| "deletionRank (UpdateCall Source (RemoteArbiterObj _) _) = 4"
| "deletionRank _ = 5"

text \<open>Objects of the source that a deletion updates no longer carry the finalizer.\<close>

fun releasedCall :: "call \<Rightarrow> bool" where
  "releasedCall (UpdateCall Source (RemoteClusterObj rc) _) = (RemoteArbiterFinalizer \<notin> set (om_finalizers (rc_meta rc)))"
| "releasedCall (UpdateCall Source (RemoteArbiterObj ra) _) = (RemoteArbiterFinalizer \<notin> set (om_finalizers (ra_meta ra)))"
| "releasedCall _ = True"

text \<open>Between the steps of a deletion, and when it ends.\<close>

definition cleanedTo :: "nat \<Rightarrow> 'w ral_state \<Rightarrow> bool" where
  "cleanedTo k s \<longleftrightarrow> list_all callOk (calls s) \<and> list_all releasedCall (calls s) \<and>
     sorted (map deletionRank (calls s)) \<and> (\<forall>c\<in>set (calls s). deletionRank c \<le> k)"

definition deletionEnd :: "'w ral_state \<Rightarrow> bool" where
  "deletionEnd s \<longleftrightarrow> (\<forall>c\<in>set (calls s). deletionRank c \<noteq> 4) \<or>
     (\<exists>log c. calls s = log @ [c] \<and> deletionRank c = 4 \<and> releasedCall c \<and> list_all callOk log \<and>
        list_all releasedCall log \<and> sorted (map deletionRank log) \<and> (\<forall>d\<in>set log. deletionRank d < 4))"

lemma cleanedTo_end: "cleanedTo k s \<Longrightarrow> k < 4 \<Longrightarrow> deletionEnd s"
  by (fastforce simp: cleanedTo_def deletionEnd_def)

lemma keeps_quiet: "emits m (\<lambda>_. False) \<Longrightarrow> keeps m (cleanedTo k)"
  unfolding emits_def keeps_def always_iff cleanedTo_def by (metis append_Nil2 list.set_intros(1) neq_Nil_conv)

lemma deletionEnd_last:
  "cleanedTo 3 s \<Longrightarrow> calls t = calls s @ [c] \<Longrightarrow> deletionRank c = 4 \<Longrightarrow> releasedCall c \<Longrightarrow> deletionEnd t"
  by (fastforce simp: cleanedTo_def deletionEnd_def)

lemma reaches_wrapErr: "reaches C A m B \<Longrightarrow> reaches C A (wrapErr e m) B"
  by (simp add: reaches_def wp_simps)

text \<open>A step whose calls all have one rank.\<close>

lemma reaches_step:
  fixes m :: "('w ral_state, 'a) go"
  assumes "honest m" and "emits m (\<lambda>c. deletionRank c = k \<and> releasedCall c)" and "j \<le> k" and "k < 4"
  shows "reaches deletionEnd (cleanedTo j) m (cleanedTo k)"
  unfolding reaches_def
proof (intro allI impI)
  fix s :: "'w ral_state" assume s: "cleanedTo j s"
  have "wp m (\<lambda>_ t. okSince s t \<and>
      (\<exists>new. calls t = calls s @ new \<and> (\<forall>c\<in>set new. deletionRank c = k \<and> releasedCall c)))
      (\<lambda>_ t. True \<and> (\<exists>new. calls t = calls s @ new \<and> (\<forall>c\<in>set new. deletionRank c = k \<and> releasedCall c)))
      (\<lambda>t. True \<and> (\<exists>new. calls t = calls s @ new \<and> (\<forall>c\<in>set new. deletionRank c = k \<and> releasedCall c))) s"
    by (rule wp_conj [OF assms(1) [unfolded honest_def, rule_format] emits_wp [OF assms(2)]])
  then show "wp m (\<lambda>_. cleanedTo k) (\<lambda>_. deletionEnd) deletionEnd s"
  proof (rule wp_mono)
    fix x t
    assume "okSince s t \<and>
      (\<exists>new. calls t = calls s @ new \<and> (\<forall>c\<in>set new. deletionRank c = k \<and> releasedCall c))"
    then obtain new where new: "calls t = calls s @ new" "list_all callOk new"
      "\<forall>c\<in>set new. deletionRank c = k \<and> releasedCall c" by (auto simp: okSince_def)
    moreover have "sorted (map deletionRank new)"
      using new(3) by (induction new) auto
    ultimately show "cleanedTo k t"
      using s assms(3) unfolding cleanedTo_def by (fastforce simp: sorted_append list_all_iff)
  next
    have "deletionEnd t" if "calls t = calls s @ new" "\<forall>c\<in>set new. deletionRank c = k \<and> releasedCall c" for t new
      using s that assms(3,4) unfolding cleanedTo_def deletionEnd_def by fastforce
    then show "deletionEnd t" if "True \<and> (\<exists>new. calls t = calls s @ new \<and> (\<forall>c\<in>set new. deletionRank c = k \<and> releasedCall c))" for t
      using that by blast
    then show "deletionEnd t" if "True \<and> (\<exists>new. calls t = calls s @ new \<and> (\<forall>c\<in>set new. deletionRank c = k \<and> releasedCall c))" for t
      using that by blast
  qed
qed

lemma honest_collect [honest_intros]: "honest (collectObjects E t os ks xs)"
  by (induction ks arbitrary: xs) (auto intro!: honest_intros)

lemma honest_deletion [honest_intros]:
  "honest (updateRemoteArbiterState E st m)" "honest (cleanUpArbiterDeployment E)" "honest (cleanUpCephCluster E)"
  "honest (arClusterUpdate E rc)"
  unfolding updateRemoteArbiterState_def arStatusUpdate_def putArbiter_def cleanUpArbiterDeployment_def deleteObject_def
    cleanUpCephCluster_def arCephUpdate_def arClusterUpdate_def
  by (auto intro!: honest_intros emits_intros)

lemma reaches_with_frame:
  assumes "reaches C A m B" and "keeps m (\<lambda>s. f s = v)"
  shows "reaches C (\<lambda>s. A s \<and> f s = v) m (\<lambda>s. B s \<and> f s = v)"
  unfolding reaches_def
  by (auto intro!: wp_mono [OF wp_conj [OF reaches_wp [OF assms(1)] keeps_wp [OF assms(2)]]])

lemma deletion_frames:
  "keeps (arCleanUpRemoteCluster E) (\<lambda>s. al_arbiter s = v)" "keeps (cleanUpCephCluster E) (\<lambda>s. al_arbiter s = v)"
proof -
  have "keeps (collectObjects E t os ks xs) (\<lambda>s. al_arbiter s = v)" for t os ks xs
    by (induction ks arbitrary: xs) (auto intro!: keeps_intros)
  then show "keeps (arCleanUpRemoteCluster E) (\<lambda>s. al_arbiter s = v)"
    unfolding arCleanUpRemoteCluster_def getRemoteCluster_def getRemoteClusterByOwnerReference_def
      getRemoteClusterByName_def setRemoteCluster_def cleanUpArbiterDeployment_def arMakeRemoteClient_def
      deleteObject_def arClusterUpdate_def
    by (auto intro!: keeps_intros)
  show "keeps (cleanUpCephCluster E) (\<lambda>s. al_arbiter s = v)"
    unfolding cleanUpCephCluster_def fetchCephCluster_def arCephUpdate_def by (auto intro!: keeps_intros)
qed

lemma deletion_emits:
  "emits (updateRemoteArbiterState E st m) (\<lambda>c. deletionRank c = 0 \<and> releasedCall c)"
  "emits (cleanUpArbiterDeployment E) (\<lambda>c. deletionRank c = 1 \<and> releasedCall c)"
  "emits (cleanUpCephCluster E) (\<lambda>c. deletionRank c = 3 \<and> releasedCall c)"
  "RemoteArbiterFinalizer \<notin> set (om_finalizers (rc_meta rc)) \<Longrightarrow>
   emits (arClusterUpdate E rc) (\<lambda>c. deletionRank c = 2 \<and> releasedCall c)"
  unfolding updateRemoteArbiterState_def arStatusUpdate_def putArbiter_def cleanUpArbiterDeployment_def deleteObject_def
    cleanUpCephCluster_def arCephUpdate_def arClusterUpdate_def
  by (auto intro!: emits_intros)

context k8s_laws
begin

lemma arCleanUpRemoteCluster_order:
  assumes "e_lib E = L"
  shows "reaches deletionEnd (cleanedTo 0) (arCleanUpRemoteCluster E) (cleanedTo 2)"
  unfolding arCleanUpRemoteCluster_def
proof (rule reaches_bnd [where B = "cleanedTo 0"], goal_cases)
  case 1
  show ?case by (rule reaches_step) (auto intro!: honest_intros emits_intros)
next
  case (2 ra)
  show ?case
  proof (rule reaches_onErr, goal_cases)
    case 1
    show ?case by (rule keeps_quiet) (auto intro!: emits_intros)
  next
    case (2 s)
    then show ?case by (auto intro: cleanedTo_end)
  next
    case (3 e)
    show ?case by (rule reaches_step) (auto intro!: honest_intros emits_intros)
  next
    case (4 rc)
    obtain fs b where rem: "RemoveFinalizer L (om_finalizers (rc_meta rc)) RemoteArbiterFinalizer = (fs, b)" by fastforce
    note gone = remove_finalizer_gone [OF rem]
    show ?case
      unfolding assms rem Let_def prod.case
      apply (rule reaches_bnd [where B = "cleanedTo 0"])
      subgoal by (rule reaches_step) (auto simp: setRemoteCluster_def intro!: honest_intros emits_intros)
      apply (rule reaches_if)
      subgoal by (rule reaches_step) (auto intro!: honest_intros emits_intros)
      apply (rule reaches_bnd [where B = "cleanedTo 0"])
      subgoal by (rule reaches_step) (auto intro!: honest_intros emits_intros)
      apply (rule reaches_bnd [where B = "cleanedTo 1"])
      subgoal by (rule reaches_step, intro honest_intros, intro emits_wrapErr deletion_emits) simp_all
      subgoal by (rule reaches_step) (auto intro!: honest_intros emits_wrapErr deletion_emits simp: gone)
      done
  qed
qed

lemma cleanUpRemoteArbiter_order:
  assumes "e_lib E = L" and "al_arbiter s = Some ra" and "calls s = []"
  shows "always (cleanUpRemoteArbiter E) deletionEnd s"
proof -
  have "ends (cleanedTo 0) (cleanUpRemoteArbiter E) deletionEnd"
    unfolding cleanUpRemoteArbiter_def
  proof (rule reaches_ends_bnd [where B = "cleanedTo 0"], goal_cases)
    case 1
    show ?case by (rule reaches_step, intro honest_intros, intro emits_wrapErr deletion_emits) simp_all
  next
    case (2 _)
    show ?case
    proof (rule reaches_ends_bnd [where B = "cleanedTo 0"], goal_cases)
      case 1
      show ?case by (rule reaches_step) (auto intro!: honest_intros emits_intros)
    next
      case (2 ra)
      obtain fs b where rem: "RemoveFinalizer L (om_finalizers (ra_meta ra)) RemoteArbiterFinalizer = (fs, b)" by fastforce
      let ?ra = "ra\<lparr>ra_meta := (ra_meta ra)\<lparr>om_finalizers := fs\<rparr>\<rparr>"
      have last: "ends (\<lambda>s. cleanedTo 3 s \<and> al_arbiter s = Some ?ra)
         (bnd theArbiter (\<lambda>ra. wrapErr ''unable to update resource after finalizer removal'' (arUpdate E ra))) deletionEnd"
        using remove_finalizer_gone [OF rem]
        by (auto simp: ends_def always_def arUpdate_def putArbiter_def apiUpdate_def wp_simps
          split: prod.split sum.split intro: deletionEnd_last)
      show ?case
        unfolding assms(1) rem Let_def prod.case
        apply (rule reaches_ends_bnd [where B = "\<lambda>s. cleanedTo 0 s \<and> al_arbiter s = Some ?ra"])
        subgoal by (auto simp: reaches_def putArbiter_def wp_simps cleanedTo_def)
        apply (rule ends_if)
        subgoal by (auto simp: ends_def always_def wp_simps intro: cleanedTo_end)
        apply (rule reaches_ends_bnd [where B = "\<lambda>s. cleanedTo 2 s \<and> al_arbiter s = Some ?ra"])
        subgoal by (intro reaches_with_frame reaches_wrapErr arCleanUpRemoteCluster_order assms(1) keeps_wrapErr deletion_frames)
        apply (rule reaches_ends_bnd [where B = "\<lambda>s. cleanedTo 3 s \<and> al_arbiter s = Some ?ra"])
        subgoal by (intro reaches_with_frame reaches_wrapErr keeps_wrapErr deletion_frames
            reaches_step [OF honest_deletion(3) deletion_emits(3)]) simp_all
        subgoal by (rule last)
        done
    qed
  qed
  with assms(3) show ?thesis by (auto simp: ends_def cleanedTo_def)
qed

end

text \<open>
  C4: When a RemoteArbiter is being deleted, its finalizer is removed by the last call of the run and
  only after every earlier call of the clean-up succeeded: first the state Deleting, then the objects on
  the target cluster, then the remote cluster, which is released, then the Ceph cluster.
\<close>

theorem ar_deletion_order:
  assumes "k8s_laws (e_lib E)" and got: "cl_get (kc_remotearbiters (e_client E)) k w = (Inr ra, w')"
    and del: "om_deletion_timestamp (ra_meta ra) \<noteq> None" and run: "arReconcile E (init_ral k w) = (r, t)"
    and upd: "UpdateCall Source (RemoteArbiterObj ra') b \<in> set (calls t)"
  shows "\<exists>log. calls t = log @ [UpdateCall Source (RemoteArbiterObj ra') b] \<and>
    RemoteArbiterFinalizer \<notin> set (om_finalizers (ra_meta ra')) \<and> list_all callOk log \<and>
    sorted (map deletionRank log) \<and> (\<forall>c\<in>set log. deletionRank c < 4 \<and> releasedCall c)"
proof -
  have "always (arReconcile E) deletionEnd (init_ral k w)"
    using got del k8s_laws.cleanUpRemoteArbiter_order [OF assms(1) refl, of "(init_ral k w)\<lparr>world := w', al_arbiter := Some ra\<rparr>" ra]
    by (auto simp: always_def arReconcile_def fetchArbiter_def putArbiter_def apiGet_def wp_simps init_ral_def)
  then have "deletionEnd t" using run by (simp add: always_iff)
  with upd show ?thesis
    unfolding deletionEnd_def by (fastforce simp: list_all_iff)
qed

fun releasesArbiter :: "call \<Rightarrow> bool" where
  "releasesArbiter (UpdateCall Source (RemoteArbiterObj _) _) = True"
| "releasesArbiter _ = False"

lemma releasesArbiter_iff: "releasesArbiter c \<longleftrightarrow> (\<exists>ra b. c = UpdateCall Source (RemoteArbiterObj ra) b)"
  by (cases c rule: releasesArbiter.cases) auto

theorem ar_deletion_order_witness:
  "\<exists>log ra b. calls (snd (demo_run deleted_arbiter [''ext-a''])) = log @ [UpdateCall Source (RemoteArbiterObj ra) b] \<and>
     RemoteArbiterFinalizer \<notin> set (om_finalizers (ra_meta ra)) \<and> list_all callOk log \<and> sorted (map deletionRank log)"
proof -
  let ?E = "arbiter_env deleted_arbiter [''ext-a'']"
  obtain r t where run: "arReconcile ?E (init_ral (demo_key ''arbiter'') ()) = (r, t)" by fastforce
  have "list_ex releasesArbiter (calls (snd (demo_run deleted_arbiter [''ext-a''])))" by code_simp
  then obtain ra b where "UpdateCall Source (RemoteArbiterObj ra) b \<in> set (calls t)"
    using run by (auto simp: demo_run_def list_ex_iff releasesArbiter_iff)
  moreover have "om_deletion_timestamp (ra_meta deleted_arbiter) \<noteq> None" by (simp add: deleted_arbiter_def)
  ultimately show ?thesis
    using ar_deletion_order [OF arbiter_env_laws arbiter_env_get _ run] run by (fastforce simp: demo_run_def)
qed

section \<open>Where the objects to delete are looked for\<close>

text \<open>
  C33: The objects to delete are listed on the source cluster: if no list there has an item, the
  clean-up makes no call at all, whatever objects the target cluster holds.
\<close>

theorem cleanup_lists_source:
  assumes "\<And>k os w. \<exists>w'. cl_list (kc_unstructured (e_client E) k) os w = (Inr [], w')"
  shows "calls (snd (cleanUpArbiterDeployment E s)) = calls s"
proof -
  have quiet: "wp (collectObjects E ct os ks []) (\<lambda>xs t. xs = [] \<and> calls t = calls s) (\<lambda>_ t. calls t = calls s) (\<lambda>_. False) u"
    if "calls u = calls s" for ct os ks and u :: "'a ral_state"
    using that
  proof (induction ks arbitrary: u)
    case (Cons k ks)
    obtain w' where "cl_list (kc_unstructured (e_client E) k) os (world u) = (Inr [], w')" using assms by blast
    with Cons show ?case by (simp add: wp_simps apiList_def split: sum.split)
  qed (simp add: wp_simps)
  have client: "wp (arMakeRemoteClient E) (\<lambda>_ t. calls t = calls s) (\<lambda>_ t. calls t = calls s) (\<lambda>t. calls t = calls s) s"
    by (rule wp_mono [OF emits_wp [where G = "\<lambda>_. False"]]) (auto intro: emits_intros)
  have "always (cleanUpArbiterDeployment E) (\<lambda>t. calls t = calls s) s"
    unfolding always_def cleanUpArbiterDeployment_def
  proof (rule wp_onErrI [OF client])
    fix u :: "'a ral_state"
    assume u: "calls u = calls s"
    show "wp (bnd (fieldOf al_cluster) (\<lambda>rc. bnd theArbiter (\<lambda>ra. bnd (gets al_cluster_key) (\<lambda>k.
       let clusterText = RemoteClusterTypeName @ '' '' @ key_ptr_text k;
           selectors = [InNamespace (rcs_namespace (rc_spec rc)),
                        MatchingLabels [(RemoteArbiterLookupLabel, om_name (ra_meta ra))]]
       in bnd (collectObjects E clusterText selectors clusterTypes []) (\<lambda>objectsToDelete.
          forEach (deleteObject E clusterText) objectsToDelete)))))
      (\<lambda>_ t. calls t = calls s) (\<lambda>_ t. calls t = calls s) (\<lambda>t. calls t = calls s) u"
      using u unfolding Let_def wp_bnd wp_fieldOf wp_gets
      by (auto split: option.split intro!: wp_mono [OF quiet [OF u]] simp: wp_ret)
  qed (simp add: wp_ret)
  then show ?thesis by (simp add: always_iff)
qed

theorem cleanup_lists_source_witness:
  "cl_list (kc_secrets demo_target) [] () = (Inr [copied_secret], ()) \<and>
   calls (snd (cleanUpArbiterDeployment (arbiter_env deleted_arbiter [''ext-a''])
     ((init_ral (demo_key ''arbiter'') ())\<lparr>al_arbiter := Some deleted_arbiter, al_cluster := Some ready_cluster\<rparr>))) = []"
proof -
  have "cl_list (kc_unstructured (e_client (arbiter_env deleted_arbiter [''ext-a''])) k) os w = (Inr [], w)" for k os w
    by (simp add: arbiter_env_def demo_env_def demo_source_def empty_server_def absent_def)
  then show ?thesis
    using cleanup_lists_source [of "arbiter_env deleted_arbiter [''ext-a'']" "(init_ral (demo_key ''arbiter'') ())\<lparr>al_arbiter :=
      Some deleted_arbiter, al_cluster := Some ready_cluster\<rparr>"]
    by (auto simp: demo_target_def serve_def init_ral_def)
qed

end
