(* ===== verification/Arbiter_Ids.thy ===== *)
theory Arbiter_Ids
  imports Arbiter_Demo
begin

text \<open>
  The identifiers of the external monitors: what \<open>reserveExternalArbiterID\<close> does on any servers, and
  the state machine of a fleet of arbiters that reserve and release identifiers of one Ceph
  cluster, with its invariant, the bound on the size of the fleet and the state that breaks the
  invariant when the Ceph cluster cannot be updated.
\<close>

section \<open>The choice of an identifier\<close>

lemma potentialIDs_simps [simp]:
  "length (potentialIDs p) = 26" "j < 26 \<Longrightarrow> potentialIDs p ! j = p @ [char_of (97 + j)]"
  by (simp_all add: potentialIDs_def del: upt_rec_numeral)

lemma set_potentialIDs: "set (potentialIDs p) = (\<lambda>c. p @ [char_of c]) ` {97..<123::nat}"
  by (simp add: potentialIDs_def del: upt_rec_numeral)

lemma potentialIDs_not_Nil: "i \<in> set (potentialIDs p) \<Longrightarrow> i \<noteq> []"
  by (auto simp: set_potentialIDs)

text \<open>The first free identifier, in the order of the alphabet.\<close>

definition leastFree :: "string \<Rightarrow> string list \<Rightarrow> string \<Rightarrow> bool" where
  "leastFree p ids i \<longleftrightarrow> i \<notin> set ids \<and> (\<exists>j<26::nat. i = p @ [char_of (97 + j)] \<and>
     (\<forall>l<j. p @ [char_of (97 + l)] \<in> set ids))"

lemma find_free:
  "find (\<lambda>i. i \<notin> set ids) (potentialIDs p) = None \<longleftrightarrow> set (potentialIDs p) \<subseteq> set ids"
  "find (\<lambda>i. i \<notin> set ids) (potentialIDs p) = Some i \<Longrightarrow> leastFree p ids i"
  by (auto simp: find_None_iff find_Some_iff leastFree_def)

lemma leastFree_potential: "leastFree p ids i \<Longrightarrow> i \<in> set (potentialIDs p) \<and> i \<notin> set ids"
  by (auto simp: leastFree_def in_set_conv_nth)

lemma pick_cases:
  obtains "m \<noteq> []" "pickExternalID m p ids = m"
  | "m = []" "set (potentialIDs p) \<subseteq> set ids" "pickExternalID m p ids = []"
  | "m = []" "leastFree p ids (pickExternalID m p ids)"
proof (cases "m = []")
  case True
  then show thesis
    using that(2,3) find_free [where p = p and ids = ids]
    by (cases "find (\<lambda>i. i \<notin> set ids) (potentialIDs p)") (auto simp: pickExternalID_def)
qed (use that(1) in \<open>simp add: pickExternalID_def\<close>)

section \<open>Reserving\<close>

definition reserved :: "remote_arbiter \<Rightarrow> string \<Rightarrow> remote_arbiter" where
  "reserved ra i = ra\<lparr>ra_status := (ra_status ra)\<lparr>st_mon_id := i\<rparr>\<rparr>"

definition listed :: "ceph_cluster \<Rightarrow> string \<Rightarrow> ceph_cluster" where
  "listed ceph i = ceph\<lparr>ceph_external_mon_ids := ceph_external_mon_ids ceph @ [i]\<rparr>"

lemma wp_reserve_fresh:
  assumes "al_arbiter s = Some ra" and "al_ceph s = Some ceph"
    and "i = pickExternalID (st_mon_id (ra_status ra)) (ras_mon_id_prefix (ra_spec ra)) (ceph_external_mon_ids ceph)"
    and "i \<noteq> []" and "i \<notin> set (ceph_external_mon_ids ceph)"
  shows "wp (reserveExternalArbiterID E)
     (\<lambda>_ t. calls t = calls s @ [StatusUpdateCall Source (RemoteArbiterObj (reserved ra i)) True,
        UpdateCall Source (CephClusterObj (listed ceph i)) True])
     (\<lambda>_ t. calls t = calls s @ [StatusUpdateCall Source (RemoteArbiterObj (reserved ra i)) False] \<or>
        calls t = calls s @ [StatusUpdateCall Source (RemoteArbiterObj (reserved ra i)) True,
          UpdateCall Source (CephClusterObj (listed ceph i)) False])
     (\<lambda>_. False) s"
  using assms
  by (simp add: reserveExternalArbiterID_def Let_def putArbiter_def arStatusUpdate_def arCephUpdate_def
    api_defs wp_simps reserved_def listed_def split: prod.split sum.split)

lemma reserve_quiet:
  assumes "al_arbiter s = Some ra" and "al_ceph s = Some ceph"
    and "i = pickExternalID (st_mon_id (ra_status ra)) (ras_mon_id_prefix (ra_spec ra)) (ceph_external_mon_ids ceph)"
  shows "i = [] \<Longrightarrow> reserveExternalArbiterID E s = (Err (ErrorText (''ids with prefix ''
      @ ras_mon_id_prefix (ra_spec ra) @ '' and suffixes from a to z are occupied'')), s)"
    and "i \<noteq> [] \<Longrightarrow> i \<in> set (ceph_external_mon_ids ceph) \<Longrightarrow> reserveExternalArbiterID E s = (Val (), s)"
  using assms
  by (simp_all add: reserveExternalArbiterID_def Let_def bnd_def onErr_def fieldOf_def gets_def deref_def
    ret_def fail_def)

text \<open>
  C10: Reserving a monitor identifier has three outcomes. An identifier that the arbiter holds and
  the Ceph cluster lists is kept without a call. If none is held and all twenty-six identifiers of
  the prefix are listed, it fails without a call. Otherwise the identifier held, or else the least
  free one, is written first to the status of the arbiter and, only if that succeeds, appended to the list
  of the Ceph cluster.
\<close>

theorem reserve_outcome:
  assumes "al_arbiter s = Some ra" and "al_ceph s = Some ceph" and "reserveExternalArbiterID E s = (r, t)"
  shows "let ids = ceph_external_mon_ids ceph; m = st_mon_id (ra_status ra); p = ras_mon_id_prefix (ra_spec ra) in
    (m \<noteq> [] \<and> m \<in> set ids \<and> r = Val () \<and> t = s) \<or>
    (m = [] \<and> set (potentialIDs p) \<subseteq> set ids \<and> (\<exists>msg. r = Err (ErrorText msg)) \<and> t = s) \<or>
    (\<exists>i. i \<notin> set ids \<and> (if m = [] then leastFree p ids i else i = m) \<and>
      (calls t = calls s @ [StatusUpdateCall Source (RemoteArbiterObj (reserved ra i)) False] \<and> \<not> isVal r \<or>
       calls t = calls s @ [StatusUpdateCall Source (RemoteArbiterObj (reserved ra i)) True,
          UpdateCall Source (CephClusterObj (listed ceph i)) (isVal r)]))"
proof -
  define i where "i = pickExternalID (st_mon_id (ra_status ra)) (ras_mon_id_prefix (ra_spec ra)) (ceph_external_mon_ids ceph)"
  note quiet = reserve_quiet [OF assms(1,2) i_def, of E]
  have fresh: ?thesis if "i \<notin> set (ceph_external_mon_ids ceph)" "i \<noteq> []"
    "if st_mon_id (ra_status ra) = [] then leastFree (ras_mon_id_prefix (ra_spec ra)) (ceph_external_mon_ids ceph) i
     else i = st_mon_id (ra_status ra)"
    using wp_reserve_fresh [OF assms(1,2) i_def that(2,1), of E] that assms(3)
    by (cases r) (auto simp: wp_def Let_def)
  show ?thesis
  proof (cases rule: pick_cases [of "st_mon_id (ra_status ra)" "ras_mon_id_prefix (ra_spec ra)" "ceph_external_mon_ids ceph"])
    case 1
    then show ?thesis using quiet(2) fresh assms(3) by (cases "i \<in> set (ceph_external_mon_ids ceph)") (auto simp: i_def)
  next
    case 2
    then show ?thesis using quiet(1) assms(3) by (auto simp: i_def)
  next
    case 3
    then have "leastFree (ras_mon_id_prefix (ra_spec ra)) (ceph_external_mon_ids ceph) i" by (simp add: i_def)
    with leastFree_potential [OF this] 3(1) show ?thesis by (intro fresh) (auto dest: potentialIDs_not_Nil)
  qed
qed

theorem reserve_outcome_witness:
  "\<exists>i t. reserveExternalArbiterID (arbiter_env live_arbiter [])
      ((init_ral (demo_key ''arbiter'') ())\<lparr>al_arbiter := Some live_arbiter, al_ceph := Some (demo_ceph [''ext-a''])\<rparr>) = (Val (), t) \<and>
    leastFree ''ext-'' [''ext-a''] i \<and>
    calls t = [StatusUpdateCall Source (RemoteArbiterObj (reserved live_arbiter i)) True,
       UpdateCall Source (CephClusterObj (listed (demo_ceph [''ext-a'']) i)) True]"
proof -
  let ?s = "(init_ral (demo_key ''arbiter'') ())\<lparr>al_arbiter := Some live_arbiter, al_ceph := Some (demo_ceph [''ext-a''])\<rparr>"
  obtain r t where run: "reserveExternalArbiterID (arbiter_env live_arbiter []) ?s = (r, t)" by fastforce
  have "''ext-b'' \<in> set (potentialIDs ''ext-'')" by code_simp
  then have free: "\<not> set (potentialIDs ''ext-'') \<subseteq> set [''ext-a'']" by auto
  have "isVal (fst (reserveExternalArbiterID (arbiter_env live_arbiter []) ?s))" by code_simp
  with run have "r = Val ()" by (cases r) auto
  moreover have "st_mon_id (ra_status live_arbiter) = []" "ras_mon_id_prefix (ra_spec live_arbiter) = ''ext-''"
    "ceph_external_mon_ids (demo_ceph [''ext-a'']) = [''ext-a'']" "calls ?s = []"
    by (simp_all add: live_arbiter_def demo_arbiter_def demo_ceph_def init_ral_def)
  ultimately show ?thesis using reserve_outcome [OF _ _ run, of live_arbiter "demo_ceph [''ext-a'']"] free run
    by (auto simp: Let_def)
qed

section \<open>A fleet of arbiters on one Ceph cluster\<close>

text \<open>
  The servers as far as identifiers go: the list of the Ceph cluster and the identifier in the
  status of every arbiter. \<open>fleet_env p conflict\<close> serves them; a conflict makes the update of the Ceph
  cluster fail, as a concurrent change by Rook does. The prefix of an arbiter is given by \<open>p\<close>.
\<close>

record fleet =
  fl_ids :: "string list"
  fl_mon :: "string \<Rightarrow> string"

definition fleetArbiter :: "(string \<Rightarrow> string) \<Rightarrow> fleet \<Rightarrow> string \<Rightarrow> remote_arbiter" where
  "fleetArbiter p w n = live_arbiter\<lparr>ra_meta := demo_meta n,
     ra_spec := (ra_spec live_arbiter)\<lparr>ras_mon_id_prefix := p n\<rparr>,
     ra_status := (ra_status live_arbiter)\<lparr>st_mon_id := fl_mon w n\<rparr>\<rparr>"

definition fleet_env :: "(string \<Rightarrow> string) \<Rightarrow> bool \<Rightarrow> fleet env" where
  "fleet_env p conflict = demo_env granting (empty_server\<lparr>
     kc_remotearbiters := absent\<lparr>cl_get := (\<lambda>k w. (Inr (fleetArbiter p w (k_name k)), w)),
       cl_status_update := (\<lambda>ra w. (Inr ra, w\<lparr>fl_mon := (fl_mon w)(om_name (ra_meta ra) := st_mon_id (ra_status ra))\<rparr>))\<rparr>,
     kc_cephclusters := absent\<lparr>cl_get := (\<lambda>k w. (Inr (demo_ceph (fl_ids w)), w)),
       cl_update := (\<lambda>c w. if conflict then (Inl (APIError OtherReason ''conflict''), w)
          else (Inr c, w\<lparr>fl_ids := ceph_external_mon_ids c\<rparr>))\<rparr>\<rparr>) empty_server"

text \<open>The part of a reconciliation that concerns the identifier, and that of a deletion.\<close>

definition reserveRun :: "(string \<Rightarrow> string) \<Rightarrow> bool \<Rightarrow> string \<Rightarrow> fleet \<Rightarrow> unit res \<times> fleet ral_state" where
  "reserveRun p conflict n w =
     bnd (fetchArbiter (fleet_env p conflict)) (\<lambda>_.
     bnd (fetchCephCluster (fleet_env p conflict)) (\<lambda>_.
     reserveExternalArbiterID (fleet_env p conflict))) (init_ral (demo_key n) w)"

definition releaseRun :: "(string \<Rightarrow> string) \<Rightarrow> bool \<Rightarrow> string \<Rightarrow> fleet \<Rightarrow> unit res \<times> fleet ral_state" where
  "releaseRun p conflict n w =
     bnd (fetchArbiter (fleet_env p conflict)) (\<lambda>_.
     cleanUpCephCluster (fleet_env p conflict)) (init_ral (demo_key n) w)"

text \<open>
  Reachable states, from any list of the Ceph cluster and no arbiter with an identifier. An
  arbiter whose clean-up succeeded is gone. \<open>c\<close> says whether conflicts may occur.
\<close>

inductive fleet_reach :: "(string \<Rightarrow> string) \<Rightarrow> bool \<Rightarrow> fleet \<Rightarrow> bool" for p c where
  init: "fleet_reach p c \<lparr>fl_ids = ids, fl_mon = (\<lambda>_. [])\<rparr>"
| reserve: "fleet_reach p c w \<Longrightarrow> conflict \<longrightarrow> c \<Longrightarrow> fleet_reach p c (world (snd (reserveRun p conflict n w)))"
| release: "fleet_reach p c w \<Longrightarrow> conflict \<longrightarrow> c \<Longrightarrow> releaseRun p conflict n w = (Val (), t) \<Longrightarrow>
    fleet_reach p c ((world t)\<lparr>fl_mon := (fl_mon (world t))(n := [])\<rparr>)"

text \<open>What the two runs do to the fleet.\<close>

definition fleetPick :: "(string \<Rightarrow> string) \<Rightarrow> string \<Rightarrow> fleet \<Rightarrow> string" where
  "fleetPick p n w = pickExternalID (fl_mon w n) (p n) (fl_ids w)"

lemma fleet_env_simps [simp]:
  "e_lib (fleet_env p conflict) = ref_lib"
  "cl_get (kc_remotearbiters (e_client (fleet_env p conflict))) k w = (Inr (fleetArbiter p w (k_name k)), w)"
  "cl_get (kc_cephclusters (e_client (fleet_env p conflict))) k w = (Inr (demo_ceph (fl_ids w)), w)"
  "cl_status_update (kc_remotearbiters (e_client (fleet_env p conflict))) ra w =
     (Inr ra, w\<lparr>fl_mon := (fl_mon w)(om_name (ra_meta ra) := st_mon_id (ra_status ra))\<rparr>)"
  "cl_update (kc_cephclusters (e_client (fleet_env p conflict))) ceph w =
     (if conflict then (Inl (APIError OtherReason ''conflict''), w) else (Inr ceph, w\<lparr>fl_ids := ceph_external_mon_ids ceph\<rparr>))"
  by (simp_all add: fleet_env_def demo_env_def)

lemma fleetArbiter_simps [simp]:
  "st_mon_id (ra_status (fleetArbiter p w n)) = fl_mon w n" "om_name (ra_meta (fleetArbiter p w n)) = n"
  "ras_mon_id_prefix (ra_spec (fleetArbiter p w n)) = p n"
  by (simp_all add: fleetArbiter_def demo_meta_def)

lemma reserveRun_world:
  "world (snd (reserveRun p conflict n w)) =
     (if fleetPick p n w = [] \<or> fleetPick p n w \<in> set (fl_ids w) then w
      else w\<lparr>fl_mon := (fl_mon w)(n := fleetPick p n w),
             fl_ids := (if conflict then fl_ids w else fl_ids w @ [fleetPick p n w])\<rparr>)"
  unfolding reserveRun_def
  by (rule always_iff [THEN iffD1])
    (simp add: always_def fetchArbiter_def fetchCephCluster_def reserveExternalArbiterID_def Let_def putArbiter_def
      arStatusUpdate_def arCephUpdate_def api_defs wp_simps fleetPick_def init_ral_def demo_key_def demo_ceph_def)

lemma reserveRun_quiet:
  assumes "fl_mon w n \<noteq> []" and "fl_mon w n \<in> set (fl_ids w)"
  shows "\<exists>s. reserveRun p conflict n w = (Val (), s) \<and> calls s = []"
proof -
  have "wp (bnd (fetchArbiter (fleet_env p conflict)) (\<lambda>_. bnd (fetchCephCluster (fleet_env p conflict)) (\<lambda>_.
     reserveExternalArbiterID (fleet_env p conflict)))) (\<lambda>_ t. calls t = []) (\<lambda>_ _. False) (\<lambda>_. False) (init_ral (demo_key n) w)"
    using assms by (simp add: fetchArbiter_def fetchCephCluster_def reserveExternalArbiterID_def Let_def putArbiter_def
      api_defs wp_simps init_ral_def demo_key_def demo_ceph_def pickExternalID_def)
  then show ?thesis unfolding reserveRun_def by (auto simp: wp_def split: prod.splits res.splits)
qed

lemma releaseRun_world:
  assumes "releaseRun p conflict n w = (Val (), t)"
  shows "world t = w\<lparr>fl_ids := (if fl_mon w n = [] then fl_ids w else remove1 (fl_mon w n) (fl_ids w))\<rparr>"
proof -
  have "wp (bnd (fetchArbiter (fleet_env p conflict)) (\<lambda>_. cleanUpCephCluster (fleet_env p conflict)))
     (\<lambda>_ t. world t = w\<lparr>fl_ids := (if fl_mon w n = [] then fl_ids w else remove1 (fl_mon w n) (fl_ids w))\<rparr>)
     (\<lambda>_ _. True) (\<lambda>_. True) (init_ral (demo_key n) w)"
    using slicesIndex_None [of "fl_ids w" "fl_mon w n"] slicesDelete_Index [of "fl_ids w" "fl_mon w n"]
    by (auto simp: fetchArbiter_def fetchCephCluster_def cleanUpCephCluster_def Let_def putArbiter_def
      arCephUpdate_def api_defs wp_simps init_ral_def demo_key_def demo_ceph_def remove1_idem split: option.split)
  with assms show ?thesis unfolding releaseRun_def by (auto dest: wp_ValD)
qed

lemma releaseRun_ok: "\<exists>t. releaseRun p False n w = (Val (), t)"
proof -
  have "wp (bnd (fetchArbiter (fleet_env p False)) (\<lambda>_. cleanUpCephCluster (fleet_env p False)))
     (\<lambda>_ _. True) (\<lambda>_ _. False) (\<lambda>_. False) (init_ral (demo_key n) w)"
    by (auto simp: fetchArbiter_def fetchCephCluster_def cleanUpCephCluster_def Let_def putArbiter_def
      arCephUpdate_def api_defs wp_simps init_ral_def split: option.split)
  then show ?thesis
    unfolding releaseRun_def by (cases "bnd (fetchArbiter (fleet_env p False))
      (\<lambda>_. cleanUpCephCluster (fleet_env p False)) (init_ral (demo_key n) w)") (auto dest: wp_must_return)
qed

text \<open>
  The invariant without conflicts: an identifier in use belongs to its arbiter's prefix, is listed
  by the Ceph cluster, and no two arbiters use the same.
\<close>

definition fleetInv :: "(string \<Rightarrow> string) \<Rightarrow> fleet \<Rightarrow> bool" where
  "fleetInv p w \<longleftrightarrow>
     (\<forall>n. fl_mon w n \<noteq> [] \<longrightarrow> fl_mon w n \<in> set (fl_ids w) \<and> fl_mon w n \<in> set (potentialIDs (p n))) \<and>
     (\<forall>n m. fl_mon w n \<noteq> [] \<longrightarrow> fl_mon w n = fl_mon w m \<longrightarrow> n = m)"

lemma fleetInv_reserve:
  assumes "fleetInv p w"
  shows "fleetInv p (world (snd (reserveRun p False n w)))"
proof (cases "fleetPick p n w = [] \<or> fleetPick p n w \<in> set (fl_ids w)")
  case False
  have new: "fl_mon w n = []" "fleetPick p n w \<in> set (potentialIDs (p n))"
    using False assms pick_cases [of "fl_mon w n" "p n" "fl_ids w"] leastFree_potential
    unfolding fleetPick_def fleetInv_def by metis+
  with False assms show ?thesis by (auto simp: reserveRun_world fleetInv_def)
qed (use assms in \<open>simp add: reserveRun_world\<close>)

lemma fleetInv_release:
  assumes inv: "fleetInv p w" and "releaseRun p conflict n w = (Val (), t)"
  shows "fleetInv p ((world t)\<lparr>fl_mon := (fl_mon (world t))(n := [])\<rparr>)"
proof -
  have "fl_mon w m \<in> set (remove1 (fl_mon w n) (fl_ids w))" if "fl_mon w m \<noteq> []" "m \<noteq> n" for m
    using inv that unfolding fleetInv_def by (metis in_set_remove1)
  moreover have "fl_mon w m \<in> set (potentialIDs (p m))" "fl_mon w m = fl_mon w l \<Longrightarrow> m = l" if "fl_mon w m \<noteq> []" for m l
    using inv that unfolding fleetInv_def by blast+
  moreover have "fl_mon w m \<in> set (fl_ids w)" if "fl_mon w m \<noteq> []" for m
    using inv that unfolding fleetInv_def by blast
  ultimately show ?thesis
    unfolding fleetInv_def releaseRun_world [OF assms(2)] by simp
qed

lemma fleet_reach_inv: "fleet_reach p False w \<Longrightarrow> fleetInv p w"
proof (induction rule: fleet_reach.induct)
  case (init ids)
  then show ?case by (simp add: fleetInv_def)
next
  case (reserve w conflict n)
  then show ?case using fleetInv_reserve by simp
next
  case (release w conflict n t)
  then show ?case using fleetInv_release by blast
qed

text \<open>
  C5: As long as the updates of the Ceph cluster do not fail, whatever arbiters come and go, every
  identifier in use is listed by the Ceph cluster and used by one arbiter only, and at most twenty-six
  arbiters of a prefix have one.
\<close>

theorem fleet_ids_unique:
  assumes "fleet_reach p False w"
  shows "(\<forall>n. fl_mon w n \<noteq> [] \<longrightarrow> fl_mon w n \<in> set (fl_ids w)) \<and>
    (\<forall>n m. fl_mon w n \<noteq> [] \<longrightarrow> fl_mon w n = fl_mon w m \<longrightarrow> n = m) \<and>
    finite {n. p n = q \<and> fl_mon w n \<noteq> []} \<and> card {n. p n = q \<and> fl_mon w n \<noteq> []} \<le> 26"
proof -
  note inv = fleet_reach_inv [OF assms, unfolded fleetInv_def]
  let ?N = "{n. p n = q \<and> fl_mon w n \<noteq> []}"
  have inj: "inj_on (fl_mon w) ?N" using inv by (auto simp: inj_on_def)
  have sub: "fl_mon w ` ?N \<subseteq> set (potentialIDs q)" using inv by auto
  have "card ?N = card (fl_mon w ` ?N)" by (rule card_image [OF inj, symmetric])
  also have "\<dots> \<le> card (set (potentialIDs q))" by (rule card_mono [OF _ sub]) simp
  also have "\<dots> \<le> 26" using card_length [of "potentialIDs q"] by simp
  finally show ?thesis
    using inv finite_imageD [OF finite_subset [OF sub] inj] by simp
qed

text \<open>Two arbiters that reserve one after the other.\<close>

definition fleet0 :: fleet where
  "fleet0 = \<lparr>fl_ids = [], fl_mon = (\<lambda>_. [])\<rparr>"

lemma fleetPick_two:
  "fleetPick (\<lambda>_. ''ext-'') ''one'' fleet0 = ''ext-a''"
  "fleetPick (\<lambda>_. ''ext-'') ''two'' \<lparr>fl_ids = [''ext-a''], fl_mon = (\<lambda>_. [])(''one'' := ''ext-a'')\<rparr> = ''ext-b''"
  "fleetPick (\<lambda>_. ''ext-'') ''two'' \<lparr>fl_ids = [], fl_mon = (\<lambda>_. [])(''one'' := ''ext-a'')\<rparr> = ''ext-a''"
  by code_simp+

lemma fleet0_reserve:
  "world (snd (reserveRun (\<lambda>_. ''ext-'') conflict ''one'' fleet0)) =
     \<lparr>fl_ids = (if conflict then [] else [''ext-a'']), fl_mon = (\<lambda>_. [])(''one'' := ''ext-a'')\<rparr>"
  by (simp add: reserveRun_world fleetPick_two) (simp add: fleet0_def)

theorem fleet_ids_unique_witness:
  "\<exists>w. fleet_reach (\<lambda>_. ''ext-'') False w \<and> fl_mon w ''one'' = ''ext-a'' \<and> fl_mon w ''two'' = ''ext-b'' \<and>
     card {n. fl_mon w n \<noteq> []} \<le> 26"
proof -
  let ?p = "\<lambda>_. ''ext-''"
  let ?w = "world (snd (reserveRun ?p False ''two'' (world (snd (reserveRun ?p False ''one'' fleet0)))))"
  have reach: "fleet_reach ?p False ?w" unfolding fleet0_def by (intro fleet_reach.intros) auto
  have "fl_mon ?w ''one'' = ''ext-a''" "fl_mon ?w ''two'' = ''ext-b''"
    unfolding fleet0_reserve if_False by (simp_all add: reserveRun_world fleetPick_two)
  with reach show ?thesis using fleet_ids_unique [OF reach, of "''ext-''"] by auto
qed


text \<open>
  C23: Cleaning up after a reservation restores the list of the Ceph cluster: the identifier that was
  appended for an arbiter, and nothing else, is removed.
\<close>

theorem reserve_release_roundtrip:
  assumes "fl_mon w n = []" and "w' = world (snd (reserveRun p False n w))"
  shows "\<exists>t. releaseRun p False n w' = (Val (), t) \<and> fl_ids (world t) = fl_ids w \<and>
    fl_ids w' = (if fl_mon w' n = [] then fl_ids w else fl_ids w @ [fl_mon w' n])"
proof -
  obtain t where "releaseRun p False n w' = (Val (), t)" using releaseRun_ok by blast
  moreover have "fl_ids w' = (if fl_mon w' n = [] then fl_ids w else fl_ids w @ [fl_mon w' n])"
    "fl_mon w' n \<noteq> [] \<Longrightarrow> fl_mon w' n \<notin> set (fl_ids w)"
    using assms by (auto simp: reserveRun_world)
  ultimately show ?thesis using assms(1) by (auto simp: releaseRun_world remove1_append)
qed

theorem reserve_release_roundtrip_witness:
  "\<exists>t. releaseRun (\<lambda>_. ''ext-'') False ''one'' \<lparr>fl_ids = [''ext-b'', ''ext-a''], fl_mon = (\<lambda>_. [])(''one'' := ''ext-a'')\<rparr> = (Val (), t) \<and>
     fl_ids (world t) = [''ext-b'']"
proof -
  let ?w = "\<lparr>fl_ids = [''ext-b''], fl_mon = (\<lambda>_. [])\<rparr>"
  have "fleetPick (\<lambda>_. ''ext-'') ''one'' ?w = ''ext-a''" by code_simp
  then have "\<lparr>fl_ids = [''ext-b'', ''ext-a''], fl_mon = (\<lambda>_. [])(''one'' := ''ext-a'')\<rparr> =
      world (snd (reserveRun (\<lambda>_. ''ext-'') False ''one'' ?w))" by (simp add: reserveRun_world)
  from reserve_release_roundtrip [OF _ this] show ?thesis by simp
qed

end
