(* ===== verification/Arbiter_Mirror.thy ===== *)
theory Arbiter_Mirror
  imports Arbiter_Demo
begin

text \<open>
  The copies of the monitor's secrets and config map on the target cluster. The three copies share one
  contract, the locale \<open>mirror\<close>: a check sends the copy again exactly when its version label is
  behind its original. It is interpreted for the keyring secret, the secret of the environment and the
  override config map, and the check of a whole arbiter follows from the three interpretations.
\<close>

section \<open>Mirrored objects\<close>

text \<open>The labels of a copy with the version of its original; what a stored copy is compared by.\<close>

definition stampedMeta :: "object_meta \<Rightarrow> object_meta \<Rightarrow> object_meta" where
  "stampedMeta orig m = m\<lparr>om_labels := map_option (\<lambda>f. f(RemoteArbiterResourceVersionLabel \<mapsto>
     om_resource_version orig)) (om_labels m)\<rparr>"

lemma lastApplied_stamped:
  "om_labels m \<noteq> None \<Longrightarrow> lastAppliedVersion (stampedMeta orig m) = om_resource_version orig"
  by (auto simp: lastAppliedVersion_def stampedMeta_def map_get_def map_lookup_def)

lemma lastApplied_labels: "om_labels m = om_labels m' \<Longrightarrow> lastAppliedVersion m = lastAppliedVersion m'"
  by (simp add: lastAppliedVersion_def)

definition staleCopy :: "('o \<Rightarrow> object_meta) \<Rightarrow> 'o \<times> 'o \<Rightarrow> bool" where
  "staleCopy meta p \<longleftrightarrow> lastAppliedVersion (meta (fst p)) \<noteq> om_resource_version (meta (snd p))"

definition refreshedCopy :: "('o \<Rightarrow> object_meta) \<Rightarrow> ('o \<Rightarrow> 'd) \<Rightarrow> 'o \<times> 'o \<Rightarrow> 'o \<Rightarrow> bool" where
  "refreshedCopy meta payload p z \<longleftrightarrow> lastAppliedVersion (meta z) = om_resource_version (meta (snd p)) \<and>
     (if staleCopy meta p then payload z = payload (snd p) else z = fst p)"

definition afterCheck :: "bool \<Rightarrow> call \<Rightarrow> 'w \<Rightarrow> 'w ral_state \<Rightarrow> 'w ral_state" where
  "afterCheck b u w s = s\<lparr>world := w, calls := calls s @ (if b then [u] else []),
     al_outdated := al_outdated s \<or> b, al_should_restart := al_should_restart s \<or> b\<rparr>"

lemma afterCheck_simps [simp]:
  "calls (afterCheck b u w s) = calls s @ (if b then [u] else [])"
  "al_should_restart (afterCheck b u w s) \<longleftrightarrow> al_should_restart s \<or> b"
  "al_client (afterCheck b u w s) = al_client s" "al_arbiter (afterCheck b u w s) = al_arbiter s"
  "al_keyring (afterCheck b u w s) = al_keyring s" "al_mon_keyring (afterCheck b u w s) = al_mon_keyring s"
  "al_envvar (afterCheck b u w s) = al_envvar s" "al_mon_envvar (afterCheck b u w s) = al_mon_envvar s"
  "al_override (afterCheck b u w s) = al_override s" "al_mon_override (afterCheck b u w s) = al_mon_override s"
  "al_deployment (afterCheck b u w s) = al_deployment s" "al_monitor (afterCheck b u w s) = al_monitor s"
  "al_service (afterCheck b u w s) = al_service s" "afterCheck False u (world s) s = s"
  by (simp_all add: afterCheck_def)

text \<open>
  A copy on the target cluster of an object of the source: \<open>check\<close> compares the version label of the
  copy with the version of the original, and if they differ sends \<open>refresh\<close> of the two to the target and
  asks for a restart.
\<close>

locale mirror =
  fixes check :: "('w ral_state, unit) go"
    and copy orig :: "'w ral_state \<Rightarrow> 'o option" and setCopy :: "'o \<Rightarrow> 'w ral_state \<Rightarrow> 'w ral_state"
    and meta :: "'o \<Rightarrow> object_meta" and payload :: "'o \<Rightarrow> 'd" and refresh :: "'o \<Rightarrow> 'o \<Rightarrow> 'o"
    and kc :: "'w kube_client \<Rightarrow> ('o, 'w) kind_client" and obj :: "'o \<Rightarrow> object"
  assumes quiet: "copy s = Some x \<Longrightarrow> orig s = Some y \<Longrightarrow>
      lastAppliedVersion (meta x) = om_resource_version (meta y) \<Longrightarrow> check s = (Val (), s)"
    and repair: "copy s = Some x \<Longrightarrow> orig s = Some y \<Longrightarrow> om_labels (meta x) \<noteq> None \<Longrightarrow> al_client s = Some c \<Longrightarrow>
      lastAppliedVersion (meta x) \<noteq> om_resource_version (meta y) \<Longrightarrow>
      cl_update (kc c) (refresh y x) (world s) = (Inr z, w) \<Longrightarrow>
      check s = (Val (), afterCheck True (UpdateCall Target (obj (refresh y x)) True) w (setCopy z s))"
    and set_same: "copy s = Some x \<Longrightarrow> setCopy x s = s"
    and meta_refresh: "meta (refresh y x) = stampedMeta (meta y) (meta x)"
    and payload_refresh: "payload (refresh y x) = payload y"
begin

lemma check_run:
  assumes s: "copy s = Some x" "orig s = Some y" "om_labels (meta x) \<noteq> None" "al_client s = Some c"
    and st: "stores (cl_update (kc c)) (\<lambda>x. (om_labels (meta x), payload x))"
  shows "\<exists>z w. check s = (Val (), afterCheck (staleCopy meta (x, y))
      (UpdateCall Target (obj (refresh y x)) True) w (setCopy z s)) \<and> refreshedCopy meta payload (x, y) z"
proof (cases "lastAppliedVersion (meta x) = om_resource_version (meta y)")
  case True
  with quiet [OF s(1,2)] set_same [OF s(1)] show ?thesis
    by (intro exI [of _ x] exI [of _ "world s"]) (simp add: staleCopy_def refreshedCopy_def)
next
  case False
  obtain z w where z: "cl_update (kc c) (refresh y x) (world s) = (Inr z, w)"
      "om_labels (meta z) = om_labels (stampedMeta (meta y) (meta x))" "payload z = payload y"
    using st unfolding stores_def by (metis meta_refresh payload_refresh Pair_inject)
  have "lastAppliedVersion (meta z) = om_resource_version (meta y)"
    using lastApplied_labels [OF z(2)] lastApplied_stamped [OF s(3)] by simp
  with repair [OF s False z(1)] False z(3) show ?thesis by (auto simp: staleCopy_def refreshedCopy_def)
qed

end

definition refreshSecret :: "secret \<Rightarrow> secret \<Rightarrow> secret" where
  "refreshSecret mon x = x\<lparr>sec_meta := stampedMeta (sec_meta mon) (sec_meta x), sec_data := sec_data mon\<rparr>"

definition refreshConfigMap :: "configmap \<Rightarrow> configmap \<Rightarrow> configmap" where
  "refreshConfigMap mon x = x\<lparr>cm_meta := stampedMeta (cm_meta mon) (cm_meta x), cm_data := cm_data mon\<rparr>"

lemmas check_defs = bnd_def onErr_def wrapErr_def fieldOf_def gets_def deref_def ret_def fail_def modify_def
  stampVersion_def map_put_def Let_def apiUpdate_def loggedCall_def lift_def markOutdated_def stampedMeta_def afterCheck_def

interpretation keyring: mirror "checkKeyring E" al_keyring al_mon_keyring
  "\<lambda>x s. s\<lparr>al_keyring := Some x\<rparr>" sec_meta sec_data refreshSecret kc_secrets SecretObj for E
  by unfold_locales (auto simp: checkKeyring_def updateArbiterKeyringSecret_def check_defs refreshSecret_def)

interpretation envvar: mirror "checkEnvVar E" al_envvar al_mon_envvar
  "\<lambda>x s. s\<lparr>al_envvar := Some x\<rparr>" sec_meta sec_data refreshSecret kc_secrets SecretObj for E
  by unfold_locales (auto simp: checkEnvVar_def updateArbiterEnvVarSecret_def check_defs refreshSecret_def)

interpretation override: mirror "checkOverride E" al_override al_mon_override
  "\<lambda>x s. s\<lparr>al_override := Some x\<rparr>" cm_meta cm_data refreshConfigMap kc_configmaps ConfigMapObj for E
  by unfold_locales (auto simp: checkOverride_def updateArbiterOverrideConfigMap_def check_defs refreshConfigMap_def)

section \<open>The check of a whole arbiter\<close>

text \<open>What a check finds in the state: three copies with their originals, and a current deployment.\<close>

record found =
  fo_keyring :: "secret \<times> secret"
  fo_envvar :: "secret \<times> secret"
  fo_override :: "configmap \<times> configmap"

definition finds :: "found \<Rightarrow> 'w kube_client \<Rightarrow> 'w ral_state \<Rightarrow> bool" where
  "finds f c s \<longleftrightarrow> al_client s = Some c \<and>
     (al_keyring s, al_mon_keyring s) = map_prod Some Some (fo_keyring f) \<and>
     (al_envvar s, al_mon_envvar s) = map_prod Some Some (fo_envvar f) \<and>
     (al_override s, al_mon_override s) = map_prod Some Some (fo_override f)"

definition labelled :: "found \<Rightarrow> bool" where
  "labelled f \<longleftrightarrow> om_labels (sec_meta (fst (fo_keyring f))) \<noteq> None \<and>
     om_labels (sec_meta (fst (fo_envvar f))) \<noteq> None \<and> om_labels (cm_meta (fst (fo_override f))) \<noteq> None"

definition refreshCalls :: "found \<Rightarrow> call list" where
  "refreshCalls f =
     (if staleCopy sec_meta (fo_keyring f)
      then [UpdateCall Target (SecretObj (refreshSecret (snd (fo_keyring f)) (fst (fo_keyring f)))) True] else []) @
     (if staleCopy sec_meta (fo_envvar f)
      then [UpdateCall Target (SecretObj (refreshSecret (snd (fo_envvar f)) (fst (fo_envvar f)))) True] else []) @
     (if staleCopy cm_meta (fo_override f)
      then [UpdateCall Target (ConfigMapObj (refreshConfigMap (snd (fo_override f)) (fst (fo_override f)))) True] else [])"

definition currentDeployment :: "'w ral_state \<Rightarrow> bool" where
  "currentDeployment s \<longleftrightarrow> (\<exists>dep mon ra. al_deployment s = Some dep \<and> al_monitor s = Some mon \<and> al_arbiter s = Some ra \<and>
     lastAppliedVersion (dep_meta dep) = om_resource_version (dep_meta mon) \<and>
     desiredPublicAddress (al_service s) (ras_service (ra_spec ra)) (deploymentPublicAddress dep) =
       Val (deploymentPublicAddress dep))"

lemma currentDeployment_quiet:
  assumes "currentDeployment s"
  shows "checkDeploymentVersion E s = (Val (), s)" "checkPublicAddress E s = (Val (), s)"
  using assms by (auto simp: currentDeployment_def checkDeploymentVersion_def checkPublicAddress_def liftRes_def check_defs)

definition storesCopies :: "'w kube_client \<Rightarrow> bool" where
  "storesCopies c \<longleftrightarrow> stores (cl_update (kc_secrets c)) (\<lambda>x. (om_labels (sec_meta x), sec_data x)) \<and>
     stores (cl_update (kc_configmaps c)) (\<lambda>x. (om_labels (cm_meta x), cm_data x))"

lemma copies_run:
  assumes f: "finds f c s" and l: "labelled f" and st: "storesCopies c" and dep: "currentDeployment s"
  shows "\<exists>t k e ov. checkArbiterDeploymentUpToDate E s = (Val (), t) \<and> calls t = calls s @ refreshCalls f \<and>
    (al_should_restart t \<longleftrightarrow> al_should_restart s \<or> refreshCalls f \<noteq> []) \<and>
    finds \<lparr>fo_keyring = (k, snd (fo_keyring f)), fo_envvar = (e, snd (fo_envvar f)), fo_override = (ov, snd (fo_override f))\<rparr> c t \<and>
    refreshedCopy sec_meta sec_data (fo_keyring f) k \<and> refreshedCopy sec_meta sec_data (fo_envvar f) e \<and>
    refreshedCopy cm_meta cm_data (fo_override f) ov \<and> currentDeployment t"
proof -
  obtain k0 mk e0 me o0 mo where fo: "fo_keyring f = (k0, mk)" "fo_envvar f = (e0, me)" "fo_override f = (o0, mo)"
    by (metis surj_pair)
  note fs = f [unfolded finds_def fo, simplified] and ls = l [unfolded labelled_def fo, simplified]
    and ss = st [unfolded storesCopies_def]
  obtain k w1 where k: "checkKeyring E s = (Val (), afterCheck (staleCopy sec_meta (k0, mk))
      (UpdateCall Target (SecretObj (refreshSecret mk k0)) True) w1 (s\<lparr>al_keyring := Some k\<rparr>))" (is "_ = (_, ?s1)")
      "refreshedCopy sec_meta sec_data (k0, mk) k"
    using keyring.check_run [of s k0 mk c E] fs ls ss by auto
  obtain e w2 where e: "checkEnvVar E ?s1 = (Val (), afterCheck (staleCopy sec_meta (e0, me))
      (UpdateCall Target (SecretObj (refreshSecret me e0)) True) w2 (?s1\<lparr>al_envvar := Some e\<rparr>))" (is "_ = (_, ?s2)")
      "refreshedCopy sec_meta sec_data (e0, me) e"
    using envvar.check_run [of ?s1 e0 me c E] fs ls ss by auto
  obtain ov w3 where ov: "checkOverride E ?s2 = (Val (), afterCheck (staleCopy cm_meta (o0, mo))
      (UpdateCall Target (ConfigMapObj (refreshConfigMap mo o0)) True) w3 (?s2\<lparr>al_override := Some ov\<rparr>))"
      (is "_ = (_, ?s3)") "refreshedCopy cm_meta cm_data (o0, mo) ov"
    using override.check_run [of ?s2 o0 mo c E] fs ls ss by auto
  have cur: "currentDeployment ?s3" using dep by (simp add: currentDeployment_def)
  have "checkArbiterDeploymentUpToDate E s = (Val (), ?s3)"
    unfolding checkArbiterDeploymentUpToDate_def
    by (simp only: bnd_def onErr_def k(1) e(1) ov(1) currentDeployment_quiet [OF cur] prod.case res.case)
  moreover have "calls ?s3 = calls s @ refreshCalls f" by (simp add: refreshCalls_def fo)
  moreover have "al_should_restart ?s3 \<longleftrightarrow> al_should_restart s \<or> refreshCalls f \<noteq> []"
    by (auto simp: refreshCalls_def fo)
  moreover have "finds \<lparr>fo_keyring = (k, mk), fo_envvar = (e, me), fo_override = (ov, mo)\<rparr> c ?s3"
    using fs by (simp add: finds_def)
  ultimately show ?thesis using k(2) e(2) ov(2) cur unfolding fo snd_conv by blast
qed

lemma refreshedCopy_current: "refreshedCopy meta payload p z \<Longrightarrow> \<not> staleCopy meta (z, snd p)"
  by (simp add: refreshedCopy_def staleCopy_def)

text \<open>
  C6: When the deployment is current and the target cluster stores what it is sent, a check
  sends exactly the copies whose version label differs from the version of their original, each with
  the data of the original, asks for a restart exactly when it sent one, and the next check finds
  nothing to do.
\<close>

theorem copies_refreshed:
  assumes "finds f c s" and "labelled f" and "storesCopies c" and "currentDeployment s"
  shows "\<exists>t k e ov. checkArbiterDeploymentUpToDate E s = (Val (), t) \<and> calls t = calls s @ refreshCalls f \<and>
    (al_should_restart t \<longleftrightarrow> al_should_restart s \<or> refreshCalls f \<noteq> []) \<and>
    al_keyring t = Some k \<and> refreshedCopy sec_meta sec_data (fo_keyring f) k \<and>
    al_envvar t = Some e \<and> refreshedCopy sec_meta sec_data (fo_envvar f) e \<and>
    al_override t = Some ov \<and> refreshedCopy cm_meta cm_data (fo_override f) ov \<and>
    checkArbiterDeploymentUpToDate E t = (Val (), t)"
proof -
  obtain t k e ov where t: "checkArbiterDeploymentUpToDate E s = (Val (), t)" "calls t = calls s @ refreshCalls f"
      "al_should_restart t \<longleftrightarrow> al_should_restart s \<or> refreshCalls f \<noteq> []"
      "finds \<lparr>fo_keyring = (k, snd (fo_keyring f)), fo_envvar = (e, snd (fo_envvar f)),
         fo_override = (ov, snd (fo_override f))\<rparr> c t"
      "refreshedCopy sec_meta sec_data (fo_keyring f) k" "refreshedCopy sec_meta sec_data (fo_envvar f) e"
      "refreshedCopy cm_meta cm_data (fo_override f) ov" "currentDeployment t"
    using copies_run [OF assms] by blast
  note current = t(5-7) [THEN refreshedCopy_current, unfolded staleCopy_def, simplified]
  have fs: "al_keyring t = Some k" "al_mon_keyring t = Some (snd (fo_keyring f))"
    "al_envvar t = Some e" "al_mon_envvar t = Some (snd (fo_envvar f))"
    "al_override t = Some ov" "al_mon_override t = Some (snd (fo_override f))"
    using t(4) by (simp_all add: finds_def)
  have "checkArbiterDeploymentUpToDate E t = (Val (), t)"
    unfolding checkArbiterDeploymentUpToDate_def
    by (simp add: bnd_def onErr_def keyring.quiet [OF fs(1,2) current(1)] envvar.quiet [OF fs(3,4) current(2)]
      override.quiet [OF fs(5,6) current(3)] currentDeployment_quiet [OF t(8)])
  with t fs show ?thesis by blast
qed

text \<open>A monitor whose keyring secret changed after it was copied.\<close>

definition rotated_keyring :: secret where
  "rotated_keyring = demo_secret\<lparr>sec_meta := (demo_meta ''rook-ceph-mons-keyring'')\<lparr>om_resource_version := ''2''\<rparr>\<rparr>"

definition rotated :: found where
  "rotated = \<lparr>fo_keyring = (copied_secret, rotated_keyring), fo_envvar = (copied_secret, demo_secret),
     fo_override = (demo_configmap\<lparr>cm_meta := copied_meta ''arbiter-override''\<rparr>, demo_configmap)\<rparr>"

definition rotated_state :: "unit ral_state" where
  "rotated_state = (init_ral (demo_key ''arbiter'') ())\<lparr>al_client := Some demo_target, al_arbiter := Some live_arbiter,
     al_keyring := Some (fst (fo_keyring rotated)), al_mon_keyring := Some (snd (fo_keyring rotated)),
     al_envvar := Some (fst (fo_envvar rotated)), al_mon_envvar := Some (snd (fo_envvar rotated)),
     al_override := Some (fst (fo_override rotated)), al_mon_override := Some (snd (fo_override rotated)),
     al_deployment := Some (copied_deployment ''$(ROOK_POD_IP)''), al_monitor := Some (demo_monitor ''rook-ceph-mon-a'')\<rparr>"

theorem copies_refreshed_witness:
  "\<exists>t. checkArbiterDeploymentUpToDate (arbiter_env live_arbiter []) rotated_state = (Val (), t) \<and>
     calls t = [UpdateCall Target (SecretObj (refreshSecret rotated_keyring copied_secret)) True] \<and> al_should_restart t"
proof -
  have "finds rotated demo_target rotated_state" by (simp add: finds_def rotated_state_def rotated_def)
  moreover have "labelled rotated" by (simp add: labelled_def rotated_def copied_secret_def copied_meta_def)
  moreover have "storesCopies (demo_target :: unit kube_client)"
    by (simp add: storesCopies_def stores_def demo_target_def serve_def)
  moreover have "currentDeployment rotated_state"
    by (simp add: currentDeployment_def rotated_state_def) code_simp
  moreover have "refreshCalls rotated = [UpdateCall Target (SecretObj (refreshSecret rotated_keyring copied_secret)) True]"
    by (simp add: refreshCalls_def staleCopy_def rotated_def rotated_keyring_def copied_secret_def copied_meta_def
      demo_secret_def demo_configmap_def demo_meta_def lastAppliedVersion_def map_get_def map_lookup_def map_lit_def)
  moreover have "calls rotated_state = []" by (simp add: rotated_state_def init_ral_def)
  ultimately show ?thesis
    using copies_refreshed [of rotated demo_target rotated_state "arbiter_env live_arbiter []"] by auto
qed

text \<open>
  C32: A new deployment is labelled with the version of the override config map instead of the version
  of the monitor it was built from: unless the two happen to agree, the very next check rebuilds it.
\<close>

theorem created_deployment_rebuilt:
  assumes "al_mon_override s = Some override" and "al_monitor s = Some mon" and "al_client s = Some c"
    and "stores (cl_create (kc_deployments c)) (\<lambda>x. om_labels (dep_meta x))"
    and "createArbiterDeployment E s = (Val (), t)"
  shows "\<exists>dep. al_deployment t = Some dep \<and> lastAppliedVersion (dep_meta dep) = om_resource_version (cm_meta override) \<and>
    (om_resource_version (cm_meta override) \<noteq> om_resource_version (dep_meta mon) \<longrightarrow>
      checkDeploymentVersion E t = bnd (wrapErr ''unable to update arbiter deployment'' (updateArbiterDeployment E))
        (\<lambda>_. markOutdated False) t)"
proof -
  have st: "om_labels (dep_meta y) = om_labels (dep_meta x)"
    if "cl_create (kc_deployments c) x w = (Inr y, w')" for x y w w'
    using assms(4) that unfolding stores_def by (metis Pair_inject sum.inject(2))
  have "wp (createArbiterDeployment E) (\<lambda>_ t. al_monitor t = Some mon \<and> (\<exists>dep. al_deployment t = Some dep \<and>
      lastAppliedVersion (dep_meta dep) = om_resource_version (cm_meta override))) (\<lambda>_ _. True) (\<lambda>_. True) s"
    using assms(1-3)
    by (auto simp: createArbiterDeployment_def arMakeDeploymentSpec_def apiCreate_def wp_simps makeDeploymentSpec_meta
      lastAppliedVersion_def remoteMeta_def map_get_def map_lookup_def map_lit_def
      split: option.splits res.splits prod.splits sum.splits dest!: st)
  from wp_ValD [OF assms(5) this] obtain dep where dep: "al_monitor t = Some mon" "al_deployment t = Some dep"
      "lastAppliedVersion (dep_meta dep) = om_resource_version (cm_meta override)" by blast
  then have "om_resource_version (cm_meta override) \<noteq> om_resource_version (dep_meta mon) \<Longrightarrow>
      checkDeploymentVersion E t = bnd (wrapErr ''unable to update arbiter deployment'' (updateArbiterDeployment E))
        (\<lambda>_. markOutdated False) t"
    by (simp add: checkDeploymentVersion_def bnd_def onErr_def fieldOf_def gets_def deref_def ret_def)
  with dep show ?thesis by blast
qed

definition creating_state :: "unit ral_state" where
  "creating_state = rotated_state\<lparr>al_cluster := Some ready_cluster,
     al_mon_override := Some (demo_configmap\<lparr>cm_meta := (demo_meta ''rook-config-override'')\<lparr>om_resource_version := ''3''\<rparr>\<rparr>)\<rparr>"

theorem created_deployment_rebuilt_witness:
  "\<exists>t dep. createArbiterDeployment (arbiter_env live_arbiter []) creating_state = (Val (), t) \<and>
     al_deployment t = Some dep \<and> lastAppliedVersion (dep_meta dep) = ''3'' \<and>
     checkDeploymentVersion (arbiter_env live_arbiter []) t =
       bnd (wrapErr ''unable to update arbiter deployment'' (updateArbiterDeployment (arbiter_env live_arbiter [])))
         (\<lambda>_. markOutdated False) t"
proof -
  have "isVal (fst (createArbiterDeployment (arbiter_env live_arbiter []) creating_state))" by code_simp
  then obtain t where run: "createArbiterDeployment (arbiter_env live_arbiter []) creating_state = (Val (), t)"
    by (cases "createArbiterDeployment (arbiter_env live_arbiter []) creating_state") (auto simp: isVal_iff)
  have "stores (cl_create (kc_deployments (demo_target :: unit kube_client))) (\<lambda>x. om_labels (dep_meta x))"
    by (simp add: stores_def demo_target_def serve_def)
  moreover have "al_mon_override creating_state =
      Some (demo_configmap\<lparr>cm_meta := (demo_meta ''rook-config-override'')\<lparr>om_resource_version := ''3''\<rparr>\<rparr>)"
    "al_monitor creating_state = Some (demo_monitor ''rook-ceph-mon-a'')" "al_client creating_state = Some demo_target"
    by (simp_all add: creating_state_def rotated_state_def)
  ultimately obtain dep where "al_deployment t = Some dep" "lastAppliedVersion (dep_meta dep) = ''3''"
      "''3'' \<noteq> om_resource_version (dep_meta (demo_monitor ''rook-ceph-mon-a'')) \<longrightarrow>
       checkDeploymentVersion (arbiter_env live_arbiter []) t =
       bnd (wrapErr ''unable to update arbiter deployment'' (updateArbiterDeployment (arbiter_env live_arbiter [])))
         (\<lambda>_. markOutdated False) t"
    using created_deployment_rebuilt [OF _ _ _ _ run] by fastforce
  then show ?thesis using run by (simp add: demo_monitor_def demo_meta_def)
qed

end
