(* ===== verification/Watches.thy ===== *)
theory Watches
  imports Arbiter
begin

text \<open>
  What starts a reconciliation: the two \<open>SetupWithManager\<close> methods, with the field indexes they
  register and the watches they build, and the functions that map a changed object to the
  resources to reconcile. The manager of controller-runtime is a parameter; a controller is the
  list of its watches.
\<close>

section \<open>Field indexes\<close>

definition RemoteClusterSecretKey :: string where
  [const_defs]: "RemoteClusterSecretKey = ''.remotecluster.secret''"
definition RemoteArbiterRemoteClusterKey :: string where
  [const_defs]: "RemoteArbiterRemoteClusterKey = ''.remotearbiter.remotecluster''"
definition RemoteArbiterCephClusterKey :: string where
  [const_defs]: "RemoteArbiterCephClusterKey = ''.remotearbiter.cephcluster''"

text \<open>\<open>v1alpha1.GroupVersion.String()\<close>; that of Rook is an argument where it is used.\<close>

definition GroupVersion :: string where
  [const_defs]: "GroupVersion = ''ceph.cobaltcore.sap.com/v1alpha1''"

definition clusterSecretIndex :: "remote_cluster \<Rightarrow> string list" where
  "clusterSecretIndex remoteCluster =
     (let secretName = ks_name (rcs_access_key_ref (rc_spec remoteCluster))
      in if secretName = [] then [] else [secretName])"

definition clusterOwnerIndex :: "k8s_lib \<Rightarrow> remote_cluster \<Rightarrow> string list" where
  "clusterOwnerIndex L remoteCluster =
     (case GetControllerOf L (om_owner_refs (rc_meta remoteCluster)) of
        None \<Rightarrow> []
      | Some owner \<Rightarrow>
          if or_api_version owner \<noteq> GroupVersion \<or> or_kind owner \<noteq> ''RemoteArbiter'' then []
          else [or_name owner])"

definition arbiterCephClusterIndex :: "remote_arbiter \<Rightarrow> string list" where
  "arbiterCephClusterIndex remoteArbiter =
     (let cephClusterRef = NamespacedReference_String (ras_ceph_cluster (ra_spec remoteArbiter))
      in if cephClusterRef = [] then [] else [cephClusterRef])"

definition arbiterRemoteClusterIndex :: "remote_arbiter \<Rightarrow> string list" where
  "arbiterRemoteClusterIndex remoteArbiter =
     (let remoteClusterName = rcc_name (ras_remote_cluster (ra_spec remoteArbiter))
      in if remoteClusterName = [] then [] else [remoteClusterName])"

section \<open>From a changed object to the resources to reconcile\<close>

type_synonym 'w find_func = "object \<Rightarrow> ('w base, key list) go"

definition findClusterForSecret :: "'w env \<Rightarrow> 'w find_func" where
  "findClusterForSecret E x =
     (case x of
        SecretObj secret \<Rightarrow>
          onErr (apiList (kc_remoteclusters (e_client E))
                   [InNamespace (om_namespace (sec_meta secret)),
                    MatchingFields [(RemoteClusterSecretKey, om_name (sec_meta secret))]])
            (\<lambda>err. ret [])
            (\<lambda>items. if length items = 0 then ret []
               else ret (map (\<lambda>rc. ObjectKeyFromObject (rc_meta rc)) items))
      | _ \<Rightarrow> ret [])"

definition findArbiterForCephClusterRef ::
  "'w env \<Rightarrow> namespaced_reference \<Rightarrow> ('w base, key list) go" where
  "findArbiterForCephClusterRef E ref =
     onErr (apiList (kc_remotearbiters (e_client E))
              [MatchingFields [(RemoteArbiterCephClusterKey, NamespacedReference_String ref)],
               InNamespace []])
       (\<lambda>err. ret [])
       (\<lambda>items. if length items = 0 then ret []
          else ret (map (\<lambda>ra. ObjectKeyFromObject (ra_meta ra)) items))"

text \<open>\<open>rookGroupVersion\<close> is \<open>rookv1.SchemeGroupVersion.String()\<close>.\<close>

definition findArbiterForCephClusterOwnedObject :: "string \<Rightarrow> 'w env \<Rightarrow> 'w find_func" where
  "findArbiterForCephClusterOwnedObject rookGroupVersion E x =
     (case GetControllerOf (e_lib E) (om_owner_refs (objectMeta x)) of
        None \<Rightarrow> ret []
      | Some owner \<Rightarrow>
          if or_api_version owner \<noteq> rookGroupVersion \<or> or_kind owner \<noteq> ''CephCluster'' then ret []
          else findArbiterForCephClusterRef E
                 \<lparr>nr_namespace = om_namespace (objectMeta x), nr_name = or_name owner\<rparr>)"

definition findArbiterForCephCluster :: "'w env \<Rightarrow> 'w find_func" where
  "findArbiterForCephCluster E x = findArbiterForCephClusterRef E
     \<lparr>nr_namespace = om_namespace (objectMeta x), nr_name = om_name (objectMeta x)\<rparr>"

definition findArbiterForRemoteCluster :: "'w env \<Rightarrow> 'w find_func" where
  "findArbiterForRemoteCluster E x =
     (case GetControllerOf (e_lib E) (om_owner_refs (objectMeta x)) of
        Some owner \<Rightarrow>
          if or_api_version owner \<noteq> GroupVersion \<or> or_kind owner \<noteq> ''RemoteArbiter'' then ret []
          else ret [\<lparr>k_namespace = om_namespace (objectMeta x), k_name = or_name owner\<rparr>]
      | None \<Rightarrow>
          onErr (apiList (kc_remotearbiters (e_client E))
                   [MatchingFields [(RemoteArbiterRemoteClusterKey, om_name (objectMeta x))],
                    InNamespace (om_namespace (objectMeta x))])
            (\<lambda>err. ret [])
            (\<lambda>items. if length items = 0 then ret []
               else ret (map (\<lambda>ra. ObjectKeyFromObject (ra_meta ra)) items)))"

section \<open>Controllers\<close>

datatype watched_kind =
  WSecret | WConfigMap | WDeployment | WCephCluster | WRemoteCluster | WRemoteArbiter

text \<open>
  A row of a controller: \<open>For\<close>, \<open>Owns\<close> or \<open>Watches\<close>. The predicate of every \<open>Watches\<close> is
  \<open>ResourceVersionChangedPredicate\<close>.
\<close>

datatype 'w watch =
    WatchFor watched_kind
  | WatchOwned watched_kind
  | WatchMapped watched_kind "'w find_func"

record 'w controller_builder =
  cb_named :: string
  cb_watches :: "'w watch list"
  cb_rate_limiter :: "string option"

datatype field_index =
    ClusterIndex string "remote_cluster \<Rightarrow> string list"
  | ArbiterIndex string "remote_arbiter \<Rightarrow> string list"

definition RemoteArbiterTypeName :: string where
  [const_defs]: "RemoteArbiterTypeName = ''remotearbiter''"

text \<open>The manager: registering an index and completing a controller may fail.\<close>

record ('w, 'm) manager =
  mgr_IndexField :: "field_index \<Rightarrow> 'm \<Rightarrow> (goerror + unit) \<times> 'm"
  mgr_Complete :: "'w controller_builder \<Rightarrow> 'm \<Rightarrow> (goerror + unit) \<times> 'm"

definition mgrCall :: "('m \<Rightarrow> (goerror + 'a) \<times> 'm) \<Rightarrow> ('m, 'a) go" where
  "mgrCall f = (\<lambda>m. let (r, m') = f m in lift r m')"

definition rcWatches :: "'w env \<Rightarrow> 'w watch list" where
  "rcWatches E = [WatchFor WRemoteCluster, WatchMapped WSecret (findClusterForSecret E)]"

definition rcSetupWithManager :: "'w env \<Rightarrow> string option \<Rightarrow> ('w, 'm) manager \<Rightarrow> ('m, unit) go" where
  "rcSetupWithManager E rateLimiter mgr =
     bnd (mgrCall (mgr_IndexField mgr (ClusterIndex RemoteClusterSecretKey clusterSecretIndex))) (\<lambda>_.
     mgrCall (mgr_Complete mgr \<lparr>cb_named = RemoteClusterTypeName, cb_watches = rcWatches E,
       cb_rate_limiter = rateLimiter\<rparr>))"

definition arWatches :: "string \<Rightarrow> 'w env \<Rightarrow> 'w watch list" where
  "arWatches rookGroupVersion E =
     [WatchFor WRemoteArbiter,
      WatchOwned WRemoteCluster,
      WatchMapped WSecret (findArbiterForCephClusterOwnedObject rookGroupVersion E),
      WatchMapped WConfigMap (findArbiterForCephClusterOwnedObject rookGroupVersion E),
      WatchMapped WDeployment (findArbiterForCephClusterOwnedObject rookGroupVersion E),
      WatchMapped WCephCluster (findArbiterForCephCluster E),
      WatchMapped WCephCluster (findArbiterForRemoteCluster E)]"

definition arIndexes :: "k8s_lib \<Rightarrow> field_index list" where
  "arIndexes L =
     [ClusterIndex RemoteClusterOwnerKey (clusterOwnerIndex L),
      ArbiterIndex RemoteArbiterCephClusterKey arbiterCephClusterIndex,
      ArbiterIndex RemoteArbiterRemoteClusterKey arbiterRemoteClusterIndex]"

definition arSetupWithManager ::
  "string \<Rightarrow> 'w env \<Rightarrow> string option \<Rightarrow> ('w, 'm) manager \<Rightarrow> ('m, unit) go" where
  "arSetupWithManager rookGroupVersion E rateLimiter mgr =
     bnd (forEach (\<lambda>i. wrapErr ''unable to create index'' (mgrCall (mgr_IndexField mgr i)))
            (arIndexes (e_lib E))) (\<lambda>_.
     mgrCall (mgr_Complete mgr \<lparr>cb_named = RemoteArbiterTypeName,
       cb_watches = arWatches rookGroupVersion E, cb_rate_limiter = rateLimiter\<rparr>))"

end
