(* ===== verification/Watches_Props.thy ===== *)
theory Watches_Props
  imports Watches Arbiter_Demo
begin

text \<open>
  The watches start the right reconciliations: against a cache that lists by the indexes the
  controllers register (\<open>indexed_client\<close>, the documented behaviour of the cached client), the map
  functions return exactly the resources whose reconciliation reads the changed object, and a
  remote cluster that the operator creates is found again through its owner (\<open>creating_client\<close>,
  \<open>owner_lib\<close>).
\<close>

context k8s_laws
begin

lemma finalizer_kept: "f \<in> set fs \<Longrightarrow> AddFinalizer L fs f = (fs, False)"
  using fl.add_changed [of fs f] fl.add_same [of f fs] by (simp add: prod_eq_iff)

end

section \<open>The cache behind the lists\<close>

fun matchesOption :: "object_meta \<Rightarrow> (string \<Rightarrow> string list) \<Rightarrow> list_option \<Rightarrow> bool" where
  "matchesOption m idx (InNamespace ns) = (ns = [] \<or> om_namespace m = ns)"
| "matchesOption m idx (MatchingLabels kvs) = list_all (\<lambda>(k, v). map_lookup (om_labels m) k = Some v) kvs"
| "matchesOption m idx (MatchingFields kvs) = list_all (\<lambda>(k, v). v \<in> set (idx k)) kvs"

text \<open>The indexes both controllers register, and the values of a field of an object.\<close>

definition registeredIndexes :: "k8s_lib \<Rightarrow> field_index list" where
  "registeredIndexes L = ClusterIndex RemoteClusterSecretKey clusterSecretIndex # arIndexes L"

definition clusterFields :: "k8s_lib \<Rightarrow> remote_cluster \<Rightarrow> string \<Rightarrow> string list" where
  "clusterFields L rc field = concat (map (\<lambda>i. case i of
     ClusterIndex k f \<Rightarrow> if k = field then f rc else [] | ArbiterIndex k f \<Rightarrow> []) (registeredIndexes L))"

definition arbiterFields :: "k8s_lib \<Rightarrow> remote_arbiter \<Rightarrow> string \<Rightarrow> string list" where
  "arbiterFields L ra field = concat (map (\<lambda>i. case i of
     ClusterIndex k f \<Rightarrow> [] | ArbiterIndex k f \<Rightarrow> if k = field then f ra else []) (registeredIndexes L))"

lemma clusterFields_simps [simp]:
  "clusterFields L rc RemoteClusterSecretKey = clusterSecretIndex rc"
  "clusterFields L rc RemoteClusterOwnerKey = clusterOwnerIndex L rc"
  by (simp_all add: clusterFields_def registeredIndexes_def arIndexes_def const_defs)

lemma arbiterFields_simps [simp]:
  "arbiterFields L ra RemoteArbiterCephClusterKey = arbiterCephClusterIndex ra"
  "arbiterFields L ra RemoteArbiterRemoteClusterKey = arbiterRemoteClusterIndex ra"
  by (simp_all add: arbiterFields_def registeredIndexes_def arIndexes_def const_defs)

locale indexed_client =
  fixes C :: "('o, 'w) kind_client" and stored :: "'w \<Rightarrow> 'o list"
    and meta :: "'o \<Rightarrow> object_meta" and idx :: "'o \<Rightarrow> string \<Rightarrow> string list"
  assumes list_stored: "cl_list C os w =
    (Inr (filter (\<lambda>x. list_all (matchesOption (meta x) (idx x)) os) (stored w)), w)"
begin

lemma apiList_stored:
  "apiList C os s = (Val (filter (\<lambda>x. list_all (matchesOption (meta x) (idx x)) os) (stored (world s))), s)"
  by (simp add: apiList_def readCall_def list_stored lift_def ret_def)

text \<open>The functions of the watches: list, and map the items to their keys.\<close>

lemma find_requests:
  "onErr (apiList C os) (\<lambda>err. ret [])
     (\<lambda>items. if items = [] then ret [] else ret (map key items)) s =
   (Val (map key (filter (\<lambda>x. list_all (matchesOption (meta x) (idx x)) os) (stored (world s)))), s)"
  by (simp add: onErr_def apiList_stored ret_def)

end

text \<open>A server that stores what it is asked to create, under a name of its own.\<close>

locale creating_client = indexed_client +
  assumes create_stored: "\<exists>y w'. cl_create C x w = (Inr y, w') \<and> stored w' = stored w @ [y] \<and>
    (\<exists>n v. meta y = (meta x)\<lparr>om_name := n, om_resource_version := v\<rparr>) \<and> idx y = idx x"

locale owner_lib =
  fixes L :: k8s_lib
  assumes controller_of_new: "GetControllerOf L [NewControllerRef L m (v, k)] = Some r \<Longrightarrow>
      or_api_version r = v \<and> or_kind r = k \<and> or_name r = om_name m"
    and controller_found: "GetControllerOf L [NewControllerRef L m (v, k)] \<noteq> None"

text \<open>An in-memory server of one kind, and its two uses.\<close>

definition memory ::
  "('o \<Rightarrow> object_meta) \<Rightarrow> (object_meta \<Rightarrow> 'o \<Rightarrow> 'o) \<Rightarrow> ('o \<Rightarrow> string \<Rightarrow> string list) \<Rightarrow> ('o, 'o list) kind_client" where
  "memory meta put idx = absent\<lparr>
     cl_list := (\<lambda>os w. (Inr (filter (\<lambda>x. list_all (matchesOption (meta x) (idx x)) os) w), w)),
     cl_create := (\<lambda>x w. let y = put ((meta x)\<lparr>om_name := om_generate_name (meta x) @ decimal (length w),
         om_resource_version := ''1''\<rparr>) x in (Inr y, w @ [y]))\<rparr>"

definition memoryClusters :: "(remote_cluster, remote_cluster list) kind_client" where
  "memoryClusters = memory rc_meta (\<lambda>m rc. rc\<lparr>rc_meta := m\<rparr>) (clusterFields ref_lib)"

definition memoryArbiters :: "(remote_arbiter, remote_arbiter list) kind_client" where
  "memoryArbiters = memory ra_meta (\<lambda>m ra. ra\<lparr>ra_meta := m\<rparr>) (arbiterFields ref_lib)"

interpretation clusters: creating_client memoryClusters "\<lambda>w. w" rc_meta "clusterFields ref_lib"
proof
  show "cl_list memoryClusters os w = (Inr (filter (\<lambda>x. list_all (matchesOption (rc_meta x)
      (clusterFields ref_lib x)) os) w), w)" for os w
    by (simp add: memoryClusters_def memory_def)
  show "\<exists>y w'. cl_create memoryClusters x w = (Inr y, w') \<and> w' = w @ [y] \<and>
    (\<exists>n v. rc_meta y = (rc_meta x)\<lparr>om_name := n, om_resource_version := v\<rparr>) \<and>
    clusterFields ref_lib y = clusterFields ref_lib x" for x w
    by (auto simp: memoryClusters_def memory_def Let_def clusterFields_def registeredIndexes_def
      arIndexes_def clusterSecretIndex_def clusterOwnerIndex_def)
qed

interpretation arbiters: indexed_client memoryArbiters "\<lambda>w. w" ra_meta "arbiterFields ref_lib"
  by unfold_locales (simp add: memoryArbiters_def memory_def)

lemma ref_controller [simp]: "GetControllerOf ref_lib = find or_controller"
  by (simp add: ref_lib_def)

interpretation ref_owner: owner_lib ref_lib
  by unfold_locales (auto simp: ref_lib_def)

text \<open>Servers that hold their RemoteClusters, or their RemoteArbiters, in memory.\<close>

definition clusters_env :: "remote_cluster list env" where
  "clusters_env = demo_env granting (empty_server\<lparr>kc_remoteclusters := memoryClusters\<rparr>) empty_server"

definition arbiters_env :: "remote_arbiter list env" where
  "arbiters_env = demo_env granting (empty_server\<lparr>kc_remotearbiters := memoryArbiters\<rparr>) empty_server"

lemma memory_env_simps [simp]:
  "e_lib clusters_env = ref_lib" "kc_remoteclusters (e_client clusters_env) = memoryClusters"
  "kc_arbiter_gvk (e_client clusters_env) = Inr (GroupVersion, ''RemoteArbiter'')"
  "e_lib arbiters_env = ref_lib" "kc_remotearbiters (e_client arbiters_env) = memoryArbiters"
  by (simp_all add: clusters_env_def arbiters_env_def demo_env_def empty_server_def const_defs)

section \<open>What the find functions return\<close>

text \<open>The keys the reconcilers read.\<close>

lemma getSecret_key:
  "rl_cluster s = Some rc \<Longrightarrow> rl_secret_key (snd (getSecret E s)) =
     Some \<lparr>k_namespace = om_namespace (rc_meta rc), k_name = ks_name (rcs_access_key_ref (rc_spec rc))\<rparr>"
  by (rule always_iff [THEN iffD1])
    (simp add: always_def getSecret_def api_defs wp_simps Let_def split: prod.split sum.split)

lemma fetchCephCluster_key:
  "al_arbiter s = Some ra \<Longrightarrow> al_ceph_key (snd (fetchCephCluster E s)) =
     Some \<lparr>k_namespace = nr_namespace (ras_ceph_cluster (ra_spec ra)),
       k_name = nr_name (ras_ceph_cluster (ra_spec ra))\<rparr>"
  by (rule always_iff [THEN iffD1])
    (simp add: always_def fetchCephCluster_def api_defs wp_simps Let_def split: prod.split sum.split)

lemma reference_string_inj:
  assumes "CHR ''/'' \<notin> set (nr_namespace r)" and "CHR ''/'' \<notin> set (nr_namespace q)"
  shows "NamespacedReference_String r = NamespacedReference_String q \<longleftrightarrow> r = q"
proof
  assume "NamespacedReference_String r = NamespacedReference_String q"
  then have eq: "nr_namespace r @ CHR ''/'' # nr_name r = nr_namespace q @ CHR ''/'' # nr_name q"
    by (simp add: NamespacedReference_String_def NamespacedReferenceSeparator_def)
  then have "takeWhile (\<lambda>c. c \<noteq> CHR ''/'') (nr_namespace r @ CHR ''/'' # nr_name r) =
      takeWhile (\<lambda>c. c \<noteq> CHR ''/'') (nr_namespace q @ CHR ''/'' # nr_name q)" by simp
  with assms have "nr_namespace r = nr_namespace q"
    by (smt (verit) takeWhile_append2 takeWhile.simps(2) append_Nil2)
  with eq show "r = q" by simp
qed simp

lemma reference_string_not_Nil [simp]: "NamespacedReference_String r \<noteq> []"
  by (simp add: NamespacedReference_String_def NamespacedReferenceSeparator_def)

text \<open>
  C34: When a secret changes, exactly the RemoteClusters whose reconciliation reads this secret are
  reconciled, in every cache that lists by the registered indexes.
\<close>

theorem secret_watch_exact:
  assumes "indexed_client (kc_remoteclusters (e_client E)) stored rc_meta (clusterFields (e_lib E))"
    and "om_namespace (sec_meta secret) \<noteq> []" and "om_name (sec_meta secret) \<noteq> []"
  shows "findClusterForSecret E (SecretObj secret) s =
    (Val (map (\<lambda>rc. ObjectKeyFromObject (rc_meta rc)) (filter (\<lambda>rc.
       rl_secret_key (snd (getSecret E ((init_rcl k w)\<lparr>rl_cluster := Some rc\<rparr>))) =
         Some (ObjectKeyFromObject (sec_meta secret))) (stored (world s)))), s)"
  using assms(2,3)
  by (auto simp: findClusterForSecret_def indexed_client.find_requests [OF assms(1)] getSecret_key
    ObjectKeyFromObject_def clusterSecretIndex_def Let_def intro!: arg_cong [where f = "map _"] filter_cong)

theorem secret_watch_exact_witness:
  "findClusterForSecret clusters_env (SecretObj demo_secret)
     \<lparr>world = [demo_cluster, demo_cluster\<lparr>rc_meta := demo_meta ''other'',
        rc_spec := (rc_spec demo_cluster)\<lparr>rcs_access_key_ref := \<lparr>ks_name = ''else'', ks_key = []\<rparr>\<rparr>\<rparr>], calls = []\<rparr> =
   (Val [demo_key ''target''],
     \<lparr>world = [demo_cluster, demo_cluster\<lparr>rc_meta := demo_meta ''other'',
        rc_spec := (rc_spec demo_cluster)\<lparr>rcs_access_key_ref := \<lparr>ks_name = ''else'', ks_key = []\<rparr>\<rparr>\<rparr>], calls = []\<rparr>)"
  by (subst secret_watch_exact [of clusters_env "\<lambda>w. w" demo_secret _ "demo_key []" "[]"])
    (simp_all add: clusters.indexed_client_axioms getSecret_key demo_secret_def demo_cluster_def
      demo_meta_def empty_meta_def ObjectKeyFromObject_def demo_key_def)

lemma findArbiterForCephClusterRef_exact:
  assumes "indexed_client (kc_remotearbiters (e_client E)) stored ra_meta (arbiterFields (e_lib E))"
    and "CHR ''/'' \<notin> set (nr_namespace r)"
    and "\<forall>ra\<in>set (stored (world s)). CHR ''/'' \<notin> set (nr_namespace (ras_ceph_cluster (ra_spec ra)))"
  shows "findArbiterForCephClusterRef E r s =
    (Val (map (\<lambda>ra. ObjectKeyFromObject (ra_meta ra)) (filter (\<lambda>ra.
       ras_ceph_cluster (ra_spec ra) = r) (stored (world s)))), s)"
  using assms(2,3)
  by (auto simp: findArbiterForCephClusterRef_def indexed_client.find_requests [OF assms(1)]
    arbiterCephClusterIndex_def Let_def reference_string_inj
    intro!: arg_cong [where f = "map _"] filter_cong)


text \<open>An arbiter of the Ceph cluster, and a secret that the Ceph cluster controls.\<close>

definition controlled_secret :: secret where
  "controlled_secret = demo_secret\<lparr>sec_meta := (demo_meta ''rook-ceph-mons-keyring'')\<lparr>om_owner_refs :=
     [\<lparr>or_api_version = ''ceph.rook.io/v1'', or_kind = ''CephCluster'', or_name = ''rook-ceph'', or_controller = True\<rparr>]\<rparr>\<rparr>"


text \<open>
  The requests that the map functions of a controller make for an object, all watches of the
  object's kind together.
\<close>

fun watchedKind :: "object \<Rightarrow> watched_kind option" where
  "watchedKind (SecretObj _) = Some WSecret"
| "watchedKind (ConfigMapObj _) = Some WConfigMap"
| "watchedKind (DeploymentObj _) = Some WDeployment"
| "watchedKind (CephClusterObj _) = Some WCephCluster"
| "watchedKind (RemoteClusterObj _) = Some WRemoteCluster"
| "watchedKind (RemoteArbiterObj _) = Some WRemoteArbiter"
| "watchedKind _ = None"

fun mappedRequests :: "'w watch list \<Rightarrow> object \<Rightarrow> ('w base, key list) go" where
  "mappedRequests [] x = ret []"
| "mappedRequests (WatchMapped k f # ws) x =
     (if watchedKind x = Some k
      then bnd (f x) (\<lambda>ks. bnd (mappedRequests ws x) (\<lambda>ks'. ret (ks @ ks')))
      else mappedRequests ws x)"
| "mappedRequests (_ # ws) x = mappedRequests ws x"

lemma ret_bnd: "bnd (ret x) k = k x"
  by (rule ext) (simp add: bnd_def onErr_def ret_def)

lemma bnd_ret: "bnd m ret = m"
  by (rule ext) (simp add: bnd_def onErr_def ret_def fail_def split: prod.split res.split)

text \<open>
  C35: The function meant for changed RemoteClusters finds exactly the arbiters that name the
  cluster, but it is registered for Ceph clusters: no watch of the controller maps a changed
  RemoteCluster to an arbiter, and a changed Ceph cluster also starts the arbiters whose remote
  cluster happens to have its name.
\<close>

theorem named_cluster_unwatched:
  assumes "indexed_client (kc_remotearbiters (e_client E)) stored ra_meta (arbiterFields (e_lib E))"
    and "GetControllerOf (e_lib E) (om_owner_refs (rc_meta rc)) = None"
    and "om_namespace (rc_meta rc) \<noteq> []" and "om_name (rc_meta rc) \<noteq> []"
  shows "findArbiterForRemoteCluster E (RemoteClusterObj rc) s =
      (Val (map (\<lambda>ra. ObjectKeyFromObject (ra_meta ra)) (filter (\<lambda>ra.
         om_namespace (ra_meta ra) = om_namespace (rc_meta rc) \<and>
         rcc_name (ras_remote_cluster (ra_spec ra)) = om_name (rc_meta rc)) (stored (world s)))), s) \<and>
    mappedRequests (arWatches gv E) (RemoteClusterObj rc) s = (Val [], s) \<and>
    mappedRequests (arWatches gv E) (CephClusterObj c) s =
      bnd (findArbiterForCephCluster E (CephClusterObj c)) (\<lambda>ks.
      bnd (findArbiterForRemoteCluster E (CephClusterObj c)) (\<lambda>ks'. ret (ks @ ks'))) s"
proof (intro conjI)
  show "findArbiterForRemoteCluster E (RemoteClusterObj rc) s =
      (Val (map (\<lambda>ra. ObjectKeyFromObject (ra_meta ra)) (filter (\<lambda>ra.
         om_namespace (ra_meta ra) = om_namespace (rc_meta rc) \<and>
         rcc_name (ras_remote_cluster (ra_spec ra)) = om_name (rc_meta rc)) (stored (world s)))), s)"
    using assms(2-4)
    by (auto simp: findArbiterForRemoteCluster_def indexed_client.find_requests [OF assms(1)]
      arbiterRemoteClusterIndex_def Let_def intro!: arg_cong [where f = "map _"] filter_cong)
  show "mappedRequests (arWatches gv E) (RemoteClusterObj rc) s = (Val [], s)"
    by (simp add: arWatches_def ret_def)
  show "mappedRequests (arWatches gv E) (CephClusterObj c) s =
      bnd (findArbiterForCephCluster E (CephClusterObj c)) (\<lambda>ks.
      bnd (findArbiterForRemoteCluster E (CephClusterObj c)) (\<lambda>ks'. ret (ks @ ks'))) s"
    by (simp add: arWatches_def ret_bnd bnd_ret)
qed

theorem named_cluster_unwatched_witness:
  "findArbiterForRemoteCluster arbiters_env (RemoteClusterObj demo_cluster)
     \<lparr>world = [live_arbiter], calls = []\<rparr> = (Val [demo_key ''arbiter''], \<lparr>world = [live_arbiter], calls = []\<rparr>) \<and>
   mappedRequests (arWatches ''ceph.rook.io/v1'' arbiters_env) (RemoteClusterObj demo_cluster)
     \<lparr>world = [live_arbiter], calls = []\<rparr> = (Val [], \<lparr>world = [live_arbiter], calls = []\<rparr>)"
proof -
  have "GetControllerOf (e_lib arbiters_env) (om_owner_refs (rc_meta demo_cluster)) = None"
    "om_namespace (rc_meta demo_cluster) \<noteq> []" "om_name (rc_meta demo_cluster) \<noteq> []"
    by (simp_all add: demo_cluster_def demo_meta_def empty_meta_def ref_lib_def)
  from named_cluster_unwatched [of arbiters_env "\<lambda>w. w", simplified,
      OF arbiters.indexed_client_axioms this [simplified]]
  show ?thesis
    by (simp add: demo_cluster_def live_arbiter_def demo_arbiter_def demo_meta_def ObjectKeyFromObject_def demo_key_def)
qed

section \<open>A created remote cluster is found again\<close>

definition ownedBy :: "k8s_lib \<Rightarrow> remote_arbiter \<Rightarrow> remote_cluster \<Rightarrow> bool" where
  "ownedBy L ra rc \<longleftrightarrow> om_namespace (rc_meta rc) = om_namespace (ra_meta ra) \<and>
     om_name (ra_meta ra) \<in> set (clusterOwnerIndex L rc)"

lemma owner_lookup:
  assumes "indexed_client (kc_remoteclusters (e_client E)) stored rc_meta (clusterFields (e_lib E))"
    and "om_namespace (ra_meta ra) \<noteq> []"
  shows "filter (ownedBy (e_lib E) ra) (stored (world u)) = [] \<Longrightarrow>
      getRemoteClusterByOwnerReference E ra u = (Err (Sentinel ErrorNotCreated), u)"
    and "filter (ownedBy (e_lib E) ra) (stored (world u)) = [rc] \<Longrightarrow>
      getRemoteClusterByOwnerReference E ra u = (Val rc, u)"
proof -
  have "(\<lambda>rc. list_all (matchesOption (rc_meta rc) (clusterFields (e_lib E) rc))
      [InNamespace (om_namespace (ra_meta ra)), MatchingFields [(RemoteClusterOwnerKey, om_name (ra_meta ra))]])
      = ownedBy (e_lib E) ra"
    using assms(2) by (auto simp: ownedBy_def)
  then have list: "apiList (kc_remoteclusters (e_client E)) [InNamespace (om_namespace (ra_meta ra)),
      MatchingFields [(RemoteClusterOwnerKey, om_name (ra_meta ra))]] u =
      (Val (filter (ownedBy (e_lib E) ra) (stored (world u))), u)"
    by (simp only: indexed_client.apiList_stored [OF assms(1)])
  show "filter (ownedBy (e_lib E) ra) (stored (world u)) = [] \<Longrightarrow>
      getRemoteClusterByOwnerReference E ra u = (Err (Sentinel ErrorNotCreated), u)"
    and "filter (ownedBy (e_lib E) ra) (stored (world u)) = [rc] \<Longrightarrow>
      getRemoteClusterByOwnerReference E ra u = (Val rc, u)"
    by (simp_all add: getRemoteClusterByOwnerReference_def bnd_def wrapErr_def onErr_def list ret_def fail_def)
qed

text \<open>The cluster made for an arbiter is owned by it and carries its finalizer.\<close>

lemma createRemoteCluster_run:
  assumes C: "creating_client (kc_remoteclusters (e_client E)) stored rc_meta (clusterFields (e_lib E))"
    and L: "owner_lib (e_lib E)" and gvk: "kc_arbiter_gvk (e_client E) = Inr (GroupVersion, ''RemoteArbiter'')"
    and sp: "rcc_spec (ras_remote_cluster (ra_spec ra)) = Some sp"
  shows "\<exists>rc v. createRemoteCluster E ra u = (Val rc, v) \<and> al_arbiter v = al_arbiter u \<and>
     stored (world v) = stored (world u) @ [rc] \<and> ownedBy (e_lib E) ra rc \<and>
     RemoteArbiterFinalizer \<in> set (om_finalizers (rc_meta rc))"
proof -
  let ?ref = "NewControllerRef (e_lib E) (ra_meta ra) (GroupVersion, ''RemoteArbiter'')"
  let ?x = "\<lparr>rc_meta = empty_meta\<lparr>om_generate_name := ''remote-cluster-'',
      om_namespace := om_namespace (ra_meta ra), om_finalizers := [RemoteArbiterFinalizer],
      om_owner_refs := [?ref]\<rparr>, rc_spec = sp, rc_status = \<lparr>st_state = [], st_message = [], st_conditions = []\<rparr>\<rparr>"
  obtain y w' n v where y: "cl_create (kc_remoteclusters (e_client E)) ?x (world u) = (Inr y, w')"
      "stored w' = stored (world u) @ [y]" "rc_meta y = (rc_meta ?x)\<lparr>om_name := n, om_resource_version := v\<rparr>"
      "clusterFields (e_lib E) y = clusterFields (e_lib E) ?x"
    using creating_client.create_stored [OF C, of ?x "world u"] by blast
  obtain q where "GetControllerOf (e_lib E) [?ref] = Some q" "or_api_version q = GroupVersion"
      "or_kind q = ''RemoteArbiter''" "or_name q = om_name (ra_meta ra)"
    using owner_lib.controller_found [OF L] owner_lib.controller_of_new [OF L] by blast
  then have "clusterOwnerIndex (e_lib E) y = [om_name (ra_meta ra)]"
    using y(3) by (simp add: clusterOwnerIndex_def)
  with y(3) have "ownedBy (e_lib E) ra y" by (simp add: ownedBy_def)
  then show ?thesis
    using y sp gvk by (simp add: createRemoteCluster_def bnd_def wrapErr_def onErr_def lift_def ret_def
      Let_def apiCreate_def loggedCall_def)
qed

text \<open>
  C11: A RemoteArbiter that gives the spec of its remote cluster gets one created when it owns none; the
  next reconciliation finds this very cluster through the owner index and creates and updates nothing.
\<close>

theorem created_cluster_found:
  assumes C: "creating_client (kc_remoteclusters (e_client E)) stored rc_meta (clusterFields (e_lib E))"
    and "owner_lib (e_lib E)" and laws: "k8s_laws (e_lib E)"
    and "kc_arbiter_gvk (e_client E) = Inr (GroupVersion, ''RemoteArbiter'')"
    and noname: "rcc_name (ras_remote_cluster (ra_spec ra)) = []"
    and "rcc_spec (ras_remote_cluster (ra_spec ra)) = Some sp"
    and ns: "om_namespace (ra_meta ra) \<noteq> []" and none: "filter (ownedBy (e_lib E) ra) (stored (world s)) = []"
    and ra: "al_arbiter s = Some ra" and run: "fetchRemoteCluster E s = (r, t)"
  shows "\<exists>rc. r = Val () \<and> al_cluster t = Some rc \<and> stored (world t) = stored (world s) @ [rc] \<and>
    (\<forall>u. al_arbiter u = Some ra \<longrightarrow> world u = world t \<longrightarrow>
      fetchRemoteCluster E u = (Val (), u\<lparr>al_cluster := Some rc,
        al_cluster_key := Some (ObjectKeyFromObject (rc_meta rc))\<rparr>))"
proof -
  note idx = creating_client.axioms(1) [OF C]
  obtain rc v where rc: "createRemoteCluster E ra s = (Val rc, v)" "stored (world v) = stored (world s) @ [rc]"
      "ownedBy (e_lib E) ra rc" "RemoteArbiterFinalizer \<in> set (om_finalizers (rc_meta rc))"
    using createRemoteCluster_run [OF C assms(2,4,6)] by blast
  have t: "r = Val ()" "t = v\<lparr>al_cluster := Some rc, al_cluster_key := Some (ObjectKeyFromObject (rc_meta rc))\<rparr>"
    using run ra noname rc(1) owner_lookup(1) [OF idx ns none]
    by (auto simp: fetchRemoteCluster_def getRemoteCluster_def setRemoteCluster_def bnd_def wrapErr_def
      onErr_def fieldOf_def gets_def deref_def ret_def fail_def modify_def)
  have again: "fetchRemoteCluster E u = (Val (), u\<lparr>al_cluster := Some rc,
        al_cluster_key := Some (ObjectKeyFromObject (rc_meta rc))\<rparr>)"
    if "al_arbiter u = Some ra" "world u = world t" for u
  proof -
    have "filter (ownedBy (e_lib E) ra) (stored (world u)) = [rc]"
      using that t rc none by simp
    from owner_lookup(2) [OF idx ns this] that(1) noname rc(4) k8s_laws.finalizer_kept [OF laws rc(4)]
    show ?thesis
      by (simp add: fetchRemoteCluster_def getRemoteCluster_def setRemoteCluster_def bnd_def
        onErr_def fieldOf_def gets_def deref_def ret_def modify_def Let_def)
  qed
  with t rc(2) show ?thesis by auto
qed

text \<open>An arbiter that brings the spec of its remote cluster.\<close>

definition owning_arbiter :: remote_arbiter where
  "owning_arbiter = live_arbiter\<lparr>ra_spec := (ra_spec live_arbiter)\<lparr>ras_remote_cluster :=
     \<lparr>rcc_spec = Some (rc_spec demo_cluster), rcc_name = []\<rparr>\<rparr>\<rparr>"

theorem created_cluster_found_witness:
  "\<exists>rc t. fetchRemoteCluster clusters_env ((init_ral (demo_key ''arbiter'') [demo_cluster])\<lparr>al_arbiter := Some owning_arbiter\<rparr>)
       = (Val (), t) \<and> world t = [demo_cluster, rc] \<and>
     fetchRemoteCluster clusters_env ((init_ral (demo_key ''arbiter'') (world t))\<lparr>al_arbiter := Some owning_arbiter\<rparr>) =
       (Val (), (init_ral (demo_key ''arbiter'') (world t))\<lparr>al_arbiter := Some owning_arbiter, al_cluster := Some rc,
          al_cluster_key := Some (ObjectKeyFromObject (rc_meta rc))\<rparr>)"
proof -
  let ?s = "\<lambda>w. (init_ral (demo_key ''arbiter'') w)\<lparr>al_arbiter := Some owning_arbiter\<rparr> :: remote_cluster list ral_state"
  obtain r t where run: "fetchRemoteCluster clusters_env (?s [demo_cluster]) = (r, t)" by fastforce
  have "filter (ownedBy (e_lib clusters_env) owning_arbiter) (world (?s [demo_cluster])) = []"
    by (simp add: ownedBy_def clusterOwnerIndex_def ref_lib_def demo_cluster_def demo_meta_def empty_meta_def init_ral_def)
  then obtain rc where "r = Val ()" "world t = [demo_cluster, rc]"
      "\<forall>u. al_arbiter u = Some owning_arbiter \<longrightarrow> world u = world t \<longrightarrow>
        fetchRemoteCluster clusters_env u = (Val (), u\<lparr>al_cluster := Some rc,
          al_cluster_key := Some (ObjectKeyFromObject (rc_meta rc))\<rparr>)"
    using created_cluster_found [of clusters_env "\<lambda>w. w" owning_arbiter, OF _ _ _ _ _ _ _ _ _ run]
    by (auto simp: clusters.creating_client_axioms ref_owner.owner_lib_axioms ref.k8s_laws_axioms owning_arbiter_def
      live_arbiter_def demo_arbiter_def demo_meta_def init_ral_def)
  then show ?thesis using run by (auto simp: init_ral_def)
qed

end
