(* ===== verification/Id_Scan.thy ===== *)
theory Id_Scan
  imports Arbiter "HOL-Library.Word" "HOL-Library.While_Combinator"
begin

text \<open>
  The loop of \<open>reserveExternalArbiterID\<close> as it is written: its counter is a byte, which wraps, and it is
  left by its condition or by \<open>break\<close>. It ends, and it ends with the identifier that
  \<open>pickExternalID\<close> takes from the list of all identifiers of the prefix.
\<close>

section \<open>The loop\<close>

definition suffixFirstCode :: "8 word" where "suffixFirstCode = 97"
definition suffixLastCode :: "8 word" where "suffixLastCode = 122"

text \<open>
  One round: \<open>break\<close> leaves the identifier set, which is never empty then; otherwise the counter is
  increased. The result is \<open>None\<close> if the loop runs forever.
\<close>

definition scanStep :: "string \<Rightarrow> string list \<Rightarrow> 8 word \<times> string \<Rightarrow> 8 word \<times> string" where
  "scanStep prefix externalMonIDs = (\<lambda>(suffixCode, externalID).
     let potentialID = prefix @ [char_of (unat suffixCode)]
     in if potentialID \<notin> set externalMonIDs then (suffixCode, potentialID) else (suffixCode + 1, externalID))"

definition scanExternalID :: "8 word \<Rightarrow> 8 word \<Rightarrow> string \<Rightarrow> string list \<Rightarrow> (8 word \<times> string) option" where
  "scanExternalID firstCode lastCode prefix externalMonIDs =
     while_option (\<lambda>(suffixCode, externalID). externalID = [] \<and> suffixCode \<le> lastCode)
       (scanStep prefix externalMonIDs) (firstCode, [])"

section \<open>Its end\<close>

lemma scan_unfold:
  "scanExternalID c lastCode p ids =
     (if c \<le> lastCode then
        (if p @ [char_of (unat c)] \<notin> set ids then Some (c, p @ [char_of (unat c)]) else scanExternalID (c + 1) lastCode p ids)
      else Some (c, []))"
  unfolding scanExternalID_def
  by (subst while_option_unfold, simp add: scanStep_def Let_def, intro impI, subst while_option_unfold, simp)

lemma unat_next: "c \<le> lastCode \<Longrightarrow> lastCode < 255 \<Longrightarrow> unat (c + 1) = Suc (unat c)" for c lastCode :: "8 word"
proof -
  assume "c \<le> lastCode" "lastCode < 255"
  then have "unat c < 255" by (simp add: word_le_nat_alt word_less_nat_alt)
  then show ?thesis by (simp add: unat_word_ariths)
qed

lemma scan_total:
  assumes "lastCode < 255"
  shows "\<exists>c'. scanExternalID c lastCode p ids =
    Some (c', case find (\<lambda>i. i \<notin> set ids) (map (\<lambda>n. p @ [char_of n]) [unat c..<Suc (unat lastCode)]) of None \<Rightarrow> [] | Some i \<Rightarrow> i)"
proof (induction "Suc (unat lastCode) - unat c" arbitrary: c)
  case 0
  then have "\<not> c \<le> lastCode" by (simp add: word_le_nat_alt)
  with 0 show ?case by (subst scan_unfold) simp
next
  case (Suc n)
  then have c: "c \<le> lastCode" "unat c < Suc (unat lastCode)" by (simp_all add: word_le_nat_alt)
  with assms Suc have "\<exists>c'. scanExternalID (c + 1) lastCode p ids =
    Some (c', case find (\<lambda>i. i \<notin> set ids) (map (\<lambda>n. p @ [char_of n]) [Suc (unat c)..<Suc (unat lastCode)]) of None \<Rightarrow> [] | Some i \<Rightarrow> i)"
    using Suc.hyps(1) [of "c + 1"] by (simp add: unat_next)
  with c show ?case by (subst scan_unfold, subst upt_conv_Cons) auto
qed

text \<open>With the greatest byte as its bound the loop would not end once all identifiers are taken: the counter wraps.\<close>

lemma scan_diverges:
  assumes "\<forall>c. p @ [c] \<in> set ids"
  shows "scanExternalID firstCode 255 p ids = None"
proof (rule ccontr)
  assume "scanExternalID firstCode 255 p ids \<noteq> None"
  then obtain r where r: "while_option (\<lambda>(suffixCode, externalID). externalID = [] \<and> suffixCode \<le> 255) (scanStep p ids) (firstCode, []) = Some r"
    unfolding scanExternalID_def by auto
  then have "snd r = []"
    by (rule while_option_rule [rotated, where P = "\<lambda>s. snd s = []"]) (use assms in \<open>auto simp: scanStep_def Let_def\<close>)
  moreover have "fst r \<le> 255" using uint_lt2p [of "fst r"] by (simp add: word_le_def)
  ultimately show False using while_option_stop [OF r] by (simp add: split_beta)
qed

text \<open>
  C15: the search for a free identifier ends, although its counter is a byte that wraps around, and gives
  the first free identifier of the prefix in the order of the alphabet, or none if all are taken.
\<close>

theorem id_scan_terminates:
  "\<exists>suffixCode. scanExternalID suffixFirstCode suffixLastCode prefix ids = Some (suffixCode, pickExternalID [] prefix ids)"
  using scan_total [of suffixLastCode suffixFirstCode prefix ids]
  by (simp add: suffixFirstCode_def suffixLastCode_def pickExternalID_def potentialIDs_def del: upt_rec_numeral)

end
