(* ===== verification/Duration.thy ===== *)
theory Duration
  imports Netip Api_Types "HOL-Library.Log_Nat"
begin

text \<open>
  What \<open>Interval\<close> uses of the \<open>time\<close> package: \<open>Duration.String\<close> and \<open>ParseDuration\<close>, with the
  floating-point arithmetic of fractions. A duration is the number of its nanoseconds, between
  \<open>-2^63\<close> and \<open>2^63 - 1\<close>. The parser reads back every text the printer writes, and accepts only texts
  whose value is in that range. Its loop shortens the text in every round.
\<close>

section \<open>Floating point\<close>

text \<open>
  The parser scales a fraction in \<open>float64\<close>. A finite non-negative number of that type is a rational
  with a significand of 53 bits, and every operation rounds to the nearest one, halves to even.
  Exponents are not bounded here: a scale large enough to overflow makes the product less than one, which is
  cut off in the same way.
\<close>

definition roundHalfEven :: "rat \<Rightarrow> int" where
  "roundHalfEven y =
     (let l = \<lfloor>y\<rfloor>; r = y - of_int l
      in if r < 1 / 2 \<or> r = 1 / 2 \<and> even l then l else l + 1)"

text \<open>The exponent of the last bit of a positive number.\<close>

definition floatExponent :: "rat \<Rightarrow> int" where
  "floatExponent x =
     (let (p, q) = quotient_of x; k = int (floorlog 2 (nat p)) - int (floorlog 2 (nat q))
      in (if 2 powi k \<le> x then k else k - 1) - 52)"

definition float64 :: "rat \<Rightarrow> rat" where
  "float64 x =
     (if x = 0 then 0
      else let e = floatExponent x in of_int (roundHalfEven (x * 2 powi (- e))) * 2 powi e)"

text \<open>The scale after \<open>k\<close> digits, and \<^verbatim>\<open>uint64(float64(f) * (float64(unit) / scale))\<close>.\<close>

primrec floatScale :: "nat \<Rightarrow> rat" where
  "floatScale 0 = 1"
| "floatScale (Suc k) = float64 (floatScale k * 10)"

definition scaledFraction :: "nat \<Rightarrow> nat \<Rightarrow> nat \<Rightarrow> nat" where
  "scaledFraction f unit k =
     nat \<lfloor>float64 (float64 (of_nat f) * float64 (float64 (of_nat unit) / floatScale k))\<rfloor>"


lemma float64_nat:
  assumes "n < 2 ^ 53"
  shows "float64 (of_nat n) = of_nat n"
proof (cases "n = 0")
  case False
  define e where "e = floatExponent (of_nat n)"
  have q: "quotient_of (of_nat n) = (int n, 1)" using quotient_of_int [of "int n"] by simp
  have "floorlog 2 n \<le> 53" using assms by (simp add: floorlog_leI)
  moreover have one: "floorlog 2 (Suc 0) = 1" by (simp add: floorlog_def)
  ultimately have "e \<le> 0"
    by (simp add: e_def floatExponent_def q one Let_def del: One_nat_def)
  then obtain k where k: "e = - int k" by (metis nonpos_int_cases)
  have "of_nat n * 2 powi (- e) = (of_int (int n * 2 ^ k) :: rat)" by (simp add: k)
  moreover have "roundHalfEven (of_int (int n * 2 ^ k)) = int n * 2 ^ k"
    by (simp only: roundHalfEven_def floor_of_int Let_def) simp
  ultimately have "float64 (of_nat n) = of_int (int n * 2 ^ k) * 2 powi e"
    using False by (simp only: float64_def e_def [symmetric] Let_def) simp
  also have "\<dots> = of_nat n" by (simp add: k power_int_minus)
  finally show ?thesis .
qed (simp add: float64_def)

lemma floatScale_exact: "10 ^ k < (2 ^ 53 :: nat) \<Longrightarrow> floatScale k = 10 ^ k"
proof (induction k)
  case (Suc k)
  then have "floatScale k = 10 ^ k" by simp
  then show ?case using float64_nat [OF Suc.prems] by (simp add: mult.commute)
qed simp

lemma scaledFraction_exact:
  assumes "10 ^ k dvd unit" "0 < unit" "unit < 2 ^ 53" "f * (unit div 10 ^ k) < 2 ^ 53"
  shows "scaledFraction f unit k = f * (unit div 10 ^ k)"
proof -
  obtain m where m: "unit = 10 ^ k * m" using assms(1) by blast
  then have m_div: "unit div 10 ^ k = m" and "0 < m" using assms(2) by auto
  have "10 ^ k \<le> unit" "m \<le> unit" using m \<open>0 < m\<close> by auto
  then have scale: "floatScale k = 10 ^ k" and "m < 2 ^ 53" using assms(3) floatScale_exact [of k] by auto
  have "f < 2 ^ 53" using assms(4) \<open>0 < m\<close> unfolding m_div by (cases m) auto
  have "(of_nat unit / 10 ^ k :: rat) = of_nat m" by (simp add: m)
  moreover have "(of_nat f * of_nat m :: rat) = of_nat (f * m)" by simp
  ultimately show ?thesis
    using float64_nat [OF \<open>f < 2 ^ 53\<close>] float64_nat [OF assms(3)] float64_nat [OF \<open>m < 2 ^ 53\<close>] float64_nat [OF assms(4)]
    by (simp only: scaledFraction_def scale m_div floor_of_nat nat_int)
qed

section \<open>Printing: \<open>time.Duration.String\<close>\<close>

text \<open>
  \<open>fmtFrac\<close>: the last \<open>prec\<close> digits of \<open>v\<close> without trailing zeros and with a point, in front of \<open>acc\<close>; and the
  rest of \<open>v\<close>. \<open>print\<close> says whether a digit was written.
\<close>

fun fmtFrac :: "nat \<Rightarrow> nat \<Rightarrow> bool \<Rightarrow> string \<Rightarrow> string \<times> nat" where
  "fmtFrac 0 v print acc = (if print then CHR ''.'' # acc else acc, v)"
| "fmtFrac (Suc prec) v print acc =
     (let digit = v mod 10; print' = (print \<or> digit \<noteq> 0)
      in fmtFrac prec (v div 10) print' (if print' then digitChar digit # acc else acc))"

text \<open>Below a second one smaller unit is used; the micro sign is the two bytes of its encoding.\<close>

definition microUnit :: string where "microUnit = [CHR 0xC2, CHR 0xB5, CHR ''s'']"

definition formatBelowSecond :: "nat \<Rightarrow> string" where
  "formatBelowSecond u =
     (if u = 0 then ''0s''
      else let (prec, unit) = (if u < 1000 then (0, ''ns'') else if u < 1000000 then (3, microUnit) else (6, ''ms''));
               (s, v) = fmtFrac prec u False unit
           in decimal v @ s)"

definition formatSeconds :: "nat \<Rightarrow> string" where
  "formatSeconds u =
     (let (s, secs) = fmtFrac 9 u False ''s'';
          sec = decimal (secs mod 60) @ s;
          mins = secs div 60;
          min = decimal (mins mod 60) @ ''m'' @ sec;
          hours = mins div 60
      in if mins = 0 then sec
         else if hours = 0 then min
         else decimal hours @ ''h'' @ min)"

text \<open>The magnitude of the 64-bit value; that of the least one is \<open>2^63\<close>.\<close>

definition Duration_String :: "interval \<Rightarrow> string" where
  "Duration_String d =
     (let u = nat \<bar>d\<bar>;
          s = (if u < 1000000000 then formatBelowSecond u else formatSeconds u)
      in if d < 0 then ''-'' @ s else s)"

section \<open>Parsing: \<open>time.ParseDuration\<close>\<close>

datatype duration_error =
    InvalidDuration string
  | MissingUnit string
  | UnknownUnit string string

text \<open>Digits are read while the value stays within \<open>2^63\<close>.\<close>

fun leadingInt :: "nat \<Rightarrow> string \<Rightarrow> (nat \<times> string) option" where
  "leadingInt x [] = Some (x, [])"
| "leadingInt x (c # s) =
     (if \<not> isDigit c then Some (x, c # s)
      else if x > 2 ^ 63 div 10 then None
      else let y = x * 10 + digitVal c in if y > 2 ^ 63 then None else leadingInt y s)"

text \<open>
  Digits of a fraction; what does not fit is skipped. The scale is the number of digits read: the
  code multiplies a floating-point number by ten for each.
\<close>

fun leadingFraction :: "nat \<Rightarrow> nat \<Rightarrow> bool \<Rightarrow> string \<Rightarrow> nat \<times> nat \<times> string" where
  "leadingFraction x scale overflow [] = (x, scale, [])"
| "leadingFraction x scale overflow (c # s) =
     (if \<not> isDigit c then (x, scale, c # s)
      else if overflow then leadingFraction x scale True s
      else if x > (2 ^ 63 - 1) div 10 then leadingFraction x scale True s
      else let y = x * 10 + digitVal c
           in if y > 2 ^ 63 then leadingFraction x scale True s else leadingFraction y (Suc scale) False s)"

definition unitMap :: "string \<Rightarrow> nat option" where
  "unitMap = map_of [(''ns'', 1), (''us'', 1000), (microUnit, 1000), ([CHR 0xCE, CHR 0xBC, CHR ''s''], 1000),
     (''ms'', 1000000), (''s'', 1000000000), (''m'', 60000000000), (''h'', 3600000000000)]"

definition unitChar :: "char \<Rightarrow> bool" where
  "unitChar c \<longleftrightarrow> \<not> (c = CHR ''.'' \<or> isDigit c)"

text \<open>
  The second half of the loop's body, from the unit on: the value and the rest. 
\<close>

definition parseUnit ::
  "string \<Rightarrow> nat \<Rightarrow> nat \<Rightarrow> nat \<Rightarrow> string \<Rightarrow> duration_error + (nat \<times> string)" where
  "parseUnit orig v f scale s =
     (let u = takeWhile unitChar s; rest = dropWhile unitChar s
      in if u = [] then Inl (MissingUnit orig)
         else case unitMap u of
           None \<Rightarrow> Inl (UnknownUnit u orig)
         | Some unit \<Rightarrow>
             if v > 2 ^ 63 div unit then Inl (InvalidDuration orig)
             else if f > 0 then
               let w = (v * unit + scaledFraction f unit scale) mod 2 ^ 64
               in if w > 2 ^ 63 then Inl (InvalidDuration orig) else Inr (w, rest)
             else Inr (v * unit, rest))"

text \<open>The whole body: the value of the first number with its unit.\<close>

definition parseComponent ::
  "string \<Rightarrow> string \<Rightarrow> duration_error + (nat \<times> string)" where
  "parseComponent orig s =
     (if \<not> (hd s = CHR ''.'' \<or> isDigit (hd s)) then Inl (InvalidDuration orig)
      else case leadingInt 0 s of
        None \<Rightarrow> Inl (InvalidDuration orig)
      | Some (v, s1) \<Rightarrow>
          let pre = (length s \<noteq> length s1)
          in if s1 \<noteq> [] \<and> hd s1 = CHR ''.'' then
               let (f, scale, s2) = leadingFraction 0 0 False (tl s1);
                   post = (length (tl s1) \<noteq> length s2)
               in if \<not> pre \<and> \<not> post then Inl (InvalidDuration orig) else parseUnit orig v f scale s2
             else if \<not> pre then Inl (InvalidDuration orig)
             else parseUnit orig v 0 0 s1)"

lemma leadingInt_rest: "leadingInt x s = Some (v, r) \<Longrightarrow> length r \<le> length s"
  by (induction x s rule: leadingInt.induct) (auto simp: Let_def split: if_splits)

lemma leadingFraction_rest: "leadingFraction x k b s = (f, j, r) \<Longrightarrow> length r \<le> length s"
proof (induction x k b s rule: leadingFraction.induct)
  case (2 x k b c s)
  then show ?case by (fastforce simp: Let_def split: if_splits)
qed simp

lemma parseUnit_shorter: "parseUnit orig v f k s = Inr (w, r) \<Longrightarrow> length r < length s"
proof -
  assume "parseUnit orig v f k s = Inr (w, r)"
  then have "r = dropWhile unitChar s" "takeWhile unitChar s \<noteq> []"
    by (auto simp: parseUnit_def Let_def split: if_splits option.splits)
  moreover have "length s = length (takeWhile unitChar s) + length (dropWhile unitChar s)"
    by (metis length_append takeWhile_dropWhile_id)
  ultimately show ?thesis by simp
qed

lemma parseComponent_shorter:
  assumes "parseComponent orig s = Inr (w, r)"
  shows "length r < length s"
proof -
  obtain v s1 where s1: "leadingInt 0 s = Some (v, s1)"
    using assms by (auto simp: parseComponent_def split: if_splits option.splits)
  obtain f k s2 where s2: "leadingFraction 0 0 False (tl s1) = (f, k, s2)" by (metis prod_cases3)
  have "length s2 \<le> length (tl s1)" by (rule leadingFraction_rest [OF s2])
  moreover have "length r < length s2 \<and> s1 \<noteq> [] \<or> length r < length s1"
    using assms s1 s2 by (auto simp: parseComponent_def Let_def split: if_splits dest!: parseUnit_shorter)
  ultimately show ?thesis using leadingInt_rest [OF s1] by auto
qed

function durationLoop ::
  "string \<Rightarrow> nat \<Rightarrow> string \<Rightarrow> duration_error + nat" where
  "durationLoop orig d s =
     (if s = [] then Inr d
      else case parseComponent orig s of
        Inl e \<Rightarrow> Inl e
      | Inr (v, rest) \<Rightarrow>
          let d' = (d + v) mod 2 ^ 64
          in if d' > 2 ^ 63 then Inl (InvalidDuration orig) else durationLoop orig d' rest)"
  by pat_completeness auto
termination
  by (relation "measure (\<lambda>(orig, d, s). length s)") (auto intro: parseComponent_shorter)

declare durationLoop.simps [simp del]

definition ParseDuration :: "string \<Rightarrow> duration_error + interval" where
  "ParseDuration orig =
     (let neg = (orig \<noteq> [] \<and> hd orig = CHR ''-'');
          s = (if orig \<noteq> [] \<and> (hd orig = CHR ''-'' \<or> hd orig = CHR ''+'') then tl orig else orig)
      in if s = ''0'' then Inr 0
         else if s = [] then Inl (InvalidDuration orig)
         else case durationLoop orig 0 s of
           Inl e \<Rightarrow> Inl e
         | Inr d \<Rightarrow>
             if neg then Inr (- int d)
             else if d > 2 ^ 63 - 1 then Inl (InvalidDuration orig)
             else Inr (int d))"

section \<open>Reading back digits\<close>

abbreviation digitsVal :: "nat \<Rightarrow> string \<Rightarrow> nat" where
  "digitsVal \<equiv> foldl (\<lambda>x c. x * 10 + digitVal c)"

lemma digitsVal_ge: "x \<le> digitsVal x ds"
proof (induction ds arbitrary: x)
  case (Cons c ds)
  show ?case using Cons [of "x * 10 + digitVal c"] by simp
qed simp

lemma leadingInt_digits:
  assumes "\<forall>c\<in>set ds. isDigit c" and "digitsVal x ds \<le> 2 ^ 63"
  shows "leadingInt x (ds @ rest) = leadingInt (digitsVal x ds) rest"
  using assms
proof (induction ds arbitrary: x)
  case (Cons c ds)
  have "x * 10 + digitVal c \<le> 2 ^ 63"
    using digitsVal_ge [of "x * 10 + digitVal c" ds] Cons.prems(2) by simp
  then have "x \<le> 2 ^ 63 div 10" by linarith
  with Cons \<open>x * 10 + digitVal c \<le> 2 ^ 63\<close> show ?case by (simp add: Let_def)
qed simp

lemma leadingFraction_digits:
  assumes "\<forall>c\<in>set ds. isDigit c" and "digitsVal x ds < 2 ^ 63"
  shows "leadingFraction x k False (ds @ rest) = leadingFraction (digitsVal x ds) (k + length ds) False rest"
  using assms
proof (induction ds arbitrary: x k)
  case (Cons c ds)
  have "x * 10 + digitVal c < 2 ^ 63"
    using digitsVal_ge [of "x * 10 + digitVal c" ds] Cons.prems(2) by simp
  then have "x \<le> (2 ^ 63 - 1) div 10" by linarith
  with Cons \<open>x * 10 + digitVal c < 2 ^ 63\<close> show ?case by (simp add: Let_def)
qed simp

lemma stop_at:
  assumes "rest = [] \<or> \<not> isDigit (hd rest)"
  shows "leadingInt x rest = Some (x, rest)" "leadingFraction x k False rest = (x, k, rest)"
  using assms by (cases rest; simp)+

lemma digitsVal_decimal: "digitsVal 0 (decimal n) = n"
proof (induction n rule: decimal.induct)
  case (1 n)
  then show ?case by (cases "n < 10") (simp_all add: decimal_0_9 decimal_ge char_digit)
qed

lemma decimal_zero: "decimal 0 = ''0''"
  by code_simp

text \<open>The last \<open>n\<close> digits of a number.\<close>

fun lastDigits :: "nat \<Rightarrow> nat \<Rightarrow> string" where
  "lastDigits 0 v = []"
| "lastDigits (Suc n) v = lastDigits n (v div 10) @ [digitChar (v mod 10)]"

lemma length_lastDigits [simp]: "length (lastDigits n v) = n"
  by (induction n arbitrary: v) auto

lemma lastDigits_digits: "\<forall>c\<in>set (lastDigits n v). isDigit c"
  by (induction n arbitrary: v) (auto simp: char_digit)

lemma digitsVal_lastDigits: "digitsVal 0 (lastDigits n v) = v mod 10 ^ n"
proof (induction n arbitrary: v)
  case (Suc n)
  have "v mod 10 ^ Suc n = v div 10 mod 10 ^ n * 10 + v mod 10"
    by (simp add: mod_mult2_eq mult.commute)
  with Suc show ?case by (simp add: char_digit)
qed simp

lemma fmtFrac_True: "fmtFrac n v True acc = (CHR ''.'' # lastDigits n v @ acc, v div 10 ^ n)"
  by (induction n arbitrary: v acc) (simp_all add: div_mult2_eq)

lemma fmtFrac_False:
  "v mod 10 ^ n = 0 \<and> fmtFrac n v False acc = (acc, v div 10 ^ n) \<or>
    (\<exists>ds. 0 < v mod 10 ^ n \<and> fmtFrac n v False acc = (CHR ''.'' # ds @ acc, v div 10 ^ n) \<and>
      (\<forall>c\<in>set ds. isDigit c) \<and> length ds \<le> n \<and> digitsVal 0 ds * 10 ^ (n - length ds) = v mod 10 ^ n)"
proof (induction n arbitrary: v acc)
  case (Suc n)
  have split: "v mod 10 ^ Suc n = v div 10 mod 10 ^ n * 10 + v mod 10"
    by (simp add: mod_mult2_eq mult.commute)
  show ?case
  proof (cases "v mod 10 = 0")
    case True
    with Suc [of "v div 10" acc] split show ?thesis
      by (auto simp: div_mult2_eq Suc_diff_le)
  next
    case False
    have "digitsVal 0 (lastDigits (Suc n) v) = v mod 10 ^ Suc n" by (rule digitsVal_lastDigits)
    with False split show ?thesis
      by (intro disjI2 exI [of _ "lastDigits (Suc n) v"])
        (use lastDigits_digits [of "Suc n" v] in \<open>simp add: fmtFrac_True div_mult2_eq\<close>)
  qed
qed simp

section \<open>Reading back components\<close>

lemma parseUnit_value:
  assumes u: "unitMap u = Some unit" "u \<noteq> []" "\<forall>c\<in>set u. unitChar c" and rest: "rest = [] \<or> \<not> unitChar (hd rest)"
    and f: "10 ^ k dvd unit" "f * (unit div 10 ^ k) < 2 ^ 53" and b: "v * unit + f * (unit div 10 ^ k) \<le> 2 ^ 63"
    and unit: "0 < unit" "unit < 2 ^ 53"
  shows "parseUnit orig v f k (u @ rest) = Inr (v * unit + f * (unit div 10 ^ k), rest)"
proof -
  have "takeWhile unitChar (u @ rest) = u" "dropWhile unitChar (u @ rest) = rest"
    using u(3) rest by (cases rest; simp)+
  moreover have "v \<le> 2 ^ 63 div unit"
    using b unit(1) by (metis add_leE div_le_mono nonzero_mult_div_cancel_right less_numeral_extra(3))
  ultimately show ?thesis
    using u scaledFraction_exact [OF f(1) unit f(2)] b by (simp add: parseUnit_def Let_def)
qed

lemma unitMap_bounds:
  assumes "unitMap u = Some unit"
  shows "0 < unit" "unit < 2 ^ 53"
  using map_of_SomeD [OF assms [unfolded unitMap_def]] by auto

lemma parseComponent_int:
  assumes u: "unitMap u = Some unit" "u \<noteq> []" "\<forall>c\<in>set u. unitChar c" and rest: "rest = [] \<or> \<not> unitChar (hd rest)"
    and b: "v * unit \<le> 2 ^ 63"
  shows "parseComponent orig (decimal v @ u @ rest) = Inr (v * unit, rest)"
proof -
  have hd: "unitChar (hd u)" "hd (u @ rest) = hd u" using u(2,3) by auto
  then have "\<not> isDigit (hd (u @ rest))" "hd (u @ rest) \<noteq> CHR ''.''" by (auto simp: unitChar_def)
  moreover have "v \<le> 2 ^ 63"
    using b unitMap_bounds(1) [OF u(1)] by (metis Suc_leI le_trans mult_le_mono2 nat_mult_1_right One_nat_def)
  ultimately have "leadingInt 0 (decimal v @ u @ rest) = Some (v, u @ rest)"
    using leadingInt_digits [of "decimal v" 0 "u @ rest"] stop_at(1) [of "u @ rest" v]
    by (simp add: digitsVal_decimal decimal_digits)
  moreover have "isDigit (hd (decimal v @ u @ rest))"
    using decimal_digits [of "hd (decimal v)" v] by simp
  moreover have "parseUnit orig v 0 0 (u @ rest) = Inr (v * unit, rest)"
    using parseUnit_value [OF u rest, of 0 0 v] b unitMap_bounds [OF u(1)] by simp
  ultimately show ?thesis
    using \<open>hd (u @ rest) \<noteq> CHR ''.''\<close> by (simp add: parseComponent_def)
qed

lemma parseComponent_frac:
  assumes u: "unitMap u = Some (10 ^ n)" "u \<noteq> []" "\<forall>c\<in>set u. unitChar c" and n: "n \<le> 9"
    and b: "v * 10 ^ n + x mod 10 ^ n \<le> 2 ^ 63"
  shows "parseComponent orig (decimal v @ fst (fmtFrac n x False u)) = Inr (v * 10 ^ n + x mod 10 ^ n, [])"
  using fmtFrac_False [of x n u]
proof (elim disjE exE conjE)
  assume "x mod 10 ^ n = 0" "fmtFrac n x False u = (u, x div 10 ^ n)"
  then show ?thesis using parseComponent_int [OF u, of "[]" v] b by simp
next
  fix ds
  assume pos: "0 < x mod 10 ^ n" and fmt: "fmtFrac n x False u = (CHR ''.'' # ds @ u, x div 10 ^ n)"
    and ds: "\<forall>c\<in>set ds. isDigit c" "length ds \<le> n" "digitsVal 0 ds * 10 ^ (n - length ds) = x mod 10 ^ n"
  have quot: "10 ^ n div 10 ^ length ds = (10 ^ (n - length ds) :: nat)" "10 ^ length ds dvd (10 ^ n :: nat)"
    using ds(2) by (simp_all add: power_diff le_imp_power_dvd)
  have "x mod 10 ^ n < 10 ^ n" by simp
  also have "(10 :: nat) ^ n \<le> 10 ^ 9" using n by (intro power_increasing) auto
  finally have small: "x mod 10 ^ n < 10 ^ 9" .
  then have "digitsVal 0 ds < 10 ^ 9"
    using ds(3) by (metis le_less_trans mult_le_mono2 nat_mult_1_right one_le_numeral one_le_power)
  moreover have nd: "\<not> isDigit (hd u)" using u(2,3) by (auto simp: unitChar_def)
  ultimately have frac: "leadingFraction 0 0 False (ds @ u) = (digitsVal 0 ds, length ds, u)"
    using leadingFraction_digits [OF ds(1), of 0 0 u] stop_at(2) [of u] by simp
  have "v * 10 ^ n \<le> 2 ^ 63" using b by simp
  then have "v \<le> 2 ^ 63" by (metis le_trans mult_le_mono2 nat_mult_1_right one_le_numeral one_le_power)
  then have int: "leadingInt 0 (decimal v @ CHR ''.'' # ds @ u) = Some (v, CHR ''.'' # ds @ u)"
    using leadingInt_digits [of "decimal v" 0 "CHR ''.'' # ds @ u"] digit_not_dot [of "CHR ''.''"]
    by (auto simp: digitsVal_decimal decimal_digits)
  have unit: "parseUnit orig v (digitsVal 0 ds) (length ds) u = Inr (v * 10 ^ n + x mod 10 ^ n, [])"
    using parseUnit_value [OF u, of "[]" "length ds" "digitsVal 0 ds" v] unitMap_bounds(2) [OF u(1)] quot ds(3) small b by simp
  have "isDigit (hd (decimal v @ CHR ''.'' # ds @ u))"
    using decimal_digits [of "hd (decimal v)" v] by simp
  then show ?thesis
    unfolding fmt fst_conv parseComponent_def int option.case prod.case
    using frac unit by (simp add: Let_def)
qed

lemma loop_step:
  assumes "parseComponent orig s = Inr (v, rest)" and "d + v \<le> 2 ^ 63"
  shows "durationLoop orig d s = durationLoop orig (d + v) rest"
proof -
  have "s \<noteq> []" using parseComponent_shorter [OF assms(1)] by auto
  then show ?thesis using assms by (subst durationLoop.simps) simp
qed

lemma loop_end: "durationLoop orig d [] = Inr d"
  by (subst durationLoop.simps) simp

lemma units:
  "unitMap ''ns'' = Some (10 ^ 0)" "unitMap microUnit = Some (10 ^ 3)" "unitMap ''ms'' = Some (10 ^ 6)"
  "unitMap ''s'' = Some (10 ^ 9)" "unitMap ''m'' = Some 60000000000" "unitMap ''h'' = Some 3600000000000"
  by (simp_all add: unitMap_def microUnit_def)

lemma units_text:
  "\<forall>c\<in>set ''ns''. unitChar c" "\<forall>c\<in>set microUnit. unitChar c" "\<forall>c\<in>set ''ms''. unitChar c"
  "\<forall>c\<in>set ''s''. unitChar c" "\<forall>c\<in>set ''m''. unitChar c" "\<forall>c\<in>set ''h''. unitChar c" "microUnit \<noteq> []"
  by (simp_all add: unitChar_def isDigit_def microUnit_def less_eq_char_def)

lemma below_second_parse:
  assumes "u < 1000000000"
  shows "durationLoop orig 0 (formatBelowSecond u) = Inr u"
proof -
  have frac: "durationLoop orig 0 (decimal v @ fst (fmtFrac n u False t)) = Inr u"
    if "unitMap t = Some (10 ^ n)" "t \<noteq> []" "\<forall>c\<in>set t. unitChar c" "n \<le> 9" "v = u div 10 ^ n" for n t v
  proof -
    have eq: "v * 10 ^ n + u mod 10 ^ n = u" by (simp only: that(5) div_mult_mod_eq)
    then have b: "v * 10 ^ n + u mod 10 ^ n \<le> 2 ^ 63" using assms by simp
    show ?thesis
      using loop_step [OF parseComponent_frac [OF that(1-4) b], of 0] b loop_end unfolding eq by simp
  qed
  have snd: "snd (fmtFrac n u False t) = u div 10 ^ n" for n t
    using fmtFrac_False [of u n t] by auto
  have zero: "durationLoop orig 0 ''0s'' = Inr 0"
    using loop_step [OF parseComponent_int [OF units(4) _ units_text(4), of "[]" 0 orig], of 0] loop_end
    by (simp add: decimal_zero)
  show ?thesis
    using zero frac [OF units(1) _ units_text(1)] frac [OF units(2) units_text(7,2)] frac [OF units(3) _ units_text(3)]
      snd [of 0 "''ns''"] snd [of 3 microUnit] snd [of 6 "''ms''"]
    by (auto simp: formatBelowSecond_def Let_def split_beta)
qed

lemma seconds_parse:
  assumes "u \<le> 2 ^ 63"
  shows "durationLoop orig 0 (formatSeconds u) = Inr u"
proof -
  define secs where "secs = u div 10 ^ 9"
  define mins where "mins = secs div 60"
  define hours where "hours = mins div 60"
  have fmt: "snd (fmtFrac 9 u False ''s'') = secs" using fmtFrac_False [of u 9 "''s''"] by (auto simp: secs_def)
  let ?sec = "decimal (secs mod 60) @ fst (fmtFrac 9 u False ''s'')"
  let ?min = "decimal (mins mod 60) @ ''m'' @ ?sec"
  have shape: "formatSeconds u = (if mins = 0 then ?sec else if hours = 0 then ?min else decimal hours @ ''h'' @ ?min)"
    by (simp add: formatSeconds_def Let_def split_beta fmt mins_def hours_def)
  have start: "\<not> unitChar (hd (decimal n @ t))" for n t
    using decimal_digits [of "hd (decimal n)" n] by (simp add: unitChar_def)
  have total: "hours * 3600000000000 + (mins mod 60) * 60000000000 + ((secs mod 60) * 10 ^ 9 + u mod 10 ^ 9) = u"
  proof -
    have "secs * 10 ^ 9 + u mod 10 ^ 9 = u" "mins * 60 + secs mod 60 = secs" "hours * 60 + mins mod 60 = mins"
      unfolding hours_def mins_def secs_def by (rule div_mult_mod_eq)+
    then show ?thesis by simp
  qed
  have sec: "durationLoop orig d ?sec = Inr (d + ((secs mod 60) * 10 ^ 9 + u mod 10 ^ 9))"
    if "d + ((secs mod 60) * 10 ^ 9 + u mod 10 ^ 9) \<le> 2 ^ 63" for d
    using loop_step [OF parseComponent_frac [OF units(4) _ units_text(4)] that] that loop_end by simp
  have min: "durationLoop orig d ?min = durationLoop orig (d + (mins mod 60) * 60000000000) ?sec"
    if "d + (mins mod 60) * 60000000000 \<le> 2 ^ 63" for d
    using loop_step [OF parseComponent_int [OF units(5) _ units_text(5) disjI2 [OF start]], of "mins mod 60" d] that by simp
  have hour: "durationLoop orig 0 (decimal hours @ ''h'' @ ?min) = durationLoop orig (hours * 3600000000000) ?min"
    using loop_step [OF parseComponent_int [OF units(6) _ units_text(6) disjI2 [OF start]], of hours 0] total assms by simp
  show ?thesis
  proof (cases "mins = 0")
    case True
    then show ?thesis using total assms sec [of 0] by (simp add: shape hours_def)
  next
    case False
    show ?thesis
    proof (cases "hours = 0")
      case True
      then show ?thesis using False total assms min [of 0] sec [of "(mins mod 60) * 60000000000"] by (simp add: shape)
    next
      case h: False
      then show ?thesis
        using False total assms hour min [of "hours * 3600000000000"]
          sec [of "hours * 3600000000000 + (mins mod 60) * 60000000000"] by (simp add: shape)
    qed
  qed
qed

section \<open>The texts of durations\<close>

text \<open>Digits, the sign, the point, the letters of the units, and the two bytes of the micro sign.\<close>

definition durationChar :: "char \<Rightarrow> bool" where
  "durationChar c \<longleftrightarrow> isDigit c \<or> c \<in> set ''-.hmns''"

fun durationText :: "string \<Rightarrow> bool" where
  "durationText [] = True"
| "durationText (c # s) =
     (if durationChar c then durationText s
      else c = CHR 0xC2 \<and> (case s of [] \<Rightarrow> False | d # t \<Rightarrow> d = CHR 0xB5 \<and> durationText t))"

lemma durationChar_simps [simp]:
  "durationChar CHR ''-''" "durationChar CHR ''.''" "durationChar CHR ''h''" "durationChar CHR ''m''"
  "durationChar CHR ''n''" "durationChar CHR ''s''" "\<not> durationChar (CHR 0xC2)"
  by (simp_all add: durationChar_def isDigit_def less_eq_char_def)

lemma durationText_digits: "\<forall>c\<in>set ds. isDigit c \<Longrightarrow> durationText (ds @ s) = durationText s"
  by (induction ds) (auto simp: durationChar_def)

lemma durationText_decimal [simp]: "durationText (decimal n @ s) = durationText s"
  by (rule durationText_digits) (auto intro: decimal_digits)

definition magnitudeText :: "nat \<Rightarrow> string" where
  "magnitudeText u = (if u < 1000000000 then formatBelowSecond u else formatSeconds u)"

lemma fmtFrac_text: "acc \<noteq> [] \<Longrightarrow> durationText acc \<Longrightarrow> fst (fmtFrac n v False acc) \<noteq> [] \<and> durationText (fst (fmtFrac n v False acc))"
  using fmtFrac_False [of v n acc] by (auto simp: durationText_digits)

lemma formatBelowSecond_shape: "\<exists>n t. formatBelowSecond u = decimal n @ t \<and> t \<noteq> [] \<and> durationText t"
proof (cases "u = 0")
  case True
  then show ?thesis by (intro exI [of _ 0] exI [of _ "''s''"]) (simp add: formatBelowSecond_def decimal_zero)
next
  case False
  then show ?thesis
    using fmtFrac_text [of "''ns''" 0 u] fmtFrac_text [of microUnit 3 u] fmtFrac_text [of "''ms''" 6 u]
    by (auto simp: formatBelowSecond_def Let_def split_beta microUnit_def simp del: fmtFrac.simps)
qed

lemma formatSeconds_shape: "\<exists>n t. formatSeconds u = decimal n @ t \<and> t \<noteq> [] \<and> durationText t"
proof -
  obtain t secs where frac: "fmtFrac 9 u False ''s'' = (t, secs)" by fastforce
  then have t: "t \<noteq> []" "durationText t" using fmtFrac_text [of "''s''" 9 u] by simp_all
  let ?min = "''m'' @ decimal (secs mod 60) @ t"
  let ?hour = "''h'' @ decimal (secs div 60 mod 60) @ ?min"
  consider (sec) "formatSeconds u = decimal (secs mod 60) @ t"
    | (min) "formatSeconds u = decimal (secs div 60 mod 60) @ ?min"
    | (hour) "formatSeconds u = decimal (secs div 60 div 60) @ ?hour"
    unfolding formatSeconds_def frac Let_def prod.case by (metis append_assoc)
  then show ?thesis
  proof cases
    case sec
    with t show ?thesis by blast
  next
    case min
    moreover have "durationText ?min" using t by simp
    ultimately show ?thesis by blast
  next
    case hour
    moreover have "durationText ?hour" using t by simp
    ultimately show ?thesis by blast
  qed
qed

lemma magnitude_shape: "\<exists>n t. magnitudeText u = decimal n @ t \<and> t \<noteq> [] \<and> durationText t"
  using formatBelowSecond_shape formatSeconds_shape by (simp add: magnitudeText_def)

lemma magnitude_start: "magnitudeText u \<noteq> []" "isDigit (hd (magnitudeText u))" "magnitudeText u \<noteq> ''0''" "durationText (magnitudeText u)"
proof -
  obtain n t where shape: "magnitudeText u = decimal n @ t" "t \<noteq> []" "durationText t" using magnitude_shape by blast
  show "magnitudeText u \<noteq> []" "durationText (magnitudeText u)" using shape by simp_all
  show "isDigit (hd (magnitudeText u))" using shape decimal_digits [of "hd (decimal n)" n] by simp
  show "magnitudeText u \<noteq> ''0''" using shape by (auto simp: append_eq_Cons_conv)
qed

lemma Duration_String_magnitude: "Duration_String d = (if d < 0 then ''-'' else []) @ magnitudeText (nat \<bar>d\<bar>)"
  by (simp add: Duration_String_def magnitudeText_def Let_def)

lemma Duration_roundtrip:
  assumes "- (2 ^ 63) \<le> d" and "d < 2 ^ 63"
  shows "ParseDuration (Duration_String d) = Inr d"
proof -
  define u where "u = nat \<bar>d\<bar>"
  have u: "u \<le> 2 ^ 63" "d = (if d < 0 then - int u else int u)" "\<not> d < 0 \<Longrightarrow> \<not> 2 ^ 63 - 1 < u"
    using assms by (auto simp: u_def)
  have loop: "durationLoop orig 0 (magnitudeText u) = Inr u" for orig
    using u(1) below_second_parse seconds_parse by (simp add: magnitudeText_def)
  have hd: "hd (magnitudeText u) \<noteq> CHR ''-''" "hd (magnitudeText u) \<noteq> CHR ''+''"
    using magnitude_start(2) [of u] by (auto simp: isDigit_def less_eq_char_def)
  show ?thesis
  proof (cases "d < 0")
    case True
    then have "Duration_String d = CHR ''-'' # magnitudeText u" by (simp add: Duration_String_magnitude u_def)
    with True u(2) magnitude_start(1,3) [of u] loop show ?thesis by (simp add: ParseDuration_def)
  next
    case False
    then have "Duration_String d = magnitudeText u" by (simp add: Duration_String_magnitude u_def)
    with False u(2) u(3) magnitude_start(1,3) [of u] loop hd show ?thesis by (simp add: ParseDuration_def)
  qed
qed

lemma durationLoop_bound: "durationLoop orig d s = Inr e \<Longrightarrow> d \<le> 2 ^ 63 \<Longrightarrow> e \<le> 2 ^ 63"
proof (induction orig d s rule: durationLoop.induct)
  case (1 orig d s)
  from 1(2,3) show ?case
    by (subst (asm) durationLoop.simps)
      (auto simp: Let_def split: if_splits sum.splits prod.splits dest!: 1(1))
qed

lemma ParseDuration_range:
  assumes "ParseDuration s = Inr d"
  shows "- (2 ^ 63) \<le> d" "d < 2 ^ 63"
proof -
  let ?t = "if s \<noteq> [] \<and> (hd s = CHR ''-'' \<or> hd s = CHR ''+'') then tl s else s"
  consider "d = 0" | n where "durationLoop s 0 ?t = Inr n" "d = - int n \<or> d = int n \<and> \<not> 2 ^ 63 - 1 < n"
    using assms by (auto simp: ParseDuration_def Let_def split: if_splits sum.splits)
  then show "- (2 ^ 63) \<le> d" "d < 2 ^ 63"
    using durationLoop_bound by (cases; fastforce)+
qed

lemma Duration_String_text: "durationText (Duration_String d)"
  using magnitude_start(4) by (simp add: Duration_String_magnitude durationChar_def)

end
