(* ===== verification/Interval_Json.thy ===== *)
theory Interval_Json
  imports Duration
begin

text \<open>
  The JSON form of \<open>Interval\<close> (\<^verbatim>\<open>pkg/api/arbiter/v1alpha1/remotecluster_types.go\<close>): its methods
  \<open>MarshalJSON\<close> and \<open>UnmarshalJSON\<close>, with what they use of \<^verbatim>\<open>encoding/json\<close>, the encoding of a string and
  the decoding into a string. Texts are sequences of bytes.
\<close>

section \<open>Characters of a text\<close>

text \<open>
  \<open>utf8.DecodeRune\<close>: the number of bytes of the first character of a text in UTF-8, zero where the text does not
  start with one. Overlong forms, surrogates and values above the last code point are excluded.
\<close>

abbreviation byteVal :: "char \<Rightarrow> nat" where "byteVal c \<equiv> of_char c"

definition byteIn :: "nat \<Rightarrow> nat \<Rightarrow> char \<Rightarrow> bool" where
  "byteIn lo hi c \<longleftrightarrow> lo \<le> byteVal c \<and> byteVal c \<le> hi"

definition continues :: "nat \<Rightarrow> nat \<Rightarrow> nat \<Rightarrow> string \<Rightarrow> bool" where
  "continues n lo hi s \<longleftrightarrow>
     n \<le> length s \<and> byteIn lo hi (s ! 0) \<and> (\<forall>c\<in>set (tl (take n s)). byteIn 0x80 0xBF c)"

fun utf8Width :: "string \<Rightarrow> nat" where
  "utf8Width [] = 0"
| "utf8Width (c # s) =
     (if byteVal c < 0x80 then 1
      else if byteIn 0xC2 0xDF c \<and> continues 1 0x80 0xBF s then 2
      else if c = CHR 0xE0 \<and> continues 2 0xA0 0xBF s then 3
      else if c = CHR 0xED \<and> continues 2 0x80 0x9F s then 3
      else if byteIn 0xE1 0xEF c \<and> c \<noteq> CHR 0xED \<and> continues 2 0x80 0xBF s then 3
      else if c = CHR 0xF0 \<and> continues 3 0x90 0xBF s then 4
      else if byteIn 0xF1 0xF3 c \<and> continues 3 0x80 0xBF s then 4
      else if c = CHR 0xF4 \<and> continues 3 0x80 0x8F s then 4
      else 0)"

text \<open>\<open>utf8.AppendRune\<close>.\<close>

definition encodeRune :: "nat \<Rightarrow> string" where
  "encodeRune r =
     map char_of
      (if r < 0x80 then [r]
       else if r < 0x800 then [0xC0 + r div 64, 0x80 + r mod 64]
       else if r < 0x10000 then [0xE0 + r div 4096, 0x80 + r div 64 mod 64, 0x80 + r mod 64]
       else [0xF0 + r div 262144, 0x80 + r div 4096 mod 64, 0x80 + r div 64 mod 64, 0x80 + r mod 64])"

definition replacementChar :: string where
  "replacementChar = [CHR 0xEF, CHR 0xBF, CHR 0xBD]"

section \<open>\<open>json.Marshal\<close> of a string\<close>

definition htmlSafe :: "char \<Rightarrow> bool" where
  "htmlSafe c \<longleftrightarrow> byteIn 0x20 0x7F c \<and> c \<notin> {CHR 0x22, CHR ''&'', CHR ''<'', CHR ''>'', CHR 0x5C}"

definition hexDigit :: "nat \<Rightarrow> char" where
  "hexDigit n = ''0123456789abcdef'' ! n"

definition escapeChar :: "char \<Rightarrow> string" where
  "escapeChar c =
     CHR 0x5C #
      (if c = CHR 0x5C \<or> c = CHR 0x22 then [c]
       else if c = CHR 0x08 then ''b'' else if c = CHR 0x0C then ''f'' else if c = CHR 0x0A then ''n''
       else if c = CHR 0x0D then ''r'' else if c = CHR 0x09 then ''t''
       else ''u00'' @ [hexDigit (byteVal c div 16), hexDigit (byteVal c mod 16)])"

text \<open>The line separators U+2028 and U+2029 are escaped, what is not UTF-8 is replaced.\<close>

definition marshalRune :: "string \<Rightarrow> string" where
  "marshalRune r =
     (if r = [CHR 0xE2, CHR 0x80, CHR 0xA8] then CHR 0x5C # ''u2028''
      else if r = [CHR 0xE2, CHR 0x80, CHR 0xA9] then CHR 0x5C # ''u2029''
      else r)"

function marshalChars :: "string \<Rightarrow> string" where
  "marshalChars [] = []"
| "marshalChars (c # s) =
     (if byteVal c < 0x80 then (if htmlSafe c then [c] else escapeChar c) @ marshalChars s
      else let w = utf8Width (c # s)
           in if w = 0 then CHR 0x5C # ''ufffd'' @ marshalChars s
              else marshalRune (take w (c # s)) @ marshalChars (drop w (c # s)))"
  by pat_completeness auto
termination
  by (relation "measure length") (auto simp del: utf8Width.simps)

definition jsonMarshalString :: "string \<Rightarrow> string" where
  "jsonMarshalString s = CHR 0x22 # marshalChars s @ [CHR 0x22]"

section \<open>\<open>json.Unmarshal\<close> into a string\<close>

definition hexVal :: "char \<Rightarrow> nat option" where
  "hexVal c =
     (if isDigit c then Some (digitVal c)
      else if byteIn 0x61 0x66 c then Some (byteVal c - 0x61 + 10)
      else if byteIn 0x41 0x46 c then Some (byteVal c - 0x41 + 10)
      else None)"

text \<open>\<open>getu4\<close>: the escape of a 16-bit unit at the start of a text.\<close>

fun getu4 :: "string \<Rightarrow> nat option" where
  "getu4 (e # u # a # b # c # d # s) =
     (if e = CHR 0x5C \<and> u = CHR ''u'' then
        (case (hexVal a, hexVal b, hexVal c, hexVal d) of
           (Some va, Some vb, Some vc, Some vd) \<Rightarrow> Some (va * 4096 + vb * 256 + vc * 16 + vd)
         | _ \<Rightarrow> None)
      else None)"
| "getu4 s = None"

text \<open>\<open>utf16.DecodeRune\<close>.\<close>

definition surrogatePair :: "nat \<Rightarrow> nat \<Rightarrow> nat option" where
  "surrogatePair r1 r2 =
     (if 0xD800 \<le> r1 \<and> r1 < 0xDC00 \<and> 0xDC00 \<le> r2 \<and> r2 < 0xE000
      then Some ((r1 - 0xD800) * 1024 + (r2 - 0xDC00) + 0x10000) else None)"

text \<open>The text of an escape of one or two units and the number of bytes of the escape.\<close>

definition unicodeEscape :: "nat \<Rightarrow> string \<Rightarrow> string \<times> nat" where
  "unicodeEscape r rest =
     (if 0xD800 \<le> r \<and> r < 0xE000 then
        (case Option.bind (getu4 rest) (surrogatePair r) of
           Some p \<Rightarrow> (encodeRune p, 12)
         | None \<Rightarrow> (replacementChar, 6))
      else (encodeRune r, 6))"

definition simpleEscape :: "char \<Rightarrow> char option" where
  "simpleEscape = map_of [(CHR 0x22, CHR 0x22), (CHR 0x5C, CHR 0x5C), (CHR ''/'', CHR ''/''), (CHR ''b'', CHR 0x08),
     (CHR ''f'', CHR 0x0C), (CHR ''n'', CHR 0x0A), (CHR ''r'', CHR 0x0D), (CHR ''t'', CHR 0x09)]"

text \<open>The first element of a string literal without its opening quote: its text and its number of bytes.\<close>

definition literalHead :: "string \<Rightarrow> (string \<times> nat) option" where
  "literalHead s =
     (let c = hd s
      in if c = CHR 0x5C then
           (if tl s = [] then None
            else if hd (tl s) = CHR ''u'' then map_option (\<lambda>r. unicodeEscape r (drop 6 s)) (getu4 s)
            else map_option (\<lambda>e. ([e], 2)) (simpleEscape (hd (tl s))))
         else if byteVal c < 0x20 then None
         else if utf8Width s = 0 then Some (replacementChar, 1)
         else Some (take (utf8Width s) s, utf8Width s))"

lemma literalHead_positive: "literalHead s = Some (t, n) \<Longrightarrow> 0 < n"
  by (auto simp: literalHead_def unicodeEscape_def Let_def split: if_splits option.splits)

text \<open>The text of the literal and what follows the closing quote.\<close>

function unquote :: "string \<Rightarrow> (string \<times> string) option" where
  "unquote s =
     (if s = [] then None
      else if hd s = CHR 0x22 then Some ([], tl s)
      else case literalHead s of
        None \<Rightarrow> None
      | Some (t, n) \<Rightarrow> map_option (apfst ((@) t)) (unquote (drop n s)))"
  by pat_completeness auto
termination
  by (relation "measure length") (auto dest: literalHead_positive)

declare unquote.simps [simp del]

definition jsonSpace :: "char \<Rightarrow> bool" where
  "jsonSpace c \<longleftrightarrow> c \<in> {CHR '' '', CHR 0x09, CHR 0x0A, CHR 0x0D}"

text \<open>
  \<open>null\<close> leaves the variable as it is, the empty string. Everything else is no JSON text or a value
  of another type: both are errors, whose texts are not looked at.
\<close>

definition jsonUnmarshalString :: "string \<Rightarrow> string option" where
  "jsonUnmarshalString bytes =
     (let s = dropWhile jsonSpace bytes
      in if s \<noteq> [] \<and> hd s = CHR 0x22 then
           (case unquote (tl s) of
              Some (t, rest) \<Rightarrow> if list_all jsonSpace rest then Some t else None
            | None \<Rightarrow> None)
         else if take 4 s = ''null'' \<and> list_all jsonSpace (drop 4 s) then Some []
         else None)"

section \<open>The methods of \<open>Interval\<close>\<close>

datatype interval_error = JSONError string | DurationError duration_error

definition Interval_MarshalJSON :: "interval \<Rightarrow> interval_error + string" where
  "Interval_MarshalJSON r = Inr (jsonMarshalString (Duration_String r))"

text \<open>The receiver after the call and the error; a text that is no duration sets it to zero.\<close>

definition Interval_UnmarshalJSON :: "interval \<Rightarrow> string \<Rightarrow> interval \<times> interval_error option" where
  "Interval_UnmarshalJSON r bytes =
     (case jsonUnmarshalString bytes of
        None \<Rightarrow> (r, Some (JSONError bytes))
      | Some durationString \<Rightarrow>
          (case ParseDuration durationString of
             Inl err \<Rightarrow> (0, Some (DurationError err))
           | Inr d \<Rightarrow> (d, None)))"

section \<open>Round trip\<close>

lemma durationChar_plain:
  assumes "durationChar c"
  shows "htmlSafe c" "byteVal c < 0x80" "c \<noteq> CHR 0x22" "c \<noteq> CHR 0x5C" "\<not> byteVal c < 0x20"
  using assms by (auto simp: durationChar_def htmlSafe_def byteIn_def isDigit_def less_eq_char_def)

lemma micro_width: "utf8Width (CHR 0xC2 # CHR 0xB5 # s) = 2"
  by (simp add: byteIn_def continues_def)

lemma marshalChars_text: "durationText s \<Longrightarrow> marshalChars s = s"
proof (induction s rule: durationText.induct)
  case (2 c s)
  show ?case
  proof (cases "durationChar c")
    case True
    with 2 show ?thesis by (simp add: durationChar_plain)
  next
    case False
    with 2 obtain t where "c = CHR 0xC2" "s = CHR 0xB5 # t" "durationText t" by (auto split: list.splits)
    with 2(2) False show ?thesis
      by (simp add: micro_width marshalRune_def del: utf8Width.simps)
  qed
qed simp

lemma unquote_text: "durationText s \<Longrightarrow> unquote (s @ CHR 0x22 # rest) = Some (s, rest)"
proof (induction s rule: durationText.induct)
  case 1
  show ?case by (subst unquote.simps) simp
next
  case (2 c s)
  show ?case
  proof (cases "durationChar c")
    case True
    with 2 show ?thesis by (subst unquote.simps) (simp add: literalHead_def durationChar_plain)
  next
    case False
    with 2 obtain t where "c = CHR 0xC2" "s = CHR 0xB5 # t" "durationText t" by (auto split: list.splits)
    with 2(2) False show ?thesis
      by (subst unquote.simps) (simp add: literalHead_def micro_width del: utf8Width.simps)
  qed
qed

lemma json_text_roundtrip: "durationText s \<Longrightarrow> jsonUnmarshalString (jsonMarshalString s) = Some s"
  using unquote_text [of s "[]"] by (simp add: jsonMarshalString_def jsonUnmarshalString_def marshalChars_text jsonSpace_def)

text \<open>
  C13: every interval that fits 64 bits, the least and the greatest included, is read back from its JSON
  form exactly, whatever the receiver held before; and every JSON text that is accepted gives an
  interval that fits 64 bits, so it can be written and read again.
\<close>

theorem interval_json_roundtrip:
  "(\<forall>d r. - (2 ^ 63) \<le> d \<and> d < 2 ^ 63 \<longrightarrow>
      (\<exists>bytes. Interval_MarshalJSON d = Inr bytes \<and> Interval_UnmarshalJSON r bytes = (d, None))) \<and>
    (\<forall>bytes r d. Interval_UnmarshalJSON r bytes = (d, None) \<longrightarrow> - (2 ^ 63) \<le> d \<and> d < 2 ^ 63)"
  using ParseDuration_range
  by (auto simp: Interval_MarshalJSON_def Interval_UnmarshalJSON_def json_text_roundtrip Duration_String_text
      Duration_roundtrip split: option.splits sum.splits)

lemma fmtFrac_numeral:
  "fmtFrac (numeral k) v print acc =
     (let digit = v mod 10; print' = (print \<or> digit \<noteq> 0)
      in fmtFrac (pred_numeral k) (v div 10) print' (if print' then digitChar digit # acc else acc))"
  by (simp only: numeral_eq_Suc [of k] fmtFrac.simps)

lemma one_and_half_minutes: "Duration_String 90500000000 = ''1m30.5s''"
  by (simp add: Duration_String_def formatSeconds_def fmtFrac_numeral decimal_0_9 decimal_ge Let_def digitChar_def char_of_def bit_iff_odd)

theorem interval_json_roundtrip_witness:
  "Interval_MarshalJSON 90500000000 = Inr (CHR 0x22 # ''1m30.5s'' @ [CHR 0x22]) \<and>
    Interval_UnmarshalJSON 0 (CHR 0x22 # ''1m30.5s'' @ [CHR 0x22]) = (90500000000, None)"
proof -
  have enc: "Interval_MarshalJSON 90500000000 = Inr (CHR 0x22 # ''1m30.5s'' @ [CHR 0x22])"
    using Duration_String_text [of 90500000000]
    by (simp only: Interval_MarshalJSON_def jsonMarshalString_def marshalChars_text one_and_half_minutes)
  then show ?thesis using conjunct1 [OF interval_json_roundtrip, rule_format, of 90500000000 0] by simp
qed

end
