(* ===== verification/Schema_Defaults.thy ===== *)
theory Schema_Defaults
  imports Interval_Json Webhook
begin

text \<open>
  The way of a \<open>RemoteCluster\<close> manifest into the cluster: the API server fills in the defaults that the markers
  of \<^verbatim>\<open>remotecluster_types.go\<close> put into the schema of the resource, the spec is decoded, and the two webhooks
  of \<^verbatim>\<open>remotecluster_webhook.go\<close> default and validate it.
\<close>

section \<open>Manifests\<close>

text \<open>
  The spec of a \<open>RemoteCluster\<close> as a user sends it: a field may be absent, and one that
  is null counts as absent, since the API server drops it before it fills in defaults. Intervals are JSON values.
\<close>

record access_key_manifest =
  am_name :: "string option"
  am_key :: "string option"

record cluster_manifest =
  cm_timeout :: "string option"
  cm_check_interval :: "string option"
  cm_access_key_ref :: "access_key_manifest option"
  cm_namespace :: "string option"

definition orDefault :: "'a \<Rightarrow> 'a option \<Rightarrow> 'a option" where
  "orDefault d x = (case x of None \<Rightarrow> Some d | Some y \<Rightarrow> Some y)"

definition quoted :: "string \<Rightarrow> string" where
  "quoted s = CHR 0x22 # s @ [CHR 0x22]"

text \<open>The defaults of the markers; those of the fields of an absent object are not applied.\<close>

definition KubeconfigSecretSource_schema :: "access_key_manifest \<Rightarrow> access_key_manifest" where
  "KubeconfigSecretSource_schema a =
     \<lparr>am_name = orDefault ''matches RemoteCluster name'' (am_name a),
      am_key = orDefault ''kubeconfig.yaml'' (am_key a)\<rparr>"

definition RemoteClusterSpec_schema :: "cluster_manifest \<Rightarrow> cluster_manifest" where
  "RemoteClusterSpec_schema m =
     \<lparr>cm_timeout = orDefault (quoted ''10s'') (cm_timeout m),
      cm_check_interval = orDefault (quoted ''1m'') (cm_check_interval m),
      cm_access_key_ref = map_option KubeconfigSecretSource_schema (cm_access_key_ref m),
      cm_namespace = orDefault ''default'' (cm_namespace m)\<rparr>"

text \<open>Decoding: an absent pointer is nil, an absent text is empty, and an absent object is the zero value.\<close>

definition decodeInterval :: "string option \<Rightarrow> interval_error + interval option" where
  "decodeInterval x =
     (case x of
        None \<Rightarrow> Inr None
      | Some bytes \<Rightarrow>
          (case Interval_UnmarshalJSON 0 bytes of
             (d, None) \<Rightarrow> Inr (Some d)
           | (d, Some err) \<Rightarrow> Inl err))"

definition decodeText :: "string option \<Rightarrow> string" where
  "decodeText x = (case x of None \<Rightarrow> [] | Some s \<Rightarrow> s)"

definition decodeAccessKeyRef :: "access_key_manifest option \<Rightarrow> kubeconfig_secret_source" where
  "decodeAccessKeyRef x =
     (case x of
        None \<Rightarrow> \<lparr>ks_name = [], ks_key = []\<rparr>
      | Some a \<Rightarrow> \<lparr>ks_name = decodeText (am_name a), ks_key = decodeText (am_key a)\<rparr>)"

definition decodeClusterSpec :: "cluster_manifest \<Rightarrow> interval_error + remote_cluster_spec" where
  "decodeClusterSpec m =
     (case (decodeInterval (cm_timeout m), decodeInterval (cm_check_interval m)) of
        (Inr t, Inr c) \<Rightarrow> Inr \<lparr>rcs_timeout = t, rcs_check_interval = c,
            rcs_access_key_ref = decodeAccessKeyRef (cm_access_key_ref m), rcs_namespace = decodeText (cm_namespace m)\<rparr>
      | (Inl err, _) \<Rightarrow> Inl err
      | (_, Inl err) \<Rightarrow> Inl err)"

section \<open>Admission of a manifest\<close>

text \<open>Schema defaults, decoding, the defaulting webhook, the validating webhook.\<close>

definition manifestAccepted :: "dns_check \<Rightarrow> object_meta \<Rightarrow> remote_status \<Rightarrow> cluster_manifest \<Rightarrow> bool" where
  "manifestAccepted dns meta status m =
     (case decodeClusterSpec (RemoteClusterSpec_schema m) of
        Inl err \<Rightarrow> False
      | Inr sp \<Rightarrow> clusterValidateCreate dns (clusterDefault \<lparr>rc_meta = meta, rc_spec = sp, rc_status = status\<rparr>) = None)"

lemma unmarshal_default_texts:
  "Interval_UnmarshalJSON r (quoted ''10s'') = (10000000000, None)"
  "Interval_UnmarshalJSON r (quoted ''1m'') = (60000000000, None)"
proof -
  have digits: "decimal 10 = ''10''" "decimal (Suc 0) = ''1''" by code_simp+
  have d: "ParseDuration ''10s'' = Inr 10000000000" "ParseDuration ''1m'' = Inr 60000000000"
    using loop_step [OF parseComponent_int [OF units(4) _ units_text(4), of "[]" 10], of 0]
      loop_step [OF parseComponent_int [OF units(5) _ units_text(5), of "[]" 1], of 0]
    by (simp_all add: digits loop_end ParseDuration_def)
  have plain: "durationText ''10s''" "durationText ''1m''"
    using durationText_decimal [of 10 "''s''"] durationText_decimal [of "Suc 0" "''m''"] by (simp_all add: digits)
  have "jsonUnmarshalString (quoted ''10s'') = Some ''10s''" "jsonUnmarshalString (quoted ''1m'') = Some ''1m''"
    using json_text_roundtrip [OF plain(1)] json_text_roundtrip [OF plain(2)]
    by (simp_all only: jsonMarshalString_def marshalChars_text [OF plain(1)] marshalChars_text [OF plain(2)] quoted_def)
  then show "Interval_UnmarshalJSON r (quoted ''10s'') = (10000000000, None)"
    "Interval_UnmarshalJSON r (quoted ''1m'') = (60000000000, None)"
    by (simp_all add: Interval_UnmarshalJSON_def d)
qed

definition intervalFieldOk :: "string option \<Rightarrow> bool" where
  "intervalFieldOk x \<longleftrightarrow> (case x of None \<Rightarrow> True | Some bytes \<Rightarrow> \<exists>d\<ge>0. Interval_UnmarshalJSON 0 bytes = (d, None))"

lemma decode_cases:
  assumes "Interval_UnmarshalJSON 0 dflt = (d0, None)" and "0 \<le> d0"
  obtains err where "decodeInterval (orDefault dflt x) = Inl err" "\<not> intervalFieldOk x"
  | d where "decodeInterval (orDefault dflt x) = Inr (Some d)" "intervalFieldOk x \<longleftrightarrow> 0 \<le> d"
proof -
  obtain d e where run: "Interval_UnmarshalJSON 0 (case x of None \<Rightarrow> dflt | Some b \<Rightarrow> b) = (d, e)" by fastforce
  show thesis
  proof (cases e)
    case None
    with run assms show thesis
      by (intro that(2) [of d]) (auto simp: decodeInterval_def orDefault_def intervalFieldOk_def split: option.splits)
  next
    case (Some err)
    with run assms show thesis
      by (intro that(1) [of err]) (auto simp: decodeInterval_def orDefault_def intervalFieldOk_def split: option.splits)
  qed
qed

lemma accepted_by_fields:
  "manifestAccepted dns meta status m \<longleftrightarrow>
    intervalFieldOk (cm_timeout m) \<and> intervalFieldOk (cm_check_interval m) \<and>
    (let ns = decodeText (cm_namespace (RemoteClusterSpec_schema m));
         n = ks_name (decodeAccessKeyRef (cm_access_key_ref (RemoteClusterSpec_schema m)))
     in dns (if ns = [] then ''default'' else ns) False = [] \<and> dns (if n = [] then om_name meta else n) False = [])"
proof -
  let ?m = "RemoteClusterSpec_schema m"
  have times: "cm_timeout ?m = orDefault (quoted ''10s'') (cm_timeout m)"
    "cm_check_interval ?m = orDefault (quoted ''1m'') (cm_check_interval m)"
    by (simp_all add: RemoteClusterSpec_schema_def)
  show ?thesis
  proof (rule decode_cases [OF unmarshal_default_texts(1), of "cm_timeout m"])
    fix err
    assume "decodeInterval (orDefault (quoted ''10s'') (cm_timeout m)) = Inl err" "\<not> intervalFieldOk (cm_timeout m)"
    then show ?thesis by (simp add: manifestAccepted_def decodeClusterSpec_def times split: sum.split)
  next
    fix t
    assume t: "decodeInterval (orDefault (quoted ''10s'') (cm_timeout m)) = Inr (Some t)" "intervalFieldOk (cm_timeout m) \<longleftrightarrow> 0 \<le> t"
    show ?thesis
    proof (rule decode_cases [OF unmarshal_default_texts(2), of "cm_check_interval m"])
      fix err
      assume "decodeInterval (orDefault (quoted ''1m'') (cm_check_interval m)) = Inl err" "\<not> intervalFieldOk (cm_check_interval m)"
      with t show ?thesis by (simp add: manifestAccepted_def decodeClusterSpec_def times)
    next
      fix c
      assume "decodeInterval (orDefault (quoted ''1m'') (cm_check_interval m)) = Inr (Some c)"
        "intervalFieldOk (cm_check_interval m) \<longleftrightarrow> 0 \<le> c"
      with t show ?thesis
        by (simp add: manifestAccepted_def decodeClusterSpec_def times clusterValidateCreate_def clusterValidate_None
            clusterSpecOk_def clusterDefault_def setRemoteClusterSpecDefaults_sel DefaultNamespace_def Let_def) auto
    qed simp
  qed simp
qed

text \<open>
  C14: a manifest of a \<open>RemoteCluster\<close> is accepted exactly when its intervals are absent or durations that are not
  negative, its namespace is absent, empty or a label, and its secret is named by a label, or by an empty name or no
  reference at all if the name of the resource is a label. A reference without a name is always rejected, although the
  name is optional: the default of the schema is the text of its documentation, which is no label, and it
  keeps the defaulting webhook from filling in the name of the resource.
\<close>

theorem manifest_accepted_iff:
  assumes "dns ''default'' False = []" and "dns ''matches RemoteCluster name'' False \<noteq> []"
  shows "manifestAccepted dns meta status m \<longleftrightarrow>
    intervalFieldOk (cm_timeout m) \<and> intervalFieldOk (cm_check_interval m) \<and>
    (case cm_namespace m of None \<Rightarrow> True | Some ns \<Rightarrow> dns (if ns = [] then ''default'' else ns) False = []) \<and>
    (case cm_access_key_ref m of
       None \<Rightarrow> dns (om_name meta) False = []
     | Some a \<Rightarrow>
         (case am_name a of
            None \<Rightarrow> False
          | Some n \<Rightarrow> dns (if n = [] then om_name meta else n) False = []))"
  unfolding accepted_by_fields
  using assms
  by (simp add: RemoteClusterSpec_schema_def KubeconfigSecretSource_schema_def decodeText_def decodeAccessKeyRef_def
      orDefault_def Let_def split: option.split)

text \<open>A check of labels: letters, digits and inner hyphens, at most 63 of them.\<close>

definition labelChar :: "char \<Rightarrow> bool" where
  "labelChar c \<longleftrightarrow> c \<in> set ''abcdefghijklmnopqrstuvwxyz0123456789''"

definition demo_label_check :: dns_check where
  "demo_label_check name prefix =
     (if name \<noteq> [] \<and> length name \<le> 63 \<and> labelChar (hd name) \<and> (prefix \<or> labelChar (last name)) \<and>
        (\<forall>c\<in>set name. labelChar c \<or> c = CHR ''-'')
      then [] else [''not a label''])"

definition demo_manifest :: "access_key_manifest option \<Rightarrow> cluster_manifest" where
  "demo_manifest ref = \<lparr>cm_timeout = None, cm_check_interval = None, cm_access_key_ref = ref, cm_namespace = None\<rparr>"

definition demo_status :: remote_status where
  "demo_status = \<lparr>st_state = [], st_message = [], st_conditions = []\<rparr>"

theorem manifest_accepted_iff_witness:
  "manifestAccepted demo_label_check (empty_meta\<lparr>om_name := ''external-arbiter''\<rparr>) demo_status (demo_manifest None) \<and>
    \<not> manifestAccepted demo_label_check (empty_meta\<lparr>om_name := ''external-arbiter''\<rparr>) demo_status
      (demo_manifest (Some \<lparr>am_name = None, am_key = Some ''config''\<rparr>))"
proof -
  have labels: "demo_label_check ''default'' False = []" "demo_label_check ''matches RemoteCluster name'' False \<noteq> []"
    "demo_label_check ''external-arbiter'' False = []"
    by (simp_all add: demo_label_check_def labelChar_def)
  show ?thesis
    using manifest_accepted_iff [where dns = demo_label_check, OF labels(1,2)] labels(3)
    by (simp add: demo_manifest_def intervalFieldOk_def)
qed

end
