(* ===== verification/Manager.thy ===== *)
theory Manager
  imports Watches Webhook Demo_Server
begin

text \<open>
  The program (\<^verbatim>\<open>cmd/manager/main.go\<close>): registration of the API types, the flags, the options of the servers and
  of the manager, and the start, with the registration of webhooks, indexes and controllers. The manager of
  controller-runtime, the scheme of apimachinery and the flags of the libraries are parameters. Log messages
  are left out.
\<close>

section \<open>Scheme\<close>

text \<open>The scheme of apimachinery and the registrations of Rook and client-go are parameters.\<close>

record 'sch scheme_lib =
  sch_New :: 'sch
  sch_AddKnownTypes :: "string \<Rightarrow> string list \<Rightarrow> 'sch \<Rightarrow> 'sch"
  sch_AddToGroupVersion :: "string \<Rightarrow> 'sch \<Rightarrow> 'sch"
  sch_rook_AddToScheme :: "'sch \<Rightarrow> (goerror + unit) \<times> 'sch"
  sch_clientgo_AddToScheme :: "'sch \<Rightarrow> (goerror + unit) \<times> 'sch"

definition addKnownTypes :: "'sch scheme_lib \<Rightarrow> ('sch, unit) go" where
  "addKnownTypes L =
     bnd (modify (sch_AddKnownTypes L GroupVersion
            [''RemoteArbiter'', ''RemoteArbiterList'', ''RemoteCluster'', ''RemoteClusterList''])) (\<lambda>_.
     modify (sch_AddToGroupVersion L GroupVersion))"

text \<open>\<open>utilruntime.Must\<close> panics on an error.\<close>

definition must :: "('s, unit) go \<Rightarrow> ('s, unit) go" where
  "must m = onErr m (\<lambda>err. panic) ret"

definition initScheme :: "'sch scheme_lib \<Rightarrow> ('sch, unit) go" where
  "initScheme L =
     bnd (must (mgrCall (sch_rook_AddToScheme L))) (\<lambda>_.
     bnd (must (addKnownTypes L)) (\<lambda>_.
     must (mgrCall (sch_clientgo_AddToScheme L))))"

section \<open>Flags\<close>

record flag_values =
  metricsAddr :: string
  metricsCertPath :: string
  metricsCertName :: string
  metricsCertKey :: string
  webhookCertPath :: string
  webhookCertName :: string
  webhookCertKey :: string
  enableLeaderElection :: bool
  probeAddr :: string
  secureMetrics :: bool
  enableHTTP2 :: bool

definition defaultFlags :: flag_values where
  "defaultFlags = \<lparr>metricsAddr = ''0'', metricsCertPath = [], metricsCertName = ''tls.crt'', metricsCertKey = ''tls.key'',
     webhookCertPath = [], webhookCertName = ''tls.crt'', webhookCertKey = ''tls.key'', enableLeaderElection = False,
     probeAddr = '':8081'', secureMetrics = True, enableHTTP2 = False\<rparr>"

text \<open>A flag of the operator, or of a library: whether it is boolean and which values it accepts.\<close>

datatype flag_def =
    StringFlag "string \<Rightarrow> flag_values \<Rightarrow> flag_values"
  | BoolFlag "bool \<Rightarrow> flag_values \<Rightarrow> flag_values"
  | LibFlag bool "string \<Rightarrow> bool"

definition managerFlags :: "(string \<times> flag_def) list" where
  "managerFlags =
     [(''metrics-bind-address'', StringFlag (\<lambda>v fs. fs\<lparr>metricsAddr := v\<rparr>)),
      (''health-probe-bind-address'', StringFlag (\<lambda>v fs. fs\<lparr>probeAddr := v\<rparr>)),
      (''leader-elect'', BoolFlag (\<lambda>v fs. fs\<lparr>enableLeaderElection := v\<rparr>)),
      (''metrics-secure'', BoolFlag (\<lambda>v fs. fs\<lparr>secureMetrics := v\<rparr>)),
      (''webhook-cert-path'', StringFlag (\<lambda>v fs. fs\<lparr>webhookCertPath := v\<rparr>)),
      (''webhook-cert-name'', StringFlag (\<lambda>v fs. fs\<lparr>webhookCertName := v\<rparr>)),
      (''webhook-cert-key'', StringFlag (\<lambda>v fs. fs\<lparr>webhookCertKey := v\<rparr>)),
      (''metrics-cert-path'', StringFlag (\<lambda>v fs. fs\<lparr>metricsCertPath := v\<rparr>)),
      (''metrics-cert-name'', StringFlag (\<lambda>v fs. fs\<lparr>metricsCertName := v\<rparr>)),
      (''metrics-cert-key'', StringFlag (\<lambda>v fs. fs\<lparr>metricsCertKey := v\<rparr>)),
      (''enable-http2'', BoolFlag (\<lambda>v fs. fs\<lparr>enableHTTP2 := v\<rparr>))]"

type_synonym lib_flags = "string \<Rightarrow> (bool \<times> (string \<Rightarrow> bool)) option"

definition lookupFlag :: "lib_flags \<Rightarrow> string \<Rightarrow> flag_def option" where
  "lookupFlag lib name =
     (case map_of managerFlags name of
        Some d \<Rightarrow> Some d
      | None \<Rightarrow> map_option (\<lambda>(b, ok). LibFlag b ok) (lib name))"

text \<open>\<open>strconv.ParseBool\<close>.\<close>

definition ParseBool :: "string \<Rightarrow> bool option" where
  "ParseBool s =
     (if s \<in> {''1'', ''t'', ''T'', ''true'', ''TRUE'', ''True''} then Some True
      else if s \<in> {''0'', ''f'', ''F'', ''false'', ''FALSE'', ''False''} then Some False
      else None)"

fun setFlag :: "flag_def \<Rightarrow> string \<Rightarrow> flag_values \<Rightarrow> flag_values option" where
  "setFlag (StringFlag f) v fs = Some (f v fs)"
| "setFlag (BoolFlag f) v fs = map_option (\<lambda>b. f b fs) (ParseBool v)"
| "setFlag (LibFlag _ ok) v fs = (if ok v then Some fs else None)"

fun isBoolFlag :: "flag_def \<Rightarrow> bool" where
  "isBoolFlag (StringFlag _) = False"
| "isBoolFlag (BoolFlag _) = True"
| "isBoolFlag (LibFlag b _) = b"

text \<open>An argument without its one or two minus signs; the name before and the value after the first equals sign.\<close>

definition flagBody :: "string \<Rightarrow> string" where
  "flagBody s = (if take 2 s = ''--'' then drop 2 s else drop 1 s)"

definition flagName :: "string \<Rightarrow> string" where
  "flagName s = takeWhile (\<lambda>c. c \<noteq> CHR ''='') (flagBody s)"

definition flagValue :: "string \<Rightarrow> string option" where
  "flagValue s =
     (case dropWhile (\<lambda>c. c \<noteq> CHR ''='') (flagBody s) of [] \<Rightarrow> None | _ # v \<Rightarrow> Some v)"

text \<open>
  \<open>flag.Parse\<close>: the values, or the status the program exits with: zero after \<open>-help\<close>, two after an
  error. The first argument that is no flag ends the flags.
\<close>

fun parseFlags :: "lib_flags \<Rightarrow> string list \<Rightarrow> flag_values \<Rightarrow> nat + flag_values" where
  "parseFlags lib [] fs = Inr fs"
| "parseFlags lib (s # args) fs =
     (if length s < 2 \<or> hd s \<noteq> CHR ''-'' \<or> s = ''--'' then Inr fs
      else if flagBody s = [] \<or> hd (flagBody s) = CHR ''-'' \<or> hd (flagBody s) = CHR ''='' then Inl 2
      else case lookupFlag lib (flagName s) of
        None \<Rightarrow> Inl (if flagName s = ''help'' \<or> flagName s = ''h'' then 0 else 2)
      | Some d \<Rightarrow>
          (case flagValue s of
             Some v \<Rightarrow> (case setFlag d v fs of None \<Rightarrow> Inl 2 | Some fs' \<Rightarrow> parseFlags lib args fs')
           | None \<Rightarrow>
               if isBoolFlag d then
                 (case setFlag d ''true'' fs of None \<Rightarrow> Inl 2 | Some fs' \<Rightarrow> parseFlags lib args fs')
               else (case args of
                   [] \<Rightarrow> Inl 2
                 | v # args' \<Rightarrow> (case setFlag d v fs of None \<Rightarrow> Inl 2 | Some fs' \<Rightarrow> parseFlags lib args' fs'))))"

section \<open>Options of the servers and of the manager\<close>

record tls_config =
  tls_next_protos :: "string list"

type_synonym tls_opt = "tls_config \<Rightarrow> tls_config"

definition disableHTTP2 :: tls_opt where
  "disableHTTP2 c = c\<lparr>tls_next_protos := [''http/1.1'']\<rparr>"

definition tlsOpts :: "flag_values \<Rightarrow> tls_opt list" where
  "tlsOpts fs = (if \<not> enableHTTP2 fs then [disableHTTP2] else [])"

record webhook_options =
  wo_tls_opts :: "tls_opt list"
  wo_cert_dir :: string
  wo_cert_name :: string
  wo_key_name :: string

definition webhookServerOptions :: "flag_values \<Rightarrow> webhook_options" where
  "webhookServerOptions fs =
     (let opts = \<lparr>wo_tls_opts = tlsOpts fs, wo_cert_dir = [], wo_cert_name = [], wo_key_name = []\<rparr>
      in if length (webhookCertPath fs) > 0
         then opts\<lparr>wo_cert_dir := webhookCertPath fs, wo_cert_name := webhookCertName fs, wo_key_name := webhookCertKey fs\<rparr>
         else opts)"

datatype filter_provider = WithAuthenticationAndAuthorization

record metrics_options =
  ms_bind_address :: string
  ms_secure_serving :: bool
  ms_tls_opts :: "tls_opt list"
  ms_filter_provider :: "filter_provider option"
  ms_cert_dir :: string
  ms_cert_name :: string
  ms_key_name :: string

definition metricsServerOptions :: "flag_values \<Rightarrow> metrics_options" where
  "metricsServerOptions fs =
     (let opts = \<lparr>ms_bind_address = metricsAddr fs, ms_secure_serving = secureMetrics fs, ms_tls_opts = tlsOpts fs,
            ms_filter_provider = None, ms_cert_dir = [], ms_cert_name = [], ms_key_name = []\<rparr>;
          opts' = (if secureMetrics fs then opts\<lparr>ms_filter_provider := Some WithAuthenticationAndAuthorization\<rparr> else opts)
      in if length (metricsCertPath fs) > 0
         then opts'\<lparr>ms_cert_dir := metricsCertPath fs, ms_cert_name := metricsCertName fs, ms_key_name := metricsCertKey fs\<rparr>
         else opts')"

record 'sch manager_options =
  mo_scheme :: 'sch
  mo_metrics :: metrics_options
  mo_webhook_server :: webhook_options
  mo_health_probe_bind_address :: string
  mo_leader_election :: bool
  mo_leader_election_id :: string

definition managerOptions :: "'sch \<Rightarrow> flag_values \<Rightarrow> 'sch manager_options" where
  "managerOptions sch fs = \<lparr>mo_scheme = sch, mo_metrics = metricsServerOptions fs,
     mo_webhook_server = webhookServerOptions fs, mo_health_probe_bind_address = probeAddr fs,
     mo_leader_election = enableLeaderElection fs, mo_leader_election_id = ''ecaf1259.cobaltcore.sap.com''\<rparr>"

section \<open>Registration of the webhooks\<close>

record 'o webhook_handlers =
  wh_default :: "'o \<Rightarrow> 'o"
  wh_validate_create :: "'o \<Rightarrow> admission_error option"
  wh_validate_update :: "'o \<Rightarrow> 'o \<Rightarrow> admission_error option"
  wh_validate_delete :: "'o \<Rightarrow> admission_error option"

datatype webhook_builder =
    ClusterWebhook "remote_cluster webhook_handlers"
  | ArbiterWebhook "remote_arbiter webhook_handlers"

record ('w, 'm, 'sch) ctrl_manager = "('w, 'm) manager" +
  mgr_GetConfig :: "'m \<Rightarrow> (goerror + unit) \<times> 'm"
  mgr_NewManager :: "'sch manager_options \<Rightarrow> 'm \<Rightarrow> (goerror + unit) \<times> 'm"
  mgr_WebhookComplete :: "webhook_builder \<Rightarrow> 'm \<Rightarrow> (goerror + unit) \<times> 'm"
  mgr_AddHealthzCheck :: "string \<Rightarrow> 'm \<Rightarrow> (goerror + unit) \<times> 'm"
  mgr_AddReadyzCheck :: "string \<Rightarrow> 'm \<Rightarrow> (goerror + unit) \<times> 'm"
  mgr_Start :: "'m \<Rightarrow> (goerror + unit) \<times> 'm"

definition clusterWebhook :: "dns_check \<Rightarrow> webhook_builder" where
  "clusterWebhook dns = ClusterWebhook \<lparr>wh_default = clusterDefault, wh_validate_create = clusterValidateCreate dns,
     wh_validate_update = clusterValidateUpdate dns, wh_validate_delete = clusterValidateDelete dns\<rparr>"

definition SetupRemoteClusterWebhookWithManager :: "dns_check \<Rightarrow> ('w, 'm, 'sch) ctrl_manager \<Rightarrow> ('m, unit) go" where
  "SetupRemoteClusterWebhookWithManager dns mgr = mgrCall (mgr_WebhookComplete mgr (clusterWebhook dns))"

definition arbiterWebhook :: "dns_check \<Rightarrow> webhook_builder" where
  "arbiterWebhook dns = ArbiterWebhook \<lparr>wh_default = arbiterDefault, wh_validate_create = arbiterValidateCreate dns,
     wh_validate_update = arbiterValidateUpdate dns, wh_validate_delete = arbiterValidateDelete dns\<rparr>"

definition SetupRemoteArbiterWebhookWithManager :: "dns_check \<Rightarrow> ('w, 'm, 'sch) ctrl_manager \<Rightarrow> ('m, unit) go" where
  "SetupRemoteArbiterWebhookWithManager dns mgr = mgrCall (mgr_WebhookComplete mgr (arbiterWebhook dns))"

section \<open>The program\<close>

datatype exit = Returned | Exit nat

text \<open>A call whose error is logged before the program exits with status one; a panic ends it with status two.\<close>

definition orExit :: "('m, unit) go \<Rightarrow> ('m \<Rightarrow> exit \<times> 'm) \<Rightarrow> 'm \<Rightarrow> exit \<times> 'm" where
  "orExit c k = (\<lambda>m. case c m of
     (Val _, m') \<Rightarrow> k m' | (Err err, m') \<Rightarrow> (Exit 1, m') | (Panic, m') \<Rightarrow> (Exit 2, m'))"

text \<open>
  \<open>E\<close> is the environment of the reconcilers, with the client of the manager; they get no rate limiter.
\<close>

definition runManager ::
  "string \<Rightarrow> 'w env \<Rightarrow> dns_check \<Rightarrow> ('w, 'm, 'sch) ctrl_manager \<Rightarrow> (string \<Rightarrow> string) \<Rightarrow> 'sch \<Rightarrow> flag_values
    \<Rightarrow> 'm \<Rightarrow> exit \<times> 'm" where
  "runManager rookGroupVersion E dns mgr getenv sch fs =
     orExit (mgrCall (mgr_GetConfig mgr))
     (orExit (mgrCall (mgr_NewManager mgr (managerOptions sch fs)))
     ((if getenv ''ENABLE_WEBHOOKS'' \<noteq> ''false''
       then orExit (SetupRemoteClusterWebhookWithManager dns mgr) \<circ> orExit (SetupRemoteArbiterWebhookWithManager dns mgr)
       else id)
     (orExit (arSetupWithManager rookGroupVersion E None (manager.truncate mgr))
     (orExit (rcSetupWithManager E None (manager.truncate mgr))
     (orExit (mgrCall (mgr_AddHealthzCheck mgr ''healthz''))
     (orExit (mgrCall (mgr_AddReadyzCheck mgr ''readyz''))
     (orExit (mgrCall (mgr_Start mgr))
     (\<lambda>m. (Returned, m)))))))))"

definition managerMain ::
  "string \<Rightarrow> 'w env \<Rightarrow> dns_check \<Rightarrow> 'sch scheme_lib \<Rightarrow> lib_flags \<Rightarrow> ('w, 'm, 'sch) ctrl_manager \<Rightarrow> (string \<Rightarrow> string)
    \<Rightarrow> string list \<Rightarrow> 'm \<Rightarrow> exit \<times> 'm" where
  "managerMain rookGroupVersion E dns L lib mgr getenv args m =
     (case initScheme L (sch_New L) of
        (Val _, sch) \<Rightarrow>
          (case parseFlags lib args defaultFlags of
             Inl code \<Rightarrow> (Exit code, m)
           | Inr fs \<Rightarrow> runManager rookGroupVersion E dns mgr getenv sch fs m)
      | _ \<Rightarrow> (Exit 2, m))"

section \<open>The calls of a run\<close>

datatype ('w, 'sch) mgr_call =
    GetConfigCall
  | NewManagerCall "'sch manager_options"
  | WebhookCall webhook_builder
  | IndexCall field_index
  | ControllerCall "'w controller_builder"
  | HealthzCall string
  | ReadyzCall string
  | StartCall

text \<open>A manager that records the calls it gets and whether they succeeded, on top of any manager.\<close>

definition noted :: "'c \<Rightarrow> ('m \<Rightarrow> (goerror + unit) \<times> 'm) \<Rightarrow> ('c \<times> bool) list \<times> 'm \<Rightarrow> (goerror + unit) \<times> (('c \<times> bool) list \<times> 'm)" where
  "noted c f = (\<lambda>(log, m). let (r, m') = f m in (r, (log @ [(c, \<not> isl r)], m')))"

definition recorded ::
  "('w, 'm, 'sch) ctrl_manager \<Rightarrow> ('w, (('w, 'sch) mgr_call \<times> bool) list \<times> 'm, 'sch) ctrl_manager" where
  "recorded mgr = \<lparr>mgr_IndexField = \<lambda>i. noted (IndexCall i) (mgr_IndexField mgr i),
     mgr_Complete = \<lambda>b. noted (ControllerCall b) (mgr_Complete mgr b),
     mgr_GetConfig = noted GetConfigCall (mgr_GetConfig mgr),
     mgr_NewManager = \<lambda>opts. noted (NewManagerCall opts) (mgr_NewManager mgr opts),
     mgr_WebhookComplete = \<lambda>b. noted (WebhookCall b) (mgr_WebhookComplete mgr b),
     mgr_AddHealthzCheck = \<lambda>n. noted (HealthzCall n) (mgr_AddHealthzCheck mgr n),
     mgr_AddReadyzCheck = \<lambda>n. noted (ReadyzCall n) (mgr_AddReadyzCheck mgr n),
     mgr_Start = noted StartCall (mgr_Start mgr)\<rparr>"

definition startupCalls ::
  "string \<Rightarrow> 'w env \<Rightarrow> dns_check \<Rightarrow> (string \<Rightarrow> string) \<Rightarrow> 'sch \<Rightarrow> flag_values \<Rightarrow> ('w, 'sch) mgr_call list" where
  "startupCalls rookGroupVersion E dns getenv sch fs =
     [GetConfigCall, NewManagerCall (managerOptions sch fs)] @
     (if getenv ''ENABLE_WEBHOOKS'' \<noteq> ''false'' then [WebhookCall (clusterWebhook dns), WebhookCall (arbiterWebhook dns)] else []) @
     map IndexCall (arIndexes (e_lib E)) @
     [ControllerCall \<lparr>cb_named = RemoteArbiterTypeName, cb_watches = arWatches rookGroupVersion E, cb_rate_limiter = None\<rparr>,
      IndexCall (ClusterIndex RemoteClusterSecretKey clusterSecretIndex),
      ControllerCall \<lparr>cb_named = RemoteClusterTypeName, cb_watches = rcWatches E, cb_rate_limiter = None\<rparr>,
      HealthzCall ''healthz'', ReadyzCall ''readyz'', StartCall]"

text \<open>A log that adds the calls \<open>cs\<close>, all successful, or those up to a first one that failed.\<close>

definition allOk :: "'c list \<Rightarrow> ('c \<times> bool) list" where
  "allOk cs = map (\<lambda>c. (c, True)) cs"

definition failedAt :: "'c list \<Rightarrow> ('c \<times> bool) list \<Rightarrow> bool" where
  "failedAt cs log \<longleftrightarrow> (\<exists>as c bs. cs = as @ c # bs \<and> log = allOk as @ [(c, False)])"

definition performs :: "(('c \<times> bool) list \<times> 'm, unit) go \<Rightarrow> 'c list \<Rightarrow> bool" where
  "performs a cs \<longleftrightarrow> (\<forall>s. wp a
     (\<lambda>_ t. fst t = fst s @ allOk cs) (\<lambda>_ t. \<exists>d. failedAt cs d \<and> fst t = fst s @ d) (\<lambda>_. False) s)"

definition exits :: "(('c \<times> bool) list \<times> 'm \<Rightarrow> exit \<times> (('c \<times> bool) list \<times> 'm)) \<Rightarrow> 'c list \<Rightarrow> bool" where
  "exits k cs \<longleftrightarrow> (\<forall>log m x log' m'. k (log, m) = (x, (log', m')) \<longrightarrow>
     x = Returned \<and> log' = log @ allOk cs \<or> x = Exit 1 \<and> (\<exists>d. failedAt cs d \<and> log' = log @ d))"

lemma allOk_append: "allOk (as @ bs) = allOk as @ allOk bs"
  by (simp add: allOk_def)

lemma failedAt_append:
  "failedAt as d \<Longrightarrow> failedAt (as @ bs) d" "failedAt bs d \<Longrightarrow> failedAt (as @ bs) (allOk as @ d)"
  unfolding failedAt_def by (auto simp: allOk_append) (metis append_assoc append_Cons allOk_append)+

lemma performs_call: "performs (mgrCall (noted c f)) [c]"
  by (auto simp: performs_def mgrCall_def noted_def wp_def lift_def ret_def fail_def Let_def allOk_def failedAt_def
      split: sum.splits prod.splits)

lemmas performsD = performs_def [THEN iffD1, rule_format]

lemma performs_bnd:
  assumes "performs a as" and "performs b bs"
  shows "performs (bnd a (\<lambda>_. b)) (as @ bs)"
proof -
  let ?fail = "\<lambda>s t. \<exists>d. failedAt (as @ bs) d \<and> fst t = fst s @ d"
  have "wp (bnd a (\<lambda>_. b)) (\<lambda>_ t. fst t = fst s @ allOk (as @ bs)) (\<lambda>_. ?fail s) (\<lambda>_. False) s" for s :: "('a \<times> bool) list \<times> 'b"
    unfolding wp_bnd
  proof (rule wp_mono [OF performsD [OF assms(1), of s]])
    fix t :: "('a \<times> bool) list \<times> 'b"
    assume t: "fst t = fst s @ allOk as"
    show "wp b (\<lambda>_ t. fst t = fst s @ allOk (as @ bs)) (\<lambda>_. ?fail s) (\<lambda>_. False) t"
      by (rule wp_mono [OF performsD [OF assms(2), of t]]) (auto simp: t allOk_append intro: failedAt_append(2))
  qed (auto intro: failedAt_append(1))
  then show ?thesis by (simp add: performs_def)
qed

lemma performs_wrapErr: "performs a as \<Longrightarrow> performs (wrapErr t a) as"
  by (simp add: performs_def wp_wrapErr)

lemma performs_forEach: "(\<And>x. performs (f x) [g x]) \<Longrightarrow> performs (forEach f xs) (map g xs)"
proof (induction xs)
  case Nil
  show ?case by (simp add: performs_def wp_simps allOk_def)
next
  case (Cons x xs)
  then show ?case using performs_bnd [of "f x" "[g x]" "forEach f xs" "map g xs"] by simp
qed

lemma exits_orExit: "performs a as \<Longrightarrow> exits k bs \<Longrightarrow> exits (orExit a k) (as @ bs)"
proof -
  assume a: "performs a as" and k: "exits k bs"
  show ?thesis
    unfolding exits_def
  proof (intro allI impI)
    fix log log' :: "('a \<times> bool) list" and m m' :: 'b and x
    assume run: "orExit a k (log, m) = (x, (log', m'))"
    obtain r l1 m1 where first: "a (log, m) = (r, (l1, m1))" by (metis surj_pair)
    note outcome = performsD [OF a, of "(log, m)", unfolded wp_def first]
    show "x = Returned \<and> log' = log @ allOk (as @ bs) \<or> x = Exit 1 \<and> (\<exists>d. failedAt (as @ bs) d \<and> log' = log @ d)"
    proof (cases r)
      case (Val u)
      with outcome have l1: "l1 = log @ allOk as" by simp
      from run first Val have "k (l1, m1) = (x, (log', m'))" by (simp add: orExit_def)
      with k [unfolded exits_def] have "x = Returned \<and> log' = l1 @ allOk bs \<or> x = Exit 1 \<and> (\<exists>d. failedAt bs d \<and> log' = l1 @ d)"
        by blast
      then show ?thesis using failedAt_append(2) unfolding l1 allOk_append append_assoc by blast
    next
      case (Err e)
      then show ?thesis using outcome run first failedAt_append(1) by (auto simp: orExit_def)
    next
      case Panic
      then show ?thesis using outcome by simp
    qed
  qed
qed

lemma exits_end: "exits (\<lambda>m. (Returned, m)) []"
  by (simp add: exits_def allOk_def)


lemma recorded_calls:
  "performs (mgrCall (mgr_GetConfig (recorded mgr))) [GetConfigCall]"
  "performs (mgrCall (mgr_NewManager (recorded mgr) opts)) [NewManagerCall opts]"
  "performs (mgrCall (mgr_WebhookComplete (recorded mgr) wb)) [WebhookCall wb]"
  "performs (mgrCall (mgr_IndexField (manager.truncate (recorded mgr)) i)) [IndexCall i]"
  "performs (mgrCall (mgr_Complete (manager.truncate (recorded mgr)) cb)) [ControllerCall cb]"
  "performs (mgrCall (mgr_AddHealthzCheck (recorded mgr) n)) [HealthzCall n]"
  "performs (mgrCall (mgr_AddReadyzCheck (recorded mgr) n)) [ReadyzCall n]"
  "performs (mgrCall (mgr_Start (recorded mgr))) [StartCall]"
  by (simp_all add: recorded_def manager.truncate_def performs_call)

lemma performs_arSetup:
  "performs (arSetupWithManager rgv E None (manager.truncate (recorded mgr)))
    (map IndexCall (arIndexes (e_lib E)) @
     [ControllerCall \<lparr>cb_named = RemoteArbiterTypeName, cb_watches = arWatches rgv E, cb_rate_limiter = None\<rparr>])"
  unfolding arSetupWithManager_def
  by (intro performs_bnd performs_forEach performs_wrapErr recorded_calls)

lemma performs_rcSetup:
  "performs (rcSetupWithManager E None (manager.truncate (recorded mgr)))
    ([IndexCall (ClusterIndex RemoteClusterSecretKey clusterSecretIndex)] @
     [ControllerCall \<lparr>cb_named = RemoteClusterTypeName, cb_watches = rcWatches E, cb_rate_limiter = None\<rparr>])"
  unfolding rcSetupWithManager_def by (intro performs_bnd recorded_calls)

lemma exits_runManager: "exits (runManager rgv E dns (recorded mgr) getenv sch fs) (startupCalls rgv E dns getenv sch fs)"
proof -
  have tail: "exits (orExit (arSetupWithManager rgv E None (manager.truncate (recorded mgr)))
     (orExit (rcSetupWithManager E None (manager.truncate (recorded mgr)))
     (orExit (mgrCall (mgr_AddHealthzCheck (recorded mgr) ''healthz''))
     (orExit (mgrCall (mgr_AddReadyzCheck (recorded mgr) ''readyz''))
     (orExit (mgrCall (mgr_Start (recorded mgr))) (\<lambda>m. (Returned, m)))))))
     ((map IndexCall (arIndexes (e_lib E)) @
       [ControllerCall \<lparr>cb_named = RemoteArbiterTypeName, cb_watches = arWatches rgv E, cb_rate_limiter = None\<rparr>]) @
      ([IndexCall (ClusterIndex RemoteClusterSecretKey clusterSecretIndex)] @
       [ControllerCall \<lparr>cb_named = RemoteClusterTypeName, cb_watches = rcWatches E, cb_rate_limiter = None\<rparr>]) @
      [HealthzCall ''healthz''] @ [ReadyzCall ''readyz''] @ [StartCall] @ [])"
    by (intro exits_orExit performs_arSetup performs_rcSetup recorded_calls exits_end)
  show ?thesis
  proof (cases "getenv ''ENABLE_WEBHOOKS'' = ''false''")
    case True
    show ?thesis
      using exits_orExit [OF recorded_calls(1) exits_orExit [OF recorded_calls(2) tail]]
      by (simp add: True runManager_def startupCalls_def)
  next
    case False
    note hooks = exits_orExit [OF recorded_calls(3) exits_orExit [OF recorded_calls(3) tail]]
    show ?thesis
      using exits_orExit [OF recorded_calls(1) exits_orExit [OF recorded_calls(2) hooks]] False
      by (simp add: runManager_def startupCalls_def SetupRemoteClusterWebhookWithManager_def SetupRemoteArbiterWebhookWithManager_def)
  qed
qed

text \<open>
  C12: if the flags are valid, the program makes the calls of its start-up in one order, each only after all
  before it succeeded: configuration, manager, the two webhooks unless they are switched off, the indexes and the controller of
  the arbiters, those of the remote clusters, the probes, and at last the start. It returns only if every call
  succeeded, and otherwise exits with status one at the first call that failed.
\<close>

theorem manager_start_gate:
  assumes "initScheme L (sch_New L) = (Val (), sch)" and "parseFlags lib args defaultFlags = Inr fs"
    and "managerMain rgv E dns L lib (recorded mgr) getenv args ([], m) = (x, (log, m'))"
  shows "let cs = startupCalls rgv E dns getenv sch fs in
    x = Returned \<and> log = map (\<lambda>c. (c, True)) cs \<or>
    x = Exit 1 \<and> (\<exists>n < length cs. log = map (\<lambda>c. (c, True)) (take n cs) @ [(cs ! n, False)])"
proof -
  let ?cs = "startupCalls rgv E dns getenv sch fs"
  have "runManager rgv E dns (recorded mgr) getenv sch fs ([], m) = (x, (log, m'))"
    using assms by (simp add: managerMain_def)
  then have "x = Returned \<and> log = allOk ?cs \<or> x = Exit 1 \<and> failedAt ?cs log"
    using exits_runManager [unfolded exits_def] by fastforce
  moreover have "\<exists>n < length ?cs. log = map (\<lambda>c. (c, True)) (take n ?cs) @ [(?cs ! n, False)]" if failed: "failedAt ?cs log"
  proof -
    obtain as c bs where "?cs = as @ c # bs" "log = allOk as @ [(c, False)]" using failed unfolding failedAt_def by blast
    then show ?thesis by (intro exI [of _ "length as"]) (simp add: allOk_def)
  qed
  ultimately show ?thesis by (auto simp: allOk_def Let_def)
qed

lemma parseFlags_step:
  assumes "parseFlags lib (s # args) fs = Inr fs'"
  obtains "fs' = fs"
  | d v fs1 rest where "lookupFlag lib (flagName s) = Some d" "setFlag d v fs = Some fs1"
      "rest = args \<or> rest = tl args" "parseFlags lib rest fs1 = Inr fs'"
  using assms by (auto split: if_splits option.splits list.splits)

definition keepsSecurity :: "flag_def \<Rightarrow> bool" where
  "keepsSecurity d \<longleftrightarrow> (\<forall>v fs fs'. setFlag d v fs = Some fs' \<longrightarrow>
     enableHTTP2 fs' = enableHTTP2 fs \<and> secureMetrics fs' = secureMetrics fs)"

lemma managerFlags_keep: "\<forall>(name, d)\<in>set managerFlags. name = ''enable-http2'' \<or> name = ''metrics-secure'' \<or> keepsSecurity d"
  by (simp add: managerFlags_def keepsSecurity_def) (auto split: option.splits)

lemma lookupFlag_keeps:
  assumes "lookupFlag lib name = Some d" and "name \<noteq> ''enable-http2''" and "name \<noteq> ''metrics-secure''"
  shows "keepsSecurity d"
proof (cases "map_of managerFlags name")
  case None
  with assms show ?thesis by (auto simp: lookupFlag_def keepsSecurity_def split: if_splits)
next
  case (Some e)
  then have "(name, d) \<in> set managerFlags" using assms(1) by (auto simp: lookupFlag_def dest: map_of_SomeD)
  then show ?thesis using managerFlags_keep assms(2,3) by blast
qed

lemma parseFlags_keeps:
  assumes "parseFlags lib args fs = Inr fs'"
    and "\<forall>a\<in>set args. flagName a \<noteq> ''enable-http2'' \<and> flagName a \<noteq> ''metrics-secure''"
  shows "enableHTTP2 fs' = enableHTTP2 fs \<and> secureMetrics fs' = secureMetrics fs"
  using assms
proof (induction args arbitrary: fs rule: length_induct)
  case (1 args)
  show ?case
  proof (cases args)
    case (Cons s rest)
    from 1(2) [unfolded Cons] show ?thesis
    proof (cases rule: parseFlags_step)
      case (2 d v fs1 rest')
      then have "length rest' < length args" "set rest' \<subseteq> set args" using Cons by (cases rest; auto)+
      then have "enableHTTP2 fs' = enableHTTP2 fs1 \<and> secureMetrics fs' = secureMetrics fs1"
        using 1(1,3) 2(4) by blast
      then show ?thesis using lookupFlag_keeps [OF 2(1)] 2(2) 1(3) Cons by (simp add: keepsSecurity_def)
    qed simp
  qed (use 1 in simp)
qed

text \<open>
  C24: unless a flag says otherwise, neither the webhook server nor the metrics server offers HTTP/2, whatever its TLS
  configuration was before, and metrics are served over TLS to authenticated and authorized clients only.
\<close>

theorem servers_secure_by_default:
  assumes "parseFlags lib args defaultFlags = Inr fs"
    and "\<forall>a\<in>set args. flagName a \<noteq> ''enable-http2'' \<and> flagName a \<noteq> ''metrics-secure''"
  shows "let opts = managerOptions sch fs in
    (\<forall>c. tls_next_protos (fold (\<lambda>f. f) (wo_tls_opts (mo_webhook_server opts)) c) = [''http/1.1'']) \<and>
    (\<forall>c. tls_next_protos (fold (\<lambda>f. f) (ms_tls_opts (mo_metrics opts)) c) = [''http/1.1'']) \<and>
    ms_secure_serving (mo_metrics opts) \<and>
    ms_filter_provider (mo_metrics opts) = Some WithAuthenticationAndAuthorization"
  using parseFlags_keeps [OF assms]
  by (simp add: managerOptions_def webhookServerOptions_def metricsServerOptions_def tlsOpts_def defaultFlags_def disableHTTP2_def
      Let_def)

theorem servers_secure_by_default_witness:
  "\<exists>fs. parseFlags (\<lambda>_. None) [''--leader-elect'', ''--metrics-bind-address'', '':8443''] defaultFlags = Inr fs \<and>
    ms_bind_address (mo_metrics (managerOptions () fs)) = '':8443'' \<and> ms_secure_serving (mo_metrics (managerOptions () fs))"
proof -
  let ?args = "[''--leader-elect'', ''--metrics-bind-address'', '':8443'']"
  let ?fs = "defaultFlags\<lparr>enableLeaderElection := True, metricsAddr := '':8443''\<rparr>"
  have parsed: "parseFlags (\<lambda>_. None) ?args defaultFlags = Inr ?fs"
    by (simp add: flagBody_def flagName_def flagValue_def lookupFlag_def managerFlags_def ParseBool_def)
  have names: "\<forall>a\<in>set ?args. flagName a \<noteq> ''enable-http2'' \<and> flagName a \<noteq> ''metrics-secure''"
    by (simp add: flagName_def flagBody_def)
  have "ms_bind_address (mo_metrics (managerOptions () ?fs)) = '':8443''"
    by (simp add: managerOptions_def metricsServerOptions_def defaultFlags_def)
  with parsed servers_secure_by_default [OF parsed names, of "()"] show ?thesis by (auto simp: Let_def)
qed

section \<open>A manager whose probe cannot be added\<close>

definition demo_scheme :: "unit scheme_lib" where
  "demo_scheme = \<lparr>sch_New = (), sch_AddKnownTypes = \<lambda>gv types s. s, sch_AddToGroupVersion = \<lambda>gv s. s,
     sch_rook_AddToScheme = \<lambda>s. (Inr (), s), sch_clientgo_AddToScheme = \<lambda>s. (Inr (), s)\<rparr>"

definition demo_manager :: "(unit, unit, unit) ctrl_manager" where
  "demo_manager = \<lparr>mgr_IndexField = \<lambda>i m. (Inr (), m), mgr_Complete = \<lambda>b m. (Inr (), m),
     mgr_GetConfig = \<lambda>m. (Inr (), m), mgr_NewManager = \<lambda>opts m. (Inr (), m), mgr_WebhookComplete = \<lambda>b m. (Inr (), m),
     mgr_AddHealthzCheck = \<lambda>n m. (Inl (ErrorText ''unable to add new checker''), m), mgr_AddReadyzCheck = \<lambda>n m. (Inr (), m),
     mgr_Start = \<lambda>m. (Inr (), m)\<rparr>"

definition demo_start :: "exit \<times> ((unit, unit) mgr_call \<times> bool) list \<times> unit" where
  "demo_start = managerMain ''ceph.rook.io/v1'' (demo_env granting empty_server empty_server) demo_dns demo_scheme (\<lambda>_. None)
     (recorded demo_manager) (\<lambda>_. []) [] ([], ())"

definition demo_calls :: "(unit, unit) mgr_call list" where
  "demo_calls = startupCalls ''ceph.rook.io/v1'' (demo_env granting empty_server empty_server) demo_dns (\<lambda>_. []) () defaultFlags"

lemma demo_exit: "fst demo_start = Exit 1"
  by (simp add: demo_start_def managerMain_def initScheme_def demo_scheme_def must_def addKnownTypes_def bnd_def onErr_def
      mgrCall_def lift_def ret_def fail_def modify_def runManager_def orExit_def recorded_def demo_manager_def noted_def
      arSetupWithManager_def rcSetupWithManager_def arIndexes_def wrapErr_def manager.truncate_def
      SetupRemoteClusterWebhookWithManager_def SetupRemoteArbiterWebhookWithManager_def)

theorem manager_start_gate_witness:
  "fst demo_start = Exit 1 \<and>
    (\<exists>n < length demo_calls. fst (snd demo_start) = map (\<lambda>c. (c, True)) (take n demo_calls) @ [(demo_calls ! n, False)])"
proof -
  obtain x log m where run: "demo_start = (x, (log, m))" by (metis surj_pair)
  have "initScheme demo_scheme (sch_New demo_scheme) = (Val (), ())"
    by (simp add: initScheme_def demo_scheme_def must_def addKnownTypes_def bnd_def onErr_def mgrCall_def lift_def ret_def modify_def)
  then have "x = Exit 1 \<Longrightarrow> \<exists>n < length demo_calls. log = map (\<lambda>c. (c, True)) (take n demo_calls) @ [(demo_calls ! n, False)]"
    using manager_start_gate [OF _ _ run [unfolded demo_start_def], of "()" defaultFlags] by (simp add: demo_calls_def Let_def)
  moreover have "x = Exit 1" using demo_exit unfolding run by simp
  ultimately show ?thesis unfolding run by simp
qed

end
