(* ===== verification/Deep_Copy.thy ===== *)
theory Deep_Copy
  imports Api_Types "HOL-Library.AList"
begin

text \<open>
  The generated deep copies (\<^verbatim>\<open>pkg/api/arbiter/v1alpha1/zz_generated.deepcopy.go\<close>), by which controller-runtime
  hands out objects of its cache. Elsewhere resources are values; here they are structs in a memory of cells, so
  that sharing can be expressed. A copy is built from copies of its fields, and the law of the locale \<open>deep_copy\<close> is
      kept by
  every way of building one.
\<close>

section \<open>Structs in memory\<close>

text \<open>
  Pointers, maps and slices of the structs are addresses, nil is \<open>None\<close>. A slice is the address of its elements; its
  length and capacity are those of the list. Structs of other packages are of type \<open>'x\<close>.
\<close>

type_synonym addr = nat

record mem_pod_configuration =
  mp_affinity :: "addr option"
  mp_resources :: "addr option"
  mp_node_selector :: "addr option"

record mem_cluster_spec =
  ms_timeout :: "addr option"
  ms_check_interval :: "addr option"
  ms_access_key_ref :: kubeconfig_secret_source
  ms_namespace :: string

record mem_cluster_configuration =
  mc_spec :: "addr option"
  mc_name :: string

record mem_arbiter_spec =
  ma_deployment :: mem_pod_configuration
  ma_service :: "addr option"
  ma_check_interval :: "addr option"
  ma_ceph_cluster :: namespaced_reference
  ma_remote_cluster :: mem_cluster_configuration
  ma_mon_id_prefix :: string

record mem_cluster_status =
  mt_state :: string
  mt_message :: string
  mt_conditions :: "addr option"

record mem_arbiter_status =
  mu_state :: string
  mu_message :: string
  mu_mon_id :: string
  mu_conditions :: "addr option"

record 'x mem_cluster =
  mr_type_meta :: string
  mr_object_meta :: 'x
  mr_spec :: mem_cluster_spec
  mr_status :: mem_cluster_status

record 'x mem_arbiter =
  mb_type_meta :: string
  mb_object_meta :: 'x
  mb_spec :: mem_arbiter_spec
  mb_status :: mem_arbiter_status

record 'x mem_list =
  ml_type_meta :: string
  ml_list_meta :: 'x
  ml_items :: "addr option"

datatype 'x cell =
    IntervalCell interval
  | SecretSourceCell kubeconfig_secret_source
  | ReferenceCell namespaced_reference
  | ServiceCell service_configuration
  | SelectorCell "(string \<times> string) list"
  | ForeignCell 'x
  | PodCell mem_pod_configuration
  | ClusterSpecCell mem_cluster_spec
  | ClusterConfigurationCell mem_cluster_configuration
  | ArbiterSpecCell mem_arbiter_spec
  | ConditionsCell "'x list"
  | ClusterStatusCell mem_cluster_status
  | ArbiterStatusCell mem_arbiter_status
  | ClusterCell "'x mem_cluster"
  | ArbiterCell "'x mem_arbiter"
  | ClustersCell "'x mem_cluster list"
  | ArbitersCell "'x mem_arbiter list"
  | ClusterListCell "'x mem_list"
  | ArbiterListCell "'x mem_list"

record 'x memory =
  mem_next :: addr
  mem_cells :: "addr \<Rightarrow> 'x cell option"

definition wellFormed :: "'x memory \<Rightarrow> bool" where
  "wellFormed h \<longleftrightarrow> dom (mem_cells h) \<subseteq> {..<mem_next h}"

type_synonym ('x, 'a) copier = "'a \<Rightarrow> 'x memory \<Rightarrow> 'a \<times> 'x memory"

section \<open>Copying\<close>

text \<open>
  A new cell with the copy of what a pointer points to. The address is taken first; the cell is
  seen by nobody before it is filled. A pointer to no cell of its type does not occur in Go.
\<close>

definition copyPtr :: "('a \<Rightarrow> 'x cell) \<Rightarrow> ('x cell \<Rightarrow> 'a option) \<Rightarrow> ('x, 'a) copier
    \<Rightarrow> ('x, addr option) copier" where
  "copyPtr mk dest copy p h =
     (case p of
        None \<Rightarrow> (None, h)
      | Some a \<Rightarrow>
          (case Option.bind (mem_cells h a) dest of
             None \<Rightarrow> (None, h)
           | Some x \<Rightarrow>
               let a' = mem_next h;
                   (x', h') = copy x (h\<lparr>mem_next := Suc a'\<rparr>)
               in (Some a', h'\<lparr>mem_cells := (mem_cells h')(a' \<mapsto> mk x')\<rparr>)))"

definition copyScalar :: "('x, 'a) copier" where
  "copyScalar x h = (x, h)"

fun copyElements :: "('x, 'a) copier \<Rightarrow> ('x, 'a list) copier" where
  "copyElements copy [] h = ([], h)"
| "copyElements copy (x # xs) h =
     (let (x', h1) = copy x h; (xs', h2) = copyElements copy xs h1 in (x' # xs', h2))"

text \<open>The loop over the entries of a map.\<close>

definition copyEntries :: "('x, (string \<times> string) list) copier" where
  "copyEntries es h = (fold (\<lambda>(key, val). AList.update key val) es [], h)"

text \<open>What a cell holds, if it is of the kind.\<close>

definition intervalOf :: "'x cell \<Rightarrow> (interval) option" where
  "intervalOf k = (case k of IntervalCell x \<Rightarrow> Some x | _ \<Rightarrow> None)"

definition secretSourceOf :: "'x cell \<Rightarrow> (kubeconfig_secret_source) option" where
  "secretSourceOf k = (case k of SecretSourceCell x \<Rightarrow> Some x | _ \<Rightarrow> None)"

definition referenceOf :: "'x cell \<Rightarrow> (namespaced_reference) option" where
  "referenceOf k = (case k of ReferenceCell x \<Rightarrow> Some x | _ \<Rightarrow> None)"

definition serviceOf :: "'x cell \<Rightarrow> (service_configuration) option" where
  "serviceOf k = (case k of ServiceCell x \<Rightarrow> Some x | _ \<Rightarrow> None)"

definition selectorOf :: "'x cell \<Rightarrow> ((string \<times> string) list) option" where
  "selectorOf k = (case k of SelectorCell x \<Rightarrow> Some x | _ \<Rightarrow> None)"

definition foreignOf :: "'x cell \<Rightarrow> ('x) option" where
  "foreignOf k = (case k of ForeignCell x \<Rightarrow> Some x | _ \<Rightarrow> None)"

definition podOf :: "'x cell \<Rightarrow> (mem_pod_configuration) option" where
  "podOf k = (case k of PodCell x \<Rightarrow> Some x | _ \<Rightarrow> None)"

definition clusterSpecOf :: "'x cell \<Rightarrow> (mem_cluster_spec) option" where
  "clusterSpecOf k = (case k of ClusterSpecCell x \<Rightarrow> Some x | _ \<Rightarrow> None)"

definition clusterConfigurationOf :: "'x cell \<Rightarrow> (mem_cluster_configuration) option" where
  "clusterConfigurationOf k = (case k of ClusterConfigurationCell x \<Rightarrow> Some x | _ \<Rightarrow> None)"

definition arbiterSpecOf :: "'x cell \<Rightarrow> (mem_arbiter_spec) option" where
  "arbiterSpecOf k = (case k of ArbiterSpecCell x \<Rightarrow> Some x | _ \<Rightarrow> None)"

definition conditionsOf :: "'x cell \<Rightarrow> ('x list) option" where
  "conditionsOf k = (case k of ConditionsCell x \<Rightarrow> Some x | _ \<Rightarrow> None)"

definition clusterStatusOf :: "'x cell \<Rightarrow> (mem_cluster_status) option" where
  "clusterStatusOf k = (case k of ClusterStatusCell x \<Rightarrow> Some x | _ \<Rightarrow> None)"

definition arbiterStatusOf :: "'x cell \<Rightarrow> (mem_arbiter_status) option" where
  "arbiterStatusOf k = (case k of ArbiterStatusCell x \<Rightarrow> Some x | _ \<Rightarrow> None)"

definition clusterOf :: "'x cell \<Rightarrow> ('x mem_cluster) option" where
  "clusterOf k = (case k of ClusterCell x \<Rightarrow> Some x | _ \<Rightarrow> None)"

definition arbiterOf :: "'x cell \<Rightarrow> ('x mem_arbiter) option" where
  "arbiterOf k = (case k of ArbiterCell x \<Rightarrow> Some x | _ \<Rightarrow> None)"

definition clustersOf :: "'x cell \<Rightarrow> ('x mem_cluster list) option" where
  "clustersOf k = (case k of ClustersCell x \<Rightarrow> Some x | _ \<Rightarrow> None)"

definition arbitersOf :: "'x cell \<Rightarrow> ('x mem_arbiter list) option" where
  "arbitersOf k = (case k of ArbitersCell x \<Rightarrow> Some x | _ \<Rightarrow> None)"

definition clusterListOf :: "'x cell \<Rightarrow> ('x mem_list) option" where
  "clusterListOf k = (case k of ClusterListCell x \<Rightarrow> Some x | _ \<Rightarrow> None)"

definition arbiterListOf :: "'x cell \<Rightarrow> ('x mem_list) option" where
  "arbiterListOf k = (case k of ArbiterListCell x \<Rightarrow> Some x | _ \<Rightarrow> None)"

lemmas cell_kinds = intervalOf_def secretSourceOf_def referenceOf_def serviceOf_def selectorOf_def foreignOf_def podOf_def
    clusterSpecOf_def clusterConfigurationOf_def arbiterSpecOf_def conditionsOf_def clusterStatusOf_def arbiterStatusOf_def
    clusterOf_def arbiterOf_def clustersOf_def arbitersOf_def clusterListOf_def arbiterListOf_def

section \<open>The generated functions\<close>

text \<open>Structs without pointers are copied by assignment.\<close>

definition Interval_DeepCopyInto :: "('x, interval) copier" where
  "Interval_DeepCopyInto = copyScalar"

definition Interval_DeepCopy :: "('x, addr option) copier" where
  "Interval_DeepCopy = copyPtr IntervalCell intervalOf Interval_DeepCopyInto"

definition KubeconfigSecretSource_DeepCopyInto :: "('x, kubeconfig_secret_source) copier" where
  "KubeconfigSecretSource_DeepCopyInto = copyScalar"

definition KubeconfigSecretSource_DeepCopy :: "('x, addr option) copier" where
  "KubeconfigSecretSource_DeepCopy = copyPtr SecretSourceCell secretSourceOf KubeconfigSecretSource_DeepCopyInto"

definition NamespacedReference_DeepCopyInto :: "('x, namespaced_reference) copier" where
  "NamespacedReference_DeepCopyInto = copyScalar"

definition NamespacedReference_DeepCopy :: "('x, addr option) copier" where
  "NamespacedReference_DeepCopy = copyPtr ReferenceCell referenceOf NamespacedReference_DeepCopyInto"

definition ServiceConfiguration_DeepCopyInto :: "('x, service_configuration) copier" where
  "ServiceConfiguration_DeepCopyInto = copyScalar"

definition ServiceConfiguration_DeepCopy :: "('x, addr option) copier" where
  "ServiceConfiguration_DeepCopy = copyPtr ServiceCell serviceOf ServiceConfiguration_DeepCopyInto"

text \<open>\<open>foreign\<close> is \<open>DeepCopyInto\<close> of the structs of other packages.\<close>

definition PodConfiguration_DeepCopyInto :: "('x, 'x) copier \<Rightarrow> ('x, mem_pod_configuration) copier" where
  "PodConfiguration_DeepCopyInto foreign inp h =
     (let (affinity, h1) = copyPtr ForeignCell foreignOf foreign (mp_affinity inp) h;
          (resources, h2) = copyPtr ForeignCell foreignOf foreign (mp_resources inp) h1;
          (nodeSelector, h3) = copyPtr SelectorCell selectorOf copyEntries (mp_node_selector inp) h2
      in (inp\<lparr>mp_affinity := affinity, mp_resources := resources, mp_node_selector := nodeSelector\<rparr>, h3))"

definition PodConfiguration_DeepCopy :: "('x, 'x) copier \<Rightarrow> ('x, addr option) copier" where
  "PodConfiguration_DeepCopy foreign = copyPtr PodCell podOf (PodConfiguration_DeepCopyInto foreign)"

definition RemoteClusterSpec_DeepCopyInto :: "('x, mem_cluster_spec) copier" where
  "RemoteClusterSpec_DeepCopyInto inp h =
     (let (timeout, h1) = copyPtr IntervalCell intervalOf copyScalar (ms_timeout inp) h;
          (checkInterval, h2) = copyPtr IntervalCell intervalOf copyScalar (ms_check_interval inp) h1
      in (inp\<lparr>ms_timeout := timeout, ms_check_interval := checkInterval\<rparr>, h2))"

definition RemoteClusterSpec_DeepCopy :: "('x, addr option) copier" where
  "RemoteClusterSpec_DeepCopy = copyPtr ClusterSpecCell clusterSpecOf RemoteClusterSpec_DeepCopyInto"

definition RemoteClusterConfiguration_DeepCopyInto :: "('x, mem_cluster_configuration) copier" where
  "RemoteClusterConfiguration_DeepCopyInto inp h =
     (let (spec, h1) = copyPtr ClusterSpecCell clusterSpecOf RemoteClusterSpec_DeepCopyInto (mc_spec inp) h
      in (inp\<lparr>mc_spec := spec\<rparr>, h1))"

definition RemoteClusterConfiguration_DeepCopy :: "('x, addr option) copier" where
  "RemoteClusterConfiguration_DeepCopy =
     copyPtr ClusterConfigurationCell clusterConfigurationOf RemoteClusterConfiguration_DeepCopyInto"

definition RemoteArbiterSpec_DeepCopyInto :: "('x, 'x) copier \<Rightarrow> ('x, mem_arbiter_spec) copier" where
  "RemoteArbiterSpec_DeepCopyInto foreign inp h =
     (let (deployment, h1) = PodConfiguration_DeepCopyInto foreign (ma_deployment inp) h;
          (service, h2) = copyPtr ServiceCell serviceOf copyScalar (ma_service inp) h1;
          (checkInterval, h3) = copyPtr IntervalCell intervalOf copyScalar (ma_check_interval inp) h2;
          (remoteCluster, h4) = RemoteClusterConfiguration_DeepCopyInto (ma_remote_cluster inp) h3
      in (inp\<lparr>ma_deployment := deployment, ma_service := service, ma_check_interval := checkInterval,
            ma_remote_cluster := remoteCluster\<rparr>, h4))"

definition RemoteArbiterSpec_DeepCopy :: "('x, 'x) copier \<Rightarrow> ('x, addr option) copier" where
  "RemoteArbiterSpec_DeepCopy foreign = copyPtr ArbiterSpecCell arbiterSpecOf (RemoteArbiterSpec_DeepCopyInto foreign)"

definition RemoteClusterStatus_DeepCopyInto :: "('x, 'x) copier \<Rightarrow> ('x, mem_cluster_status) copier" where
  "RemoteClusterStatus_DeepCopyInto foreign inp h =
     (let (conditions, h1) = copyPtr ConditionsCell conditionsOf (copyElements foreign) (mt_conditions inp) h
      in (inp\<lparr>mt_conditions := conditions\<rparr>, h1))"

definition RemoteClusterStatus_DeepCopy :: "('x, 'x) copier \<Rightarrow> ('x, addr option) copier" where
  "RemoteClusterStatus_DeepCopy foreign = copyPtr ClusterStatusCell clusterStatusOf (RemoteClusterStatus_DeepCopyInto foreign)"

definition RemoteArbiterStatus_DeepCopyInto :: "('x, 'x) copier \<Rightarrow> ('x, mem_arbiter_status) copier" where
  "RemoteArbiterStatus_DeepCopyInto foreign inp h =
     (let (conditions, h1) = copyPtr ConditionsCell conditionsOf (copyElements foreign) (mu_conditions inp) h
      in (inp\<lparr>mu_conditions := conditions\<rparr>, h1))"

definition RemoteArbiterStatus_DeepCopy :: "('x, 'x) copier \<Rightarrow> ('x, addr option) copier" where
  "RemoteArbiterStatus_DeepCopy foreign = copyPtr ArbiterStatusCell arbiterStatusOf (RemoteArbiterStatus_DeepCopyInto foreign)"

definition RemoteCluster_DeepCopyInto :: "('x, 'x) copier \<Rightarrow> ('x, 'x mem_cluster) copier" where
  "RemoteCluster_DeepCopyInto foreign inp h =
     (let (objectMeta, h1) = foreign (mr_object_meta inp) h;
          (spec, h2) = RemoteClusterSpec_DeepCopyInto (mr_spec inp) h1;
          (status, h3) = RemoteClusterStatus_DeepCopyInto foreign (mr_status inp) h2
      in (inp\<lparr>mr_object_meta := objectMeta, mr_spec := spec, mr_status := status\<rparr>, h3))"

definition RemoteCluster_DeepCopy :: "('x, 'x) copier \<Rightarrow> ('x, addr option) copier" where
  "RemoteCluster_DeepCopy foreign = copyPtr ClusterCell clusterOf (RemoteCluster_DeepCopyInto foreign)"

definition RemoteArbiter_DeepCopyInto :: "('x, 'x) copier \<Rightarrow> ('x, 'x mem_arbiter) copier" where
  "RemoteArbiter_DeepCopyInto foreign inp h =
     (let (objectMeta, h1) = foreign (mb_object_meta inp) h;
          (spec, h2) = RemoteArbiterSpec_DeepCopyInto foreign (mb_spec inp) h1;
          (status, h3) = RemoteArbiterStatus_DeepCopyInto foreign (mb_status inp) h2
      in (inp\<lparr>mb_object_meta := objectMeta, mb_spec := spec, mb_status := status\<rparr>, h3))"

definition RemoteArbiter_DeepCopy :: "('x, 'x) copier \<Rightarrow> ('x, addr option) copier" where
  "RemoteArbiter_DeepCopy foreign = copyPtr ArbiterCell arbiterOf (RemoteArbiter_DeepCopyInto foreign)"

definition RemoteClusterList_DeepCopyInto :: "('x, 'x) copier \<Rightarrow> ('x, 'x mem_list) copier" where
  "RemoteClusterList_DeepCopyInto foreign inp h =
     (let (listMeta, h1) = foreign (ml_list_meta inp) h;
          (items, h2) = copyPtr ClustersCell clustersOf (copyElements (RemoteCluster_DeepCopyInto foreign)) (ml_items inp) h1
      in (inp\<lparr>ml_list_meta := listMeta, ml_items := items\<rparr>, h2))"

definition RemoteClusterList_DeepCopy :: "('x, 'x) copier \<Rightarrow> ('x, addr option) copier" where
  "RemoteClusterList_DeepCopy foreign = copyPtr ClusterListCell clusterListOf (RemoteClusterList_DeepCopyInto foreign)"

definition RemoteArbiterList_DeepCopyInto :: "('x, 'x) copier \<Rightarrow> ('x, 'x mem_list) copier" where
  "RemoteArbiterList_DeepCopyInto foreign inp h =
     (let (listMeta, h1) = foreign (ml_list_meta inp) h;
          (items, h2) = copyPtr ArbitersCell arbitersOf (copyElements (RemoteArbiter_DeepCopyInto foreign)) (ml_items inp) h1
      in (inp\<lparr>ml_list_meta := listMeta, ml_items := items\<rparr>, h2))"

definition RemoteArbiterList_DeepCopy :: "('x, 'x) copier \<Rightarrow> ('x, addr option) copier" where
  "RemoteArbiterList_DeepCopy foreign = copyPtr ArbiterListCell arbiterListOf (RemoteArbiterList_DeepCopyInto foreign)"

text \<open>\<open>DeepCopyObject\<close>: the interface value holds the copy, or is nil.\<close>

definition asObject :: "('x, addr option) copier \<Rightarrow> ('x, addr option) copier" where
  "asObject copy p h = (case copy p h of (Some c, h') \<Rightarrow> (Some c, h') | (None, h') \<Rightarrow> (None, h'))"

definition RemoteArbiter_DeepCopyObject :: "('x, 'x) copier \<Rightarrow> ('x, addr option) copier" where
  "RemoteArbiter_DeepCopyObject foreign = asObject (RemoteArbiter_DeepCopy foreign)"

definition RemoteArbiterList_DeepCopyObject :: "('x, 'x) copier \<Rightarrow> ('x, addr option) copier" where
  "RemoteArbiterList_DeepCopyObject foreign = asObject (RemoteArbiterList_DeepCopy foreign)"

definition RemoteCluster_DeepCopyObject :: "('x, 'x) copier \<Rightarrow> ('x, addr option) copier" where
  "RemoteCluster_DeepCopyObject foreign = asObject (RemoteCluster_DeepCopy foreign)"

definition RemoteClusterList_DeepCopyObject :: "('x, 'x) copier \<Rightarrow> ('x, addr option) copier" where
  "RemoteClusterList_DeepCopyObject foreign = asObject (RemoteClusterList_DeepCopy foreign)"

section \<open>The law of a copy\<close>

locale deep_copy =
  fixes copy :: "('x, 'a) copier" and val :: "'x memory \<Rightarrow> 'a \<Rightarrow> 'v option" and refs :: "'x memory
      \<Rightarrow> 'a \<Rightarrow> addr set"
  assumes refs_cells: "val h x = Some v \<Longrightarrow> refs h x \<subseteq> dom (mem_cells h)"
    and frame: "val h x = Some v \<Longrightarrow> \<forall>a\<in>refs h x. mem_cells h' a = mem_cells h a \<Longrightarrow> val
        h' x = Some v \<and> refs h' x = refs h x"
    and copied: "wellFormed h \<Longrightarrow> val h x = Some v \<Longrightarrow> copy x h = (y, h') \<Longrightarrow>
      wellFormed h' \<and> mem_next h \<le> mem_next h' \<and> (\<forall>a<mem_next h. mem_cells h' a = mem_cells h a) \<and>
      val h' y = Some v \<and> refs h' y \<subseteq> {mem_next h..<mem_next h'}"
begin

lemma refs_old: "wellFormed h \<Longrightarrow> val h x = Some v \<Longrightarrow> refs h x \<subseteq> {..<mem_next h}"
  using refs_cells by (fastforce simp: wellFormed_def)

lemma kept:
  assumes "wellFormed h" "val h x = Some v" "\<forall>a<mem_next h. mem_cells h' a = mem_cells h a"
  shows "val h' x = Some v" "refs h' x = refs h x"
proof -
  have "\<forall>a\<in>refs h x. mem_cells h' a = mem_cells h a" using refs_old [OF assms(1,2)] assms(3) by blast
  then show "val h' x = Some v" "refs h' x = refs h x" using frame [OF assms(2)] by blast+
qed

text \<open>
  The copy has the value of the original, which keeps it, they share no memory, and no write to the memory of
  the one is seen in the other.
\<close>

lemma independent:
  assumes "wellFormed h" "val h x = Some v" "copy x h = (y, h')"
  shows "val h' x = Some v" "val h' y = Some v" "refs h' x \<inter> refs h' y = {}"
    and "\<forall>a. a \<notin> refs h' y \<longrightarrow> mem_cells k a = mem_cells h' a \<Longrightarrow> val k x = Some v"
    and "\<forall>a. a \<notin> refs h' x \<longrightarrow> mem_cells k a = mem_cells h' a \<Longrightarrow> val k y = Some v"
proof -
  have old: "\<forall>a<mem_next h. mem_cells h' a = mem_cells h a" and y: "val h' y = Some v"
    and new: "refs h' y \<subseteq> {mem_next h..<mem_next h'}" using copied [OF assms] by blast+
  note x = kept(1) [OF assms(1,2) old]
  show "val h' x = Some v" "val h' y = Some v" by (fact x, fact y)
  show disj: "refs h' x \<inter> refs h' y = {}"
    using kept(2) [OF assms(1,2) old] refs_old [OF assms(1,2)] new by fastforce
  show "val k x = Some v" if "\<forall>a. a \<notin> refs h' y \<longrightarrow> mem_cells k a = mem_cells h' a"
  proof -
    have "\<forall>a\<in>refs h' x. mem_cells k a = mem_cells h' a" using that disj by blast
    then show ?thesis using frame [OF x] by blast
  qed
  show "val k y = Some v" if "\<forall>a. a \<notin> refs h' x \<longrightarrow> mem_cells k a = mem_cells h' a"
  proof -
    have "\<forall>a\<in>refs h' y. mem_cells k a = mem_cells h' a" using that disj by blast
    then show ?thesis using frame [OF y] by blast
  qed
qed

end

section \<open>Copies are composed\<close>

definition scalarVal :: "'x memory \<Rightarrow> 'a \<Rightarrow> 'a option" where "scalarVal h x = Some x"
definition noRefs :: "'x memory \<Rightarrow> 'a \<Rightarrow> addr set" where "noRefs h x = {}"

lemma copy_scalar: "deep_copy copyScalar scalarVal noRefs"
  by unfold_locales (auto simp: copyScalar_def scalarVal_def noRefs_def)

definition copyPair :: "('x, 'a) copier \<Rightarrow> ('x, 'b) copier \<Rightarrow> ('x, 'a \<times> 'b) copier" where
  "copyPair c d = (\<lambda>(x, y) h. let (x', h1) = c x h; (y', h2) = d y h1 in ((x', y'), h2))"

definition pairVal :: "('x memory \<Rightarrow> 'a \<Rightarrow> 'v option) \<Rightarrow> ('x memory \<Rightarrow> 'b
    \<Rightarrow> 'w option) \<Rightarrow> 'x memory \<Rightarrow> 'a \<times> 'b \<Rightarrow> ('v \<times> 'w) option" where
  "pairVal f g h = (\<lambda>(x, y). Option.bind (f h x) (\<lambda>u. map_option (Pair u) (g h y)))"

definition pairRefs :: "('x memory \<Rightarrow> 'a \<Rightarrow> addr set) \<Rightarrow> ('x memory \<Rightarrow> 'b
    \<Rightarrow> addr set) \<Rightarrow> 'x memory \<Rightarrow> 'a \<times> 'b \<Rightarrow> addr set" where
  "pairRefs r s h = (\<lambda>(x, y). r h x \<union> s h y)"

lemma pairVal_Some: "pairVal f g h (x, y) = Some v \<longleftrightarrow> (\<exists>u w. v = (u, w) \<and> f h x = Some u \<and> g
    h y = Some w)"
  by (auto simp: pairVal_def bind_eq_Some_conv)

lemma copy_pair:
  fixes c :: "('x, 'a) copier" and d :: "('x, 'b) copier"
  assumes "deep_copy c f r" and "deep_copy d g s"
  shows "deep_copy (copyPair c d) (pairVal f g) (pairRefs r s)"
proof
  fix h h' :: "'x memory" and x :: "'a \<times> 'b" and v
  note fst = deep_copy.refs_cells [OF assms(1)] deep_copy.frame [OF assms(1)]
  note snd = deep_copy.refs_cells [OF assms(2)] deep_copy.frame [OF assms(2)]
  obtain x1 x2 where x: "x = (x1, x2)" by fastforce
  assume "pairVal f g h x = Some v"
  then obtain u w where v: "v = (u, w)" "f h x1 = Some u" "g h x2 = Some w" by (auto simp: x pairVal_Some)
  show "pairRefs r s h x \<subseteq> dom (mem_cells h)" using fst(1) [OF v(2)] snd(1) [OF v(3)] by (simp add: x pairRefs_def)
  show "pairVal f g h' x = Some v \<and> pairRefs r s h' x = pairRefs r s h x"
    if "\<forall>a\<in>pairRefs r s h x. mem_cells h' a = mem_cells h a"
    using fst(2) [OF v(2), of h'] snd(2) [OF v(3), of h'] that by (simp add: x v pairRefs_def pairVal_Some)
next
  fix h h' :: "'x memory" and x y :: "'a \<times> 'b" and v
  assume wf: "wellFormed h" and val: "pairVal f g h x = Some v" and run: "copyPair c d x h = (y, h')"
  obtain x1 x2 where x: "x = (x1, x2)" by fastforce
  obtain u w where v: "v = (u, w)" "f h x1 = Some u" "g h x2 = Some w" using val by (auto simp: x pairVal_Some)
  obtain y1 h1 y2 where y: "c x1 h = (y1, h1)" "d x2 h1 = (y2, h')" "y = (y1, y2)"
    using run by (auto simp: x copyPair_def split: prod.splits)
  note one = deep_copy.copied [OF assms(1) wf v(2) y(1)]
  have "g h1 x2 = Some w" using deep_copy.kept(1) [OF assms(2) wf v(3)] one by blast
  note two = deep_copy.copied [OF assms(2) _ this y(2)]
  have first: "f h' y1 = Some u" "r h' y1 = r h1 y1" using deep_copy.kept [OF assms(1), of h1 y1 u h'] one two by auto
  show "wellFormed h' \<and> mem_next h \<le> mem_next h' \<and> (\<forall>a<mem_next h. mem_cells h' a = mem_cells h a) \<and>
      pairVal f g h' y = Some v \<and> pairRefs r s h' y \<subseteq> {mem_next h..<mem_next h'}"
    using one two first by (fastforce simp: y v pairVal_Some pairRefs_def)
qed

lemma copy_iso:
  fixes c :: "('x, 'a) copier"
  assumes "deep_copy c f r" and "\<And>y. to (build y) = y"
  shows "deep_copy (\<lambda>x h. apfst build (c (to x) h)) (\<lambda>h x. f h (to x)) (\<lambda>h x. r h (to x))"
proof
  fix h h' x y v
  assume wf: "wellFormed h" and val: "f h (to x) = Some v" and "apfst build (c (to x) h) = (y, h')"
  then obtain z where z: "c (to x) h = (z, h')" "y = build z" by (cases "c (to x) h") auto
  then have "to y = z" by (simp add: assms(2))
  then show "wellFormed h' \<and> mem_next h \<le> mem_next h' \<and> (\<forall>a<mem_next h. mem_cells h' a = mem_cells h a) \<and>
      f h' (to y) = Some v \<and> r h' (to y) \<subseteq> {mem_next h..<mem_next h'}"
    using deep_copy.copied [OF assms(1) wf val z(1)] by simp
next
  fix h x v
  assume "f h (to x) = Some v"
  then show "r h (to x) \<subseteq> dom (mem_cells h)" by (rule deep_copy.refs_cells [OF assms(1)])
next
  fix h h' :: "'x memory" and x v
  assume "f h (to x) = Some v" "\<forall>a\<in>r h (to x). mem_cells h' a = mem_cells h a"
  then show "f h' (to x) = Some v \<and> r h' (to x) = r h (to x)" by (rule deep_copy.frame [OF assms(1)])
qed

definition ptrVal :: "('x cell \<Rightarrow> 'a option) \<Rightarrow> ('x memory \<Rightarrow> 'a \<Rightarrow> 'v option)
    \<Rightarrow> 'x memory \<Rightarrow> addr option \<Rightarrow> 'v option option" where
  "ptrVal dest f h p =
     (case p of
        None \<Rightarrow> Some None
      | Some a \<Rightarrow> Option.bind (Option.bind (mem_cells h a) dest) (\<lambda>x. map_option Some (f h x)))"

definition ptrRefs :: "('x cell \<Rightarrow> 'a option) \<Rightarrow> ('x memory \<Rightarrow> 'a \<Rightarrow> addr set)
    \<Rightarrow> 'x memory \<Rightarrow> addr option \<Rightarrow> addr set" where
  "ptrRefs dest r h p =
     (case p of
        None \<Rightarrow> {}
      | Some a \<Rightarrow> insert a (case Option.bind (mem_cells h a) dest of None \<Rightarrow> {} | Some x \<Rightarrow> r h x))"

lemma ptrVal_Some:
  "ptrVal dest f h (Some a) = Some v \<longleftrightarrow> (\<exists>k x w. mem_cells h a = Some k \<and> dest k = Some x \<and>
      f h x = Some w \<and> v = Some w)"
  by (auto simp: ptrVal_def bind_eq_Some_conv)

lemma copy_ptr:
  fixes c :: "('x, 'a) copier"
  assumes "deep_copy c f r" and "\<And>x. dest (mk x) = Some x"
  shows "deep_copy (copyPtr mk dest c) (ptrVal dest f) (ptrRefs dest r)"
proof
  fix h h' :: "'x memory" and p v
  assume val: "ptrVal dest f h p = Some v"
  note law = deep_copy.refs_cells [OF assms(1)] deep_copy.frame [OF assms(1)]
  show "ptrRefs dest r h p \<subseteq> dom (mem_cells h)"
  proof (cases p)
    case (Some a)
    then obtain k x w where x: "mem_cells h a = Some k" "dest k = Some x" "f h x = Some w"
      using val by (auto simp: ptrVal_Some)
    then show ?thesis using law(1) [OF x(3)] Some by (auto simp: ptrRefs_def)
  qed (simp add: ptrRefs_def)
  show "ptrVal dest f h' p = Some v \<and> ptrRefs dest r h' p = ptrRefs dest r h p"
    if "\<forall>a\<in>ptrRefs dest r h p. mem_cells h' a = mem_cells h a"
  proof (cases p)
    case None
    then show ?thesis using val by (simp add: ptrVal_def ptrRefs_def)
  next
    case (Some a)
    then obtain k x w where x: "mem_cells h a = Some k" "dest k = Some x" "f h x = Some w" "v = Some w"
      using val by (auto simp: ptrVal_Some)
    then show ?thesis using law(2) [OF x(3), of h'] that Some by (simp add: ptrVal_def ptrRefs_def)
  qed
next
  fix h h' :: "'x memory" and p q v
  assume wf: "wellFormed h" and val: "ptrVal dest f h p = Some v" and run: "copyPtr mk dest c p h = (q, h')"
  show "wellFormed h' \<and> mem_next h \<le> mem_next h' \<and> (\<forall>a<mem_next h. mem_cells h' a = mem_cells h a) \<and>
      ptrVal dest f h' q = Some v \<and> ptrRefs dest r h' q \<subseteq> {mem_next h..<mem_next h'}"
  proof (cases p)
    case None
    then show ?thesis using run wf val by (auto simp: copyPtr_def ptrVal_def ptrRefs_def)
  next
    case (Some a)
    then obtain k x w where x: "mem_cells h a = Some k" "dest k = Some x" "f h x = Some w" "v = Some w"
      using val by (auto simp: ptrVal_Some)
    let ?a = "mem_next h" and ?h = "h\<lparr>mem_next := Suc (mem_next h)\<rparr>"
    obtain y h1 where y: "c x ?h = (y, h1)" "q = Some ?a" "h' = h1\<lparr>mem_cells := (mem_cells h1)(?a \<mapsto> mk y)\<rparr>"
      using run Some x by (auto simp: copyPtr_def Let_def split: prod.splits)
    have "wellFormed ?h" using wf by (auto simp: wellFormed_def)
    moreover have "f ?h x = Some w" using deep_copy.frame [OF assms(1) x(3), of ?h] by simp
    ultimately have one: "wellFormed h1" "Suc ?a \<le> mem_next h1" "\<forall>b<Suc ?a. mem_cells h1 b = mem_cells h b"
      "f h1 y = Some w" "r h1 y \<subseteq> {Suc ?a..<mem_next h1}"
      using deep_copy.copied [OF assms(1) _ _ y(1)] by auto
    have "\<forall>b\<in>r h1 y. mem_cells h' b = mem_cells h1 b" using one(5) y(3) by auto
    then have "f h' y = Some w" "r h' y = r h1 y" using deep_copy.frame [OF assms(1) one(4), of h'] by auto
    moreover have "wellFormed h'" using one(1,2) by (auto simp: wellFormed_def y)
    ultimately show ?thesis
      using one x(4) assms(2) by (auto simp: y ptrVal_def ptrRefs_def)
  qed
qed

text \<open>Slices: the elements are copied one after the other.\<close>

fun listVal :: "('x memory \<Rightarrow> 'a \<Rightarrow> 'v option) \<Rightarrow> 'x memory \<Rightarrow> 'a list \<Rightarrow>
    'v list option" where
  "listVal f h [] = Some []"
| "listVal f h (x # xs) = Option.bind (f h x) (\<lambda>v. map_option ((#) v) (listVal f h xs))"

definition listRefs :: "('x memory \<Rightarrow> 'a \<Rightarrow> addr set) \<Rightarrow> 'x memory \<Rightarrow> 'a list
    \<Rightarrow> addr set" where
  "listRefs r h xs = (\<Union>x\<in>set xs. r h x)"

lemma listVal_Cons: "listVal f h (x # xs) = Some vs \<longleftrightarrow> (\<exists>w ws. vs = w # ws \<and> f h x = Some w
    \<and> listVal f h xs = Some ws)"
  by (auto simp: bind_eq_Some_conv)

lemma listVal_cells:
  fixes c :: "('x, 'a) copier"
  assumes "deep_copy c f r"
  shows "listVal f h xs = Some vs \<Longrightarrow> listRefs r h xs \<subseteq> dom (mem_cells h)"
proof (induction xs arbitrary: vs)
  case (Cons x xs)
  then obtain w ws where "f h x = Some w" "listVal f h xs = Some ws" by (auto simp only: listVal_Cons)
  then show ?case using deep_copy.refs_cells [OF assms] Cons.IH by (simp add: listRefs_def)
qed (simp add: listRefs_def)

lemma listVal_frame:
  fixes c :: "('x, 'a) copier"
  assumes "deep_copy c f r"
  shows "listVal f h xs = Some vs \<Longrightarrow> \<forall>a\<in>listRefs r h xs. mem_cells h' a = mem_cells h a \<Longrightarrow>
    listVal f h' xs = Some vs \<and> listRefs r h' xs = listRefs r h xs"
proof (induction xs arbitrary: vs)
  case (Cons x xs)
  then obtain w ws where v: "vs = w # ws" "f h x = Some w" "listVal f h xs = Some ws" by (auto simp only: listVal_Cons)
  have "f h' x = Some w \<and> r h' x = r h x"
    using deep_copy.frame [OF assms v(2), of h'] Cons.prems(2) by (simp add: listRefs_def)
  moreover have "listVal f h' xs = Some ws \<and> listRefs r h' xs = listRefs r h xs"
    using Cons.IH [OF v(3)] Cons.prems(2) by (simp add: listRefs_def)
  ultimately show ?case by (simp add: v listRefs_def)
qed (simp add: listRefs_def)

lemma listVal_copied:
  fixes c :: "('x, 'a) copier"
  assumes "deep_copy c f r"
  shows "wellFormed h \<Longrightarrow> listVal f h xs = Some vs \<Longrightarrow> copyElements c xs h = (ys, h') \<Longrightarrow>
    wellFormed h' \<and> mem_next h \<le> mem_next h' \<and> (\<forall>a<mem_next h. mem_cells h' a = mem_cells h a) \<and>
    listVal f h' ys = Some vs \<and> listRefs r h' ys \<subseteq> {mem_next h..<mem_next h'}"
proof (induction xs arbitrary: h vs ys)
  case (Cons x xs)
  then obtain w ws where v: "vs = w # ws" "f h x = Some w" "listVal f h xs = Some ws" by (auto simp only: listVal_Cons)
  obtain y h1 zs where y: "c x h = (y, h1)" "copyElements c xs h1 = (zs, h')" "ys = y # zs"
    using Cons.prems(3) by (auto split: prod.splits)
  note one = deep_copy.copied [OF assms Cons.prems(1) v(2) y(1)]
  have "listRefs r h xs \<subseteq> {..<mem_next h}"
    using listVal_cells [OF assms v(3)] Cons.prems(1) by (auto simp: wellFormed_def)
  then have "\<forall>a\<in>listRefs r h xs. mem_cells h1 a = mem_cells h a" using one by blast
  then have "listVal f h1 xs = Some ws" using listVal_frame [OF assms v(3)] by blast
  note two = Cons.IH [OF _ this y(2)]
  have "f h' y = Some w" "r h' y = r h1 y" using deep_copy.kept [OF assms, of h1 y w h'] one two by auto
  then show ?case using one two by (fastforce simp: y v listRefs_def)
qed (simp add: listRefs_def)

lemma copy_elements:
  assumes "deep_copy c f r"
  shows "deep_copy (copyElements c) (listVal f) (listRefs r)"
  by (rule deep_copy.intro)
    (fact listVal_cells [OF assms], fact listVal_frame [OF assms], fact listVal_copied [OF assms])

text \<open>Maps: keys are distinct, the value is the map.\<close>

definition entriesVal :: "'x memory \<Rightarrow> (string \<times> string) list \<Rightarrow> (string \<rightharpoonup> string)
    option" where
  "entriesVal h es = (if distinct (map fst es) then Some (map_of es) else None)"

lemma update_new: "k \<notin> fst ` set es \<Longrightarrow> AList.update k v es = es @ [(k, v)]"
  by (induction es) auto

lemma fold_update: "distinct (map fst (acc @ es)) \<Longrightarrow> fold (\<lambda>(k, v). AList.update k v) es acc = acc @ es"
  by (induction es arbitrary: acc) (auto simp: update_new)

lemma copyEntries_same: "distinct (map fst es) \<Longrightarrow> copyEntries es h = (es, h)"
  by (simp add: copyEntries_def fold_update)

lemma copy_entries: "deep_copy copyEntries entriesVal noRefs"
  by unfold_locales (auto simp: copyEntries_same entriesVal_def noRefs_def split: if_splits)

section \<open>The value of a struct in memory\<close>

text \<open>A struct is the tuple of its fields; its value is the tuple of the values of the fields.\<close>

abbreviation intervalPtrVal :: "'x memory \<Rightarrow> addr option \<Rightarrow> interval option option" where
  "intervalPtrVal \<equiv> ptrVal intervalOf scalarVal"

abbreviation intervalPtrRefs :: "'x memory \<Rightarrow> addr option \<Rightarrow> addr set" where
  "intervalPtrRefs \<equiv> ptrRefs intervalOf noRefs"

lemma copy_intervalPtr: "deep_copy (copyPtr IntervalCell intervalOf copyScalar) intervalPtrVal intervalPtrRefs"
  by (rule copy_ptr [OF copy_scalar]) (simp add: cell_kinds)

lemma copy_struct:
  fixes c :: "('x, 'a) copier" and C :: "('x, 'b) copier"
  assumes "deep_copy c f r" and "\<And>y. to (build y) = y" and "\<And>x h. C x h = apfst build (c (to x) h)"
  shows "deep_copy C (\<lambda>h x. f h (to x)) (\<lambda>h x. r h (to x))"
proof -
  have "C = (\<lambda>x h. apfst build (c (to x) h))" by (intro ext) (rule assms(3))
  then show ?thesis using copy_iso [OF assms(1), of to build] assms(2) by simp
qed

lemma kinds:
  "intervalOf (IntervalCell i) = Some i" "secretSourceOf (SecretSourceCell k) = Some k" "referenceOf (ReferenceCell n) = Some n"
  "serviceOf (ServiceCell s) = Some s" "selectorOf (SelectorCell es) = Some es" "foreignOf (ForeignCell x) = Some x"
  "podOf (PodCell p) = Some p" "clusterSpecOf (ClusterSpecCell cs) = Some cs"
  "clusterConfigurationOf (ClusterConfigurationCell cc) = Some cc" "arbiterSpecOf (ArbiterSpecCell as) = Some as"
  "conditionsOf (ConditionsCell xs) = Some xs" "clusterStatusOf (ClusterStatusCell ct) = Some ct"
  "arbiterStatusOf (ArbiterStatusCell at) = Some at" "clusterOf (ClusterCell c) = Some c" "arbiterOf (ArbiterCell a) = Some a"
  "clustersOf (ClustersCell cl) = Some cl" "arbitersOf (ArbitersCell al) = Some al" "clusterListOf (ClusterListCell l) = Some l"
  "arbiterListOf (ArbiterListCell l) = Some l"
  by (simp_all add: cell_kinds)

definition clusterSpecFields :: "mem_cluster_spec \<Rightarrow> addr option \<times> addr option \<times>
    kubeconfig_secret_source \<times> string" where
  "clusterSpecFields s = (ms_timeout s, ms_check_interval s, ms_access_key_ref s, ms_namespace s)"

definition clusterSpecVal where
  "clusterSpecVal = (\<lambda>h s. pairVal intervalPtrVal (pairVal intervalPtrVal (pairVal scalarVal scalarVal)) h
      (clusterSpecFields s))"

definition clusterSpecRefs where
  "clusterSpecRefs = (\<lambda>h s. pairRefs intervalPtrRefs (pairRefs intervalPtrRefs (pairRefs noRefs noRefs)) h
      (clusterSpecFields s))"

lemma copy_clusterSpec: "deep_copy (RemoteClusterSpec_DeepCopyInto) (clusterSpecVal) (clusterSpecRefs)"
  unfolding clusterSpecVal_def clusterSpecRefs_def
  by (rule copy_struct [OF copy_pair [OF copy_intervalPtr copy_pair [OF copy_intervalPtr copy_pair [OF copy_scalar copy_scalar]]],
        where build = "\<lambda>(x1, x2, x3, x4). \<lparr>ms_timeout = x1, ms_check_interval = x2, ms_access_key_ref = x3,
            ms_namespace = x4\<rparr>"])
    (auto simp: clusterSpecFields_def RemoteClusterSpec_DeepCopyInto_def copyPair_def copyScalar_def split: prod.split)

definition podFields :: "mem_pod_configuration \<Rightarrow> addr option \<times> addr option \<times> addr option" where
  "podFields s = (mp_affinity s, mp_resources s, mp_node_selector s)"

definition podVal where
  "podVal fval = (\<lambda>h s. pairVal (ptrVal foreignOf fval) (pairVal (ptrVal foreignOf fval) (ptrVal selectorOf entriesVal))
      h (podFields s))"

definition podRefs where
  "podRefs frefs = (\<lambda>h s. pairRefs (ptrRefs foreignOf frefs) (pairRefs (ptrRefs foreignOf frefs) (ptrRefs selectorOf
      noRefs)) h (podFields s))"

lemma copy_pod:
  assumes "deep_copy foreign fval frefs"
  shows "deep_copy (PodConfiguration_DeepCopyInto foreign) (podVal fval) (podRefs frefs)"
  unfolding podVal_def podRefs_def
  by (rule copy_struct [OF copy_pair [OF copy_ptr [OF assms kinds(6)] copy_pair [OF copy_ptr [OF assms kinds(6)] copy_ptr [OF
      copy_entries kinds(5)]]],
        where build = "\<lambda>(x1, x2, x3). \<lparr>mp_affinity = x1, mp_resources = x2, mp_node_selector = x3\<rparr>"])
    (auto simp: podFields_def PodConfiguration_DeepCopyInto_def copyPair_def copyScalar_def split: prod.split)

definition clusterConfigurationFields :: "mem_cluster_configuration \<Rightarrow> addr option \<times> string" where
  "clusterConfigurationFields s = (mc_spec s, mc_name s)"

definition clusterConfigurationVal where
  "clusterConfigurationVal = (\<lambda>h s. pairVal (ptrVal clusterSpecOf clusterSpecVal) scalarVal h (clusterConfigurationFields s))"

definition clusterConfigurationRefs where
  "clusterConfigurationRefs = (\<lambda>h s. pairRefs (ptrRefs clusterSpecOf clusterSpecRefs) noRefs h (clusterConfigurationFields s))"

lemma copy_clusterConfiguration: "deep_copy (RemoteClusterConfiguration_DeepCopyInto) (clusterConfigurationVal)
    (clusterConfigurationRefs)"
  unfolding clusterConfigurationVal_def clusterConfigurationRefs_def
  by (rule copy_struct [OF copy_pair [OF copy_ptr [OF copy_clusterSpec kinds(8)] copy_scalar],
        where build = "\<lambda>(x1, x2). \<lparr>mc_spec = x1, mc_name = x2\<rparr>"])
    (auto simp: clusterConfigurationFields_def RemoteClusterConfiguration_DeepCopyInto_def copyPair_def copyScalar_def split:
        prod.split)

definition arbiterSpecFields :: "mem_arbiter_spec \<Rightarrow> mem_pod_configuration \<times> addr option \<times> addr option
    \<times> namespaced_reference \<times> mem_cluster_configuration \<times> string" where
  "arbiterSpecFields s = (ma_deployment s, ma_service s, ma_check_interval s, ma_ceph_cluster s, ma_remote_cluster s,
      ma_mon_id_prefix s)"

definition arbiterSpecVal where
  "arbiterSpecVal fval = (\<lambda>h s. pairVal (podVal fval) (pairVal (ptrVal serviceOf scalarVal) (pairVal intervalPtrVal
      (pairVal scalarVal (pairVal clusterConfigurationVal scalarVal)))) h (arbiterSpecFields s))"

definition arbiterSpecRefs where
  "arbiterSpecRefs frefs = (\<lambda>h s. pairRefs (podRefs frefs) (pairRefs (ptrRefs serviceOf noRefs) (pairRefs intervalPtrRefs
      (pairRefs noRefs (pairRefs clusterConfigurationRefs noRefs)))) h (arbiterSpecFields s))"

lemma copy_arbiterSpec:
  assumes "deep_copy foreign fval frefs"
  shows "deep_copy (RemoteArbiterSpec_DeepCopyInto foreign) (arbiterSpecVal fval) (arbiterSpecRefs frefs)"
  unfolding arbiterSpecVal_def arbiterSpecRefs_def
  by (rule copy_struct [OF copy_pair [OF copy_pod [OF assms] copy_pair [OF copy_ptr [OF copy_scalar kinds(4)] copy_pair [OF
      copy_intervalPtr copy_pair [OF copy_scalar copy_pair [OF copy_clusterConfiguration copy_scalar]]]]],
        where build = "\<lambda>(x1, x2, x3, x4, x5, x6). \<lparr>ma_deployment = x1, ma_service = x2, ma_check_interval = x3,
            ma_ceph_cluster = x4, ma_remote_cluster = x5, ma_mon_id_prefix = x6\<rparr>"])
    (auto simp: arbiterSpecFields_def RemoteArbiterSpec_DeepCopyInto_def copyPair_def copyScalar_def split: prod.split)

definition clusterStatusFields :: "mem_cluster_status \<Rightarrow> string \<times> string \<times> addr option" where
  "clusterStatusFields s = (mt_state s, mt_message s, mt_conditions s)"

definition clusterStatusVal where
  "clusterStatusVal fval = (\<lambda>h s. pairVal scalarVal (pairVal scalarVal (ptrVal conditionsOf (listVal fval))) h
      (clusterStatusFields s))"

definition clusterStatusRefs where
  "clusterStatusRefs frefs = (\<lambda>h s. pairRefs noRefs (pairRefs noRefs (ptrRefs conditionsOf (listRefs frefs))) h
      (clusterStatusFields s))"

lemma copy_clusterStatus:
  assumes "deep_copy foreign fval frefs"
  shows "deep_copy (RemoteClusterStatus_DeepCopyInto foreign) (clusterStatusVal fval) (clusterStatusRefs frefs)"
  unfolding clusterStatusVal_def clusterStatusRefs_def
  by (rule copy_struct [OF copy_pair [OF copy_scalar copy_pair [OF copy_scalar copy_ptr [OF copy_elements [OF assms] kinds(11)]]],
        where build = "\<lambda>(x1, x2, x3). \<lparr>mt_state = x1, mt_message = x2, mt_conditions = x3\<rparr>"])
    (auto simp: clusterStatusFields_def RemoteClusterStatus_DeepCopyInto_def copyPair_def copyScalar_def split: prod.split)

definition arbiterStatusFields :: "mem_arbiter_status \<Rightarrow> string \<times> string \<times> string \<times> addr option" where
  "arbiterStatusFields s = (mu_state s, mu_message s, mu_mon_id s, mu_conditions s)"

definition arbiterStatusVal where
  "arbiterStatusVal fval = (\<lambda>h s. pairVal scalarVal (pairVal scalarVal (pairVal scalarVal (ptrVal conditionsOf (listVal
      fval)))) h (arbiterStatusFields s))"

definition arbiterStatusRefs where
  "arbiterStatusRefs frefs = (\<lambda>h s. pairRefs noRefs (pairRefs noRefs (pairRefs noRefs (ptrRefs conditionsOf (listRefs
      frefs)))) h (arbiterStatusFields s))"

lemma copy_arbiterStatus:
  assumes "deep_copy foreign fval frefs"
  shows "deep_copy (RemoteArbiterStatus_DeepCopyInto foreign) (arbiterStatusVal fval) (arbiterStatusRefs frefs)"
  unfolding arbiterStatusVal_def arbiterStatusRefs_def
  by (rule copy_struct [OF copy_pair [OF copy_scalar copy_pair [OF copy_scalar copy_pair [OF copy_scalar copy_ptr [OF
      copy_elements [OF assms] kinds(11)]]]],
        where build = "\<lambda>(x1, x2, x3, x4). \<lparr>mu_state = x1, mu_message = x2, mu_mon_id = x3, mu_conditions = x4\<rparr>"])
    (auto simp: arbiterStatusFields_def RemoteArbiterStatus_DeepCopyInto_def copyPair_def copyScalar_def split: prod.split)

definition clusterFields :: "'x mem_cluster \<Rightarrow> string \<times> 'x \<times> mem_cluster_spec \<times>
    mem_cluster_status" where
  "clusterFields s = (mr_type_meta s, mr_object_meta s, mr_spec s, mr_status s)"

definition clusterVal where
  "clusterVal fval = (\<lambda>h s. pairVal scalarVal (pairVal fval (pairVal clusterSpecVal (clusterStatusVal fval))) h
      (clusterFields s))"

definition clusterRefs where
  "clusterRefs frefs = (\<lambda>h s. pairRefs noRefs (pairRefs frefs (pairRefs clusterSpecRefs (clusterStatusRefs frefs))) h
      (clusterFields s))"

lemma copy_cluster:
  assumes "deep_copy foreign fval frefs"
  shows "deep_copy (RemoteCluster_DeepCopyInto foreign) (clusterVal fval) (clusterRefs frefs)"
  unfolding clusterVal_def clusterRefs_def
  by (rule copy_struct [OF copy_pair [OF copy_scalar copy_pair [OF assms copy_pair [OF copy_clusterSpec copy_clusterStatus [OF
      assms]]]],
        where build = "\<lambda>(x1, x2, x3, x4). \<lparr>mr_type_meta = x1, mr_object_meta = x2, mr_spec = x3, mr_status =
            x4\<rparr>"])
    (auto simp: clusterFields_def RemoteCluster_DeepCopyInto_def copyPair_def copyScalar_def split: prod.split)

definition arbiterFields :: "'x mem_arbiter \<Rightarrow> string \<times> 'x \<times> mem_arbiter_spec \<times>
    mem_arbiter_status" where
  "arbiterFields s = (mb_type_meta s, mb_object_meta s, mb_spec s, mb_status s)"

definition arbiterVal where
  "arbiterVal fval = (\<lambda>h s. pairVal scalarVal (pairVal fval (pairVal (arbiterSpecVal fval) (arbiterStatusVal fval))) h
      (arbiterFields s))"

definition arbiterRefs where
  "arbiterRefs frefs = (\<lambda>h s. pairRefs noRefs (pairRefs frefs (pairRefs (arbiterSpecRefs frefs) (arbiterStatusRefs
      frefs))) h (arbiterFields s))"

lemma copy_arbiter:
  assumes "deep_copy foreign fval frefs"
  shows "deep_copy (RemoteArbiter_DeepCopyInto foreign) (arbiterVal fval) (arbiterRefs frefs)"
  unfolding arbiterVal_def arbiterRefs_def
  by (rule copy_struct [OF copy_pair [OF copy_scalar copy_pair [OF assms copy_pair [OF copy_arbiterSpec [OF assms]
      copy_arbiterStatus [OF assms]]]],
        where build = "\<lambda>(x1, x2, x3, x4). \<lparr>mb_type_meta = x1, mb_object_meta = x2, mb_spec = x3, mb_status =
            x4\<rparr>"])
    (auto simp: arbiterFields_def RemoteArbiter_DeepCopyInto_def copyPair_def copyScalar_def split: prod.split)

definition clusterListFields :: "'x mem_list \<Rightarrow> string \<times> 'x \<times> addr option" where
  "clusterListFields s = (ml_type_meta s, ml_list_meta s, ml_items s)"

definition clusterListVal where
  "clusterListVal fval = (\<lambda>h s. pairVal scalarVal (pairVal fval (ptrVal clustersOf (listVal (clusterVal fval)))) h
      (clusterListFields s))"

definition clusterListRefs where
  "clusterListRefs frefs = (\<lambda>h s. pairRefs noRefs (pairRefs frefs (ptrRefs clustersOf (listRefs (clusterRefs frefs)))) h
      (clusterListFields s))"

lemma copy_clusterList:
  assumes "deep_copy foreign fval frefs"
  shows "deep_copy (RemoteClusterList_DeepCopyInto foreign) (clusterListVal fval) (clusterListRefs frefs)"
  unfolding clusterListVal_def clusterListRefs_def
  by (rule copy_struct [OF copy_pair [OF copy_scalar copy_pair [OF assms copy_ptr [OF copy_elements [OF copy_cluster [OF assms]]
      kinds(16)]]],
        where build = "\<lambda>(x1, x2, x3). \<lparr>ml_type_meta = x1, ml_list_meta = x2, ml_items = x3\<rparr>"])
    (auto simp: clusterListFields_def RemoteClusterList_DeepCopyInto_def copyPair_def copyScalar_def split: prod.split)

definition arbiterListFields :: "'x mem_list \<Rightarrow> string \<times> 'x \<times> addr option" where
  "arbiterListFields s = (ml_type_meta s, ml_list_meta s, ml_items s)"

definition arbiterListVal where
  "arbiterListVal fval = (\<lambda>h s. pairVal scalarVal (pairVal fval (ptrVal arbitersOf (listVal (arbiterVal fval)))) h
      (arbiterListFields s))"

definition arbiterListRefs where
  "arbiterListRefs frefs = (\<lambda>h s. pairRefs noRefs (pairRefs frefs (ptrRefs arbitersOf (listRefs (arbiterRefs frefs)))) h
      (arbiterListFields s))"

lemma copy_arbiterList:
  assumes "deep_copy foreign fval frefs"
  shows "deep_copy (RemoteArbiterList_DeepCopyInto foreign) (arbiterListVal fval) (arbiterListRefs frefs)"
  unfolding arbiterListVal_def arbiterListRefs_def
  by (rule copy_struct [OF copy_pair [OF copy_scalar copy_pair [OF assms copy_ptr [OF copy_elements [OF copy_arbiter [OF assms]]
      kinds(17)]]],
        where build = "\<lambda>(x1, x2, x3). \<lparr>ml_type_meta = x1, ml_list_meta = x2, ml_items = x3\<rparr>"])
    (auto simp: arbiterListFields_def RemoteArbiterList_DeepCopyInto_def copyPair_def copyScalar_def split: prod.split)

interpretation cluster_spec: deep_copy RemoteClusterSpec_DeepCopyInto clusterSpecVal clusterSpecRefs
  by (rule copy_clusterSpec)

interpretation cluster_configuration:
  deep_copy RemoteClusterConfiguration_DeepCopyInto clusterConfigurationVal clusterConfigurationRefs
  by (rule copy_clusterConfiguration)

section \<open>Copies are independent\<close>

definition independentCopy ::
  "('x, 'a) copier \<Rightarrow> ('x memory \<Rightarrow> 'a \<Rightarrow> 'v option) \<Rightarrow> ('x memory \<Rightarrow> 'a
      \<Rightarrow> addr set) \<Rightarrow> bool" where
  "independentCopy copy val refs \<longleftrightarrow> (\<forall>h p v q h'. wellFormed h \<and> val h p = Some v \<and> copy p h
      = (q, h') \<longrightarrow>
     wellFormed h' \<and> val h' p = Some v \<and> val h' q = Some v \<and> refs h' p \<inter> refs h' q = {} \<and>
     (\<forall>k. (\<forall>a. a \<notin> refs h' q \<longrightarrow> mem_cells k a = mem_cells h' a) \<longrightarrow> val k p =
         Some v) \<and>
     (\<forall>k. (\<forall>a. a \<notin> refs h' p \<longrightarrow> mem_cells k a = mem_cells h' a) \<longrightarrow> val k q =
         Some v))"

lemma independent_copy:
  assumes "deep_copy copy val refs"
  shows "independentCopy copy val refs"
  unfolding independentCopy_def
proof (intro allI impI, elim conjE)
  fix h p v q h'
  assume run: "wellFormed h" "val h p = Some v" "copy p h = (q, h')"
  have "wellFormed h'" using deep_copy.copied [OF assms run] by blast
  with deep_copy.independent [OF assms run]
  show "wellFormed h' \<and> val h' p = Some v \<and> val h' q = Some v \<and> refs h' p \<inter> refs h' q = {} \<and>
     (\<forall>k. (\<forall>a. a \<notin> refs h' q \<longrightarrow> mem_cells k a = mem_cells h' a) \<longrightarrow> val k p =
         Some v) \<and>
     (\<forall>k. (\<forall>a. a \<notin> refs h' p \<longrightarrow> mem_cells k a = mem_cells h' a) \<longrightarrow> val k q =
         Some v)"
    by simp
qed

lemma asObject_same: "asObject copy = copy"
  by (intro ext) (auto simp: asObject_def split: prod.split option.split)

lemmas object_defs = RemoteArbiter_DeepCopyObject_def RemoteArbiterList_DeepCopyObject_def RemoteCluster_DeepCopyObject_def
  RemoteClusterList_DeepCopyObject_def asObject_same

lemmas deepCopy_defs = PodConfiguration_DeepCopy_def RemoteArbiterSpec_DeepCopy_def RemoteArbiterStatus_DeepCopy_def
  RemoteArbiter_DeepCopy_def RemoteArbiterList_DeepCopy_def RemoteClusterSpec_DeepCopy_def RemoteClusterConfiguration_DeepCopy_def
  RemoteClusterStatus_DeepCopy_def RemoteCluster_DeepCopy_def RemoteClusterList_DeepCopy_def

text \<open>
  C16: the deep copy of a RemoteArbiter, of a RemoteCluster, of their specs and statuses, or of a list of them has the
  value of the original and shares no memory with it, so that no later write to the one is seen in the other. The structs of
  other packages are assumed to be copied in the same way.
\<close>

theorem deepcopy_independent:
  assumes "deep_copy foreign fval frefs"
  shows "independentCopy (RemoteArbiter_DeepCopyObject foreign) (ptrVal arbiterOf (arbiterVal fval)) (ptrRefs arbiterOf
      (arbiterRefs frefs)) \<and>
    independentCopy (RemoteArbiterList_DeepCopyObject foreign) (ptrVal arbiterListOf (arbiterListVal fval)) (ptrRefs
        arbiterListOf (arbiterListRefs frefs)) \<and>
    independentCopy (RemoteArbiterSpec_DeepCopy foreign) (ptrVal arbiterSpecOf (arbiterSpecVal fval)) (ptrRefs arbiterSpecOf
        (arbiterSpecRefs frefs)) \<and>
    independentCopy (RemoteArbiterStatus_DeepCopy foreign) (ptrVal arbiterStatusOf (arbiterStatusVal fval)) (ptrRefs
        arbiterStatusOf (arbiterStatusRefs frefs)) \<and>
    independentCopy (RemoteCluster_DeepCopyObject foreign) (ptrVal clusterOf (clusterVal fval)) (ptrRefs clusterOf (clusterRefs
        frefs)) \<and>
    independentCopy (RemoteClusterList_DeepCopyObject foreign) (ptrVal clusterListOf (clusterListVal fval)) (ptrRefs
        clusterListOf (clusterListRefs frefs)) \<and>
    independentCopy RemoteClusterSpec_DeepCopy (ptrVal clusterSpecOf clusterSpecVal) (ptrRefs clusterSpecOf clusterSpecRefs) \<and>
    independentCopy (RemoteClusterStatus_DeepCopy foreign) (ptrVal clusterStatusOf (clusterStatusVal fval)) (ptrRefs
        clusterStatusOf (clusterStatusRefs frefs))"
  unfolding object_defs deepCopy_defs
  by (intro conjI independent_copy copy_ptr kinds copy_arbiter copy_arbiterList copy_arbiterSpec copy_arbiterStatus
      copy_cluster copy_clusterList copy_clusterSpec copy_clusterStatus assms)

text \<open>A cluster at address 1 whose time-out is at address 0.\<close>

definition demo_memory :: "string memory" where
  "demo_memory = \<lparr>mem_next = 2, mem_cells = [0 \<mapsto> IntervalCell 10, 1 \<mapsto> ClusterCell \<lparr>mr_type_meta =
      ''RemoteCluster'',
     mr_object_meta = ''target'', mr_spec = \<lparr>ms_timeout = Some 0, ms_check_interval = None,
       ms_access_key_ref = \<lparr>ks_name = ''target'', ks_key = ''kubeconfig.yaml''\<rparr>, ms_namespace = ''default''\<rparr>,
     mr_status = \<lparr>mt_state = ''Ready'', mt_message = [], mt_conditions = None\<rparr>\<rparr>]\<rparr>"

definition demo_copy :: "addr option \<times> string memory" where
  "demo_copy = RemoteCluster_DeepCopyObject copyScalar (Some 1) demo_memory"

theorem deepcopy_independent_witness:
  "fst demo_copy = Some 2 \<and>
    (\<exists>v. ptrVal clusterOf (clusterVal scalarVal) (snd demo_copy) (fst demo_copy) = Some v \<and>
      ptrVal clusterOf (clusterVal scalarVal) (snd demo_copy) (Some 1) = Some v)"
proof -
  let ?val = "ptrVal clusterOf (clusterVal scalarVal)"
  have "wellFormed demo_memory" by (auto simp: wellFormed_def demo_memory_def)
  moreover obtain v where v: "?val demo_memory (Some 1) = Some v"
    by (simp add: demo_memory_def ptrVal_def kinds clusterVal_def clusterFields_def pairVal_def scalarVal_def clusterSpecVal_def
        clusterSpecFields_def clusterStatusVal_def clusterStatusFields_def)
  moreover have "RemoteCluster_DeepCopyObject copyScalar (Some 1) demo_memory = (fst demo_copy, snd demo_copy)"
    by (simp add: demo_copy_def)
  moreover have "independentCopy (RemoteCluster_DeepCopyObject copyScalar) ?val (ptrRefs clusterOf (clusterRefs noRefs))"
    using deepcopy_independent [OF copy_scalar] by blast
  ultimately have "?val (snd demo_copy) (fst demo_copy) = Some v" "?val (snd demo_copy) (Some 1) = Some v"
    unfolding independentCopy_def by blast+
  moreover have "fst demo_copy = Some 2"
    by (simp add: demo_copy_def object_defs deepCopy_defs copyPtr_def demo_memory_def kinds split: prod.split)
  ultimately show ?thesis by blast
qed

end
