(* ===== verification/Spec2Isabelle.thy ===== *)
theory Spec2Isabelle
  imports Webhook Arbiter_Pod_Props Cluster_Pipeline Arbiter_Run Arbiter_Deletion Arbiter_Ids Arbiter_Mirror
    Watches_Props Id_Scan Schema_Defaults Manager Deep_Copy
begin

text \<open>
  The external arbiter operator runs a Ceph monitor of a Rook cluster (the \<^emph>\<open>source\<close> cluster) on
  another Kubernetes cluster (the \<^emph>\<open>target\<close>). Two custom resources describe the wish: a
  \<open>RemoteCluster\<close> is a target cluster with the secret that holds its kubeconfig, a \<open>RemoteArbiter\<close> is a
  monitor to run there. Each has a reconciler; the reconciler of arbiters relies on the state that
  the other one publishes, creates remote clusters that an arbiter describes itself, and the two hold
  each other's deletion back by finalizers. Admission webhooks fill in defaults and validate.

  \<^bold>\<open>The model.\<close> The operator's functions are written in a monad of a state, a Go error or a panic;
  a state changed before an error stays changed, as in the Go code. Kubernetes is a parameter: a client
  is a record of functions on an arbitrary state of the servers, every call may fail and may change
  that state, and the helper libraries of Kubernetes are functions of which only the laws of the
  locales \<open>condition_lib\<close>, \<open>finalizer_lib\<close> and \<open>owner_lib\<close> are used. Each function appends its writes and
  its probes of the target to a log; most theorems are statements about that log, for all servers.

  \<^bold>\<open>The theories.\<close>
  \<^item> \<open>Prelude\<close>: errors, the monad, its weakest preconditions and the derived judgements \<open>keeps\<close>, \<open>ends\<close> and
    \<open>reaches\<close>; Go maps, strings and slices.
  \<^item> \<open>Api_Types\<close> (\<^verbatim>\<open>pkg/api/arbiter/v1alpha1\<close>, \<^verbatim>\<open>pkg/controller/common.go\<close>): resources as records.
  \<^item> \<open>Kube_Client\<close>: clients, library laws, the log, and \<open>emits\<close>, what a function may call.
  \<^item> \<open>Status_Ops\<close>: the setters of state and conditions of both reconcilers, as one locale interpreted
    twice, and the reference implementation of the libraries. \<open>Demo_Server\<close> and \<open>Arbiter_Demo\<close>:
    servers for concrete runs.
  \<^item> \<open>Remote_Cluster\<close>, \<open>Remote_Cluster_Props\<close> (\<^verbatim>\<open>remotecluster_controller.go\<close>): \<open>Reconcile\<close> and its methods;
    readiness is published only after the probe and all permission reviews, a healthy cluster becomes
    ready, failures are recorded, deletion is ordered. \<open>Cluster_Pipeline\<close>: the status refines an
    abstract pipeline of stages.
  \<^item> \<open>Netip\<close>, \<open>Webhook\<close> (\<^verbatim>\<open>pkg/webhook/v1alpha1\<close>): the parser of addresses that validation uses, and
    what is accepted.
  \<^item> \<open>Duration\<close>, \<open>Interval_Json\<close> (the JSON methods of \<open>Interval\<close>): printer and parser of durations, the JSON
    form of strings, and their round trip. \<open>Schema_Defaults\<close>: the way of a manifest through the defaults of
    the schema, decoding and the webhooks.
  \<^item> \<open>Arbiter_Pod\<close>, \<open>Arbiter_Pod_Props\<close> (the pure functions of \<^verbatim>\<open>remotearbiter_controller.go\<close>): public
    address, deployment built from the cloned monitor, probe sockets, service ports.
  \<^item> \<open>Arbiter\<close> (the rest of that file): \<open>Reconcile\<close> and its methods, deletion included. \<open>Arbiter_Safety\<close>: what
    a run may write. \<open>Arbiter_Run\<close>: when Ready is published. \<open>Arbiter_Ids\<close>: the reserved monitor
    identifiers and the state machine of a fleet of arbiters. \<open>Id_Scan\<close>: the loop that searches for a free
    identifier ends. \<open>Arbiter_Mirror\<close>: the copies on the target,
    one locale interpreted for the three of them. \<open>Arbiter_Deletion\<close>: the order of the clean-up.
  \<^item> \<open>Watches\<close>, \<open>Watches_Props\<close> (both \<open>SetupWithManager\<close> and the functions of the watches): which
    change starts which reconciliation.
  \<^item> \<open>Manager\<close> (\<^verbatim>\<open>cmd/manager/main.go\<close>, \<^verbatim>\<open>groupversion_info.go\<close>, the registration of the webhooks): flags, options of
    the servers, and the order of the start-up.
  \<^item> \<open>Deep_Copy\<close> (\<^verbatim>\<open>zz_generated.deepcopy.go\<close>): the generated copies on structs in memory; a copy shares
    nothing with its original.

  \<^bold>\<open>Bounds.\<close> No fuel is used. Loops over lists are structural recursions, the parsers of durations and of JSON
  texts are recursions whose texts get shorter, so every function is total, and a panic is a value. The
  search for an identifier counts in a byte and is a \<open>while_option\<close> that is shown to end. Intervals are
  integers of nanoseconds; the code only compares and copies them, and the codec keeps them within 64 bits. The
  arithmetic of fractions of a unit is that of \<open>float64\<close>, without bounds on the exponent, which cannot be seen
  in its results. Exit statuses are natural numbers.

  \<^bold>\<open>Not modelled.\<close> Logging, contexts and time-outs of requests, the texts of errors of \<^verbatim>\<open>encoding/json\<close>, and the JSON form of
  other fields than intervals, which is the business of the libraries of Kubernetes. Fields of
  Kubernetes objects that the operator copies without looking at them are strings. Resources are values except in
  \<open>Deep_Copy\<close>: the reconcilers read a fresh copy in every run and do not share it. The cache of
  controller-runtime appears only as the hypothesis \<open>indexed_client\<close>, its manager as a record of functions.
\<close>

section \<open>Admission and reconciliation\<close>



text \<open>
  C21: For an accepted RemoteArbiter with a service, once the type of the service is repaired, the public
  address of the arbiter never makes the reconciler panic and never meets an unsupported type: a node port
  always has an address, and every address but a cluster IP is a canonical dotted IPv4 address.
\<close>

theorem accepted_service_address:
  assumes "arbiterValidateCreate dns ra = None" and "ras_service (ra_spec ra) = Some sc"
    and "svc = fst (repairService (sc_type sc) svc0)"
  shows "case determinePublicAddress (Some svc) (ras_service (ra_spec ra)) of
      Val a \<Rightarrow> if sc_type sc = ServiceTypeClusterIP then a = svc_cluster_ip svc \<and> a \<noteq> []
        else \<exists>fs. length fs = 4 \<and> (\<forall>f\<in>set fs. f \<le> 255) \<and> a = dotted fs
    | Err e \<Rightarrow> sc_type sc \<noteq> ServiceTypeNodePort \<and> e \<in> {ErrorText ''service cluster ip is not yet allocated'',
        Sentinel ErrLoadBalancerAddressNotAllocated, ErrorText ''load balancer ingress has no IPv4 address''}
    | Panic \<Rightarrow> False"
proof -
  have "svc_type svc = sc_type sc" using assms(3) by (simp add: repairService_def Let_def)
  moreover have "sc_type sc \<in> {ServiceTypeClusterIP, ServiceTypeNodePort, ServiceTypeLoadBalancer}"
    "sc_type sc = ServiceTypeNodePort \<Longrightarrow> isIPv4 (sc_node_ip sc)"
    using assms(1,2) by (auto simp: arbiterValidateCreate_def arbiterValidate_None_iff_Nil validateRemoteArbiterSpec_def
      Let_def serviceErrors_Nil serviceTypes_def)
  ultimately show ?thesis
    using assms(2) by (auto simp: determinePublicAddress_def firstIPv4_find isIPv4_iff [symmetric] const_defs
      split: option.split dest: find_IPv4)
qed

theorem accepted_service_address_witness:
  "\<exists>fs. length fs = 4 \<and> (\<forall>f\<in>set fs. f \<le> 255) \<and> ''10.0.0.255'' = dotted fs"
proof -
  let ?sc = "\<lparr>sc_type = ServiceTypeNodePort, sc_node_ip = ''10.0.0.255''\<rparr>"
  let ?ra = "(arbiterDefault demo_arbiter)\<lparr>ra_spec := (ra_spec (arbiterDefault demo_arbiter))\<lparr>ras_service := Some ?sc\<rparr>\<rparr>"
  let ?svc = "\<lparr>svc_meta = demo_meta ''svc'', svc_type = ServiceTypeClusterIP, svc_cluster_ip = [], svc_ports = [],
     svc_selector = None, svc_internal_traffic_policy = None, svc_ip_families = [], svc_ip_family_policy = None,
     svc_session_affinity = [], svc_ingress_ips = []\<rparr>"
  have "arbiterValidateCreate demo_dns ?ra = None" by code_simp
  from accepted_service_address [OF this _ refl, of ?sc ?svc] show ?thesis
    by (simp add: determinePublicAddress_def repairService_def Let_def const_defs)
qed

end
